(* ===== verification/Ec200_Prelude.thy ===== *)
theory Ec200_Prelude
  imports Main "HOL-Library.Word" "HOL-Library.Monad_Syntax"
begin

text \<open>
  Shared vocabulary of the development: the result type of every operation that talks to
  the modem, the three ways the later theories reason about it, the integer casts of C,
  and a few list lemmas.

  An operation of the library takes the handle and returns \<open>Some (h', results)\<close>, or
  \<open>None\<close> when the C call has no defined outcome: it never returns, or it reads outside
  an array. Early returns are branches of the \<open>do\<close> block of \<^theory_text>\<open>Option.bind\<close>.
\<close>

section \<open>Outcomes of an operation\<close>

type_synonym ('s, 'a) outcome = "('s \<times> 'a) option"

text \<open>
  \<open>keeps R s m\<close>: if \<open>m\<close> returns, its final state is related to \<open>s\<close> (frame and
  invariant reasoning). \<open>returns P m\<close>: \<open>m\<close> returns, in a state satisfying \<open>P\<close>
  (termination). \<open>gives Q m\<close>: if \<open>m\<close> returns, state and results satisfy \<open>Q\<close>.
\<close>

definition keeps :: "('s \<Rightarrow> 's \<Rightarrow> bool) \<Rightarrow> 's \<Rightarrow> ('s, 'a) outcome \<Rightarrow> bool" where
  "keeps R s m \<longleftrightarrow> (\<forall>s' a. m = Some (s', a) \<longrightarrow> R s s')"

definition returns :: "('s \<Rightarrow> bool) \<Rightarrow> ('s, 'a) outcome \<Rightarrow> bool" where
  "returns P m \<longleftrightarrow> (\<exists>s' a. m = Some (s', a) \<and> P s')"

definition gives :: "('s \<Rightarrow> 'a \<Rightarrow> bool) \<Rightarrow> ('s, 'a) outcome \<Rightarrow> bool" where
  "gives Q m \<longleftrightarrow> (\<forall>s' a. m = Some (s', a) \<longrightarrow> Q s' a)"

named_theorems keeps_intro \<open>rules that decompose a keeps goal along the code\<close>
named_theorems returns_intro \<open>rules that decompose a returns goal along the code\<close>
named_theorems gives_intro \<open>rules that decompose a gives goal along the code\<close>

lemma keepsI: "(\<And>s' a. m = Some (s', a) \<Longrightarrow> R s s') \<Longrightarrow> keeps R s m"
  by (simp add: keeps_def)

lemma keepsD: "keeps R s m \<Longrightarrow> m = Some (s', a) \<Longrightarrow> R s s'"
  by (simp add: keeps_def)

lemma keeps_Some: "R s s' \<Longrightarrow> keeps R s (Some (s', a))"
  by (simp add: keeps_def)

lemma keeps_None: "keeps R s None"
  by (simp add: keeps_def)

lemma keeps_if:
  "(b \<Longrightarrow> keeps R s m) \<Longrightarrow> (\<not> b \<Longrightarrow> keeps R s m') \<Longrightarrow> keeps R s (if b then m else m')"
  by simp

lemma keeps_prod: "(\<And>x y. p = (x, y) \<Longrightarrow> keeps R s (f x y)) \<Longrightarrow> keeps R s (case_prod f p)"
  by (cases p) simp

lemma keeps_option:
  "(x = None \<Longrightarrow> keeps R s m) \<Longrightarrow> (\<And>y. x = Some y \<Longrightarrow> keeps R s (f y)) \<Longrightarrow>
   keeps R s (case_option m f x)"
  by (cases x) simp_all

lemma keeps_let: "(\<And>x. x = v \<Longrightarrow> keeps R s (f x)) \<Longrightarrow> keeps R s (Let v f)"
  by (simp add: Let_def)

lemma keeps_bind:
  assumes "transp R" and "keeps R s m" and "\<And>s' a. R s s' \<Longrightarrow> keeps R s' (f s' a)"
  shows "keeps R s (Option.bind m (\<lambda>(s', a). f s' a))"
  using assms by (fastforce simp: keeps_def bind_eq_Some_conv dest: transpD)

lemmas keeps_rules = keeps_if keeps_prod keeps_option keeps_let keeps_None

lemma returns_Some: "P s \<Longrightarrow> returns P (Some (s, a))"
  by (simp add: returns_def)

lemma returnsE:
  assumes "returns P m" obtains s a where "m = Some (s, a)" and "P s"
  using assms by (auto simp: returns_def)

lemma returns_if:
  "(b \<Longrightarrow> returns P m) \<Longrightarrow> (\<not> b \<Longrightarrow> returns P m') \<Longrightarrow> returns P (if b then m else m')"
  by simp

lemma returns_prod: "(\<And>x y. p = (x, y) \<Longrightarrow> returns P (f x y)) \<Longrightarrow> returns P (case_prod f p)"
  by (cases p) simp

lemma returns_option:
  "(x = None \<Longrightarrow> returns P m) \<Longrightarrow> (\<And>y. x = Some y \<Longrightarrow> returns P (f y)) \<Longrightarrow>
   returns P (case_option m f x)"
  by (cases x) simp_all

lemma returns_let: "(\<And>x. x = v \<Longrightarrow> returns P (f x)) \<Longrightarrow> returns P (Let v f)"
  by (simp add: Let_def)

lemma returns_bind:
  assumes "returns P m" and "\<And>s a. P s \<Longrightarrow> returns Q (f s a)"
  shows "returns Q (Option.bind m (\<lambda>(s, a). f s a))"
  using assms by (auto simp: returns_def)

lemmas returns_rules = returns_if returns_prod returns_option returns_let

lemma returns_not_None: "returns P m \<Longrightarrow> m \<noteq> None"
  by (auto simp: returns_def)

lemma gives_Some: "Q s a \<Longrightarrow> gives Q (Some (s, a))"
  by (simp add: gives_def)

lemma gives_None: "gives Q None"
  by (simp add: gives_def)

lemma givesD: "gives Q m \<Longrightarrow> m = Some (s, a) \<Longrightarrow> Q s a"
  by (simp add: gives_def)

lemma gives_bind:
  assumes "gives P m" and "\<And>s a. P s a \<Longrightarrow> gives Q (f s a)"
  shows "gives Q (Option.bind m (\<lambda>(s, a). f s a))"
  using assms by (auto simp: gives_def bind_eq_Some_conv)

section \<open>Integers of the C program\<close>

text \<open>
  Conversions of a C value to an unsigned type of the given width: reduction modulo
  \<open>2 ^ w\<close>. \<open>int\<close> is 32 bits wide. Values of unsigned types are \<open>nat\<close>; every
  conversion the source writes (or does implicitly between types of different width) is
  written out with one of these.
\<close>

definition cast_u8 :: "int \<Rightarrow> nat" where
  "cast_u8 i = nat (i mod 256)"

definition cast_u16 :: "int \<Rightarrow> nat" where
  "cast_u16 i = nat (i mod 65536)"

definition cast_u32 :: "int \<Rightarrow> nat" where
  "cast_u32 i = nat (i mod 4294967296)"

definition cast_i16 :: "int \<Rightarrow> int" where
  "cast_i16 i = (i + 32768) mod 65536 - 32768"

definition cast_i8 :: "int \<Rightarrow> int" where
  "cast_i8 i = (i + 128) mod 256 - 128"

definition int_max :: int where
  "int_max = 2147483647"

definition int_min :: int where
  "int_min = - 2147483648"

lemma cast_u16_small: "0 \<le> i \<Longrightarrow> i < 65536 \<Longrightarrow> cast_u16 i = nat i"
  by (simp add: cast_u16_def)

lemma cast_u8_small: "0 \<le> i \<Longrightarrow> i < 256 \<Longrightarrow> cast_u8 i = nat i"
  by (simp add: cast_u8_def)

lemma cast_u32_small: "0 \<le> i \<Longrightarrow> i < 4294967296 \<Longrightarrow> cast_u32 i = nat i"
  by (simp add: cast_u32_def)

lemma cast_u32_bound: "cast_u32 i < 4294967296"
  using pos_mod_bound [of 4294967296 i] by (simp add: cast_u32_def nat_less_iff)

lemma cast_u16_bound: "cast_u16 i < 65536"
  using pos_mod_bound [of 65536 i] by (simp add: cast_u16_def nat_less_iff)

lemma cast_u8_bound: "cast_u8 i < 256"
  using pos_mod_bound [of 256 i] by (simp add: cast_u8_def nat_less_iff)

section \<open>Lists\<close>

lemma takeWhile_all: "c \<notin> set xs \<Longrightarrow> takeWhile (\<lambda>x. x \<noteq> c) xs = xs"
  by (induction xs) auto

lemma takeWhile_upto: "c \<notin> set xs \<Longrightarrow> takeWhile (\<lambda>x. x \<noteq> c) (xs @ c # ys) = xs"
  by (induction xs) auto

lemma dropWhile_upto: "c \<notin> set xs \<Longrightarrow> dropWhile (\<lambda>x. x \<noteq> c) (xs @ c # ys) = c # ys"
  by (induction xs) auto

end
