(* ===== verification/Ec200_CLib.thy ===== *)
theory Ec200_CLib
  imports Ec200_Prelude
begin

text \<open>
  The part of the C standard library the sources use, on C strings. A C string is the
  list of its characters before the terminating NUL (\<open>cstr\<close> takes that view of an
  array); a pointer into a string is the suffix it points at, so \<open>strchr\<close> returns a
  suffix, pointer differences are differences of lengths, and stepping a pointer is
  \<open>tl\<close>. \<open>atoi\<close>, \<open>strtol\<close> and \<open>%d\<close> saturate at the range of \<open>int\<close>, as
  they do where \<open>long\<close> has 32 bits; the C standard leaves larger inputs undefined.
\<close>

section \<open>Characters\<close>

abbreviation NUL :: char where "NUL \<equiv> CHR 0x00"
abbreviation CR :: char where "CR \<equiv> CHR 0x0D"
abbreviation LF :: char where "LF \<equiv> CHR 0x0A"
abbreviation DQUOTE :: char where "DQUOTE \<equiv> CHR 0x22"

definition is_digit :: "char \<Rightarrow> bool" where
  "is_digit c \<longleftrightarrow> 48 \<le> (of_char c :: nat) \<and> (of_char c :: nat) \<le> 57"

definition digit_val :: "char \<Rightarrow> nat" where
  "digit_val c = (of_char c :: nat) - 48"

definition digit_char :: "nat \<Rightarrow> char" where
  "digit_char d = char_of (48 + d)"

text \<open>\<open>isspace\<close> in the C locale.\<close>

definition is_space :: "char \<Rightarrow> bool" where
  "is_space c \<longleftrightarrow> c = CHR '' '' \<or> (9 \<le> (of_char c :: nat) \<and> (of_char c :: nat) \<le> 13)"

section \<open>string.h\<close>

definition cstr :: "char list \<Rightarrow> string" where
  "cstr b = takeWhile (\<lambda>c. c \<noteq> NUL) b"

fun strchr :: "string \<Rightarrow> char \<Rightarrow> string option" where
  "strchr [] c = None"
| "strchr (x # xs) c = (if x = c then Some (x # xs) else strchr xs c)"

text \<open>\<open>strrchr\<close>: the suffix at the last occurrence.\<close>

fun strrchr :: "string \<Rightarrow> char \<Rightarrow> string option" where
  "strrchr [] c = None"
| "strrchr (x # xs) c =
     (case strrchr xs c of Some r \<Rightarrow> Some r
      | None \<Rightarrow> if x = c then Some (x # xs) else None)"

text \<open>\<open>strncmp (s, t, n) == 0\<close>: equal up to \<open>n\<close> characters or a common end.\<close>

fun strncmp_eq :: "string \<Rightarrow> string \<Rightarrow> nat \<Rightarrow> bool" where
  "strncmp_eq s t 0 = True"
| "strncmp_eq [] [] (Suc n) = True"
| "strncmp_eq (x # xs) (y # ys) (Suc n) = (x = y \<and> strncmp_eq xs ys n)"
| "strncmp_eq _ _ (Suc n) = False"

lemma strncmp_eq_numeral [simp]:
  "strncmp_eq [] [] (numeral v) = True"
  "strncmp_eq (x # xs) (y # ys) (numeral v) = (x = y \<and> strncmp_eq xs ys (pred_numeral v))"
  "strncmp_eq (x # xs) [] (numeral v) = False"
  "strncmp_eq [] (y # ys) (numeral v) = False"
  by (simp_all add: numeral_eq_Suc)

lemma strncmp_eq_take: "strncmp_eq l p (length p) \<longleftrightarrow> take (length p) l = p"
proof (induction p arbitrary: l)
  case (Cons c p)
  then show ?case by (cases l) auto
qed simp

fun strstr :: "string \<Rightarrow> string \<Rightarrow> string option" where
  "strstr [] pat = (if pat = [] then Some [] else None)"
| "strstr (x # xs) pat =
     (if strncmp_eq (x # xs) pat (length pat) then Some (x # xs) else strstr xs pat)"

text \<open>\<open>while (*p == ' ') p++\<close>, the idiom of every parser of the library.\<close>

definition skip_spaces :: "string \<Rightarrow> string" where
  "skip_spaces s = dropWhile (\<lambda>c. c = CHR '' '') s"

text \<open>
  The start of a response's value part,
  \<open>p = strchr (line, ':'); p = p ? p + 1 : line\<close>.
\<close>

definition after_colon :: "string \<Rightarrow> string" where
  "after_colon s = (case strchr s CHR '':'' of Some p \<Rightarrow> tl p | None \<Rightarrow> s)"

text \<open>
  \<open>memcpy\<close> of at most \<open>sz - 1\<close> characters of a string followed by a NUL: how the
  sources copy into a fixed array of \<open>sz\<close> bytes when they truncate.
\<close>

definition copy_trunc :: "nat \<Rightarrow> string \<Rightarrow> string" where
  "copy_trunc sz s = take (if length s \<ge> sz then sz - 1 else length s) s"

section \<open>stdlib.h\<close>

definition clamp_int :: "int \<Rightarrow> int" where
  "clamp_int i = (if i > int_max then int_max else if i < int_min then int_min else i)"

text \<open>Value of the leading digits and the suffix after them.\<close>

fun scan_digits :: "nat \<Rightarrow> string \<Rightarrow> nat \<times> string" where
  "scan_digits acc [] = (acc, [])"
| "scan_digits acc (c # cs) =
     (if is_digit c then scan_digits (10 * acc + digit_val c) cs else (acc, c # cs))"

definition has_digit :: "string \<Rightarrow> bool" where
  "has_digit s = (case s of [] \<Rightarrow> False | c # _ \<Rightarrow> is_digit c)"

text \<open>
  \<open>strtol (s, endptr, 10)\<close>: leading white space, an optional sign, digits; \<open>None\<close> when
  there is no digit (then \<open>endptr = s\<close> and the value is 0).
\<close>

definition strtol :: "string \<Rightarrow> (int \<times> string) option" where
  "strtol s =
     (let p = dropWhile is_space s;
          neg = (p \<noteq> [] \<and> hd p = CHR ''-'');
          q = (if p \<noteq> [] \<and> (hd p = CHR ''-'' \<or> hd p = CHR ''+'') then tl p else p)
      in if has_digit q
         then (case scan_digits 0 q of (v, rest) \<Rightarrow>
                 Some (clamp_int (if neg then - int v else int v), rest))
         else None)"

text \<open>
  \<open>strtoul\<close> on the same syntax: saturating at the range of \<open>unsigned\<close>, a sign negates
  modulo \<open>2 ^ 32\<close>.
\<close>

definition strtoul :: "string \<Rightarrow> (nat \<times> string) option" where
  "strtoul s =
     (let p = dropWhile is_space s;
          neg = (p \<noteq> [] \<and> hd p = CHR ''-'');
          q = (if p \<noteq> [] \<and> (hd p = CHR ''-'' \<or> hd p = CHR ''+'') then tl p else p)
      in if has_digit q
         then (case scan_digits 0 q of (v, rest) \<Rightarrow>
                 Some (if v > 4294967295 then 4294967295
                       else cast_u32 (if neg then - int v else int v), rest))
         else None)"

definition atoi :: "string \<Rightarrow> int" where
  "atoi s = (case strtol s of Some (v, _) \<Rightarrow> v | None \<Rightarrow> 0)"

section \<open>stdio.h: the conversions of the format strings in use\<close>

fun show_nat :: "nat \<Rightarrow> string" where
  "show_nat n = (if n < 10 then [digit_char n] else show_nat (n div 10) @ [digit_char (n mod 10)])"

declare show_nat.simps [simp del]

definition show_int :: "int \<Rightarrow> string" where
  "show_int i = (if i < 0 then CHR ''-'' # show_nat (nat (- i)) else show_nat (nat i))"

text \<open>\<open>%02u\<close>, \<open>%+03d\<close> and \<open>%04X\<close>.\<close>

definition pad_left :: "nat \<Rightarrow> char \<Rightarrow> string \<Rightarrow> string" where
  "pad_left n c s = replicate (n - length s) c @ s"

definition show_02u :: "nat \<Rightarrow> string" where
  "show_02u n = pad_left 2 CHR ''0'' (show_nat n)"

definition show_p03d :: "int \<Rightarrow> string" where
  "show_p03d i = (if i < 0 then CHR ''-'' else CHR ''+'')
                 # pad_left 2 CHR ''0'' (show_nat (nat \<bar>i\<bar>))"

definition hex_digit :: "nat \<Rightarrow> char" where
  "hex_digit d = (if d < 10 then char_of (48 + d) else char_of (55 + d))"

fun show_hex :: "nat \<Rightarrow> string" where
  "show_hex n = (if n < 16 then [hex_digit n] else show_hex (n div 16) @ [hex_digit (n mod 16)])"

declare show_hex.simps [simp del]

definition show_04X :: "nat \<Rightarrow> string" where
  "show_04X n = pad_left 4 CHR ''0'' (show_hex n)"

text \<open>\<open>snprintf\<close> keeps at most \<open>size - 1\<close> characters of the formatted text.\<close>

definition snprintf :: "nat \<Rightarrow> string \<Rightarrow> string" where
  "snprintf sz s = take (sz - 1) s"

text \<open>A quoted argument of a command, \<open>\"%s\"\<close> in the format.\<close>

definition quoted :: "string \<Rightarrow> string" where
  "quoted s = DQUOTE # s @ [DQUOTE]"

text \<open>
  \<open>sscanf\<close> for the directives in use: white space, a literal character, \<open>%d\<close>, \<open>%u\<close>
  and \<open>%<w>[^<c>]\<close>. The result is the list of values assigned before the first directive
  that fails, so its length is the return value (0 also stands for EOF, which every caller
  treats alike).
\<close>

datatype scan_dir = ScanSp | ScanLit char | ScanD | ScanU | ScanSet nat char

datatype scan_val = SInt int | SStr string

definition scan_set :: "nat \<Rightarrow> char \<Rightarrow> string \<Rightarrow> string" where
  "scan_set w c s = take w (takeWhile (\<lambda>x. x \<noteq> c) s)"

fun sscanf :: "string \<Rightarrow> scan_dir list \<Rightarrow> scan_val list" where
  "sscanf s [] = []"
| "sscanf s (ScanSp # ds) = sscanf (dropWhile is_space s) ds"
| "sscanf s (ScanLit c # ds) = (if s \<noteq> [] \<and> hd s = c then sscanf (tl s) ds else [])"
| "sscanf s (ScanD # ds) =
     (case strtol s of Some (v, r) \<Rightarrow> SInt v # sscanf r ds | None \<Rightarrow> [])"
| "sscanf s (ScanU # ds) =
     (case strtoul s of Some (v, r) \<Rightarrow> SInt (int v) # sscanf r ds | None \<Rightarrow> [])"
| "sscanf s (ScanSet w c # ds) =
     (let t = scan_set w c s in if t = [] then [] else SStr t # sscanf (drop (length t) s) ds)"

text \<open>The \<open>i\<close>-th assigned variable, with the value it was initialised to otherwise.\<close>

definition scan_int :: "scan_val list \<Rightarrow> nat \<Rightarrow> int \<Rightarrow> int" where
  "scan_int vs i dflt =
     (if i < length vs then (case vs ! i of SInt v \<Rightarrow> v | SStr _ \<Rightarrow> dflt) else dflt)"

definition scan_str :: "scan_val list \<Rightarrow> nat \<Rightarrow> string \<Rightarrow> string" where
  "scan_str vs i dflt =
     (if i < length vs then (case vs ! i of SStr v \<Rightarrow> v | SInt _ \<Rightarrow> dflt) else dflt)"

end
