(* ===== verification/Ec200_Types.thy ===== *)
theory Ec200_Types
  imports Ec200_CLib
begin

text \<open>
  The shared data model of \<^verbatim>\<open>include/ec200_types.h\<close>: status codes, the handle, its
  URC dispatch table, and the size constants. The handle is the state of the library; the
  opaque \<open>user_ctx\<close> of the callbacks is the outside world \<open>'w\<close>, which every callback
  receives and may change. Pointers to out-parameters are options (\<open>None\<close> is NULL).
\<close>

section \<open>Buffer sizes and limits\<close>

definition EC200_RX_BUFFER_SIZE :: nat where "EC200_RX_BUFFER_SIZE = 2048"
definition EC200_TX_BUFFER_SIZE :: nat where "EC200_TX_BUFFER_SIZE = 512"
definition EC200_SMS_READ_BUF_LEN :: nat where "EC200_SMS_READ_BUF_LEN = 512"
definition EC200_SMS_LIST_BUF_LEN :: nat where "EC200_SMS_LIST_BUF_LEN = 1024"
definition EC200_MAX_OPERATOR_LEN :: nat where "EC200_MAX_OPERATOR_LEN = 32"
definition EC200_MAX_PHONE_NUM_LEN :: nat where "EC200_MAX_PHONE_NUM_LEN = 20"
definition EC200_MAX_SMS_TEXT_LEN :: nat where "EC200_MAX_SMS_TEXT_LEN = 160"
definition EC200_MAX_IP_ADDR_LEN :: nat where "EC200_MAX_IP_ADDR_LEN = 46"
definition EC200_MAX_FW_VER_LEN :: nat where "EC200_MAX_FW_VER_LEN = 64"
definition EC200_MAX_URL_LEN :: nat where "EC200_MAX_URL_LEN = 256"
definition EC200_MAX_TOPIC_LEN :: nat where "EC200_MAX_TOPIC_LEN = 128"
definition EC200_MAX_PAYLOAD_LEN :: nat where "EC200_MAX_PAYLOAD_LEN = 1460"
definition EC200_MAX_CONNECTIONS :: nat where "EC200_MAX_CONNECTIONS = 12"
definition EC200_MAX_URC_HANDLERS :: nat where "EC200_MAX_URC_HANDLERS = 8"
definition EC200_MAX_ERR_TEXT_LEN :: nat where "EC200_MAX_ERR_TEXT_LEN = 64"
definition EC200_MAX_FILENAME_LEN :: nat where "EC200_MAX_FILENAME_LEN = 64"

lemmas size_defs =
  EC200_RX_BUFFER_SIZE_def EC200_TX_BUFFER_SIZE_def EC200_SMS_READ_BUF_LEN_def
  EC200_SMS_LIST_BUF_LEN_def EC200_MAX_OPERATOR_LEN_def EC200_MAX_PHONE_NUM_LEN_def
  EC200_MAX_SMS_TEXT_LEN_def EC200_MAX_IP_ADDR_LEN_def EC200_MAX_FW_VER_LEN_def
  EC200_MAX_URL_LEN_def EC200_MAX_TOPIC_LEN_def EC200_MAX_PAYLOAD_LEN_def
  EC200_MAX_CONNECTIONS_def EC200_MAX_URC_HANDLERS_def EC200_MAX_ERR_TEXT_LEN_def
  EC200_MAX_FILENAME_LEN_def

section \<open>Timeouts of the AT layer (milliseconds)\<close>

definition EC200_AT_TIMEOUT_DEFAULT :: nat where "EC200_AT_TIMEOUT_DEFAULT = 1000"
definition EC200_AT_TIMEOUT_SHORT :: nat where "EC200_AT_TIMEOUT_SHORT = 300"
definition EC200_AT_TIMEOUT_LONG :: nat where "EC200_AT_TIMEOUT_LONG = 10000"
definition EC200_AT_TIMEOUT_COPS :: nat where "EC200_AT_TIMEOUT_COPS = 120000"
definition EC200_AT_MAX_LINES :: nat where "EC200_AT_MAX_LINES = 64"
definition EC200_AT_POLL_SLICE_MS :: nat where "EC200_AT_POLL_SLICE_MS = 100"
definition EC200_AT_WRITE_TIMEOUT_MS :: nat where "EC200_AT_WRITE_TIMEOUT_MS = 1000"

lemmas timeout_defs =
  EC200_AT_TIMEOUT_DEFAULT_def EC200_AT_TIMEOUT_SHORT_def EC200_AT_TIMEOUT_LONG_def
  EC200_AT_TIMEOUT_COPS_def EC200_AT_MAX_LINES_def EC200_AT_POLL_SLICE_MS_def
  EC200_AT_WRITE_TIMEOUT_MS_def

section \<open>Status codes\<close>

datatype ec200_status =
    EC200_OK | EC200_ERR_TIMEOUT | EC200_ERR_IO | EC200_ERR_PARSE | EC200_ERR_CME
  | EC200_ERR_CMS | EC200_ERR_BUSY | EC200_ERR_PARAM | EC200_ERR_NOT_READY
  | EC200_ERR_OVERFLOW | EC200_ERR_UNSUPPORTED | EC200_ERR_MODULE | EC200_ERR_UNKNOWN

text \<open>The integer value of each enumerator.\<close>

fun status_code :: "ec200_status \<Rightarrow> int" where
  "status_code EC200_OK = 0"
| "status_code EC200_ERR_TIMEOUT = -1"
| "status_code EC200_ERR_IO = -2"
| "status_code EC200_ERR_PARSE = -3"
| "status_code EC200_ERR_CME = -4"
| "status_code EC200_ERR_CMS = -5"
| "status_code EC200_ERR_BUSY = -6"
| "status_code EC200_ERR_PARAM = -7"
| "status_code EC200_ERR_NOT_READY = -8"
| "status_code EC200_ERR_OVERFLOW = -9"
| "status_code EC200_ERR_UNSUPPORTED = -10"
| "status_code EC200_ERR_MODULE = -11"
| "status_code EC200_ERR_UNKNOWN = -99"

lemma status_code_inj: "status_code a = status_code b \<longleftrightarrow> a = b"
  by (cases a; cases b) simp_all

text \<open>The order of the codes, as the integers compare in C.\<close>

instantiation ec200_status :: linorder
begin

definition less_eq_ec200_status :: "ec200_status \<Rightarrow> ec200_status \<Rightarrow> bool" where
  "less_eq_ec200_status a b \<longleftrightarrow> status_code a \<le> status_code b"

definition less_ec200_status :: "ec200_status \<Rightarrow> ec200_status \<Rightarrow> bool" where
  "less_ec200_status a b \<longleftrightarrow> status_code a < status_code b"

instance
  by standard (auto simp: less_eq_ec200_status_def less_ec200_status_def status_code_inj
    intro: status_code_inj [THEN iffD1])

end

section \<open>Callbacks\<close>

text \<open>
  \<open>write data\<close> returns the number of bytes accepted (negative: fatal error);
  \<open>read len timeout\<close> the number of bytes received and the bytes it stored;
  \<open>delay ms\<close> returns nothing.
\<close>

type_synonym 'w write_fn = "char list \<Rightarrow> 'w \<Rightarrow> int \<times> 'w"
type_synonym 'w read_fn = "nat \<Rightarrow> nat \<Rightarrow> 'w \<Rightarrow> int \<times> char list \<times> 'w"
type_synonym 'w delay_fn = "nat \<Rightarrow> 'w \<Rightarrow> 'w"

text \<open>
  The \<open>void *\<close> handed to a registered URC handler: NULL, the handle itself (what
  \<^verbatim>\<open>ec200_mqtt_set_message_cb\<close> registers), or a pointer of the application.
\<close>

datatype urc_ctx = CtxNull | CtxHandle | CtxUser nat

text \<open>
  A handler is a function of the application, which sees the line and may change the
  world, or the library's own \<^verbatim>\<open>mqtt_recv_urc\<close>. Handlers of the application do not
  call back into the library on the same handle.
\<close>

datatype 'w urc_handler_fn = UserUrc "string \<Rightarrow> urc_ctx \<Rightarrow> 'w \<Rightarrow> 'w" | MqttRecvUrc

record 'w ec200_urc_entry =
  ue_prefix :: "string option"
  ue_fn :: "'w urc_handler_fn option"
  ue_ctx :: urc_ctx

record ec200_mqtt_message =
  msg_topic :: string
  msg_payload :: "char list"
  msg_payload_len :: nat
  msg_qos :: int

type_synonym 'w mqtt_msg_fn = "ec200_mqtt_message \<Rightarrow> 'w \<Rightarrow> 'w"

section \<open>The handle\<close>

text \<open>
  \<open>rx_buf\<close> is the list of the first \<open>_rx_len\<close> bytes of the line-assembly array
  (theory \<open>Ec200_Rx\<close> relates it to the array); \<open>tx_buf\<close> the string in the transmit
  scratch buffer.
\<close>

record 'w ec200_handle =
  h_write :: "'w write_fn"
  h_read :: "'w read_fn"
  h_delay_ms :: "'w delay_fn"
  user_ctx :: 'w
  urc_handler :: "(string \<Rightarrow> 'w \<Rightarrow> 'w) option"
  mqtt_msg_cb :: "'w mqtt_msg_fn option"
  rx_buf :: "char list"
  rx_overlong :: bool
  tx_buf :: string
  urc_table :: "'w ec200_urc_entry list"
  initialised :: bool
  last_err_kind :: nat
  last_err_text :: string
  ppp_data_mode :: bool
  last_cme_error :: int
  last_cms_error :: int

definition free_urc_entry :: "'w ec200_urc_entry" where
  "free_urc_entry = \<lparr>ue_prefix = None, ue_fn = None, ue_ctx = CtxNull\<rparr>"

section \<open>Caller-supplied character buffers\<close>

text \<open>
  A \<open>char *\<close> with its size: \<open>None\<close> is NULL, \<open>Some (sz, s)\<close> an array of \<open>sz\<close>
  bytes that holds the string \<open>s\<close>. \<open>char_buf n\<close> is a local array declared by the
  caller; it is read only after a transaction has stored a line in it.
\<close>

type_synonym cbuf = "(nat \<times> string) option"

definition char_buf :: "nat \<Rightarrow> cbuf" where
  "char_buf n = Some (n, [])"

definition buf_text :: "cbuf \<Rightarrow> string" where
  "buf_text b = (case b of None \<Rightarrow> [] | Some (n, s) \<Rightarrow> s)"

text \<open>\<open>copy_line\<close>: store a line, truncated to the buffer.\<close>

definition copy_line :: "string \<Rightarrow> cbuf \<Rightarrow> cbuf" where
  "copy_line line b =
     (case b of None \<Rightarrow> None
      | Some (sz, s) \<Rightarrow> if sz = 0 then Some (sz, s) else Some (sz, copy_trunc sz line))"

definition clear_buf :: "cbuf \<Rightarrow> cbuf" where
  "clear_buf b =
     (case b of None \<Rightarrow> None
      | Some (sz, s) \<Rightarrow> if sz > 0 then Some (sz, []) else Some (sz, s))"

text \<open>The string of a buffer fits its array with the terminating NUL.\<close>

definition buf_ok :: "cbuf \<Rightarrow> bool" where
  "buf_ok b = (case b of None \<Rightarrow> True | Some (sz, s) \<Rightarrow> sz = 0 \<or> length s < sz)"

definition buf_size :: "cbuf \<Rightarrow> nat option" where
  "buf_size b = map_option fst b"

lemma copy_trunc_length: "sz > 0 \<Longrightarrow> length (copy_trunc sz s) < sz"
  by (auto simp: copy_trunc_def)

lemma copy_trunc_fits: "length s < sz \<Longrightarrow> copy_trunc sz s = s"
  by (simp add: copy_trunc_def)

lemma buf_ok_copy_line: "buf_ok b \<Longrightarrow> buf_ok (copy_line line b)"
  by (auto simp: buf_ok_def copy_line_def copy_trunc_length split: option.splits)

lemma buf_ok_clear: "buf_ok b \<Longrightarrow> buf_ok (clear_buf b)"
  by (auto simp: buf_ok_def clear_buf_def split: option.splits)

lemma buf_size_copy_line [simp]: "buf_size (copy_line line b) = buf_size b"
  by (auto simp: buf_size_def copy_line_def split: option.splits)

lemma buf_size_clear [simp]: "buf_size (clear_buf b) = buf_size b"
  by (auto simp: buf_size_def clear_buf_def split: option.splits)

end
