(* ===== verification/Ec200_Rx.thy ===== *)
theory Ec200_Rx
  imports Ec200_Types
begin

text \<open>
  Byte reception and line assembly (\<^verbatim>\<open>rx_getc\<close>, \<^verbatim>\<open>rx_feed\<close>, \<^verbatim>\<open>rx_line\<close> and
  \<^verbatim>\<open>rx_take_buffered\<close> of \<^verbatim>\<open>src/ec200_at.c\<close>), and the refinement that ties the list
  \<open>rx_buf\<close> to the C array with its length.
\<close>

section \<open>Reading one byte within the budget\<close>

datatype 'a rx_rc = RX_OK 'a | RX_TIMEOUT | RX_IO_ERROR

definition poll_slice :: "nat \<Rightarrow> nat" where
  "poll_slice budget =
     (if budget < EC200_AT_POLL_SLICE_MS then budget else EC200_AT_POLL_SLICE_MS)"

lemma poll_slice_le: "poll_slice b \<le> b"
  by (simp add: poll_slice_def)

lemma poll_slice_pos: "b \<noteq> 0 \<Longrightarrow> 0 < poll_slice b"
  by (simp add: poll_slice_def EC200_AT_POLL_SLICE_MS_def)

lemma poll_slice_less: "b \<noteq> 0 \<Longrightarrow> b - poll_slice b < b"
  using poll_slice_pos [of b] poll_slice_le [of b] by simp

text \<open>
  The byte the callback stored at \<open>out\<close>; the callers initialise it to 0, so it stays 0 if
  the callback claims a byte and stores none.
\<close>

definition first_byte :: "char list \<Rightarrow> char" where
  "first_byte d = (case d of [] \<Rightarrow> NUL | c # _ \<Rightarrow> c)"

function rx_getc :: "'w ec200_handle \<Rightarrow> nat \<Rightarrow> 'w ec200_handle \<times> char rx_rc \<times> nat" where
  "rx_getc h budget =
     (let slice = poll_slice budget in
      case h_read h 1 slice (user_ctx h) of
        (n, d, w) \<Rightarrow>
          (let h' = h\<lparr>user_ctx := w\<rparr> in
           if n < 0 then (h', RX_IO_ERROR, budget)
           else if n > 0 then (h', RX_OK (first_byte d), budget)
           else if budget = 0 then (h', RX_TIMEOUT, budget)
           else rx_getc h' (budget - slice)))"
  by pat_completeness auto
termination
  by (relation "measure snd") (auto simp: poll_slice_less)

declare rx_getc.simps [simp del]

section \<open>Line assembly\<close>

text \<open>
  \<open>rx_feed\<close> returns the completed line where the C function returns true. The line is
  the C string in the buffer, so a received NUL byte ends it early.
\<close>

definition rx_feed :: "'w ec200_handle \<Rightarrow> char \<Rightarrow> 'w ec200_handle \<times> string option" where
  "rx_feed h ch =
     (if ch = CR then (h, None)
      else if ch = LF then
        (h\<lparr>rx_buf := [], rx_overlong := False\<rparr>, Some (cstr (rx_buf h)))
      else if length (rx_buf h) < EC200_RX_BUFFER_SIZE - 1 then
        (h\<lparr>rx_buf := rx_buf h @ [ch]\<rparr>, None)
      else (h\<lparr>rx_overlong := True\<rparr>, None))"

text \<open>
  The loop of \<^verbatim>\<open>rx_line\<close> ends on a completed line, a spent budget or an I/O error. It
  has no bound on the bytes of a line, so it is a partial function: \<open>None\<close> when it never
  returns.
\<close>

partial_function (option) rx_line ::
    "'w ec200_handle \<Rightarrow> nat \<Rightarrow> ('w ec200_handle \<times> string rx_rc \<times> nat) option" where
  "rx_line h budget =
     (case rx_getc h budget of
        (h, rc, budget) \<Rightarrow>
          (case rc of
             RX_IO_ERROR \<Rightarrow> Some (h, RX_IO_ERROR, budget)
           | RX_TIMEOUT \<Rightarrow> Some (h, RX_TIMEOUT, budget)
           | RX_OK ch \<Rightarrow>
               (case rx_feed h ch of
                  (h, Some line) \<Rightarrow> Some (h, RX_OK line, budget)
                | (h, None) \<Rightarrow> rx_line h budget)))"

declare rx_line.simps [code]

text \<open>
  Bytes already in the line-assembly buffer are handed to a raw read first. \<open>buf\<close> is the
  caller's array; the result has its first \<open>n\<close> bytes replaced.
\<close>

definition mem_store :: "char list \<Rightarrow> nat \<Rightarrow> char list \<Rightarrow> char list" where
  "mem_store buf off d =
     take (length buf) (take off buf @ d @ drop (off + length d) buf)"

definition rx_take_buffered ::
    "'w ec200_handle \<Rightarrow> char list \<Rightarrow> nat \<Rightarrow> 'w ec200_handle \<times> char list \<times> nat" where
  "rx_take_buffered h buf len =
     (let n = (if length (rx_buf h) < len then length (rx_buf h) else len) in
      if n > 0
      then (h\<lparr>rx_buf := drop n (rx_buf h)\<rparr>, mem_store buf 0 (take n (rx_buf h)), n)
      else (h, buf, n))"

section \<open>The array behind the list\<close>

text \<open>
  The C fields as they are: an array of \<open>EC200_RX_BUFFER_SIZE\<close> bytes and \<open>_rx_len\<close>.
  A store outside the array is \<open>None\<close>.
\<close>

record rx_array =
  arr :: "char list"
  rx_len :: nat
  overlong :: bool

definition arr_store :: "rx_array \<Rightarrow> nat \<Rightarrow> char \<Rightarrow> rx_array option" where
  "arr_store a i c = (if i < length (arr a) then Some (a\<lparr>arr := (arr a)[i := c]\<rparr>) else None)"

definition rx_feed_arr :: "rx_array \<Rightarrow> char \<Rightarrow> (rx_array \<times> bool) option" where
  "rx_feed_arr a ch =
     (if ch = CR then Some (a, False)
      else if ch = LF then do {
        a \<leftarrow> arr_store a (rx_len a) NUL;
        Some (a\<lparr>rx_len := 0, overlong := False\<rparr>, True)
      }
      else if rx_len a < EC200_RX_BUFFER_SIZE - 1 then do {
        a \<leftarrow> arr_store a (rx_len a) ch;
        Some (a\<lparr>rx_len := rx_len a + 1\<rparr>, False)
      }
      else Some (a\<lparr>overlong := True\<rparr>, False))"

definition rx_arr_ok :: "rx_array \<Rightarrow> bool" where
  "rx_arr_ok a \<longleftrightarrow> length (arr a) = EC200_RX_BUFFER_SIZE \<and> rx_len a < EC200_RX_BUFFER_SIZE"

definition rx_abs :: "rx_array \<Rightarrow> 'w ec200_handle \<Rightarrow> bool" where
  "rx_abs a h \<longleftrightarrow> rx_buf h = take (rx_len a) (arr a) \<and> rx_overlong h = overlong a"

lemma take_list_update_append: "i < length xs \<Longrightarrow> take (Suc i) (xs[i := c]) = take i xs @ [c]"
  by (simp add: take_Suc_conv_app_nth)

lemma cstr_update_NUL: "i < length xs \<Longrightarrow> cstr (xs[i := NUL]) = cstr (take i xs)"
proof -
  assume i: "i < length xs"
  have "xs[i := NUL] = take i xs @ NUL # drop (Suc i) xs"
    using i by (simp add: upd_conv_take_nth_drop)
  then show ?thesis
    by (simp add: cstr_def takeWhile_tail)
qed


text \<open>
  C2. The C code of \<open>rx_feed\<close> on the array and its length never stores outside the array,
  keeps the length below the array size, and computes exactly the list version: the same
  buffered bytes, the same overlong flag, and on a line feed the C string in the array is
  the completed line.
\<close>

theorem rx_feed_refines:
  assumes "rx_arr_ok a" and "rx_abs a h"
  shows "\<exists>a' done. rx_feed_arr a ch = Some (a', done) \<and> rx_arr_ok a' \<and>
           rx_abs a' (fst (rx_feed h ch)) \<and>
           snd (rx_feed h ch) = (if done then Some (cstr (arr a')) else None)"
proof -
  have len: "length (rx_buf h) = rx_len a"
    using assms by (simp add: rx_arr_ok_def rx_abs_def)
  consider (cr) "ch = CR" | (lf) "ch = LF" | (store) "ch \<noteq> CR" "ch \<noteq> LF" "rx_len a < 2047"
    | (full) "ch \<noteq> CR" "ch \<noteq> LF" "\<not> rx_len a < 2047"
    by blast
  then show ?thesis
  proof cases
    case cr
    then show ?thesis using assms
      by (intro exI [of _ a] exI [of _ False]) (simp add: rx_feed_arr_def rx_feed_def)
  next
    case lf
    have "cstr ((arr a)[rx_len a := NUL]) = cstr (rx_buf h)"
      using assms by (simp add: rx_arr_ok_def rx_abs_def cstr_update_NUL)
    with lf assms show ?thesis
      by (intro exI [of _ "a\<lparr>arr := (arr a)[rx_len a := NUL], rx_len := 0, overlong := False\<rparr>"]
          exI [of _ True])
        (simp add: rx_feed_arr_def rx_feed_def arr_store_def rx_arr_ok_def rx_abs_def)
  next
    case store
    with assms len show ?thesis
      by (intro exI [of _ "a\<lparr>arr := (arr a)[rx_len a := ch], rx_len := rx_len a + 1\<rparr>"]
          exI [of _ False])
        (simp add: rx_feed_arr_def rx_feed_def arr_store_def rx_arr_ok_def rx_abs_def
          size_defs take_list_update_append)
  next
    case full
    with assms len show ?thesis
      by (intro exI [of _ "a\<lparr>overlong := True\<rparr>"] exI [of _ False])
        (simp add: rx_feed_arr_def rx_feed_def rx_arr_ok_def rx_abs_def size_defs)
  qed
qed

theorem rx_feed_refines_witness:
  "\<exists>a' done. rx_feed_arr \<lparr>arr = replicate 2048 NUL, rx_len = 2047, overlong = False\<rparr> LF = Some (a', done) \<and>
    rx_arr_ok a' \<and> done"
proof -
  let ?a = "\<lparr>arr = replicate 2048 NUL, rx_len = 2047, overlong = False\<rparr>"
  let ?h = "(undefined :: unit ec200_handle)\<lparr>rx_buf := replicate 2047 NUL, rx_overlong := False\<rparr>"
  have "rx_arr_ok ?a" by (simp add: rx_arr_ok_def size_defs)
  moreover have "rx_abs ?a ?h" by (simp add: rx_abs_def)
  ultimately obtain a' d where "rx_feed_arr ?a LF = Some (a', d)" "rx_arr_ok a'"
      "snd (rx_feed ?h LF) = (if d then Some (cstr (arr a')) else None)"
    using rx_feed_refines [of ?a ?h LF] by blast
  then show ?thesis by (cases d) (auto simp: rx_feed_def)
qed

end
