(* ===== verification/Ec200_Mqtt_Recv.thy ===== *)
theory Ec200_Mqtt_Recv
  imports Ec200_Types
begin

text \<open>
  The handler of inbound publications, \<^verbatim>\<open>mqtt_recv_urc\<close> of \<^verbatim>\<open>src/ec200_mqtt.c\<close>. It
  stands apart from the rest of the MQTT client because the AT engine calls it through the
  URC dispatch table.
\<close>

text \<open>
  The message a \<open>+QMTRECV:\<close> line carries: the topic is the first quoted string, the
  payload runs from the third quote to the last one of the line. \<open>None\<close>: the handler
  returns without calling back.
\<close>

definition parse_qmtrecv :: "string \<Rightarrow> ec200_mqtt_message option" where
  "parse_qmtrecv line = do {
     p \<leftarrow> strchr line DQUOTE;
     q \<leftarrow> strchr (tl p) DQUOTE;
     let tlen = length (tl p) - length q;
     let msg = \<lparr>msg_topic = copy_trunc EC200_MAX_TOPIC_LEN (take tlen (tl p)),
                msg_payload = [], msg_payload_len = 0, msg_qos = 0\<rparr>;
     Some (case strchr (tl q) DQUOTE of
             None \<Rightarrow> msg
           | Some p \<Rightarrow>
               (case strrchr (tl p) DQUOTE of
                  None \<Rightarrow> msg
                | Some q \<Rightarrow>
                    (let plen = length (tl p) - length q;
                         plen = (if plen > EC200_MAX_PAYLOAD_LEN then EC200_MAX_PAYLOAD_LEN
                                 else plen)
                     in msg\<lparr>msg_payload := take plen (tl p), msg_payload_len := plen\<rparr>)))
   }"

definition mqtt_recv_urc :: "string \<Rightarrow> urc_ctx \<Rightarrow> 'w ec200_handle \<Rightarrow> 'w ec200_handle" where
  "mqtt_recv_urc line ctx h =
     (if ctx \<noteq> CtxHandle then h
      else case mqtt_msg_cb h of
             None \<Rightarrow> h
           | Some cb \<Rightarrow>
               (case parse_qmtrecv line of
                  None \<Rightarrow> h
                | Some msg \<Rightarrow> h\<lparr>user_ctx := cb msg (user_ctx h)\<rparr>))"

end
