(* ===== verification/Ec200_At.thy ===== *)
theory Ec200_At
  imports Ec200_Rx Ec200_Mqtt_Recv
begin

text \<open>
  The AT engine, \<^verbatim>\<open>src/ec200_at.c\<close>: classification of result lines, URC dispatch,
  transmission, the command transactions, the receive-only waits, raw I/O and the URC
  table. Every operation takes the handle and returns it first in its result.
\<close>

section \<open>Readiness, error state and line classification\<close>

definition handle_ready :: "'w ec200_handle \<Rightarrow> bool" where
  "handle_ready h = initialised h"

text \<open>Which of the two code fields an error line sets.\<close>

datatype err_field = CmeField | CmsField

definition set_err_code :: "err_field \<Rightarrow> int \<Rightarrow> 'w ec200_handle \<Rightarrow> 'w ec200_handle" where
  "set_err_code f c h =
     (case f of CmeField \<Rightarrow> h\<lparr>last_cme_error := c\<rparr> | CmsField \<Rightarrow> h\<lparr>last_cms_error := c\<rparr>)"

definition record_error ::
    "'w ec200_handle \<Rightarrow> string \<Rightarrow> err_field \<Rightarrow> 'w ec200_handle" where
  "record_error h payload f =
     (let p = skip_spaces payload;
          numeric = (has_digit p \<and> list_all is_digit p);
          code = (if numeric then atoi p else -1)
      in (set_err_code f code h)\<lparr>last_err_text := copy_trunc EC200_MAX_ERR_TEXT_LEN p\<rparr>)"

datatype terminal = TERM_NONE | TERM_OK | TERM_ERR

definition is_terminal :: "'w ec200_handle \<Rightarrow> string \<Rightarrow> 'w ec200_handle \<times> terminal" where
  "is_terminal h line =
     (if line = ''OK'' then (h, TERM_OK)
      else if line = ''ERROR'' then (h, TERM_ERR)
      else if line = ''NO CARRIER'' then (h, TERM_ERR)
      else if strncmp_eq line ''+CME ERROR:'' 11 then
        ((record_error h (drop 11 line) CmeField)\<lparr>last_err_kind := 1\<rparr>, TERM_ERR)
      else if strncmp_eq line ''+CMS ERROR:'' 11 then
        ((record_error h (drop 11 line) CmsField)\<lparr>last_err_kind := 2\<rparr>, TERM_ERR)
      else (h, TERM_NONE))"

definition map_error_terminal :: "'w ec200_handle \<Rightarrow> ec200_status" where
  "map_error_terminal h =
     (if last_err_kind h = 1 then EC200_ERR_CME
      else if last_err_kind h = 2 then EC200_ERR_CMS
      else EC200_ERR_MODULE)"

section \<open>URC dispatch\<close>

definition call_urc_handler ::
    "'w urc_handler_fn \<Rightarrow> string \<Rightarrow> urc_ctx \<Rightarrow> 'w ec200_handle \<Rightarrow> 'w ec200_handle" where
  "call_urc_handler f line ctx h =
     (case f of UserUrc g \<Rightarrow> h\<lparr>user_ctx := g line ctx (user_ctx h)\<rparr>
      | MqttRecvUrc \<Rightarrow> mqtt_recv_urc line ctx h)"

text \<open>The first slot whose prefix matches handles the line.\<close>

fun dispatch_slots ::
    "'w ec200_urc_entry list \<Rightarrow> 'w ec200_handle \<Rightarrow> string \<Rightarrow> 'w ec200_handle \<times> bool" where
  "dispatch_slots [] h line = (h, False)"
| "dispatch_slots (e # es) h line =
     (case ue_prefix e of
        Some p \<Rightarrow>
          if strncmp_eq line p (length p)
          then (case ue_fn e of Some f \<Rightarrow> call_urc_handler f line (ue_ctx e) h | None \<Rightarrow> h,
                True)
          else dispatch_slots es h line
      | None \<Rightarrow> dispatch_slots es h line)"

definition dispatch_registered_urc ::
    "'w ec200_handle \<Rightarrow> string \<Rightarrow> 'w ec200_handle \<times> bool" where
  "dispatch_registered_urc h line = dispatch_slots (urc_table h) h line"

section \<open>Raw write and transmission\<close>

text \<open>
  The write loop: \<open>sent\<close> bytes are out. A zero result is charged 5 ms; the defensive
  check compares the result after the conversion to \<^verbatim>\<open>uint16_t\<close>. A callback that keeps
  returning a multiple of 65536 makes no progress and is charged nothing, so the loop is a
  partial function.
\<close>

partial_function (option) write_loop ::
    "char list \<Rightarrow> nat \<Rightarrow> 'w ec200_handle \<Rightarrow> nat \<Rightarrow> nat
     \<Rightarrow> ('w ec200_handle \<times> ec200_status) option" where
  "write_loop data len h sent budget =
     (if sent < len then
        (case h_write h (take (len - sent) (drop sent data)) (user_ctx h) of
           (n, w) \<Rightarrow>
             (let h' = h\<lparr>user_ctx := w\<rparr> in
              if n < 0 then Some (h', EC200_ERR_IO)
              else if n = 0 then
                (if budget = 0 then Some (h', EC200_ERR_TIMEOUT)
                 else write_loop data len (h'\<lparr>user_ctx := h_delay_ms h' 5 (user_ctx h')\<rparr>)
                        sent (if budget \<ge> 5 then budget - 5 else 0))
              else if cast_u16 n > len - sent then Some (h', EC200_ERR_IO)
              else write_loop data len h' (sent + cast_u16 n) budget))
      else Some (h, EC200_OK))"

declare write_loop.simps [code]

definition ec200_at_write_raw ::
    "'w ec200_handle \<Rightarrow> char list option \<Rightarrow> nat \<Rightarrow> ('w ec200_handle \<times> ec200_status) option"
    where
  "ec200_at_write_raw h data len =
     (if \<not> handle_ready h \<or> data = None then Some (h, EC200_ERR_NOT_READY)
      else write_loop (the data) len h 0 EC200_AT_WRITE_TIMEOUT_MS)"

definition reset_error_state :: "'w ec200_handle \<Rightarrow> 'w ec200_handle" where
  "reset_error_state h =
     h\<lparr>last_cme_error := -1, last_cms_error := -1, last_err_kind := 0, last_err_text := []\<rparr>"

definition at_transmit ::
    "'w ec200_handle \<Rightarrow> string \<Rightarrow> ('w ec200_handle \<times> ec200_status) option" where
  "at_transmit h cmd =
     (if ppp_data_mode h then Some (h, EC200_ERR_BUSY)
      else
        let h = reset_error_state h;
            framed = cmd @ [CR];
            h = h\<lparr>tx_buf := snprintf EC200_TX_BUFFER_SIZE framed\<rparr>
        in if length framed \<ge> EC200_TX_BUFFER_SIZE then Some (h, EC200_ERR_OVERFLOW)
           else ec200_at_write_raw h (Some (tx_buf h)) (length framed))"

section \<open>The shared receive loop\<close>

text \<open>
  A non-terminal body line is appended to the response if it fits with its separator; the
  position \<open>resp_pos\<close> is the length of the text so far.
\<close>

definition append_line :: "string \<Rightarrow> cbuf \<Rightarrow> cbuf" where
  "append_line line b =
     (case b of None \<Rightarrow> None
      | Some (sz, s) \<Rightarrow>
          if length s + length line + 2 < sz
          then Some (sz, (if length s > 0 then s @ [LF] else s) @ line)
          else Some (sz, s))"

text \<open>The first argument counts the lines still allowed by \<open>EC200_AT_MAX_LINES\<close>.\<close>

fun receive_loop ::
    "nat \<Rightarrow> 'w ec200_handle \<Rightarrow> string option \<Rightarrow> bool \<Rightarrow> bool \<Rightarrow> cbuf \<Rightarrow> nat
     \<Rightarrow> ('w ec200_handle \<times> ec200_status \<times> cbuf) option" where
  "receive_loop 0 h prefix stop matched buf budget = Some (h, EC200_ERR_OVERFLOW, buf)"
| "receive_loop (Suc k) h prefix stop matched buf budget = do {
     (h, rc, budget) \<leftarrow> rx_line h budget;
     case rc of
       RX_IO_ERROR \<Rightarrow> Some (h, EC200_ERR_IO, buf)
     | RX_TIMEOUT \<Rightarrow> Some (h, EC200_ERR_TIMEOUT, buf)
     | RX_OK line \<Rightarrow>
         if line = [] then receive_loop k h prefix stop matched buf budget
         else if prefix \<noteq> None \<and> \<not> matched
                 \<and> strncmp_eq line (the prefix) (length (the prefix))
         then (if stop then Some (h, EC200_OK, copy_line line buf)
               else receive_loop k h prefix stop True (copy_line line buf) budget)
         else (case is_terminal h line of
                 (h, TERM_OK) \<Rightarrow>
                   (if prefix \<noteq> None \<and> \<not> matched then Some (h, EC200_ERR_PARSE, buf)
                    else Some (h, EC200_OK, buf))
               | (h, TERM_ERR) \<Rightarrow> Some (h, map_error_terminal h, buf)
               | (h, TERM_NONE) \<Rightarrow>
                   (case dispatch_registered_urc h line of
                      (h, True) \<Rightarrow> receive_loop k h prefix stop matched buf budget
                    | (h, False) \<Rightarrow>
                        receive_loop k h prefix stop matched
                          (if prefix = None then append_line line buf else buf) budget))
   }"

definition receive_transaction ::
    "'w ec200_handle \<Rightarrow> string option \<Rightarrow> bool \<Rightarrow> cbuf \<Rightarrow> nat
     \<Rightarrow> ('w ec200_handle \<times> ec200_status \<times> cbuf) option" where
  "receive_transaction h prefix stop buf timeout_ms =
     receive_loop EC200_AT_MAX_LINES h prefix stop False (clear_buf buf) timeout_ms"

section \<open>Receive-only waits\<close>

fun wait_prefix_loop ::
    "nat \<Rightarrow> 'w ec200_handle \<Rightarrow> string \<Rightarrow> cbuf \<Rightarrow> nat
     \<Rightarrow> ('w ec200_handle \<times> ec200_status \<times> cbuf) option" where
  "wait_prefix_loop 0 h prefix buf budget = Some (h, EC200_ERR_OVERFLOW, buf)"
| "wait_prefix_loop (Suc k) h prefix buf budget = do {
     (h, rc, budget) \<leftarrow> rx_line h budget;
     case rc of
       RX_IO_ERROR \<Rightarrow> Some (h, EC200_ERR_IO, buf)
     | RX_TIMEOUT \<Rightarrow> Some (h, EC200_ERR_TIMEOUT, buf)
     | RX_OK line \<Rightarrow>
         if line = [] then wait_prefix_loop k h prefix buf budget
         else if strncmp_eq line prefix (length prefix)
         then Some (h, EC200_OK, copy_line line buf)
         else (case is_terminal h line of
                 (h, TERM_ERR) \<Rightarrow> Some (h, map_error_terminal h, buf)
               | (h, TERM_OK) \<Rightarrow> wait_prefix_loop k h prefix buf budget
               | (h, TERM_NONE) \<Rightarrow>
                   wait_prefix_loop k (fst (dispatch_registered_urc h line)) prefix buf budget)
   }"

definition ec200_at_wait_prefix ::
    "'w ec200_handle \<Rightarrow> string option \<Rightarrow> cbuf \<Rightarrow> nat
     \<Rightarrow> ('w ec200_handle \<times> ec200_status \<times> cbuf) option" where
  "ec200_at_wait_prefix h prefix buf timeout_ms =
     (if \<not> handle_ready h \<or> prefix = None then Some (h, EC200_ERR_NOT_READY, buf)
      else wait_prefix_loop EC200_AT_MAX_LINES h (the prefix) buf timeout_ms)"

fun wait_final_loop ::
    "nat \<Rightarrow> 'w ec200_handle \<Rightarrow> nat \<Rightarrow> ('w ec200_handle \<times> ec200_status) option" where
  "wait_final_loop 0 h budget = Some (h, EC200_ERR_OVERFLOW)"
| "wait_final_loop (Suc k) h budget = do {
     (h, rc, budget) \<leftarrow> rx_line h budget;
     case rc of
       RX_IO_ERROR \<Rightarrow> Some (h, EC200_ERR_IO)
     | RX_TIMEOUT \<Rightarrow> Some (h, EC200_ERR_TIMEOUT)
     | RX_OK line \<Rightarrow>
         if line = [] then wait_final_loop k h budget
         else (case is_terminal h line of
                 (h, TERM_OK) \<Rightarrow> Some (h, EC200_OK)
               | (h, TERM_ERR) \<Rightarrow> Some (h, map_error_terminal h)
               | (h, TERM_NONE) \<Rightarrow>
                   wait_final_loop k (fst (dispatch_registered_urc h line)) budget)
   }"

definition ec200_at_wait_final ::
    "'w ec200_handle \<Rightarrow> nat \<Rightarrow> ('w ec200_handle \<times> ec200_status) option" where
  "ec200_at_wait_final h timeout_ms =
     (if \<not> handle_ready h then Some (h, EC200_ERR_NOT_READY)
      else wait_final_loop EC200_AT_MAX_LINES h timeout_ms)"

section \<open>Command transactions\<close>

definition ec200_at_send ::
    "'w ec200_handle \<Rightarrow> string option \<Rightarrow> cbuf \<Rightarrow> nat
     \<Rightarrow> ('w ec200_handle \<times> ec200_status \<times> cbuf) option" where
  "ec200_at_send h cmd buf timeout_ms =
     (if \<not> handle_ready h \<or> cmd = None then Some (h, EC200_ERR_NOT_READY, buf)
      else do {
        (h, st) \<leftarrow> at_transmit h (the cmd);
        if st \<noteq> EC200_OK then Some (h, st, buf)
        else receive_transaction h None False buf timeout_ms
      })"

definition ec200_at_send_wait ::
    "'w ec200_handle \<Rightarrow> string option \<Rightarrow> string option \<Rightarrow> cbuf \<Rightarrow> nat
     \<Rightarrow> ('w ec200_handle \<times> ec200_status \<times> cbuf) option" where
  "ec200_at_send_wait h cmd prefix buf timeout_ms =
     (if \<not> handle_ready h \<or> cmd = None \<or> prefix = None
      then Some (h, EC200_ERR_NOT_READY, buf)
      else do {
        (h, st) \<leftarrow> at_transmit h (the cmd);
        if st \<noteq> EC200_OK then Some (h, st, buf)
        else receive_transaction h prefix False buf timeout_ms
      })"

definition ec200_at_send_expect ::
    "'w ec200_handle \<Rightarrow> string option \<Rightarrow> string option \<Rightarrow> cbuf \<Rightarrow> nat
     \<Rightarrow> ('w ec200_handle \<times> ec200_status \<times> cbuf) option" where
  "ec200_at_send_expect h cmd prefix buf timeout_ms =
     (if \<not> handle_ready h \<or> cmd = None \<or> prefix = None
      then Some (h, EC200_ERR_NOT_READY, buf)
      else do {
        (h, st) \<leftarrow> at_transmit h (the cmd);
        if st \<noteq> EC200_OK then Some (h, st, buf)
        else receive_transaction h prefix True buf timeout_ms
      })"

definition ec200_at_send_await_urc ::
    "'w ec200_handle \<Rightarrow> string option \<Rightarrow> string option \<Rightarrow> cbuf \<Rightarrow> nat \<Rightarrow> nat
     \<Rightarrow> ('w ec200_handle \<times> ec200_status \<times> cbuf) option" where
  "ec200_at_send_await_urc h cmd urc_prefix buf ok_timeout urc_timeout =
     (if \<not> handle_ready h \<or> cmd = None \<or> urc_prefix = None
      then Some (h, EC200_ERR_NOT_READY, buf)
      else do {
        (h, st) \<leftarrow> at_transmit h (the cmd);
        if st \<noteq> EC200_OK then Some (h, st, buf)
        else do {
          (h, st, buf) \<leftarrow> receive_transaction h urc_prefix True buf ok_timeout;
          if st = EC200_OK then do {
            (h, _) \<leftarrow> ec200_at_wait_final h EC200_AT_TIMEOUT_SHORT;
            Some (h, EC200_OK, buf)
          }
          else if st \<noteq> EC200_ERR_PARSE then Some (h, st, buf)
          else ec200_at_wait_prefix h urc_prefix buf urc_timeout
        }
      })"

text \<open>
  The prompt loop reads byte by byte: a \<open>>\<close> at the start of a line is the prompt, and
  the blank after it is swallowed if it is already there; complete lines are classified.
\<close>

partial_function (option) prompt_loop ::
    "'w ec200_handle \<Rightarrow> nat \<Rightarrow> ('w ec200_handle \<times> ec200_status) option" where
  "prompt_loop h budget =
     (case rx_getc h budget of
        (h, rc, budget) \<Rightarrow>
          (case rc of
             RX_IO_ERROR \<Rightarrow> Some (h, EC200_ERR_IO)
           | RX_TIMEOUT \<Rightarrow> Some (h, EC200_ERR_TIMEOUT)
           | RX_OK ch \<Rightarrow>
               if ch = CHR ''>'' \<and> rx_buf h = [] then
                 (case rx_getc h 0 of
                    (h, RX_OK sp, _) \<Rightarrow>
                      if sp \<noteq> CHR '' '' then Some (fst (rx_feed h sp), EC200_OK)
                      else Some (h, EC200_OK)
                  | (h, _, _) \<Rightarrow> Some (h, EC200_OK))
               else
                 (case rx_feed h ch of
                    (h, None) \<Rightarrow> prompt_loop h budget
                  | (h, Some line) \<Rightarrow>
                      if line = [] then prompt_loop h budget
                      else (case is_terminal h line of
                              (h, TERM_ERR) \<Rightarrow> Some (h, map_error_terminal h)
                            | (h, TERM_OK) \<Rightarrow> Some (h, EC200_ERR_PARSE)
                            | (h, TERM_NONE) \<Rightarrow>
                                prompt_loop (fst (dispatch_registered_urc h line)) budget))))"

declare prompt_loop.simps [code]

definition ec200_at_send_prompt ::
    "'w ec200_handle \<Rightarrow> string option \<Rightarrow> nat \<Rightarrow> ('w ec200_handle \<times> ec200_status) option" where
  "ec200_at_send_prompt h cmd timeout_ms =
     (if \<not> handle_ready h \<or> cmd = None then Some (h, EC200_ERR_NOT_READY)
      else do {
        (h, st) \<leftarrow> at_transmit h (the cmd);
        if st \<noteq> EC200_OK then Some (h, st)
        else prompt_loop h timeout_ms
      })"

section \<open>Raw reads\<close>

function read_raw_loop ::
    "'w ec200_handle \<Rightarrow> char list \<Rightarrow> nat \<Rightarrow> nat
     \<Rightarrow> 'w ec200_handle \<times> ec200_status \<times> char list \<times> nat" where
  "read_raw_loop h buf len budget =
     (let slice = poll_slice budget in
      case h_read h len slice (user_ctx h) of
        (n, d, w) \<Rightarrow>
          (let h' = h\<lparr>user_ctx := w\<rparr> in
           if n < 0 then (h', EC200_ERR_IO, mem_store buf 0 d, 0)
           else if n > 0 then (h', EC200_OK, mem_store buf 0 d, cast_u16 n)
           else if budget = 0 then (h', EC200_ERR_TIMEOUT, mem_store buf 0 d, 0)
           else read_raw_loop h' (mem_store buf 0 d) len (budget - slice)))"
  by pat_completeness auto
termination
  by (relation "measure (\<lambda>(h, buf, len, budget). budget)") (auto simp: poll_slice_less)

declare read_raw_loop.simps [simp del]

text \<open>
  \<open>buf\<close> is the caller's array (\<open>None\<close>: NULL), \<open>bytes_read\<close> the count it points to.
\<close>

definition ec200_at_read_raw ::
    "'w ec200_handle \<Rightarrow> char list option \<Rightarrow> nat \<Rightarrow> nat \<Rightarrow> nat option
     \<Rightarrow> ('w ec200_handle \<times> ec200_status \<times> char list option \<times> nat option) option" where
  "ec200_at_read_raw h buf len timeout_ms bytes_read =
     (if \<not> handle_ready h \<or> buf = None \<or> bytes_read = None \<or> len = 0
      then Some (h, EC200_ERR_NOT_READY, buf, bytes_read)
      else (case rx_take_buffered h (the buf) len of
              (h, b, got) \<Rightarrow>
                if got > 0 then Some (h, EC200_OK, Some b, Some got)
                else (case read_raw_loop h b len timeout_ms of
                        (h, st, b, n) \<Rightarrow> Some (h, st, Some b, Some n))))"

partial_function (option) read_exact_loop ::
    "'w ec200_handle \<Rightarrow> char list \<Rightarrow> nat \<Rightarrow> nat \<Rightarrow> nat
     \<Rightarrow> ('w ec200_handle \<times> ec200_status \<times> char list \<times> nat) option" where
  "read_exact_loop h buf len got budget =
     (if got < len then
        (let slice = poll_slice budget in
         case h_read h (len - got) slice (user_ctx h) of
           (n, d, w) \<Rightarrow>
             (let h' = h\<lparr>user_ctx := w\<rparr>; buf' = mem_store buf got d in
              if n < 0 then Some (h', EC200_ERR_IO, buf', got)
              else if n > 0 then
                (if cast_u16 n > len - got then Some (h', EC200_ERR_IO, buf', got)
                 else read_exact_loop h' buf' len (got + cast_u16 n) budget)
              else if budget = 0 then Some (h', EC200_ERR_TIMEOUT, buf', got)
              else read_exact_loop h' buf' len got (budget - slice)))
      else Some (h, EC200_OK, buf, got))"

declare read_exact_loop.simps [code]

definition ec200_at_read_exact ::
    "'w ec200_handle \<Rightarrow> char list option \<Rightarrow> nat \<Rightarrow> nat \<Rightarrow> nat option
     \<Rightarrow> ('w ec200_handle \<times> ec200_status \<times> char list option \<times> nat option) option" where
  "ec200_at_read_exact h buf len timeout_ms bytes_read =
     (if \<not> handle_ready h \<or> buf = None \<or> bytes_read = None
      then Some (h, EC200_ERR_NOT_READY, buf, bytes_read)
      else (case rx_take_buffered h (the buf) len of
              (h, b, got) \<Rightarrow> do {
                (h, st, b, n) \<leftarrow> read_exact_loop h b len got timeout_ms;
                Some (h, st, Some b, Some n)
              }))"

section \<open>The URC table\<close>

text \<open>The slot a first loop finds: the first one holding exactly this prefix.\<close>

fun find_slot :: "(('w ec200_urc_entry) \<Rightarrow> bool) \<Rightarrow> 'w ec200_urc_entry list \<Rightarrow> nat option" where
  "find_slot P [] = None"
| "find_slot P (e # es) = (if P e then Some 0 else map_option Suc (find_slot P es))"

definition ec200_at_register_urc ::
    "'w ec200_handle \<Rightarrow> string option \<Rightarrow> 'w urc_handler_fn option \<Rightarrow> urc_ctx
     \<Rightarrow> 'w ec200_handle \<times> ec200_status" where
  "ec200_at_register_urc h prefix handler ctx =
     (if prefix = None \<or> prefix = Some [] \<or> handler = None then (h, EC200_ERR_PARAM)
      else case find_slot (\<lambda>e. ue_prefix e = prefix) (urc_table h) of
             Some i \<Rightarrow>
               (h\<lparr>urc_table := (urc_table h)
                    [i := (urc_table h ! i)\<lparr>ue_fn := handler, ue_ctx := ctx\<rparr>]\<rparr>, EC200_OK)
           | None \<Rightarrow>
               (case find_slot (\<lambda>e. ue_prefix e = None) (urc_table h) of
                  Some i \<Rightarrow>
                    (h\<lparr>urc_table := (urc_table h)
                         [i := \<lparr>ue_prefix = prefix, ue_fn = handler, ue_ctx = ctx\<rparr>]\<rparr>,
                     EC200_OK)
                | None \<Rightarrow> (h, EC200_ERR_OVERFLOW)))"

definition ec200_at_unregister_urc ::
    "'w ec200_handle \<Rightarrow> string option \<Rightarrow> 'w ec200_handle \<times> ec200_status" where
  "ec200_at_unregister_urc h prefix =
     (if prefix = None then (h, EC200_ERR_PARAM)
      else case find_slot (\<lambda>e. ue_prefix e = prefix) (urc_table h) of
             Some i \<Rightarrow> (h\<lparr>urc_table := (urc_table h)[i := free_urc_entry]\<rparr>, EC200_OK)
           | None \<Rightarrow> (h, EC200_ERR_PARAM))"

fun poll_loop ::
    "nat \<Rightarrow> 'w ec200_handle \<Rightarrow> nat \<Rightarrow> ('w ec200_handle \<times> ec200_status) option" where
  "poll_loop 0 h budget = Some (h, EC200_OK)"
| "poll_loop (Suc k) h budget = do {
     (h, rc, budget) \<leftarrow> rx_line h budget;
     case rc of
       RX_IO_ERROR \<Rightarrow> Some (h, EC200_ERR_IO)
     | RX_TIMEOUT \<Rightarrow> Some (h, EC200_OK)
     | RX_OK line \<Rightarrow>
         if line = [] then poll_loop k h budget
         else (case dispatch_registered_urc h line of
                 (h, True) \<Rightarrow> poll_loop k h budget
               | (h, False) \<Rightarrow>
                   (case urc_handler h of
                      Some f \<Rightarrow> poll_loop k (h\<lparr>user_ctx := f line (user_ctx h)\<rparr>) budget
                    | None \<Rightarrow> poll_loop k h budget))
   }"

definition ec200_at_poll_urc ::
    "'w ec200_handle \<Rightarrow> nat \<Rightarrow> ('w ec200_handle \<times> ec200_status) option" where
  "ec200_at_poll_urc h timeout_ms =
     (if \<not> handle_ready h then Some (h, EC200_ERR_NOT_READY)
      else if ppp_data_mode h then Some (h, EC200_ERR_BUSY)
      else poll_loop EC200_AT_MAX_LINES h timeout_ms)"

section \<open>Response parsing and error introspection\<close>

text \<open>
  The scan over fields: skip \<open>index\<close> separators that are not inside quotes. \<open>None\<close> when
  the string ends first.
\<close>

fun seek_field :: "nat \<Rightarrow> bool \<Rightarrow> string \<Rightarrow> string option" where
  "seek_field 0 inq p = Some p"
| "seek_field (Suc k) inq [] = None"
| "seek_field (Suc k) inq (c # p) =
     (if c = DQUOTE then seek_field (Suc k) (\<not> inq) p
      else if c = CHR '','' \<and> \<not> inq then seek_field k inq p
      else seek_field (Suc k) inq p)"

text \<open>\<open>None\<close> stands for \<open>EC200_ERR_PARSE\<close>, \<open>Some v\<close> for \<open>EC200_OK\<close> with the value.\<close>

definition ec200_at_parse_int_field :: "string \<Rightarrow> nat \<Rightarrow> int option" where
  "ec200_at_parse_int_field line index =
     (case seek_field index False (skip_spaces (after_colon line)) of
        None \<Rightarrow> None
      | Some p \<Rightarrow>
          (let p = skip_spaces p in
           if p \<noteq> [] \<and> (hd p = CHR ''-'' \<or> is_digit (hd p)) then Some (atoi p) else None))"

definition ec200_at_last_error_text :: "'w ec200_handle \<Rightarrow> string" where
  "ec200_at_last_error_text h = last_err_text h"

definition ec200_at_last_cme_error :: "'w ec200_handle \<Rightarrow> int" where
  "ec200_at_last_cme_error h = last_cme_error h"

definition ec200_at_last_cms_error :: "'w ec200_handle \<Rightarrow> int" where
  "ec200_at_last_cms_error h = last_cms_error h"

end
