(* ===== verification/Ec200_Frame.thy ===== *)
theory Ec200_Frame
  imports Ec200_At
begin

text \<open>
  What the AT engine may change. Every operation of the engine changes the handle only by
  elementary updates: what a callback does to the world, the receive buffer, the transmit
  buffer and the error state. The locale \<open>rx_frame\<close> is the contract of a relation
  between the handle before and after that the updates of the receiving side respect, and
  \<open>at_frame\<close> extends it by those of the sending side. Inside them every operation is
  shown to respect the relation too, once for all relations. The interpretations give the
  well-formedness invariant of the handle and two frame conditions.
\<close>

locale rx_frame =
  fixes R :: "'w ec200_handle \<Rightarrow> 'w ec200_handle \<Rightarrow> bool"
  assumes R_refl: "R h h"
    and R_transp: "transp R"
    and R_read: "h_read h n tmo (user_ctx h) = (n', d, w) \<Longrightarrow> R h (h\<lparr>user_ctx := w\<rparr>)"
    and R_urc: "e \<in> set (urc_table h) \<Longrightarrow> ue_fn e = Some (UserUrc g) \<Longrightarrow>
                R h (h\<lparr>user_ctx := g line (ue_ctx e) (user_ctx h)\<rparr>)"
    and R_msg: "mqtt_msg_cb h = Some cb \<Longrightarrow> R h (h\<lparr>user_ctx := cb m (user_ctx h)\<rparr>)"
    and R_fallback: "urc_handler h = Some f \<Longrightarrow> R h (h\<lparr>user_ctx := f line (user_ctx h)\<rparr>)"
    and R_rx: "length b \<le> max (EC200_RX_BUFFER_SIZE - 1) (length (rx_buf h)) \<Longrightarrow>
               R h (h\<lparr>rx_buf := b\<rparr>)"
    and R_overlong: "R h (h\<lparr>rx_overlong := ov\<rparr>)"
    and R_cme: "R h (h\<lparr>last_cme_error := c\<rparr>)"
    and R_cms: "R h (h\<lparr>last_cms_error := c\<rparr>)"
    and R_text: "length t < EC200_MAX_ERR_TEXT_LEN \<Longrightarrow> R h (h\<lparr>last_err_text := t\<rparr>)"
    and R_kind: "k \<le> 2 \<Longrightarrow> R h (h\<lparr>last_err_kind := k\<rparr>)"

locale at_frame = rx_frame R for R :: "'w ec200_handle \<Rightarrow> 'w ec200_handle \<Rightarrow> bool" +
  assumes R_write: "h_write h d (user_ctx h) = (n, w) \<Longrightarrow> R h (h\<lparr>user_ctx := w\<rparr>)"
    and R_delay: "R h (h\<lparr>user_ctx := h_delay_ms h ms (user_ctx h)\<rparr>)"
    and R_tx: "length t < EC200_TX_BUFFER_SIZE \<Longrightarrow> R h (h\<lparr>tx_buf := t\<rparr>)"

section \<open>The receiving side\<close>

context rx_frame
begin

lemma R_trans: "R a b \<Longrightarrow> R b c \<Longrightarrow> R a c"
  using R_transp by (rule transpD)

lemma keeps_seq:
  assumes "keeps R h m" and "\<And>h' a. R h h' \<Longrightarrow> keeps R h' (f h' a)"
  shows "keeps R h (Option.bind m (\<lambda>(h', a). f h' a))"
  using R_transp assms by (rule keeps_bind)

lemma keeps_after: "R h h' \<Longrightarrow> keeps R h' m \<Longrightarrow> keeps R h m"
  by (auto simp: keeps_def intro: R_trans)

lemma keeps_ret: "R h h' \<Longrightarrow> keeps R h (Some (h', a))"
  by (rule keeps_Some)

lemma keeps_same: "keeps R h (Some (h, a))"
  by (rule keeps_Some) (rule R_refl)

lemma R_getc: "rx_getc h budget = (h', r) \<Longrightarrow> R h h'"
proof (induction h budget arbitrary: h' r rule: rx_getc.induct)
  case (1 h budget)
  obtain n d w where rd: "h_read h 1 (poll_slice budget) (user_ctx h) = (n, d, w)"
    by (cases "h_read h 1 (poll_slice budget) (user_ctx h)") auto
  show ?case
  proof (cases "n = 0 \<and> budget \<noteq> 0")
    case True
    then have "rx_getc (h\<lparr>user_ctx := w\<rparr>) (budget - poll_slice budget) = (h', r)"
      using "1.prems" rd by (simp add: rx_getc.simps [of h budget])
    then have "R (h\<lparr>user_ctx := w\<rparr>) h'"
      using "1.IH" [OF refl rd [symmetric] refl refl] True by simp
    with R_read [OF rd] show ?thesis by (rule R_trans)
  next
    case False
    then have "h' = h\<lparr>user_ctx := w\<rparr>"
      using "1.prems" rd by (auto simp: rx_getc.simps [of h budget] Let_def split: if_splits)
    then show ?thesis by (simp add: R_read [OF rd])
  qed
qed

lemma R_feed: "rx_feed h ch = (h', r) \<Longrightarrow> R h h'"
proof -
  assume eq: "rx_feed h ch = (h', r)"
  have "R h (h\<lparr>rx_buf := [], rx_overlong := False\<rparr>)"
    by (rule R_trans [OF R_rx R_overlong]) simp
  then show ?thesis
    using eq by (auto simp: rx_feed_def R_refl R_overlong intro!: R_rx split: if_splits)
qed

lemma R_line: "rx_line h budget = Some (h', r) \<Longrightarrow> R h h'"
proof -
  assume ret: "rx_line h budget = Some (h', r)"
  have "R h (fst (h', r))"
  proof (rule rx_line.raw_induct [where P = "\<lambda>h b x. R h (fst x)", OF _ ret])
    fix f h budget x
    assume IH: "\<And>h b y. f h b = Some y \<Longrightarrow> R h (fst y)"
      and eq: "(case rx_getc h budget of (h, rc, budget) \<Rightarrow>
          (case rc of RX_OK ch \<Rightarrow> (case rx_feed h ch of (h, None) \<Rightarrow> f h budget
                                    | (h, Some line) \<Rightarrow> Some (h, RX_OK line, budget))
           | RX_TIMEOUT \<Rightarrow> Some (h, RX_TIMEOUT, budget)
           | RX_IO_ERROR \<Rightarrow> Some (h, RX_IO_ERROR, budget))) = Some x"
    obtain h1 rc b1 where g: "rx_getc h budget = (h1, rc, b1)" by (cases "rx_getc h budget") auto
    from R_getc [OF g] have 1: "R h h1" .
    show "R h (fst x)"
    proof (cases rc)
      case (RX_OK ch)
      obtain h2 l where fd: "rx_feed h1 ch = (h2, l)" by (cases "rx_feed h1 ch") auto
      from 1 R_feed [OF fd] have 2: "R h h2" by (rule R_trans)
      show ?thesis
        using eq g fd RX_OK 2 R_trans IH by (cases l) auto
    qed (use eq g 1 in auto)
  qed
  then show ?thesis by simp
qed

lemma keeps_line: "keeps R h (rx_line h budget)"
  by (rule keepsI) (rule R_line)


lemma R_record_error: "R h (record_error h p f)"
proof -
  have "R h (set_err_code f c h)" for c
    by (cases f) (simp_all add: set_err_code_def R_cme R_cms)
  then show ?thesis
    by (auto simp: record_error_def Let_def size_defs intro!: R_trans [OF _ R_text]
        copy_trunc_length)
qed

lemma R_terminal: "is_terminal h line = (h', t) \<Longrightarrow> R h h'"
  by (auto simp: is_terminal_def R_refl intro!: R_trans [OF R_record_error R_kind]
      split: if_splits)

lemma R_mqtt_recv: "R h (mqtt_recv_urc line ctx h)"
  by (simp add: mqtt_recv_urc_def R_refl R_msg split: option.split)

lemma R_call_urc:
  "e \<in> set (urc_table h) \<Longrightarrow> ue_fn e = Some f \<Longrightarrow>
   R h (call_urc_handler f line (ue_ctx e) h)"
  by (cases f) (simp_all add: call_urc_handler_def R_urc R_mqtt_recv)

lemma R_dispatch_slots:
  "dispatch_slots es h line = (h', b) \<Longrightarrow> set es \<subseteq> set (urc_table h) \<Longrightarrow> R h h'"
  by (induction es h line rule: dispatch_slots.induct)
    (auto simp: R_refl R_call_urc split: option.splits if_splits)

lemma R_dispatch: "dispatch_registered_urc h line = (h', b) \<Longrightarrow> R h h'"
  by (simp add: dispatch_registered_urc_def R_dispatch_slots)

lemma R_dispatch_fst: "R h (fst (dispatch_registered_urc h line))"
  by (cases "dispatch_registered_urc h line") (simp add: R_dispatch)

lemma R_reset: "R h (reset_error_state h)"
proof -
  have "R h (h\<lparr>last_cme_error := -1, last_cms_error := -1\<rparr>)"
    by (rule R_trans [OF R_cme R_cms])
  then have "R h (h\<lparr>last_cme_error := -1, last_cms_error := -1, last_err_kind := 0\<rparr>)"
    by (rule R_trans [OF _ R_kind]) simp
  then show ?thesis
    unfolding reset_error_state_def
    by (rule R_trans [OF _ R_text]) (simp add: size_defs)
qed

text \<open>
  One rule per construct of the engine: the current state of a \<open>keeps\<close> goal moves along
  the code, so that a body is decomposed by \<open>intro keeps_code\<close>.
\<close>

lemma keeps_getc:
  "(\<And>h' rc b. keeps R h' (f h' rc b)) \<Longrightarrow>
   keeps R h (case rx_getc h budget of (h', rc, b) \<Rightarrow> f h' rc b)"
  by (cases "rx_getc h budget") (auto intro: keeps_after R_getc)

lemma keeps_feed:
  "(\<And>h' r. keeps R h' (f h' r)) \<Longrightarrow> keeps R h (case rx_feed h ch of (h', r) \<Rightarrow> f h' r)"
  by (cases "rx_feed h ch") (auto intro: keeps_after R_feed)

lemma keeps_terminal:
  "(\<And>h' t. keeps R h' (f h' t)) \<Longrightarrow>
   keeps R h (case is_terminal h line of (h', t) \<Rightarrow> f h' t)"
  by (cases "is_terminal h line") (auto intro: keeps_after R_terminal)

lemma keeps_dispatch:
  "(\<And>h' b. keeps R h' (f h' b)) \<Longrightarrow>
   keeps R h (case dispatch_registered_urc h line of (h', b) \<Rightarrow> f h' b)"
  by (cases "dispatch_registered_urc h line") (auto intro: keeps_after R_dispatch)

lemma keeps_rx_rc:
  "(\<And>x. rc = RX_OK x \<Longrightarrow> keeps R h (f x)) \<Longrightarrow> keeps R h m \<Longrightarrow> keeps R h m' \<Longrightarrow>
   keeps R h (case rc of RX_OK x \<Rightarrow> f x | RX_TIMEOUT \<Rightarrow> m | RX_IO_ERROR \<Rightarrow> m')"
  by (cases rc) simp_all

lemma keeps_term:
  "keeps R h m \<Longrightarrow> keeps R h m' \<Longrightarrow> keeps R h m'' \<Longrightarrow>
   keeps R h (case t of TERM_NONE \<Rightarrow> m | TERM_OK \<Rightarrow> m' | TERM_ERR \<Rightarrow> m'')"
  by (cases t) simp_all

lemma keeps_bool:
  "keeps R h m \<Longrightarrow> keeps R h m' \<Longrightarrow> keeps R h (case b of True \<Rightarrow> m | False \<Rightarrow> m')"
  by (cases b) simp_all

lemma keeps_line_seq:
  assumes "\<And>h' rc b. keeps R h' (f h' rc b)"
  shows "keeps R h (Option.bind (rx_line h budget) (\<lambda>(h', rc, b). f h' rc b))"
  by (rule keeps_seq [OF keeps_line]) (auto intro: assms)

lemmas keeps_code =
  keeps_line_seq keeps_getc keeps_feed keeps_terminal keeps_dispatch keeps_rx_rc keeps_term
  keeps_bool keeps_if keeps_option keeps_None keeps_same

lemma keeps_receive_loop: "keeps R h (receive_loop k h prefix stop matched buf budget)"
proof (induction k arbitrary: h matched buf budget)
  case 0
  then show ?case by (simp add: keeps_same)
next
  case (Suc k)
  show ?case
    unfolding receive_loop.simps by (intro keeps_code Suc.IH)
qed

lemma keeps_receive: "keeps R h (receive_transaction h prefix stop buf t)"
  by (simp add: receive_transaction_def keeps_receive_loop)

lemma keeps_wait_prefix_loop: "keeps R h (wait_prefix_loop k h prefix buf budget)"
proof (induction k arbitrary: h budget)
  case 0
  then show ?case by (simp add: keeps_same)
next
  case (Suc k)
  show ?case
    unfolding wait_prefix_loop.simps
    by (intro keeps_code Suc.IH keeps_after [OF R_dispatch_fst Suc.IH])
qed

lemma keeps_wait_final_loop: "keeps R h (wait_final_loop k h budget)"
proof (induction k arbitrary: h budget)
  case 0
  then show ?case by (simp add: keeps_same)
next
  case (Suc k)
  show ?case
    unfolding wait_final_loop.simps
    by (intro keeps_code Suc.IH keeps_after [OF R_dispatch_fst Suc.IH])
qed

lemma keeps_poll_loop: "keeps R h (poll_loop k h budget)"
proof (induction k arbitrary: h budget)
  case 0
  then show ?case by (simp add: keeps_same)
next
  case (Suc k)
  show ?case
    unfolding poll_loop.simps
    by (intro keeps_code keeps_option Suc.IH keeps_after [OF R_fallback Suc.IH])
qed

lemma keeps_prompt_loop: "keeps R h (prompt_loop h budget)"
proof (rule keepsI)
  fix h' st
  assume ret: "prompt_loop h budget = Some (h', st)"
  have "keeps R h (Some (h', st))"
  proof (rule prompt_loop.raw_induct [where P = "\<lambda>h b x. keeps R h (Some x)", OF _ ret])
    fix f :: "'w ec200_handle \<Rightarrow> nat \<Rightarrow> ('w ec200_handle \<times> ec200_status) option"
      and h budget x
    assume IH: "\<And>h b y. f h b = Some y \<Longrightarrow> keeps R h (Some y)"
    have f: "keeps R h (f h b)" for h b
      using IH [of h b] by (cases "f h b") (auto simp: keeps_None)
    assume eq: "(case rx_getc h budget of
        (h, rc, budget) \<Rightarrow>
          (case rc of
             RX_OK ch \<Rightarrow>
               if ch = CHR ''>'' \<and> rx_buf h = [] then
                 (case rx_getc h 0 of
                    (h, RX_OK sp, _) \<Rightarrow>
                      if sp \<noteq> CHR '' '' then Some (fst (rx_feed h sp), EC200_OK)
                      else Some (h, EC200_OK)
                  | (h, RX_TIMEOUT, _) \<Rightarrow> Some (h, EC200_OK)
                  | (h, RX_IO_ERROR, _) \<Rightarrow> Some (h, EC200_OK))
               else
                 (case rx_feed h ch of
                    (h, None) \<Rightarrow> f h budget
                  | (h, Some line) \<Rightarrow>
                      if line = [] then f h budget
                      else (case is_terminal h line of
                              (h, TERM_NONE) \<Rightarrow>
                                f (fst (dispatch_registered_urc h line)) budget
                            | (h, TERM_OK) \<Rightarrow> Some (h, EC200_ERR_PARSE)
                            | (h, TERM_ERR) \<Rightarrow> Some (h, map_error_terminal h)))
           | RX_TIMEOUT \<Rightarrow> Some (h, EC200_ERR_TIMEOUT)
           | RX_IO_ERROR \<Rightarrow> Some (h, EC200_ERR_IO))) = Some x"
    have fd: "keeps R h (Some (fst (rx_feed h sp), r))" for h sp and r :: ec200_status
      by (cases "rx_feed h sp") (auto intro: keeps_ret R_feed)
    show "keeps R h (Some x)"
      unfolding eq [symmetric]
      by (intro keeps_code f fd keeps_after [OF R_dispatch_fst f])
  qed
  then show "R h h'" by (rule keepsD) (rule refl)
qed

lemma keeps_read_exact_loop: "keeps R h (read_exact_loop h buf len got budget)"
proof (rule keepsI)
  fix h' r
  assume ret: "read_exact_loop h buf len got budget = Some (h', r)"
  have "keeps R h (Some (h', r))"
  proof (rule read_exact_loop.raw_induct
      [where P = "\<lambda>h buf len got b x. keeps R h (Some x)", OF _ ret])
    fix f :: "'w ec200_handle \<Rightarrow> char list \<Rightarrow> nat \<Rightarrow> nat \<Rightarrow> nat
        \<Rightarrow> ('w ec200_handle \<times> ec200_status \<times> char list \<times> nat) option"
      and h buf len got budget x
    assume IH: "\<And>h buf len got b y. f h buf len got b = Some y \<Longrightarrow> keeps R h (Some y)"
    have f: "keeps R h (f h buf len got b)" for h buf len got b
      using IH [of h buf len got b] by (cases "f h buf len got b") (auto simp: keeps_None)
    assume eq: "(if got < len then
        (let slice = poll_slice budget in
         case h_read h (len - got) slice (user_ctx h) of
           (n, d, w) \<Rightarrow>
             (let h' = h\<lparr>user_ctx := w\<rparr>; buf' = mem_store buf got d in
              if n < 0 then Some (h', EC200_ERR_IO, buf', got)
              else if 0 < n then
                (if len - got < cast_u16 n then Some (h', EC200_ERR_IO, buf', got)
                 else f h' buf' len (got + cast_u16 n) budget)
              else if budget = 0 then Some (h', EC200_ERR_TIMEOUT, buf', got)
              else f h' buf' len got (budget - slice)))
      else Some (h, EC200_OK, buf, got)) = Some x"
    obtain n d w where rd: "h_read h (len - got) (poll_slice budget) (user_ctx h) = (n, d, w)"
      by (cases "h_read h (len - got) (poll_slice budget) (user_ctx h)") auto
    note R1 = R_read [OF rd]
    show "keeps R h (Some x)"
      unfolding eq [symmetric] Let_def rd prod.case
      by (intro keeps_if keeps_same keeps_ret [OF R1] keeps_after [OF R1 f])
  qed
  then show "R h h'" by (rule keepsD) (rule refl)
qed

lemma R_read_raw_loop: "read_raw_loop h buf len budget = (h', r) \<Longrightarrow> R h h'"
proof (induction h buf len budget arbitrary: h' r rule: read_raw_loop.induct)
  case (1 h buf len budget)
  obtain n d w where rd: "h_read h len (poll_slice budget) (user_ctx h) = (n, d, w)"
    by (cases "h_read h len (poll_slice budget) (user_ctx h)") auto
  show ?case
  proof (cases "n = 0 \<and> budget \<noteq> 0")
    case True
    then have "read_raw_loop (h\<lparr>user_ctx := w\<rparr>) (mem_store buf 0 d) len
                 (budget - poll_slice budget) = (h', r)"
      using "1.prems" rd by (simp add: read_raw_loop.simps [of h buf len budget])
    then have "R (h\<lparr>user_ctx := w\<rparr>) h'"
      using "1.IH" [OF refl rd [symmetric] refl refl] True by simp
    with R_read [OF rd] show ?thesis by (rule R_trans)
  next
    case False
    then have "h' = h\<lparr>user_ctx := w\<rparr>"
      using "1.prems" rd
      by (auto simp: read_raw_loop.simps [of h buf len budget] Let_def split: if_splits)
    then show ?thesis by (simp add: R_read [OF rd])
  qed
qed

lemma R_take_buffered: "rx_take_buffered h buf len = (h', r) \<Longrightarrow> R h h'"
  by (auto simp: rx_take_buffered_def Let_def R_refl split: if_splits intro!: R_rx)

lemma keeps_take_buffered:
  "(\<And>h' b n. keeps R h' (f h' b n)) \<Longrightarrow>
   keeps R h (case rx_take_buffered h buf len of (h', b, n) \<Rightarrow> f h' b n)"
  by (cases "rx_take_buffered h buf len") (auto intro: keeps_after R_take_buffered)

lemma keeps_read_raw_case:
  "(\<And>h' st b n. keeps R h' (f h' st b n)) \<Longrightarrow>
   keeps R h (case read_raw_loop h buf len t of (h', st, b, n) \<Rightarrow> f h' st b n)"
  by (cases "read_raw_loop h buf len t") (auto intro: keeps_after R_read_raw_loop)

lemma keeps_read_raw: "keeps R h (ec200_at_read_raw h buf len t br)"
  unfolding ec200_at_read_raw_def
  by (intro keeps_code keeps_take_buffered keeps_read_raw_case)

lemma keeps_read_exact: "keeps R h (ec200_at_read_exact h buf len t br)"
  unfolding ec200_at_read_exact_def
  by (intro keeps_code keeps_take_buffered keeps_seq [OF keeps_read_exact_loop])
    (auto intro: keeps_same)

lemma keeps_wait_prefix: "keeps R h (ec200_at_wait_prefix h prefix buf t)"
  by (simp add: ec200_at_wait_prefix_def keeps_wait_prefix_loop keeps_same)

lemma keeps_wait_final: "keeps R h (ec200_at_wait_final h t)"
  by (simp add: ec200_at_wait_final_def keeps_wait_final_loop keeps_same)

lemma keeps_poll: "keeps R h (ec200_at_poll_urc h t)"
  by (simp add: ec200_at_poll_urc_def keeps_poll_loop keeps_same)

lemmas keeps_rx_ops =
  keeps_wait_prefix keeps_wait_final keeps_poll keeps_read_raw keeps_read_exact

end

section \<open>The sending side\<close>

context at_frame
begin

lemma keeps_write_loop: "keeps R h (write_loop data len h sent budget)"
proof (rule keepsI)
  fix h' st
  assume ret: "write_loop data len h sent budget = Some (h', st)"
  have "R h (fst (h', st))"
  proof (rule write_loop.raw_induct [where P = "\<lambda>data len h sent b x. R h (fst x)", OF _ ret])
    fix f data len sent and h :: "'w ec200_handle" and budget :: nat and x
    assume IH: "\<And>data len h sent b y. f data len h sent b = Some y \<Longrightarrow> R h (fst y)"
      and eq: "(if sent < len then
          (case h_write h (take (len - sent) (drop sent data)) (user_ctx h) of (n, w) \<Rightarrow>
             (let h' = h\<lparr>user_ctx := w\<rparr> in
              if n < 0 then Some (h', EC200_ERR_IO)
              else if n = 0 then
                (if budget = 0 then Some (h', EC200_ERR_TIMEOUT)
                 else f data len (h'\<lparr>user_ctx := h_delay_ms h' 5 (user_ctx h')\<rparr>) sent
                        (if 5 \<le> budget then budget - 5 else 0))
              else if len - sent < cast_u16 n then Some (h', EC200_ERR_IO)
              else f data len h' (sent + cast_u16 n) budget))
          else Some (h, EC200_OK)) = Some x"
    obtain n w where wr: "h_write h (take (len - sent) (drop sent data)) (user_ctx h) = (n, w)"
      by (cases "h_write h (take (len - sent) (drop sent data)) (user_ctx h)") auto
    note w1 = R_write [OF wr]
    have w2: "R h (h\<lparr>user_ctx := h_delay_ms h 5 w\<rparr>)"
      using R_trans [OF w1 R_delay [where ms = 5]] by simp
    show "R h (fst x)"
      using eq wr by (auto simp: Let_def R_refl w1 split: if_splits dest!: IH
          intro: R_trans [OF w1] R_trans [OF w2])
  qed
  then show "R h h'" by simp
qed

lemma keeps_write_raw: "keeps R h (ec200_at_write_raw h data len)"
  by (simp add: ec200_at_write_raw_def keeps_write_loop keeps_same)

lemma keeps_transmit: "keeps R h (at_transmit h cmd)"
proof -
  have "R h ((reset_error_state h)\<lparr>tx_buf := snprintf EC200_TX_BUFFER_SIZE t\<rparr>)" for t
    by (rule R_trans [OF R_reset R_tx]) (simp add: snprintf_def size_defs)
  then show ?thesis
    by (auto simp: at_transmit_def Let_def keeps_same
        intro!: keeps_ret keeps_after [OF _ keeps_write_raw])
qed

lemma keeps_send: "keeps R h (ec200_at_send h cmd buf t)"
  unfolding ec200_at_send_def
  by (intro keeps_code keeps_seq [OF keeps_transmit] keeps_receive)

lemma keeps_send_wait: "keeps R h (ec200_at_send_wait h cmd prefix buf t)"
  unfolding ec200_at_send_wait_def
  by (intro keeps_code keeps_seq [OF keeps_transmit] keeps_receive)

lemma keeps_send_expect: "keeps R h (ec200_at_send_expect h cmd prefix buf t)"
  unfolding ec200_at_send_expect_def
  by (intro keeps_code keeps_seq [OF keeps_transmit] keeps_receive)

lemma keeps_send_await_urc: "keeps R h (ec200_at_send_await_urc h cmd prefix buf t t')"
  unfolding ec200_at_send_await_urc_def
  by (intro keeps_code keeps_seq [OF keeps_transmit] keeps_seq [OF keeps_receive]
      keeps_seq [OF keeps_wait_final] keeps_wait_prefix keeps_prod)

lemma keeps_send_prompt: "keeps R h (ec200_at_send_prompt h cmd t)"
  unfolding ec200_at_send_prompt_def
  by (intro keeps_code keeps_seq [OF keeps_transmit] keeps_prompt_loop)

text \<open>The operations the other components call, and the rules for their bodies.\<close>

lemmas keeps_at_ops =
  keeps_send keeps_send_wait keeps_send_expect keeps_send_await_urc keeps_send_prompt
  keeps_rx_ops keeps_write_raw

lemmas keeps_body = keeps_at_ops keeps_seq keeps_if keeps_option keeps_None keeps_same keeps_prod

end

section \<open>The invariant of the handle\<close>

text \<open>
  The bounds that make every array access of the handle safe: the fill level of each
  buffer leaves room for the terminating NUL, the error kind is one of the three values
  the code distinguishes, and the dispatch table has its eight slots.
\<close>

definition handle_wf :: "'w ec200_handle \<Rightarrow> bool" where
  "handle_wf h \<longleftrightarrow>
     length (rx_buf h) < EC200_RX_BUFFER_SIZE \<and>
     length (tx_buf h) < EC200_TX_BUFFER_SIZE \<and>
     length (last_err_text h) < EC200_MAX_ERR_TEXT_LEN \<and>
     last_err_kind h \<le> 2 \<and>
     length (urc_table h) = EC200_MAX_URC_HANDLERS"

text \<open>What the application configured and \<open>ec200_init\<close> set up.\<close>

definition same_setup :: "'w ec200_handle \<Rightarrow> 'w ec200_handle \<Rightarrow> bool" where
  "same_setup h h' \<longleftrightarrow>
     h_write h' = h_write h \<and> h_read h' = h_read h \<and> h_delay_ms h' = h_delay_ms h \<and>
     urc_handler h' = urc_handler h \<and> mqtt_msg_cb h' = mqtt_msg_cb h \<and>
     urc_table h' = urc_table h \<and> initialised h' = initialised h"

interpretation wfr: at_frame "\<lambda>h h'. handle_wf h \<longrightarrow> handle_wf h'"
  by unfold_locales (auto simp: handle_wf_def size_defs intro!: transpI)

interpretation pppr: at_frame "\<lambda>h h'. ppp_data_mode h' = ppp_data_mode h"
  by unfold_locales (auto intro!: transpI)

interpretation cfgr: at_frame same_setup
  by unfold_locales (auto simp: same_setup_def intro!: transpI)

end
