(* ===== verification/Ec200_Core.thy ===== *)
theory Ec200_Core
  imports Ec200_Frame
begin

text \<open>
  Initialisation and identification, \<^verbatim>\<open>src/ec200.c\<close>. A handle is always a valid
  object here (the source's checks against a NULL handle have no counterpart); callbacks and
  buffers that may be NULL are options. \<open>body_line\<close> and \<open>store_string\<close> are the
  steps the identity getters share: the first line of the response body, and a copy that
  refuses to truncate.
\<close>

section \<open>Response bodies\<close>

text \<open>\<open>nl = strchr (resp, '\n'); if (nl) *nl = 0\<close>\<close>

definition body_line :: "string \<Rightarrow> string" where
  "body_line s = takeWhile (\<lambda>c. c \<noteq> LF) s"

text \<open>The final copy of the getters into the caller's non-NULL array of \<open>sz > 0\<close> bytes.\<close>

definition store_string :: "string \<Rightarrow> cbuf \<Rightarrow> ec200_status \<times> cbuf" where
  "store_string s out =
     (if s = [] then (EC200_ERR_PARSE, out)
      else case out of
             None \<Rightarrow> (EC200_ERR_PARAM, out)
           | Some (sz, old) \<Rightarrow>
               if length s \<ge> sz then (EC200_ERR_OVERFLOW, out)
               else (EC200_OK, Some (sz, s)))"

definition no_buf :: "cbuf \<Rightarrow> bool" where
  "no_buf b = (case b of None \<Rightarrow> True | Some (sz, s) \<Rightarrow> sz = 0)"

definition get_string_response ::
    "'w ec200_handle \<Rightarrow> string \<Rightarrow> cbuf \<Rightarrow> ('w ec200_handle \<times> ec200_status \<times> cbuf) option" where
  "get_string_response h cmd out = do {
     (h, st, resp) \<leftarrow> ec200_at_send h (Some cmd) (char_buf EC200_MAX_FW_VER_LEN)
                        EC200_AT_TIMEOUT_DEFAULT;
     if st \<noteq> EC200_OK then Some (h, st, out)
     else Some (h, store_string (body_line (buf_text resp)) out)
   }"

section \<open>Commands without a response body\<close>

text \<open>\<open>ec200_at_send (h, cmd, NULL, 0, timeout)\<close>, the form most setters end with.\<close>

definition send_plain ::
    "'w ec200_handle \<Rightarrow> string \<Rightarrow> nat \<Rightarrow> ('w ec200_handle \<times> ec200_status) option" where
  "send_plain h cmd timeout_ms = do {
     (h, st, _) \<leftarrow> ec200_at_send h (Some cmd) None timeout_ms;
     Some (h, st)
   }"

definition ec200_check_at :: "'w ec200_handle \<Rightarrow> ('w ec200_handle \<times> ec200_status) option" where
  "ec200_check_at h = send_plain h ''AT'' EC200_AT_TIMEOUT_DEFAULT"

definition ec200_set_echo ::
    "'w ec200_handle \<Rightarrow> bool \<Rightarrow> ('w ec200_handle \<times> ec200_status) option" where
  "ec200_set_echo h enable =
     send_plain h (if enable then ''ATE1'' else ''ATE0'') EC200_AT_TIMEOUT_DEFAULT"

definition ec200_set_cmee ::
    "'w ec200_handle \<Rightarrow> nat \<Rightarrow> ('w ec200_handle \<times> ec200_status) option" where
  "ec200_set_cmee h mode =
     (if mode > 2 then Some (h, EC200_ERR_PARAM)
      else send_plain h (snprintf 16 (''AT+CMEE='' @ show_nat mode)) EC200_AT_TIMEOUT_DEFAULT)"

section \<open>Initialisation\<close>

definition fresh_handle ::
    "'w write_fn \<Rightarrow> 'w read_fn \<Rightarrow> 'w delay_fn \<Rightarrow> 'w \<Rightarrow> 'w ec200_handle" where
  "fresh_handle wr rd dl w =
     \<lparr>h_write = wr, h_read = rd, h_delay_ms = dl, user_ctx = w, urc_handler = None,
      mqtt_msg_cb = None, rx_buf = [], rx_overlong = False, tx_buf = [],
      urc_table = replicate EC200_MAX_URC_HANDLERS free_urc_entry, initialised = True,
      last_err_kind = 0, last_err_text = [], ppp_data_mode = False,
      last_cme_error = -1, last_cms_error = -1\<rparr>"

text \<open>The probe loop, with the attempts that are left and the status of the last one.\<close>

fun probe_loop ::
    "nat \<Rightarrow> 'w ec200_handle \<Rightarrow> ec200_status \<Rightarrow> ('w ec200_handle \<times> ec200_status) option" where
  "probe_loop 0 h st = Some (h, st)"
| "probe_loop (Suc k) h st = do {
     (h, st) \<leftarrow> ec200_check_at h;
     if st = EC200_OK then Some (h, st)
     else probe_loop k (h\<lparr>user_ctx := h_delay_ms h 500 (user_ctx h)\<rparr>) st
   }"

definition ec200_init ::
    "'w ec200_handle \<Rightarrow> 'w write_fn option \<Rightarrow> 'w read_fn option \<Rightarrow> 'w delay_fn option \<Rightarrow> 'w
     \<Rightarrow> ('w ec200_handle \<times> ec200_status) option" where
  "ec200_init h write_fn read_fn delay_fn ctx =
     (if write_fn = None \<or> read_fn = None \<or> delay_fn = None then Some (h, EC200_ERR_PARAM)
      else do {
        let h = fresh_handle (the write_fn) (the read_fn) (the delay_fn) ctx;
        (h, st) \<leftarrow> probe_loop 3 h EC200_ERR_TIMEOUT;
        if st \<noteq> EC200_OK then Some (h\<lparr>initialised := False\<rparr>, EC200_ERR_TIMEOUT)
        else do {
          (h, st) \<leftarrow> ec200_set_echo h False;
          if st \<noteq> EC200_OK then Some (h\<lparr>initialised := False\<rparr>, st)
          else Some (h, EC200_OK)
        }
      })"

section \<open>Identification and settings\<close>

definition ec200_get_imei ::
    "'w ec200_handle \<Rightarrow> cbuf \<Rightarrow> ('w ec200_handle \<times> ec200_status \<times> cbuf) option" where
  "ec200_get_imei h imei =
     (if no_buf imei then Some (h, EC200_ERR_PARAM, imei)
      else get_string_response h ''AT+GSN'' imei)"

definition ec200_get_fw_version ::
    "'w ec200_handle \<Rightarrow> cbuf \<Rightarrow> ('w ec200_handle \<times> ec200_status \<times> cbuf) option" where
  "ec200_get_fw_version h ver =
     (if no_buf ver then Some (h, EC200_ERR_PARAM, ver)
      else get_string_response h ''AT+GMR'' ver)"

definition ec200_get_module_info ::
    "'w ec200_handle \<Rightarrow> cbuf \<Rightarrow> ('w ec200_handle \<times> ec200_status \<times> cbuf) option" where
  "ec200_get_module_info h info =
     (if no_buf info then Some (h, EC200_ERR_PARAM, info)
      else ec200_at_send h (Some ''ATI'') info EC200_AT_TIMEOUT_DEFAULT)"

definition ec200_set_urc_handler ::
    "'w ec200_handle \<Rightarrow> (string \<Rightarrow> 'w \<Rightarrow> 'w) option \<Rightarrow> 'w ec200_handle" where
  "ec200_set_urc_handler h handler = h\<lparr>urc_handler := handler\<rparr>"

text \<open>\<open>None\<close> stands for a null pointer.\<close>

definition ec200_status_str :: "int \<Rightarrow> string option" where
  "ec200_status_str status =
     (if status = 0 then Some ''OK''
      else if status = -1 then Some ''Timeout''
      else if status = -2 then Some ''I/O error''
      else if status = -3 then Some ''Parse error''
      else if status = -4 then Some ''+CME ERROR''
      else if status = -5 then Some ''+CMS ERROR''
      else if status = -6 then Some ''Busy''
      else if status = -7 then Some ''Invalid parameter''
      else if status = -8 then Some ''Not ready''
      else if status = -9 then Some ''Buffer overflow''
      else if status = -10 then Some ''Unsupported''
      else if status = -11 then Some ''Module error''
      else Some ''Unknown error'')"

section \<open>What the operations keep\<close>

context at_frame
begin

lemma keeps_plain: "keeps R h (send_plain h cmd t)"
  unfolding send_plain_def by (intro keeps_body)

lemma keeps_check_at: "keeps R h (ec200_check_at h)"
  by (simp add: ec200_check_at_def keeps_plain)

lemma keeps_set_echo: "keeps R h (ec200_set_echo h e)"
  by (simp add: ec200_set_echo_def keeps_plain)

lemma keeps_set_cmee: "keeps R h (ec200_set_cmee h m)"
  unfolding ec200_set_cmee_def by (intro keeps_body keeps_plain)

lemma keeps_get_string: "keeps R h (get_string_response h cmd out)"
  unfolding get_string_response_def by (intro keeps_body)

lemma keeps_get_imei: "keeps R h (ec200_get_imei h b)"
  unfolding ec200_get_imei_def by (intro keeps_body keeps_get_string)

lemma keeps_get_fw: "keeps R h (ec200_get_fw_version h b)"
  unfolding ec200_get_fw_version_def by (intro keeps_body keeps_get_string)

lemma keeps_get_info: "keeps R h (ec200_get_module_info h b)"
  unfolding ec200_get_module_info_def by (intro keeps_body)

lemma keeps_probe: "keeps R h (probe_loop k h st)"
proof (induction k arbitrary: h st)
  case 0
  then show ?case by (simp add: keeps_same)
next
  case (Suc k)
  show ?case
    unfolding probe_loop.simps
    by (intro keeps_body keeps_seq [OF keeps_check_at] keeps_after [OF R_delay Suc.IH])
qed

lemmas keeps_core_ops =
  keeps_plain keeps_check_at keeps_set_echo keeps_set_cmee keeps_get_imei keeps_get_fw
  keeps_get_info

end

end
