(* ===== verification/Ec200_Source.thy ===== *)
theory Ec200_Source
  imports Ec200_Core
begin

text \<open>
  The receiving side against a source of bytes. The locale \<open>byte_source\<close> is the contract
  of the read callback: while the transport is \<open>live\<close> it hands out the \<open>pending\<close>
  bytes in order, up to the number asked for, and reports 0 when there are none. Under that
  contract the byte loops of the engine are functions of the pending bytes.
\<close>

section \<open>The contract of the read callback\<close>

locale byte_source =
  fixes live :: "'w \<Rightarrow> bool"
    and pending :: "'w \<Rightarrow> char list"
    and rd :: "'w read_fn"
  assumes read_some:
      "live w \<Longrightarrow> pending w \<noteq> [] \<Longrightarrow> n > 0 \<Longrightarrow>
       \<exists>w'. rd n tmo w = (int (min n (length (pending w))), take n (pending w), w') \<and>
            live w' \<and> pending w' = drop n (pending w)"
    and read_none:
      "live w \<Longrightarrow> pending w = [] \<Longrightarrow>
       \<exists>w'. rd n tmo w = (0, [], w') \<and> live w' \<and> pending w' = []"

text \<open>The text of a line assembled from a buffered part and further bytes.\<close>

definition assembled :: "char list \<Rightarrow> char list \<Rightarrow> char list" where
  "assembled b cs = take (EC200_RX_BUFFER_SIZE - 1) (b @ filter (\<lambda>c. c \<noteq> CR) cs)"

lemma assembled_Nil: "length b < EC200_RX_BUFFER_SIZE \<Longrightarrow> assembled b [] = b"
  by (simp add: assembled_def size_defs)

lemma assembled_CR: "assembled b (CR # cs) = assembled b cs"
  by (simp add: assembled_def)

lemma assembled_store:
  "c \<noteq> CR \<Longrightarrow> length b < EC200_RX_BUFFER_SIZE - 1 \<Longrightarrow> assembled b (c # cs) = assembled (b @ [c]) cs"
  by (simp add: assembled_def)

lemma assembled_full:
  "\<not> length b < EC200_RX_BUFFER_SIZE - 1 \<Longrightarrow> assembled b (c # cs) = assembled b cs"
  by (simp add: assembled_def)

lemma assembled_append:
  "length b < EC200_RX_BUFFER_SIZE \<Longrightarrow> assembled (assembled b cs) ds = assembled b (cs @ ds)"
  by (simp add: assembled_def take_append min_def split: if_splits)

text \<open>Complete lines on the wire, and lines that survive the assembly unchanged.\<close>

definition crlf :: "string list \<Rightarrow> string" where
  "crlf ls = concat (map (\<lambda>l. l @ [CR, LF]) ls)"

lemma crlf_simps [simp]: "crlf [] = []" "crlf (l # ls) = l @ CR # LF # crlf ls"
  by (simp_all add: crlf_def)

definition clean_line :: "string \<Rightarrow> bool" where
  "clean_line l \<longleftrightarrow> CR \<notin> set l \<and> LF \<notin> set l \<and> NUL \<notin> set l \<and> length l < EC200_RX_BUFFER_SIZE"

lemma assembled_clean: "clean_line l \<Longrightarrow> cstr (assembled [] (l @ [CR])) = l"
proof -
  assume l: "clean_line l"
  then have "filter (\<lambda>c. c \<noteq> CR) l = l"
    by (auto simp: clean_line_def filter_id_conv)
  with l show ?thesis
    by (simp add: assembled_def clean_line_def cstr_def takeWhile_all size_defs)
qed

lemma feed_byte:
  assumes "c \<noteq> LF" "length (rx_buf h) < EC200_RX_BUFFER_SIZE"
  shows "\<exists>b ov. rx_feed h c = (h\<lparr>rx_buf := b, rx_overlong := ov\<rparr>, None) \<and>
           length b < EC200_RX_BUFFER_SIZE \<and> (\<forall>cs. assembled b cs = assembled (rx_buf h) (c # cs))"
proof -
  have h: "h = h\<lparr>rx_buf := rx_buf h, rx_overlong := rx_overlong h\<rparr>" by simp
  consider (cr) "c = CR" | (store) "c \<noteq> CR" "length (rx_buf h) < EC200_RX_BUFFER_SIZE - 1"
    | (full) "c \<noteq> CR" "\<not> length (rx_buf h) < EC200_RX_BUFFER_SIZE - 1" by blast
  then show ?thesis
  proof cases
    case cr
    then show ?thesis using assms h
      by (intro exI [of _ "rx_buf h"] exI [of _ "rx_overlong h"]) (simp add: rx_feed_def assembled_CR)
  next
    case store
    then show ?thesis using assms
      by (intro exI [of _ "rx_buf h @ [c]"] exI [of _ "rx_overlong h"])
        (simp add: rx_feed_def assembled_store size_defs)
  next
    case full
    then show ?thesis using assms
      by (intro exI [of _ "rx_buf h"] exI [of _ True]) (simp add: rx_feed_def assembled_full)
  qed
qed

text \<open>Handlers that leave the source alone.\<close>

definition transparent ::
    "('w \<Rightarrow> bool) \<Rightarrow> ('w \<Rightarrow> char list) \<Rightarrow> 'w ec200_handle \<Rightarrow> bool" where
  "transparent live pending h \<longleftrightarrow>
     (\<forall>e g line w. e \<in> set (urc_table h) \<and> ue_fn e = Some (UserUrc g) \<and> live w \<longrightarrow>
        live (g line (ue_ctx e) w) \<and> pending (g line (ue_ctx e) w) = pending w) \<and>
     (\<forall>cb m w. mqtt_msg_cb h = Some cb \<and> live w \<longrightarrow>
        live (cb m w) \<and> pending (cb m w) = pending w)"

text \<open>Whether a line has a registered handler.\<close>

definition registered :: "'w ec200_urc_entry list \<Rightarrow> string \<Rightarrow> bool" where
  "registered es line \<longleftrightarrow>
     (\<exists>e\<in>set es. \<exists>p. ue_prefix e = Some p \<and> strncmp_eq line p (length p))"

section \<open>Bytes and lines\<close>

context byte_source
begin

lemma getc_some:
  assumes "h_read h = rd" "live (user_ctx h)" "pending (user_ctx h) = c # cs"
  shows "\<exists>w. rx_getc h b = (h\<lparr>user_ctx := w\<rparr>, RX_OK c, b) \<and> live w \<and> pending w = cs"
  using read_some [of "user_ctx h" 1 "poll_slice b"] assms
  by (auto simp: rx_getc.simps [of h b] first_byte_def)

lemma getc_none:
  assumes "h_read h = rd" "live (user_ctx h)" "pending (user_ctx h) = []"
  shows "\<exists>w. rx_getc h b = (h\<lparr>user_ctx := w\<rparr>, RX_TIMEOUT, 0) \<and> live w \<and> pending w = []"
  using assms
proof (induction b arbitrary: h rule: less_induct)
  case (less b)
  from read_none [of "user_ctx h" 1 "poll_slice b"] less.prems obtain w
    where w: "rd 1 (poll_slice b) (user_ctx h) = (0, [], w)" "live w" "pending w = []" by auto
  show ?case
  proof (cases "b = 0")
    case True
    then show ?thesis using w less.prems by (auto simp: rx_getc.simps [of h 0])
  next
    case False
    have "\<exists>w'. rx_getc (h\<lparr>user_ctx := w\<rparr>) (b - poll_slice b) =
            (h\<lparr>user_ctx := w\<rparr>\<lparr>user_ctx := w'\<rparr>, RX_TIMEOUT, 0) \<and> live w' \<and> pending w' = []"
      using less.prems w False by (intro less.IH) (simp_all add: poll_slice_less)
    then show ?thesis using w False less.prems by (auto simp: rx_getc.simps [of h b])
  qed
qed

lemma line_some:
  assumes "h_read h = rd" "live (user_ctx h)" "pending (user_ctx h) = cs @ LF # rest"
    and "LF \<notin> set cs" "length (rx_buf h) < EC200_RX_BUFFER_SIZE"
  shows "\<exists>w. rx_line h b = Some (h\<lparr>user_ctx := w, rx_buf := [], rx_overlong := False\<rparr>,
                                 RX_OK (cstr (assembled (rx_buf h) cs)), b) \<and>
             live w \<and> pending w = rest"
  using assms
proof (induction cs arbitrary: h)
  case Nil
  then obtain w where "rx_getc h b = (h\<lparr>user_ctx := w\<rparr>, RX_OK LF, b)" "live w" "pending w = rest"
    using getc_some [of h LF rest b] by auto
  then show ?case
    using Nil.prems by (auto simp: rx_line.simps [of h b] rx_feed_def assembled_Nil)
next
  case (Cons c cs)
  then obtain w where w: "rx_getc h b = (h\<lparr>user_ctx := w\<rparr>, RX_OK c, b)" "live w"
      "pending w = cs @ LF # rest"
    using getc_some [of h c "cs @ LF # rest" b] by auto
  have c: "c \<noteq> LF" using Cons.prems by auto
  obtain b' ov where f: "rx_feed (h\<lparr>user_ctx := w\<rparr>) c =
        (h\<lparr>user_ctx := w, rx_buf := b', rx_overlong := ov\<rparr>, None)"
      "length b' < EC200_RX_BUFFER_SIZE" "assembled b' cs = assembled (rx_buf h) (c # cs)"
    using feed_byte [of c "h\<lparr>user_ctx := w\<rparr>"] c Cons.prems(5) by auto
  have "\<exists>w'. rx_line (h\<lparr>user_ctx := w, rx_buf := b', rx_overlong := ov\<rparr>) b =
      Some (h\<lparr>user_ctx := w', rx_buf := [], rx_overlong := False\<rparr>,
            RX_OK (cstr (assembled b' cs)), b) \<and> live w' \<and> pending w' = rest"
    using Cons.IH [of "h\<lparr>user_ctx := w, rx_buf := b', rx_overlong := ov\<rparr>"] w Cons.prems f(2)
    by simp
  then show ?case
    using w f by (auto simp: rx_line.simps [of h b])
qed

lemma line_none:
  assumes "h_read h = rd" "live (user_ctx h)" "pending (user_ctx h) = cs" "LF \<notin> set cs"
    and "length (rx_buf h) < EC200_RX_BUFFER_SIZE"
  shows "\<exists>w ov. rx_line h b = Some (h\<lparr>user_ctx := w, rx_buf := assembled (rx_buf h) cs,
             rx_overlong := ov\<rparr>, RX_TIMEOUT, 0) \<and> live w \<and> pending w = []"
  using assms
proof (induction cs arbitrary: h)
  case Nil
  then obtain w where w: "rx_getc h b = (h\<lparr>user_ctx := w\<rparr>, RX_TIMEOUT, 0)" "live w" "pending w = []"
    using getc_none [of h b] by auto
  have "h\<lparr>user_ctx := w\<rparr> = h\<lparr>user_ctx := w, rx_buf := rx_buf h, rx_overlong := rx_overlong h\<rparr>"
    by simp
  then show ?case
    using w Nil.prems by (intro exI [of _ w] exI [of _ "rx_overlong h"])
      (simp add: rx_line.simps [of h b] assembled_Nil)
next
  case (Cons c cs)
  then obtain w where w: "rx_getc h b = (h\<lparr>user_ctx := w\<rparr>, RX_OK c, b)" "live w" "pending w = cs"
    using getc_some [of h c cs b] by auto
  obtain b' ov where f: "rx_feed (h\<lparr>user_ctx := w\<rparr>) c =
        (h\<lparr>user_ctx := w, rx_buf := b', rx_overlong := ov\<rparr>, None)"
      "length b' < EC200_RX_BUFFER_SIZE" "assembled b' cs = assembled (rx_buf h) (c # cs)"
    using feed_byte [of c "h\<lparr>user_ctx := w\<rparr>"] Cons.prems(4,5) by auto
  have "\<exists>w' ov'. rx_line (h\<lparr>user_ctx := w, rx_buf := b', rx_overlong := ov\<rparr>) b =
      Some (h\<lparr>user_ctx := w', rx_buf := assembled b' cs, rx_overlong := ov'\<rparr>, RX_TIMEOUT, 0) \<and>
      live w' \<and> pending w' = []"
    using Cons.IH [of "h\<lparr>user_ctx := w, rx_buf := b', rx_overlong := ov\<rparr>"] w Cons.prems f(2) by simp
  then show ?case
    using w f by (auto simp: rx_line.simps [of h b])
qed

end

end
