(* ===== verification/Ec200_Reply.thy ===== *)
theory Ec200_Reply
  imports Ec200_Source
begin

text \<open>
  The answer of the module as a list of lines, and the refinement of the receive loops by
  functions on that list. \<open>spec_receive\<close> and \<open>spec_wait\<close> have no bytes, no buffers,
  no budget and no handle: under the contract of the read callback the loops of the engine
  compute exactly them.
\<close>

section \<open>Lines as the engine classifies them\<close>

definition line_term :: "string \<Rightarrow> terminal" where
  "line_term l =
     (if l = ''OK'' then TERM_OK
      else if l = ''ERROR'' \<or> l = ''NO CARRIER'' \<or> strncmp_eq l ''+CME ERROR:'' 11
              \<or> strncmp_eq l ''+CMS ERROR:'' 11 then TERM_ERR
      else TERM_NONE)"

definition line_error :: "string \<Rightarrow> ec200_status" where
  "line_error l =
     (if l = ''ERROR'' \<or> l = ''NO CARRIER'' then EC200_ERR_MODULE
      else if strncmp_eq l ''+CME ERROR:'' 11 then EC200_ERR_CME
      else EC200_ERR_CMS)"

lemma line_error_not_OK: "line_error l \<noteq> EC200_OK" "line_error l \<noteq> EC200_ERR_PARSE"
  by (simp_all add: line_error_def)

lemma is_terminal_term: "snd (is_terminal h l) = line_term l"
  by (simp add: is_terminal_def line_term_def)

lemma is_terminal_none: "line_term l \<noteq> TERM_ERR \<Longrightarrow> is_terminal h l = (h, line_term l)"
  by (auto simp: is_terminal_def line_term_def split: if_splits)

lemma is_terminal_err:
  "line_term l = TERM_ERR \<Longrightarrow> last_err_kind h = 0 \<Longrightarrow>
   \<exists>h'. is_terminal h l = (h', TERM_ERR) \<and> map_error_terminal h' = line_error l \<and>
        h_read h' = h_read h \<and> user_ctx h' = user_ctx h \<and> rx_buf h' = rx_buf h"
  by (auto simp: is_terminal_def line_term_def line_error_def map_error_terminal_def
      record_error_def set_err_code_def Let_def split: if_splits err_field.splits)

definition prefix_hit :: "string option \<Rightarrow> string \<Rightarrow> bool" where
  "prefix_hit prefix l = (case prefix of None \<Rightarrow> False | Some p \<Rightarrow> strncmp_eq l p (length p))"

section \<open>The transactions on lists of lines\<close>

text \<open>
  The status, the response and the lines not consumed. \<open>reg\<close> tells the lines that have a
  handler, \<open>k\<close> is the number of lines still allowed.
\<close>

fun spec_receive ::
    "(string \<Rightarrow> bool) \<Rightarrow> nat \<Rightarrow> string option \<Rightarrow> bool \<Rightarrow> bool \<Rightarrow> cbuf \<Rightarrow> string list
     \<Rightarrow> ec200_status \<times> cbuf \<times> string list" where
  "spec_receive reg 0 prefix stop matched buf ls = (EC200_ERR_OVERFLOW, buf, ls)"
| "spec_receive reg (Suc k) prefix stop matched buf [] = (EC200_ERR_TIMEOUT, buf, [])"
| "spec_receive reg (Suc k) prefix stop matched buf (l # ls) =
     (if l = [] then spec_receive reg k prefix stop matched buf ls
      else if prefix_hit prefix l \<and> \<not> matched
      then (if stop then (EC200_OK, copy_line l buf, ls)
            else spec_receive reg k prefix stop True (copy_line l buf) ls)
      else case line_term l of
             TERM_OK \<Rightarrow>
               (if prefix \<noteq> None \<and> \<not> matched then EC200_ERR_PARSE else EC200_OK, buf, ls)
           | TERM_ERR \<Rightarrow> (line_error l, buf, ls)
           | TERM_NONE \<Rightarrow>
               spec_receive reg k prefix stop matched
                 (if reg l \<or> prefix \<noteq> None then buf else append_line l buf) ls)"

text \<open>
  The receive-only waits: for a line with a prefix (\<open>Some\<close>), or for a terminal line
  (\<open>None\<close>).
\<close>

fun spec_wait ::
    "nat \<Rightarrow> string option \<Rightarrow> cbuf \<Rightarrow> string list \<Rightarrow> ec200_status \<times> cbuf \<times> string list" where
  "spec_wait 0 prefix buf ls = (EC200_ERR_OVERFLOW, buf, ls)"
| "spec_wait (Suc k) prefix buf [] = (EC200_ERR_TIMEOUT, buf, [])"
| "spec_wait (Suc k) prefix buf (l # ls) =
     (if l = [] then spec_wait k prefix buf ls
      else if prefix_hit prefix l then (EC200_OK, copy_line l buf, ls)
      else case line_term l of
             TERM_OK \<Rightarrow>
               (if prefix = None then (EC200_OK, buf, ls) else spec_wait k prefix buf ls)
           | TERM_ERR \<Rightarrow> (line_error l, buf, ls)
           | TERM_NONE \<Rightarrow> spec_wait k prefix buf ls)"

text \<open>
  An asynchronous command: the result line is awaited up to the \<open>OK\<close> and after it; when it
  comes first, a terminal line behind it is consumed as well.
\<close>

definition spec_await ::
    "(string \<Rightarrow> bool) \<Rightarrow> nat \<Rightarrow> string \<Rightarrow> cbuf \<Rightarrow> string list \<Rightarrow> ec200_status \<times> cbuf \<times> string list" where
  "spec_await reg k p buf ls =
     (case spec_receive reg k (Some p) True False (clear_buf buf) ls of
        (st, buf, ls) \<Rightarrow>
          if st = EC200_OK then (EC200_OK, buf, snd (snd (spec_wait k None None ls)))
          else if st = EC200_ERR_PARSE then spec_wait k (Some p) buf ls
          else (st, buf, ls))"

text \<open>No error line is hidden behind a result line that came first.\<close>

definition await_settled :: "(string \<Rightarrow> bool) \<Rightarrow> nat \<Rightarrow> string \<Rightarrow> cbuf \<Rightarrow> string list \<Rightarrow> bool" where
  "await_settled reg k p buf ls =
     (case spec_receive reg k (Some p) True False (clear_buf buf) ls of
        (st, buf, ls) \<Rightarrow> st = EC200_OK \<longrightarrow> fst (spec_wait k None None ls) = EC200_OK)"

lemma spec_numeral:
  "spec_receive reg (numeral v) prefix stop matched buf [] = (EC200_ERR_TIMEOUT, buf, [])"
  "spec_receive reg (numeral v) prefix stop matched buf (l # ls) =
     (if l = [] then spec_receive reg (pred_numeral v) prefix stop matched buf ls
      else if prefix_hit prefix l \<and> \<not> matched
      then (if stop then (EC200_OK, copy_line l buf, ls)
            else spec_receive reg (pred_numeral v) prefix stop True (copy_line l buf) ls)
      else case line_term l of
             TERM_OK \<Rightarrow>
               (if prefix \<noteq> None \<and> \<not> matched then EC200_ERR_PARSE else EC200_OK, buf, ls)
           | TERM_ERR \<Rightarrow> (line_error l, buf, ls)
           | TERM_NONE \<Rightarrow>
               spec_receive reg (pred_numeral v) prefix stop matched
                 (if reg l \<or> prefix \<noteq> None then buf else append_line l buf) ls)"
  "spec_wait (numeral v) prefix buf [] = (EC200_ERR_TIMEOUT, buf, [])"
  "spec_wait (numeral v) prefix buf (l # ls) =
     (if l = [] then spec_wait (pred_numeral v) prefix buf ls
      else if prefix_hit prefix l then (EC200_OK, copy_line l buf, ls)
      else case line_term l of
             TERM_OK \<Rightarrow>
               (if prefix = None then (EC200_OK, buf, ls)
                else spec_wait (pred_numeral v) prefix buf ls)
           | TERM_ERR \<Rightarrow> (line_error l, buf, ls)
           | TERM_NONE \<Rightarrow> spec_wait (pred_numeral v) prefix buf ls)"
  by (simp_all add: numeral_eq_Suc)

section \<open>A handle whose transport holds complete lines\<close>

definition fed ::
    "('w \<Rightarrow> bool) \<Rightarrow> ('w \<Rightarrow> char list) \<Rightarrow> 'w read_fn \<Rightarrow> 'w ec200_handle \<Rightarrow> string list \<Rightarrow> bool" where
  "fed live pending rd h ls \<longleftrightarrow>
     h_read h = rd \<and> live (user_ctx h) \<and> pending (user_ctx h) = crlf ls \<and> rx_buf h = [] \<and>
     transparent live pending h \<and> last_err_kind h = 0"

text \<open>What is left after an operation, whatever its status.\<close>

definition left_with ::
    "('w \<Rightarrow> bool) \<Rightarrow> ('w \<Rightarrow> char list) \<Rightarrow> 'w read_fn \<Rightarrow> 'w ec200_handle \<Rightarrow> string list \<Rightarrow> bool" where
  "left_with live pending rd h ls \<longleftrightarrow>
     h_read h = rd \<and> live (user_ctx h) \<and> pending (user_ctx h) = crlf ls \<and> rx_buf h = []"

lemma fed_left: "fed live pending rd h ls \<Longrightarrow> left_with live pending rd h ls"
  by (simp add: fed_def left_with_def)

text \<open>What the error queries report.\<close>

definition errors :: "'w ec200_handle \<Rightarrow> int \<times> int \<times> string" where
  "errors h = (ec200_at_last_cme_error h, ec200_at_last_cms_error h, ec200_at_last_error_text h)"

lemma errors_world [simp]: "errors (h\<lparr>user_ctx := w\<rparr>) = errors h" "errors (h\<lparr>rx_buf := b\<rparr>) = errors h"
  "errors (h\<lparr>rx_overlong := ov\<rparr>) = errors h" "errors (h\<lparr>tx_buf := tb\<rparr>) = errors h"
  by (simp_all add: errors_def ec200_at_last_cme_error_def ec200_at_last_cms_error_def ec200_at_last_error_text_def)

lemma dispatch_slots_quiet:
  assumes "dispatch_slots es h l = (h', d)" and "set es \<subseteq> set (urc_table h)"
    and "transparent live pending h" and "live (user_ctx h)"
  shows "\<exists>w. h' = h\<lparr>user_ctx := w\<rparr> \<and> live w \<and> pending w = pending (user_ctx h) \<and>
             d = registered es l"
  using assms
proof (induction es h l rule: dispatch_slots.induct)
  case (1 h l)
  then show ?case by (intro exI [of _ "user_ctx h"]) (simp add: registered_def)
next
  case (2 e es h l)
  have self: "\<exists>w. h = h\<lparr>user_ctx := w\<rparr> \<and> live w \<and> pending w = pending (user_ctx h)"
    by (intro exI [of _ "user_ctx h"]) (simp add: "2.prems"(4))
  show ?case
  proof (cases "\<exists>p. ue_prefix e = Some p \<and> strncmp_eq l p (length p)")
    case True
    then have reg: "registered (e # es) l" by (auto simp: registered_def)
    have call: "\<exists>w. call_urc_handler f l (ue_ctx e) h = h\<lparr>user_ctx := w\<rparr> \<and> live w \<and>
        pending w = pending (user_ctx h)" if "ue_fn e = Some f" for f
    proof (cases f)
      case (UserUrc g)
      have "e \<in> set (urc_table h)" using "2.prems"(2) by simp
      then show ?thesis
        using "2.prems"(3,4) that UserUrc
        by (intro exI [of _ "g l (ue_ctx e) (user_ctx h)"])
          (auto simp: call_urc_handler_def transparent_def)
    next
      case MqttRecvUrc
      then show ?thesis
        using "2.prems"(3,4) self
        by (auto simp: call_urc_handler_def mqtt_recv_urc_def transparent_def split: option.splits)
    qed
    then show ?thesis
      using True "2.prems"(1) reg self by (auto split: option.splits)
  next
    case False
    then have "registered (e # es) l = registered es l" by (auto simp: registered_def)
    then show ?thesis
      using False "2.prems" "2.IH" by (auto split: option.splits if_splits)
  qed
qed

context byte_source
begin

lemma line_fed:
  assumes "fed live pending rd h (l # ls)" and "clean_line l"
  shows "\<exists>h'. rx_line h b = Some (h', RX_OK l, b) \<and> fed live pending rd h' ls \<and>
              urc_table h' = urc_table h \<and> errors h' = errors h"
proof -
  have lf: "LF \<notin> set (l @ [CR])" using assms(2) by (simp add: clean_line_def)
  obtain w where "rx_line h b = Some (h\<lparr>user_ctx := w, rx_buf := [], rx_overlong := False\<rparr>,
      RX_OK (cstr (assembled [] (l @ [CR]))), b)" "live w" "pending w = crlf ls"
    using line_some [of h "l @ [CR]" "crlf ls" b] assms(1) lf by (auto simp: fed_def size_defs)
  then show ?thesis
    using assms by (auto simp: assembled_clean fed_def transparent_def)
qed

lemma line_fed_Nil:
  assumes "fed live pending rd h []"
  shows "\<exists>h'. rx_line h b = Some (h', RX_TIMEOUT, 0) \<and> fed live pending rd h' []"
  using line_none [of h "[]" b] assms
  by (auto simp: fed_def transparent_def size_defs assembled_Nil)

lemma dispatch_fed:
  assumes "fed live pending rd h ls" and "dispatch_registered_urc h l = (h', d)"
  shows "fed live pending rd h' ls \<and> d = registered (urc_table h) l \<and> urc_table h' = urc_table h \<and>
         errors h' = errors h"
  using dispatch_slots_quiet [of "urc_table h" h l h' d live pending] assms
  by (auto simp: dispatch_registered_urc_def fed_def transparent_def)

lemma terminal_fed:
  assumes "fed live pending rd h ls" and "line_term l = TERM_ERR"
  shows "\<exists>h'. is_terminal h l = (h', TERM_ERR) \<and> map_error_terminal h' = line_error l \<and>
              left_with live pending rd h' ls"
  using is_terminal_err [of l h] assms by (auto simp: fed_def left_with_def)

lemma receive_refines:
  assumes "fed live pending rd h ls" and "\<forall>l\<in>set ls. clean_line l"
  shows "\<exists>h' st buf' ls'. receive_loop k h prefix stop matched buf b = Some (h', st, buf') \<and>
           spec_receive (registered (urc_table h)) k prefix stop matched buf ls = (st, buf', ls') \<and>
           left_with live pending rd h' ls' \<and>
           (st = EC200_OK \<or> st = EC200_ERR_PARSE \<longrightarrow> fed live pending rd h' ls')"
  using assms
proof (induction k arbitrary: h ls matched buf b)
  case 0
  then show ?case by (auto intro: fed_left)
next
  case (Suc k)
  show ?case
  proof (cases ls)
    case Nil
    then show ?thesis using line_fed_Nil [of h b] Suc.prems by (auto intro: fed_left)
  next
    case (Cons l ls')
    obtain h1 where h1: "rx_line h b = Some (h1, RX_OK l, b)" "fed live pending rd h1 ls'"
        "urc_table h1 = urc_table h"
      using line_fed [of h l ls' b] Suc.prems Cons by auto
    have clean: "\<forall>l\<in>set ls'. clean_line l" using Suc.prems Cons by simp
    note IH = Suc.IH [OF h1(2) clean, unfolded h1(3)]
    consider (empty) "l = []"
      | (hit) "l \<noteq> []" "prefix_hit prefix l" "\<not> matched"
      | (ok) "l \<noteq> []" "\<not> (prefix_hit prefix l \<and> \<not> matched)" "line_term l = TERM_OK"
      | (err) "l \<noteq> []" "\<not> (prefix_hit prefix l \<and> \<not> matched)" "line_term l = TERM_ERR"
      | (body) "l \<noteq> []" "\<not> (prefix_hit prefix l \<and> \<not> matched)" "line_term l = TERM_NONE"
      by (cases "line_term l") auto
    then show ?thesis
    proof cases
      case empty
      then show ?thesis using h1(1) Cons IH by simp
    next
      case hit
      then show ?thesis using h1 Cons IH
        by (auto simp: prefix_hit_def split: option.splits intro: fed_left)
    next
      case ok
      then show ?thesis using h1 Cons is_terminal_none [of l h1]
        by (auto simp: prefix_hit_def split: option.splits intro: fed_left)
    next
      case err
      obtain h2 where "is_terminal h1 l = (h2, TERM_ERR)" "map_error_terminal h2 = line_error l"
          "left_with live pending rd h2 ls'"
        using terminal_fed [OF h1(2) err(3)] by auto
      then show ?thesis using h1 Cons err line_error_not_OK [of l]
        by (auto simp: prefix_hit_def split: option.splits)
    next
      case body
      obtain h2 d where d: "dispatch_registered_urc h1 l = (h2, d)" by fastforce
      note df = dispatch_fed [OF h1(2) d]
      have "is_terminal h1 l = (h1, TERM_NONE)" using body is_terminal_none [of l h1] by simp
      then show ?thesis
        using h1(1) Cons body d df h1(3) Suc.IH [of h2 ls' matched _ b] clean
        by (cases d) (auto simp: prefix_hit_def split: option.splits)
    qed
  qed
qed

text \<open>The first error line ends the loop, with the error fields as that line alone sets them.\<close>

lemma receive_ends_with_error:
  assumes "fed live pending rd h (junk @ e # rest)" and "\<forall>l\<in>set (junk @ e # rest). clean_line l"
    and "\<forall>l\<in>set junk. l = [] \<or> line_term l = TERM_NONE \<and> \<not> (stop \<and> prefix_hit prefix l)"
    and "length junk < k" and "line_term e = TERM_ERR" and "\<not> prefix_hit prefix e"
  shows "\<exists>h1 h' buf'. receive_loop k h prefix stop matched buf b = Some (h', line_error e, buf') \<and>
    is_terminal h1 e = (h', TERM_ERR) \<and> errors h1 = errors h \<and> left_with live pending rd h' rest"
  using assms(1-4)
proof (induction junk arbitrary: h k matched buf b)
  case Nil
  obtain h1 where h1: "rx_line h b = Some (h1, RX_OK e, b)" "fed live pending rd h1 rest" "errors h1 = errors h"
    using line_fed [of h e rest b] Nil.prems by auto
  obtain h2 where "is_terminal h1 e = (h2, TERM_ERR)" "map_error_terminal h2 = line_error e"
      "left_with live pending rd h2 rest"
    using terminal_fed [OF h1(2) assms(5)] by auto
  then show ?case
    using h1 Nil.prems(4) assms(5,6)
    by (cases k) (auto simp: prefix_hit_def line_term_def split: option.splits intro!: exI [of _ h1])
next
  case (Cons l junk)
  obtain j where k: "k = Suc j" "length junk < j" using Cons.prems(4) by (cases k) auto
  obtain h1 where h1: "rx_line h b = Some (h1, RX_OK l, b)" "fed live pending rd h1 (junk @ e # rest)"
      "errors h1 = errors h"
    using line_fed [of h l "junk @ e # rest" b] Cons.prems by auto
  have IH: "\<exists>h3 h' buf'. receive_loop j h2 prefix stop m bu b = Some (h', line_error e, buf') \<and>
      is_terminal h3 e = (h', TERM_ERR) \<and> errors h3 = errors h \<and> left_with live pending rd h' rest"
    if "fed live pending rd h2 (junk @ e # rest)" "errors h2 = errors h1" for h2 m bu
    using Cons.IH [OF that(1) _ _ k(2), of m bu b] Cons.prems(2,3) that(2) h1(3) by simp
  consider (empty) "l = []" | (hit) "l \<noteq> []" "prefix_hit prefix l" "\<not> matched"
    | (body) "l \<noteq> []" "\<not> (prefix_hit prefix l \<and> \<not> matched)" by blast
  then show ?case
  proof cases
    case empty
    then show ?thesis using h1 k IH [of h1 matched buf] by simp
  next
    case hit
    then show ?thesis using h1 k IH [of h1 True "copy_line l buf"] Cons.prems(3)
      by (auto simp: prefix_hit_def split: option.splits)
  next
    case body
    obtain h2 d where d: "dispatch_registered_urc h1 l = (h2, d)" by fastforce
    have "line_term l = TERM_NONE" using Cons.prems(3) body by simp
    then have "is_terminal h1 l = (h1, TERM_NONE)" using is_terminal_none [of l h1] by simp
    then show ?thesis
      using h1(1) k body d dispatch_fed [OF h1(2) d] IH [of h2 matched]
      by (cases d) (auto simp: prefix_hit_def split: option.splits)
  qed
qed

lemma wait_prefix_refines:
  assumes "fed live pending rd h ls" and "\<forall>l\<in>set ls. clean_line l"
  shows "\<exists>h' st buf' ls'. wait_prefix_loop k h p buf b = Some (h', st, buf') \<and>
           spec_wait k (Some p) buf ls = (st, buf', ls') \<and> left_with live pending rd h' ls' \<and>
           (st = EC200_OK \<longrightarrow> fed live pending rd h' ls')"
  using assms
proof (induction k arbitrary: h ls b)
  case 0
  then show ?case by (auto intro: fed_left)
next
  case (Suc k)
  show ?case
  proof (cases ls)
    case Nil
    then show ?thesis using line_fed_Nil [of h b] Suc.prems by (auto intro: fed_left)
  next
    case (Cons l ls')
    obtain h1 where h1: "rx_line h b = Some (h1, RX_OK l, b)" "fed live pending rd h1 ls'"
      using line_fed [of h l ls' b] Suc.prems Cons by auto
    have clean: "\<forall>l\<in>set ls'. clean_line l" using Suc.prems Cons by simp
    consider (empty) "l = []" | (hit) "l \<noteq> []" "prefix_hit (Some p) l"
      | (other) "l \<noteq> []" "\<not> prefix_hit (Some p) l" "line_term l \<noteq> TERM_ERR"
      | (err) "l \<noteq> []" "\<not> prefix_hit (Some p) l" "line_term l = TERM_ERR" by blast
    then show ?thesis
    proof cases
      case empty
      then show ?thesis using h1 Cons Suc.IH [OF h1(2) clean] by simp
    next
      case hit
      then show ?thesis using h1 Cons by (auto simp: prefix_hit_def intro: fed_left)
    next
      case other
      obtain h2 d where d: "dispatch_registered_urc h1 l = (h2, d)" by fastforce
      have "fed live pending rd h2 ls'" using dispatch_fed [OF h1(2) d] by simp
      then show ?thesis
        using other h1(1) Cons is_terminal_none [OF other(3), of h1] d
          Suc.IH [OF h1(2) clean] Suc.IH [of h2 ls' b] clean
        by (cases "line_term l") (auto simp: prefix_hit_def)
    next
      case err
      then show ?thesis
        using h1(1) Cons terminal_fed [OF h1(2) err(3)] line_error_not_OK [of l] by (auto simp: prefix_hit_def)
    qed
  qed
qed

lemma wait_final_refines:
  assumes "fed live pending rd h ls" and "\<forall>l\<in>set ls. clean_line l"
  shows "\<exists>h' st ls'. wait_final_loop k h b = Some (h', st) \<and>
           spec_wait k None None ls = (st, None, ls') \<and> left_with live pending rd h' ls' \<and>
           (st = EC200_OK \<longrightarrow> fed live pending rd h' ls')"
  using assms
proof (induction k arbitrary: h ls b)
  case 0
  then show ?case by (auto intro: fed_left)
next
  case (Suc k)
  show ?case
  proof (cases ls)
    case Nil
    then show ?thesis using line_fed_Nil [of h b] Suc.prems by (auto intro: fed_left)
  next
    case (Cons l ls')
    obtain h1 where h1: "rx_line h b = Some (h1, RX_OK l, b)" "fed live pending rd h1 ls'"
      using line_fed [of h l ls' b] Suc.prems Cons by auto
    have clean: "\<forall>l\<in>set ls'. clean_line l" using Suc.prems Cons by simp
    consider (empty) "l = []" | (other) "l \<noteq> []" "line_term l \<noteq> TERM_ERR"
      | (err) "l \<noteq> []" "line_term l = TERM_ERR" by blast
    then show ?thesis
    proof cases
      case empty
      then show ?thesis using h1 Cons Suc.IH [OF h1(2) clean] by simp
    next
      case other
      obtain h2 d where d: "dispatch_registered_urc h1 l = (h2, d)" by fastforce
      have "fed live pending rd h2 ls'" using dispatch_fed [OF h1(2) d] by simp
      then show ?thesis
        using other h1 Cons is_terminal_none [OF other(2), of h1] d Suc.IH [of h2 ls' b] clean
        by (cases "line_term l") (auto simp: prefix_hit_def intro: fed_left)
    next
      case err
      then show ?thesis
        using h1(1) Cons terminal_fed [OF h1(2) err(2)] line_error_not_OK [of l] by (auto simp: prefix_hit_def)
    qed
  qed
qed

end

end
