(* ===== verification/Ec200_Loopback.thy ===== *)
theory Ec200_Loopback
  imports Ec200_Reply
begin

text \<open>
  The scripted transport of the repository's tests, \<^verbatim>\<open>tests/support/loopback.c\<close>: a receive
  ring, a log of everything written, and rules that queue a response when a write contains
  their pattern. It is the transport on which the contracts of this development are
  interpreted and the properties are instantiated.
\<close>

definition LB_RX_SIZE :: nat where "LB_RX_SIZE = 131072"
definition LB_TX_SIZE :: nat where "LB_TX_SIZE = 8192"
definition LB_MAX_RULES :: nat where "LB_MAX_RULES = 16"

text \<open>
  \<open>lb_rx\<close> is the content of the ring between tail and head, \<open>lb_rules\<close> the match and
  response of each rule, of which the first \<open>lb_rule_next\<close> have fired.
\<close>

record loopback =
  lb_rx :: "char list"
  lb_tx :: "char list"
  lb_rules :: "(string \<times> string) list"
  lb_rule_next :: nat
  lb_io_error :: bool
  lb_read_io_error :: bool
  lb_read_error_when_empty :: bool
  lb_short_write :: int
  lb_fail_write_after :: int

definition lb_reset :: loopback where
  "lb_reset = \<lparr>lb_rx = [], lb_tx = [], lb_rules = [], lb_rule_next = 0, lb_io_error = False,
               lb_read_io_error = False, lb_read_error_when_empty = False,
               lb_short_write = 0, lb_fail_write_after = -1\<rparr>"

text \<open>
  What the reader finds after more than \<open>LB_RX_SIZE\<close> bytes were queued: the cell of byte
  \<open>i\<close> holds the last byte stored at a congruent position.
\<close>

definition lb_ring :: "char list \<Rightarrow> char list" where
  "lb_ring p =
     (if length p \<le> LB_RX_SIZE then p
      else map (\<lambda>i. p ! (i + LB_RX_SIZE * ((length p - 1 - i) div LB_RX_SIZE))) [0..<length p])"

definition lb_feed_bytes :: "char list \<Rightarrow> loopback \<Rightarrow> loopback" where
  "lb_feed_bytes data lb = lb\<lparr>lb_rx := lb_ring (lb_rx lb @ data)\<rparr>"

definition lb_feed :: "string \<Rightarrow> loopback \<Rightarrow> loopback" where
  "lb_feed s lb = lb_feed_bytes s lb"

definition lb_on_write :: "string \<Rightarrow> string \<Rightarrow> loopback \<Rightarrow> loopback" where
  "lb_on_write m r lb =
     (if length (lb_rules lb) < LB_MAX_RULES then lb\<lparr>lb_rules := lb_rules lb @ [(m, r)]\<rparr> else lb)"

definition lb_fire :: "char list \<Rightarrow> loopback \<Rightarrow> loopback" where
  "lb_fire written lb =
     (if lb_rule_next lb < length (lb_rules lb) then
        (case lb_rules lb ! lb_rule_next lb of
           (m, r) \<Rightarrow>
             if strstr (cstr (take 511 written)) m \<noteq> None
             then lb_feed r (lb\<lparr>lb_rule_next := lb_rule_next lb + 1\<rparr>) else lb)
      else lb)"

definition lb_write :: "loopback write_fn" where
  "lb_write data lb =
     (if lb_io_error lb then (-1, lb)
      else if lb_fail_write_after lb = 0 then (-1, lb)
      else
        let lb = (if lb_fail_write_after lb > 0
                  then lb\<lparr>lb_fail_write_after := lb_fail_write_after lb - 1\<rparr> else lb);
            short = (lb_short_write lb > 0 \<and> int (length data) > lb_short_write lb);
            accept = (if short then nat (lb_short_write lb) else length data);
            lb = (if short then lb\<lparr>lb_short_write := 0\<rparr> else lb);
            space = LB_TX_SIZE - 1 - length (lb_tx lb);
            n = (if accept < space then accept else space);
            lb = lb\<lparr>lb_tx := lb_tx lb @ take n data\<rparr>
        in (int accept, lb_fire (take accept data) lb))"

definition lb_read :: "loopback read_fn" where
  "lb_read len timeout_ms lb =
     (if lb_io_error lb \<or> lb_read_io_error lb then (-1, [], lb)
      else if lb_rx lb = [] then (if lb_read_error_when_empty lb then -1 else 0, [], lb)
      else let n = (if length (lb_rx lb) < len then length (lb_rx lb) else len)
           in (int n, take n (lb_rx lb), lb\<lparr>lb_rx := drop n (lb_rx lb)\<rparr>))"

definition lb_delay :: "loopback delay_fn" where
  "lb_delay ms lb = lb"

text \<open>No error of the receiving side is scripted.\<close>

definition lb_live :: "loopback \<Rightarrow> bool" where
  "lb_live lb \<longleftrightarrow> \<not> lb_io_error lb \<and> \<not> lb_read_io_error lb \<and> \<not> lb_read_error_when_empty lb"

interpretation lbs: byte_source lb_live lb_rx lb_read
  by unfold_locales (auto simp: lb_live_def lb_read_def Let_def)

text \<open>A handle on a loopback, as \<open>ec200_init\<close> leaves it.\<close>

definition lb_handle :: "loopback \<Rightarrow> loopback ec200_handle" where
  "lb_handle lb = fresh_handle lb_write lb_read lb_delay lb"

lemma lb_handle_simps [simp]:
  "h_read (lb_handle lb) = lb_read" "h_write (lb_handle lb) = lb_write"
  "h_delay_ms (lb_handle lb) = lb_delay" "user_ctx (lb_handle lb) = lb"
  "rx_buf (lb_handle lb) = []" "initialised (lb_handle lb)" "\<not> ppp_data_mode (lb_handle lb)"
  "last_err_kind (lb_handle lb) = 0" "mqtt_msg_cb (lb_handle lb) = None"
  "urc_handler (lb_handle lb) = None"
  "urc_table (lb_handle lb) = replicate EC200_MAX_URC_HANDLERS free_urc_entry"
  by (simp_all add: lb_handle_def fresh_handle_def)

lemma lb_transparent [simp]: "transparent lb_live lb_rx (lb_handle lb)"
  by (simp add: transparent_def free_urc_entry_def)

lemma lb_unregistered [simp]: "registered (urc_table (lb_handle lb)) l = False"
  by (simp add: registered_def free_urc_entry_def)

lemma transparent_tx [simp]: "transparent live pending (h\<lparr>tx_buf := t\<rparr>) = transparent live pending h"
  by (simp add: transparent_def)

lemma lb_fed: "fed lb_live lb_rx lb_read (lb_handle (lb_reset\<lparr>lb_rx := crlf ls\<rparr>)) ls"
  by (simp add: fed_def lb_live_def lb_reset_def)

text \<open>A write that meets no scripted fault is accepted at once.\<close>

lemma lb_write_all:
  assumes "\<not> lb_io_error lb" "lb_fail_write_after lb < 0" "lb_short_write lb = 0"
  shows "\<exists>lb'. lb_write d lb = (int (length d), lb')"
  using assms by (simp add: lb_write_def Let_def)

lemma lb_transmit:
  assumes "\<not> lb_io_error lb" "lb_fail_write_after lb < 0" "lb_short_write lb = 0"
    and "length cmd < 511"
  shows "at_transmit (lb_handle lb) cmd =
           Some ((lb_handle (snd (lb_write (cmd @ [CR]) lb)))\<lparr>tx_buf := cmd @ [CR]\<rparr>, EC200_OK)"
proof -
  obtain lb' where w: "lb_write (cmd @ [CR]) lb = (1 + int (length cmd), lb')"
    using lb_write_all [OF assms(1-3), of "cmd @ [CR]"] by auto
  have "cast_u16 (1 + int (length cmd)) = Suc (length cmd)"
    using assms(4) by (simp add: cast_u16_small)
  then show ?thesis
    using w assms(4)
    by (simp add: at_transmit_def ec200_at_write_raw_def handle_ready_def reset_error_state_def
        lb_handle_def fresh_handle_def snprintf_def size_defs Let_def write_loop.simps)
qed

lemmas lb_loopback_eval =
  lb_write_def lb_fire_def lb_feed_def lb_feed_bytes_def lb_ring_def lb_on_write_def lb_reset_def
  lb_live_def LB_RX_SIZE_def LB_TX_SIZE_def LB_MAX_RULES_def Let_def

text \<open>A module that answers one command with given lines.\<close>

definition lb_answers :: "string \<Rightarrow> string list \<Rightarrow> loopback" where
  "lb_answers cmd ls = lb_on_write cmd (crlf ls) lb_reset"

lemma strncmp_eq_prefix: "strncmp_eq (s @ r) s (length s)"
  by (induction s) auto

lemma strstr_prefix: "strstr (s @ r) s \<noteq> None"
proof (cases "s @ r")
  case Nil
  then show ?thesis by simp
next
  case (Cons c cs)
  then show ?thesis using strncmp_eq_prefix [of s r] by simp
qed

lemma lb_answers_fed:
  assumes "length cmd < 511" "NUL \<notin> set cmd" "length (crlf ls) \<le> LB_RX_SIZE"
  shows "\<exists>h1. at_transmit (lb_handle (lb_answers cmd ls)) cmd = Some (h1, EC200_OK) \<and>
           fed lb_live lb_rx lb_read h1 ls \<and>
           urc_table h1 = replicate EC200_MAX_URC_HANDLERS free_urc_entry"
proof -
  let ?lb = "lb_answers cmd ls"
  let ?w = "snd (lb_write (cmd @ [CR]) ?lb)"
  have "cstr (take 511 (cmd @ [CR])) = cmd @ [CR]"
    using assms takeWhile_all [of NUL "cmd @ [CR]"] by (simp add: cstr_def)
  then have "lb_rx ?w = crlf ls \<and> lb_live ?w"
    using assms(1,3) strstr_prefix [of cmd "[CR]"]
    by (simp add: lb_answers_def lb_write_def lb_fire_def lb_feed_def lb_feed_bytes_def lb_ring_def
        lb_on_write_def lb_reset_def lb_live_def LB_MAX_RULES_def Let_def)
  moreover have "at_transmit (lb_handle ?lb) cmd =
      Some ((lb_handle ?w)\<lparr>tx_buf := cmd @ [CR]\<rparr>, EC200_OK)"
    using assms(1) by (intro lb_transmit) (simp_all add: lb_answers_def lb_on_write_def lb_reset_def)
  ultimately show ?thesis by (simp add: fed_def)
qed

section \<open>A tape\<close>

text \<open>
  The smallest transport that respects every contract: a fixed input and a record of the
  output. Runs on it evaluate quickly.
\<close>

type_synonym tape = "char list \<times> char list"

definition tape_write :: "tape write_fn" where
  "tape_write d w = (int (length d), (fst w, snd w @ d))"

definition tape_read :: "tape read_fn" where
  "tape_read n tmo w = (int (min n (length (fst w))), take n (fst w), (drop n (fst w), snd w))"

definition tape_delay :: "tape delay_fn" where
  "tape_delay ms w = w"

definition tape_handle :: "char list \<Rightarrow> tape ec200_handle" where
  "tape_handle inp = fresh_handle tape_write tape_read tape_delay (inp, [])"

text \<open>What can be observed of a result: the remaining tape and the values returned.\<close>

definition observed :: "('w ec200_handle \<times> 'a) option \<Rightarrow> ('w \<times> 'a) option" where
  "observed m = map_option (\<lambda>(h, a). (user_ctx h, a)) m"

lemma observedE:
  assumes "observed m = Some (w, a)"
  obtains h where "m = Some (h, a)" "user_ctx h = w"
  using assms by (auto simp: observed_def)

interpretation tps: byte_source "\<lambda>_. True" fst tape_read
  by unfold_locales (auto simp: tape_read_def)

end
