(* ===== verification/Ec200_Http.thy ===== *)
theory Ec200_Http
  imports Ec200_Core
begin

text \<open>
  The HTTP client, \<^verbatim>\<open>src/ec200_http.c\<close>. The body of a response is read byte by byte up
  to the trailer CR LF \<open>OK\<close> CR LF; the loop is a total function because every byte it
  consumes either advances the match, fills the caller's array or counts as discarded.
\<close>

definition HTTP_MAX_DISCARD :: nat where "HTTP_MAX_DISCARD = 65536"

record ec200_http_response =
  http_status_code :: nat
  http_content_length :: nat

definition timeout_secs :: "nat \<Rightarrow> nat" where
  "timeout_secs timeout_ms =
     (let s = timeout_ms div 1000; s = (if s < 1 then 1 else s) in if s > 65535 then 65535 else s)"

definition parse_http_result ::
    "string \<Rightarrow> ec200_http_response \<Rightarrow> ec200_status \<times> ec200_http_response" where
  "parse_http_result line resp =
     (case ec200_at_parse_int_field line 0 of
        None \<Rightarrow> (EC200_ERR_PARSE, resp)
      | Some err \<Rightarrow>
          if err \<noteq> 0 then (EC200_ERR_MODULE, resp)
          else
            let code = (case ec200_at_parse_int_field line 1 of Some v \<Rightarrow> v | None \<Rightarrow> 0);
                clen = (case ec200_at_parse_int_field line 2 of Some v \<Rightarrow> v | None \<Rightarrow> 0)
            in (EC200_OK, \<lparr>http_status_code = cast_u16 code,
                           http_content_length = cast_u32 (if clen > 0 then clen else 0)\<rparr>))"

section \<open>Configuration\<close>

definition ec200_http_set_context ::
    "'w ec200_handle \<Rightarrow> nat \<Rightarrow> ('w ec200_handle \<times> ec200_status) option" where
  "ec200_http_set_context h ctx_id =
     (if ctx_id < 1 \<or> ctx_id > 16 then Some (h, EC200_ERR_PARAM)
      else send_plain h
             (snprintf 48 (''AT+QHTTPCFG='' @ quoted ''contextid'' @ '','' @ show_nat ctx_id))
             EC200_AT_TIMEOUT_DEFAULT)"

definition ec200_http_set_ssl_context ::
    "'w ec200_handle \<Rightarrow> nat \<Rightarrow> ('w ec200_handle \<times> ec200_status) option" where
  "ec200_http_set_ssl_context h ssl_ctx =
     (if ssl_ctx > 5 then Some (h, EC200_ERR_PARAM)
      else send_plain h
             (snprintf 48 (''AT+QHTTPCFG='' @ quoted ''sslctxid'' @ '','' @ show_nat ssl_ctx))
             EC200_AT_TIMEOUT_DEFAULT)"

definition ec200_http_set_url ::
    "'w ec200_handle \<Rightarrow> string option \<Rightarrow> ('w ec200_handle \<times> ec200_status) option" where
  "ec200_http_set_url h url =
     (case url of
        None \<Rightarrow> Some (h, EC200_ERR_PARAM)
      | Some u \<Rightarrow>
          if length u = 0 \<or> length u > EC200_MAX_URL_LEN then Some (h, EC200_ERR_PARAM)
          else do {
            (h, st, _) \<leftarrow> ec200_at_send_expect h
              (Some (snprintf 32 (''AT+QHTTPURL='' @ show_nat (length u) @ '',80'')))
              (Some ''CONNECT'') (char_buf 32) EC200_AT_TIMEOUT_DEFAULT;
            if st \<noteq> EC200_OK then Some (h, st)
            else do {
              (h, st) \<leftarrow> ec200_at_write_raw h (Some u) (cast_u16 (int (length u)));
              if st \<noteq> EC200_OK then Some (h, st)
              else ec200_at_wait_final h EC200_AT_TIMEOUT_DEFAULT
            }
          })"

definition ec200_http_stop :: "'w ec200_handle \<Rightarrow> ('w ec200_handle \<times> ec200_status) option" where
  "ec200_http_stop h = send_plain h ''AT+QHTTPSTOP'' EC200_AT_TIMEOUT_DEFAULT"

section \<open>Requests\<close>

definition ec200_http_get ::
    "'w ec200_handle \<Rightarrow> nat \<Rightarrow> ec200_http_response option
     \<Rightarrow> ('w ec200_handle \<times> ec200_status \<times> ec200_http_response option) option" where
  "ec200_http_get h timeout_ms resp =
     (case resp of
        None \<Rightarrow> Some (h, EC200_ERR_PARAM, None)
      | Some r \<Rightarrow> do {
          (h, st, raw) \<leftarrow> ec200_at_send_await_urc h
            (Some (snprintf 32 (''AT+QHTTPGET='' @ show_nat (timeout_secs timeout_ms))))
            (Some ''+QHTTPGET:'') (char_buf 128) EC200_AT_TIMEOUT_DEFAULT timeout_ms;
          if st \<noteq> EC200_OK then Some (h, st, resp)
          else (case parse_http_result (buf_text raw) r of (st, r) \<Rightarrow> Some (h, st, Some r))
        })"

definition ec200_http_post ::
    "'w ec200_handle \<Rightarrow> char list option \<Rightarrow> nat \<Rightarrow> int \<Rightarrow> nat \<Rightarrow> ec200_http_response option
     \<Rightarrow> ('w ec200_handle \<times> ec200_status \<times> ec200_http_response option) option" where
  "ec200_http_post h body body_len content_type timeout_ms resp =
     (if resp = None \<or> body = None \<or> body_len = 0 \<or> body_len > 65535
      then Some (h, EC200_ERR_PARAM, resp)
      else if content_type < 0 \<or> content_type > 4 then Some (h, EC200_ERR_PARAM, resp)
      else do {
        (h, st) \<leftarrow> send_plain h
          (snprintf 48 (''AT+QHTTPCFG='' @ quoted ''contenttype'' @ '','' @ show_int content_type))
          EC200_AT_TIMEOUT_DEFAULT;
        if st \<noteq> EC200_OK then Some (h, st, resp)
        else do {
          (h, st, _) \<leftarrow> ec200_at_send_expect h
            (Some (snprintf 64 (''AT+QHTTPPOST='' @ show_nat body_len @ '','' @
               show_nat (timeout_secs timeout_ms) @ '','' @ show_nat (timeout_secs timeout_ms))))
            (Some ''CONNECT'') (char_buf 32)
            (if timeout_ms > EC200_AT_TIMEOUT_DEFAULT then timeout_ms
             else EC200_AT_TIMEOUT_DEFAULT);
          if st \<noteq> EC200_OK then Some (h, st, resp)
          else do {
            (h, st) \<leftarrow> ec200_at_write_raw h body (cast_u16 (int body_len));
            if st \<noteq> EC200_OK then Some (h, st, resp)
            else do {
              (h, st) \<leftarrow> ec200_at_wait_final h EC200_AT_TIMEOUT_LONG;
              if st \<noteq> EC200_OK then Some (h, st, resp)
              else do {
                (h, st, raw) \<leftarrow> ec200_at_wait_prefix h (Some ''+QHTTPPOST:'') (char_buf 128)
                                  timeout_ms;
                if st \<noteq> EC200_OK then Some (h, st, resp)
                else (case parse_http_result (buf_text raw) (the resp) of
                        (st, r) \<Rightarrow> Some (h, st, Some r))
              }
            }
          }
        }
      })"

section \<open>Reading the body\<close>

definition http_trailer :: string where
  "http_trailer = [CR, LF, CHR ''O'', CHR ''K'', CR, LF]"

text \<open>
  The caller's array (its length is \<open>buf_sz\<close>), the fill position, the overflow flag and
  the count of discarded bytes.
\<close>

record body_acc =
  ba_buf :: "char list"
  ba_pos :: nat
  ba_overflow :: bool
  ba_discarded :: nat

definition put_byte :: "char \<Rightarrow> body_acc \<Rightarrow> body_acc" where
  "put_byte ch a =
     (if ba_pos a < length (ba_buf a)
      then a\<lparr>ba_buf := (ba_buf a)[ba_pos a := ch], ba_pos := ba_pos a + 1\<rparr>
      else a\<lparr>ba_overflow := True, ba_discarded := ba_discarded a + 1\<rparr>)"

text \<open>A byte that does not continue the match: flush the matched prefix, restart.\<close>

definition mismatch_byte :: "char \<Rightarrow> nat \<Rightarrow> body_acc \<Rightarrow> nat \<times> body_acc" where
  "mismatch_byte ch match a =
     (let a = fold put_byte (take match http_trailer) a in
      if ch = hd http_trailer then (1, a) else (0, put_byte ch a))"

definition body_room :: "body_acc \<Rightarrow> nat" where
  "body_room a = (length (ba_buf a) - ba_pos a) + (HTTP_MAX_DISCARD + 1 - ba_discarded a)"

lemma put_byte_discarded: "ba_discarded a \<le> ba_discarded (put_byte ch a)"
  by (simp add: put_byte_def)

lemma put_byte_room:
  "ba_discarded (put_byte ch a) \<le> HTTP_MAX_DISCARD \<Longrightarrow> body_room (put_byte ch a) < body_room a"
  by (auto simp: put_byte_def body_room_def)

lemma fold_put_discarded: "ba_discarded a \<le> ba_discarded (fold put_byte cs a)"
proof (induction cs arbitrary: a)
  case (Cons c cs)
  then show ?case using put_byte_discarded [of a c] by (force intro: order_trans)
qed simp

lemma fold_put_room:
  "ba_discarded (fold put_byte cs a) \<le> HTTP_MAX_DISCARD \<Longrightarrow>
   body_room (fold put_byte cs a) + length cs \<le> body_room a"
proof (induction cs arbitrary: a)
  case (Cons c cs)
  have d: "ba_discarded (put_byte c a) \<le> HTTP_MAX_DISCARD"
    using Cons.prems fold_put_discarded [of "put_byte c a" cs] by simp
  show ?case
    using Cons.IH [of "put_byte c a"] Cons.prems put_byte_room [OF d] by simp
qed simp

lemma mismatch_room:
  assumes "mismatch_byte ch match a = (match', a')"
    and "ba_discarded a' \<le> HTTP_MAX_DISCARD" and "ch \<noteq> http_trailer ! match"
  shows "body_room a' < body_room a"
proof -
  let ?f = "fold put_byte (take match http_trailer) a"
  have len: "length (take match http_trailer) = 0 \<longleftrightarrow> match = 0"
    by (cases match) (simp_all add: http_trailer_def)
  show ?thesis
  proof (cases "ch = hd http_trailer")
    case True
    then have "match \<noteq> 0" using assms(3) by (cases match) (auto simp: http_trailer_def)
    then have "0 < length (take match http_trailer)" using len by blast
    moreover have a': "a' = ?f" using assms(1) True by (simp add: mismatch_byte_def)
    moreover have "body_room ?f + length (take match http_trailer) \<le> body_room a"
      using assms(2) a' by (intro fold_put_room) simp
    ultimately show ?thesis unfolding a' by linarith
  next
    case False
    then have a': "a' = put_byte ch ?f" using assms(1) by (simp add: mismatch_byte_def)
    have "ba_discarded ?f \<le> HTTP_MAX_DISCARD"
      using assms(2) put_byte_discarded [of ?f ch] a' by simp
    then show ?thesis
      using fold_put_room [of "take match http_trailer" a] put_byte_room [of ch ?f] assms(2) a'
      by simp
  qed
qed

function read_body_until_ok ::
    "'w ec200_handle \<Rightarrow> body_acc \<Rightarrow> nat \<Rightarrow> nat
     \<Rightarrow> ('w ec200_handle \<times> ec200_status \<times> body_acc) option" where
  "read_body_until_ok h a match budget =
     (let slice = poll_slice budget in
      case ec200_at_read_raw h (Some [NUL]) 1 slice (Some 0) of
        None \<Rightarrow> None
      | Some (h, st, c, got) \<Rightarrow>
          if st = EC200_ERR_IO then Some (h, EC200_ERR_IO, a)
          else if st = EC200_ERR_TIMEOUT then
            (if budget = 0 then Some (h, EC200_ERR_TIMEOUT, a)
             else read_body_until_ok h a match (budget - slice))
          else
            let ch = hd (the c) in
            if ch = http_trailer ! match then
              (if match + 1 \<ge> length http_trailer
               then Some (h, if ba_overflow a then EC200_ERR_OVERFLOW else EC200_OK, a)
               else read_body_until_ok h a (match + 1) budget)
            else
              (case mismatch_byte ch match a of
                 (match, a) \<Rightarrow>
                   if ba_discarded a > HTTP_MAX_DISCARD then Some (h, EC200_ERR_OVERFLOW, a)
                   else read_body_until_ok h a match budget))"
  by pat_completeness auto
termination
proof (relation "measures [\<lambda>(h, a, match, budget). body_room a,
                           \<lambda>(h, a, match, budget). length http_trailer - match,
                           \<lambda>(h, a, match, budget). budget]", goal_cases)
  case (4 h a match budget)
  then have "body_room a' < body_room a" if "(m', a') = mismatch_byte ch match a"
      and "ch \<noteq> http_trailer ! match" and "\<not> ba_discarded a' > HTTP_MAX_DISCARD" for m' a' ch
    using that mismatch_room [of ch match a m' a'] by simp
  with 4 show ?case by auto
qed (auto simp: poll_slice_less)

declare read_body_until_ok.simps [simp del]

text \<open>
  \<open>bytes_read\<close> is set on every exit of the loop but the I/O error, where it keeps the 0
  that \<^verbatim>\<open>ec200_http_read\<close> stored before.
\<close>

definition ec200_http_read ::
    "'w ec200_handle \<Rightarrow> char list option \<Rightarrow> nat option \<Rightarrow> nat
     \<Rightarrow> ('w ec200_handle \<times> ec200_status \<times> char list option \<times> nat option) option" where
  "ec200_http_read h buf bytes_read timeout_ms =
     (if buf = None \<or> bytes_read = None \<or> buf = Some []
      then Some (h, EC200_ERR_PARAM, buf, bytes_read)
      else do {
        (h, st, _) \<leftarrow> ec200_at_send_expect h
          (Some (snprintf 32 (''AT+QHTTPREAD='' @ show_nat (timeout_secs timeout_ms))))
          (Some ''CONNECT'') (char_buf 32) EC200_AT_TIMEOUT_DEFAULT;
        if st \<noteq> EC200_OK then Some (h, st, buf, Some 0)
        else do {
          (h, st, a) \<leftarrow> read_body_until_ok h
            \<lparr>ba_buf = the buf, ba_pos = 0, ba_overflow = False, ba_discarded = 0\<rparr> 0 timeout_ms;
          let n = (if st = EC200_ERR_IO then 0 else ba_pos a);
          if st \<noteq> EC200_OK \<and> st \<noteq> EC200_ERR_OVERFLOW then Some (h, st, Some (ba_buf a), Some n)
          else do {
            (h, urc, raw) \<leftarrow> ec200_at_wait_prefix h (Some ''+QHTTPREAD:'') (char_buf 64)
                               EC200_AT_TIMEOUT_DEFAULT;
            Some (h,
              if urc = EC200_OK
                 \<and> (case ec200_at_parse_int_field (buf_text raw) 0 of
                      Some err \<Rightarrow> err \<noteq> 0 | None \<Rightarrow> False)
              then EC200_ERR_MODULE else st, Some (ba_buf a), Some n)
          }
        }
      })"

section \<open>What the operations keep\<close>

context at_frame
begin

lemma keeps_http_set_context: "keeps R h (ec200_http_set_context h c)"
  unfolding ec200_http_set_context_def by (intro keeps_body keeps_plain)

lemma keeps_http_set_ssl_context: "keeps R h (ec200_http_set_ssl_context h c)"
  unfolding ec200_http_set_ssl_context_def by (intro keeps_body keeps_plain)

lemma keeps_http_set_url: "keeps R h (ec200_http_set_url h u)"
  unfolding ec200_http_set_url_def by (intro keeps_body)

lemma keeps_http_stop: "keeps R h (ec200_http_stop h)"
  by (simp add: ec200_http_stop_def keeps_plain)

lemma keeps_http_get: "keeps R h (ec200_http_get h t r)"
  unfolding ec200_http_get_def by (intro keeps_body)

lemma keeps_http_post: "keeps R h (ec200_http_post h b l c t r)"
  unfolding ec200_http_post_def by (intro keeps_body keeps_seq [OF keeps_plain])

lemma R_read_body: "read_body_until_ok h a match budget = Some (h', r) \<Longrightarrow> R h h'"
proof (induction h a match budget arbitrary: h' r rule: read_body_until_ok.induct)
  case (1 h a match budget)
  obtain h1 st c got where
    rd: "ec200_at_read_raw h (Some [NUL]) 1 (poll_slice budget) (Some 0) = Some (h1, st, c, got)"
    using "1.prems" by (auto simp: read_body_until_ok.simps [of h a match budget] Let_def
        split: option.splits)
  have R1: "R h h1" using keeps_read_raw rd by (rule keepsD)
  note step = "1.prems" [unfolded read_body_until_ok.simps [of h a match budget] Let_def rd
      option.case prod.case]
  note IH = "1.IH" [OF refl rd refl refl refl]
  consider (io) "st = EC200_ERR_IO" | (tmo) "st = EC200_ERR_TIMEOUT"
    | (byte) "st \<noteq> EC200_ERR_IO" "st \<noteq> EC200_ERR_TIMEOUT" by blast
  then have "R h1 h'"
  proof cases
    case io
    then show ?thesis using step R_refl by simp
  next
    case tmo
    then show ?thesis using step R_refl IH(1) by (auto split: if_splits)
  next
    case byte
    show ?thesis
    proof (cases "hd (the c) = http_trailer ! match")
      case True
      then show ?thesis using step byte R_refl IH(2) [OF byte refl True] by (auto split: if_splits)
    next
      case False
      obtain m' a' where ma: "mismatch_byte (hd (the c)) match a = (m', a')" by fastforce
      show ?thesis
        using step byte False R_refl IH(3) [OF byte refl False ma [symmetric]] ma
        by (auto split: if_splits)
    qed
  qed
  with R1 show ?case by (rule R_trans)
qed

lemma keeps_read_body: "keeps R h (read_body_until_ok h a match budget)"
  by (rule keepsI) (rule R_read_body)

lemma keeps_http_read: "keeps R h (ec200_http_read h b n t)"
  unfolding ec200_http_read_def
  by (intro keeps_body keeps_seq [OF keeps_read_body] keeps_let)

lemmas keeps_http_ops =
  keeps_http_set_context keeps_http_set_ssl_context keeps_http_set_url keeps_http_stop
  keeps_http_get keeps_http_post keeps_http_read

end

end
