(* ===== verification/Ec200_Data.thy ===== *)
theory Ec200_Data
  imports Ec200_Core
begin

text \<open>
  PDP contexts, \<^verbatim>\<open>src/ec200_data.c\<close>. The context type is an integer, checked from above
  only before it indexes two tables; an index below 0 is the outcome \<open>None\<close>.
\<close>

record ec200_pdp_context =
  pdp_cid :: nat
  pdp_type :: int
  pdp_apn :: string
  pdp_username :: string
  pdp_password :: string
  pdp_ip_addr :: string

definition pdp_type_str :: "string list" where
  "pdp_type_str = [''IP'', ''IPV6'', ''IPV4V6'']"

definition qicsgp_type :: "nat list" where
  "qicsgp_type = [1, 2, 3]"

definition ec200_data_set_pdp ::
    "'w ec200_handle \<Rightarrow> ec200_pdp_context option \<Rightarrow> ('w ec200_handle \<times> ec200_status) option"
    where
  "ec200_data_set_pdp h ctx =
     (case ctx of
        None \<Rightarrow> Some (h, EC200_ERR_PARAM)
      | Some c \<Rightarrow>
          if pdp_cid c < 1 \<or> pdp_cid c > 16 then Some (h, EC200_ERR_PARAM)
          else if pdp_type c > 2 then Some (h, EC200_ERR_PARAM)
          else if pdp_type c < 0 then None
          else do {
            (h, st) \<leftarrow> send_plain h
              (snprintf 192 (''AT+CGDCONT='' @ show_nat (pdp_cid c) @ '','' @
                 quoted (pdp_type_str ! nat (pdp_type c)) @ '','' @ quoted (pdp_apn c)))
              EC200_AT_TIMEOUT_DEFAULT;
            if st \<noteq> EC200_OK then Some (h, st)
            else if pdp_username c \<noteq> [] then
              send_plain h
                (snprintf 192 (''AT+QICSGP='' @ show_nat (pdp_cid c) @ '','' @
                   show_nat (qicsgp_type ! nat (pdp_type c)) @ '','' @ quoted (pdp_apn c) @ '','' @
                   quoted (pdp_username c) @ '','' @ quoted (pdp_password c) @ '',3''))
                EC200_AT_TIMEOUT_DEFAULT
            else Some (h, st)
          })"

definition ec200_data_activate ::
    "'w ec200_handle \<Rightarrow> nat \<Rightarrow> ('w ec200_handle \<times> ec200_status) option" where
  "ec200_data_activate h cid =
     (if cid < 1 \<or> cid > 16 then Some (h, EC200_ERR_PARAM)
      else send_plain h (snprintf 32 (''AT+CGACT=1,'' @ show_nat cid)) EC200_AT_TIMEOUT_LONG)"

definition ec200_data_deactivate ::
    "'w ec200_handle \<Rightarrow> nat \<Rightarrow> ('w ec200_handle \<times> ec200_status) option" where
  "ec200_data_deactivate h cid =
     (if cid < 1 \<or> cid > 16 then Some (h, EC200_ERR_PARAM)
      else send_plain h (snprintf 32 (''AT+CGACT=0,'' @ show_nat cid)) EC200_AT_TIMEOUT_LONG)"

text \<open>The address field: after the first comma, without the quotes around it.\<close>

definition parse_pdp_addr :: "string \<Rightarrow> string option" where
  "parse_pdp_addr resp =
     (case strchr resp CHR '','' of
        None \<Rightarrow> None
      | Some p \<Rightarrow>
          (let c = tl p;
               c = (if c \<noteq> [] \<and> hd c = DQUOTE then tl c else c);
               alen = (if c \<noteq> [] \<and> last c = DQUOTE then length c - 1 else length c)
           in if alen = 0 then None else Some (take alen c)))"

definition ec200_data_get_ip ::
    "'w ec200_handle \<Rightarrow> nat \<Rightarrow> cbuf \<Rightarrow> ('w ec200_handle \<times> ec200_status \<times> cbuf) option" where
  "ec200_data_get_ip h cid ip_buf =
     (if no_buf ip_buf \<or> cid < 1 \<or> cid > 16 then Some (h, EC200_ERR_PARAM, ip_buf)
      else do {
        (h, st, resp) \<leftarrow> ec200_at_send_wait h
                           (Some (snprintf 32 (''AT+CGPADDR='' @ show_nat cid)))
                           (Some ''+CGPADDR:'') (char_buf 128) EC200_AT_TIMEOUT_DEFAULT;
        if st \<noteq> EC200_OK then Some (h, st, ip_buf)
        else (case parse_pdp_addr (buf_text resp) of
                None \<Rightarrow> Some (h, EC200_ERR_PARSE, ip_buf)
              | Some a \<Rightarrow> Some (h, EC200_OK, copy_line a ip_buf))
      })"

definition ip_field :: "ec200_pdp_context \<Rightarrow> cbuf" where
  "ip_field c = Some (EC200_MAX_IP_ADDR_LEN, pdp_ip_addr c)"

definition set_ip :: "ec200_pdp_context \<Rightarrow> cbuf \<Rightarrow> ec200_pdp_context" where
  "set_ip c b = c\<lparr>pdp_ip_addr := buf_text b\<rparr>"

definition ec200_data_connect ::
    "'w ec200_handle \<Rightarrow> ec200_pdp_context option
     \<Rightarrow> ('w ec200_handle \<times> ec200_status \<times> ec200_pdp_context option) option" where
  "ec200_data_connect h ctx =
     (case ctx of
        None \<Rightarrow> Some (h, EC200_ERR_PARAM, None)
      | Some c \<Rightarrow> do {
          (h, st, b) \<leftarrow> ec200_data_get_ip h (pdp_cid c) (ip_field c);
          let c = set_ip c b;
          if st = EC200_OK \<and> pdp_ip_addr c \<noteq> ''0.0.0.0'' then Some (h, EC200_OK, Some c)
          else do {
            (h, st) \<leftarrow> ec200_data_set_pdp h (Some c);
            if st \<noteq> EC200_OK then Some (h, st, Some c)
            else do {
              (h, act) \<leftarrow> ec200_data_activate h (pdp_cid c);
              (h, st, b) \<leftarrow> ec200_data_get_ip h (pdp_cid c) (ip_field c);
              let c = set_ip c b;
              if st = EC200_OK \<and> pdp_ip_addr c \<noteq> ''0.0.0.0'' then Some (h, EC200_OK, Some c)
              else Some (h, if act \<noteq> EC200_OK then act else st, Some c)
            }
          }
        })"

context at_frame
begin

lemma keeps_data_set_pdp: "keeps R h (ec200_data_set_pdp h c)"
  unfolding ec200_data_set_pdp_def by (intro keeps_body keeps_plain keeps_seq [OF keeps_plain])

lemma keeps_data_activate: "keeps R h (ec200_data_activate h c)"
  unfolding ec200_data_activate_def by (intro keeps_body keeps_plain)

lemma keeps_data_deactivate: "keeps R h (ec200_data_deactivate h c)"
  unfolding ec200_data_deactivate_def by (intro keeps_body keeps_plain)

lemma keeps_data_get_ip: "keeps R h (ec200_data_get_ip h c b)"
  unfolding ec200_data_get_ip_def by (intro keeps_body)

lemma keeps_data_connect: "keeps R h (ec200_data_connect h c)"
  unfolding ec200_data_connect_def
  by (intro keeps_body keeps_seq [OF keeps_data_get_ip] keeps_seq [OF keeps_data_set_pdp]
      keeps_seq [OF keeps_data_activate] keeps_let)

lemmas keeps_data_ops =
  keeps_data_set_pdp keeps_data_activate keeps_data_deactivate keeps_data_get_ip
  keeps_data_connect

end

end
