(* ===== verification/Ec200_Tcpip.thy ===== *)
theory Ec200_Tcpip
  imports Ec200_Core
begin

text \<open>
  TCP/IP sockets, name resolution and ping, \<^verbatim>\<open>src/ec200_tcpip.c\<close>. \<open>conn_id\<close>,
  \<open>ctx_id\<close>, ports and lengths are naturals (unsigned parameters); the socket type is an
  integer which the code checks from above only.
\<close>

definition EC200_SOCK_TCP :: int where "EC200_SOCK_TCP = 0"
definition EC200_SOCK_UDP :: int where "EC200_SOCK_UDP = 1"
definition EC200_SOCK_UDP_SERVICE :: int where "EC200_SOCK_UDP_SERVICE = 3"

record ec200_socket =
  sock_conn_id :: int
  sock_type :: int
  sock_remote_host :: string
  sock_remote_port :: nat
  sock_connected :: bool

record ec200_ping_result =
  ping_sent :: nat
  ping_received :: nat
  ping_lost :: nat
  ping_min_rtt_ms :: nat
  ping_max_rtt_ms :: nat
  ping_avg_rtt_ms :: nat

definition sock_type_str :: "string list" where
  "sock_type_str = [''TCP'', ''UDP'', ''TCP LISTENER'', ''UDP SERVICE'']"

definition QISTATE_CONNECTED :: int where "QISTATE_CONNECTED = 2"

text \<open>A NULL or empty host name, or one that would not fit its field.\<close>

definition no_host :: "string option \<Rightarrow> bool" where
  "no_host host = (host = None \<or> host = Some [])"

section \<open>Connections\<close>

definition ec200_tcp_open ::
    "'w ec200_handle \<Rightarrow> nat \<Rightarrow> nat \<Rightarrow> int \<Rightarrow> string option \<Rightarrow> nat \<Rightarrow> int
     \<Rightarrow> ('w ec200_handle \<times> ec200_status) option" where
  "ec200_tcp_open h ctx_id conn_id typ host port access_mode =
     (if no_host host \<or> conn_id \<ge> EC200_MAX_CONNECTIONS then Some (h, EC200_ERR_PARAM)
      else if length (the host) \<ge> EC200_MAX_URL_LEN then Some (h, EC200_ERR_PARAM)
      else if ctx_id < 1 \<or> ctx_id > 16 then Some (h, EC200_ERR_PARAM)
      else if typ > EC200_SOCK_UDP_SERVICE then Some (h, EC200_ERR_PARAM)
      else if typ < 0 then None
      else do {
        (h, st, resp) \<leftarrow> ec200_at_send_await_urc h
          (Some (snprintf (EC200_MAX_URL_LEN + 64)
             (''AT+QIOPEN='' @ show_nat ctx_id @ '','' @ show_nat conn_id @ '','' @
              quoted (sock_type_str ! nat typ) @ '','' @ quoted (the host) @ '','' @
              show_nat port @ '',0,'' @ show_nat (cast_u32 access_mode))))
          (Some ''+QIOPEN:'') (char_buf 64) EC200_AT_TIMEOUT_DEFAULT EC200_AT_TIMEOUT_LONG;
        if st \<noteq> EC200_OK then Some (h, st)
        else (case ec200_at_parse_int_field (buf_text resp) 1 of
                None \<Rightarrow> Some (h, EC200_ERR_PARSE)
              | Some err \<Rightarrow> Some (h, if err = 0 then EC200_OK else EC200_ERR_MODULE))
      })"

definition ec200_tcp_close ::
    "'w ec200_handle \<Rightarrow> nat \<Rightarrow> ('w ec200_handle \<times> ec200_status) option" where
  "ec200_tcp_close h conn_id =
     (if conn_id \<ge> EC200_MAX_CONNECTIONS then Some (h, EC200_ERR_PARAM)
      else send_plain h (snprintf 32 (''AT+QICLOSE='' @ show_nat conn_id)) EC200_AT_TIMEOUT_LONG)"

section \<open>Data transfer\<close>

definition ec200_tcp_send ::
    "'w ec200_handle \<Rightarrow> nat \<Rightarrow> char list option \<Rightarrow> nat
     \<Rightarrow> ('w ec200_handle \<times> ec200_status) option" where
  "ec200_tcp_send h conn_id data len =
     (if data = None \<or> len = 0 \<or> len > EC200_MAX_PAYLOAD_LEN \<or> conn_id \<ge> EC200_MAX_CONNECTIONS
      then Some (h, EC200_ERR_PARAM)
      else do {
        (h, st) \<leftarrow> ec200_at_send_prompt h
                     (Some (snprintf 32 (''AT+QISEND='' @ show_nat conn_id @ '','' @ show_nat len)))
                     EC200_AT_TIMEOUT_DEFAULT;
        if st \<noteq> EC200_OK then Some (h, st)
        else do {
          (h, st) \<leftarrow> ec200_at_write_raw h data len;
          if st \<noteq> EC200_OK then Some (h, st)
          else do {
            (h, st, resp) \<leftarrow> ec200_at_wait_prefix h (Some ''SEND'') (char_buf 32)
                               EC200_AT_TIMEOUT_LONG;
            if st \<noteq> EC200_OK then Some (h, st)
            else Some (h, if buf_text resp = ''SEND OK'' then EC200_OK else EC200_ERR_MODULE)
          }
        }
      })"

definition ec200_tcp_recv ::
    "'w ec200_handle \<Rightarrow> nat \<Rightarrow> char list option \<Rightarrow> nat \<Rightarrow> nat option \<Rightarrow> nat
     \<Rightarrow> ('w ec200_handle \<times> ec200_status \<times> char list option \<times> nat option) option" where
  "ec200_tcp_recv h conn_id buf max_len bytes_read timeout_ms =
     (if buf = None \<or> bytes_read = None \<or> max_len = 0 \<or> conn_id \<ge> EC200_MAX_CONNECTIONS
      then Some (h, EC200_ERR_PARAM, buf, bytes_read)
      else do {
        (h, st, hdr) \<leftarrow> ec200_at_send_expect h
          (Some (snprintf 32 (''AT+QIRD='' @ show_nat conn_id @ '','' @ show_nat max_len)))
          (Some ''+QIRD:'') (char_buf 64) timeout_ms;
        if st \<noteq> EC200_OK then Some (h, st, buf, Some 0)
        else (case ec200_at_parse_int_field (buf_text hdr) 0 of
                None \<Rightarrow> Some (h, EC200_ERR_PARSE, buf, Some 0)
              | Some actual \<Rightarrow>
                  if actual < 0 \<or> actual > int max_len
                  then Some (h, EC200_ERR_PARSE, buf, Some 0)
                  else if actual > 0 then do {
                    (h, st, b, got) \<leftarrow> ec200_at_read_exact h buf (cast_u16 actual) timeout_ms
                                        (Some 0);
                    if st \<noteq> EC200_OK then Some (h, st, b, got)
                    else do {
                      (h, st) \<leftarrow> ec200_at_wait_final h EC200_AT_TIMEOUT_DEFAULT;
                      Some (h, st, b, got)
                    }
                  }
                  else do {
                    (h, st) \<leftarrow> ec200_at_wait_final h EC200_AT_TIMEOUT_DEFAULT;
                    Some (h, st, buf, Some 0)
                  })
      })"

section \<open>Queries\<close>

definition ec200_tcp_get_state ::
    "'w ec200_handle \<Rightarrow> nat \<Rightarrow> ec200_socket option
     \<Rightarrow> ('w ec200_handle \<times> ec200_status \<times> ec200_socket option) option" where
  "ec200_tcp_get_state h conn_id sock =
     (if sock = None \<or> conn_id \<ge> EC200_MAX_CONNECTIONS then Some (h, EC200_ERR_PARAM, sock)
      else do {
        let s = \<lparr>sock_conn_id = int conn_id, sock_type = EC200_SOCK_TCP, sock_remote_host = [],
                 sock_remote_port = 0, sock_connected = False\<rparr>;
        (h, st, resp) \<leftarrow> ec200_at_send_wait h
                           (Some (snprintf 32 (''AT+QISTATE=1,'' @ show_nat conn_id)))
                           (Some ''+QISTATE:'') (char_buf 256) EC200_AT_TIMEOUT_DEFAULT;
        if st \<noteq> EC200_OK then Some (h, st, Some s)
        else
          let vs = sscanf (after_colon (buf_text resp))
                     [ScanSp, ScanD, ScanLit CHR '','', ScanLit DQUOTE, ScanSet 15 DQUOTE,
                      ScanLit DQUOTE, ScanLit CHR '','', ScanLit DQUOTE, ScanSet 45 DQUOTE,
                      ScanLit DQUOTE, ScanLit CHR '','', ScanU, ScanLit CHR '','', ScanU,
                      ScanLit CHR '','', ScanD]
          in if length vs < 6 then Some (h, EC200_ERR_PARSE, Some s)
             else Some (h, EC200_OK,
                    Some (s\<lparr>sock_remote_host := scan_str vs 2 [],
                            sock_remote_port := cast_u16 (scan_int vs 3 0),
                            sock_type := (if strncmp_eq (scan_str vs 1 []) ''UDP'' 3
                                          then EC200_SOCK_UDP else EC200_SOCK_TCP),
                            sock_connected := (scan_int vs 5 (-1) = QISTATE_CONNECTED)\<rparr>))
      })"

definition ec200_tcp_bytes_available ::
    "'w ec200_handle \<Rightarrow> nat \<Rightarrow> nat option
     \<Rightarrow> ('w ec200_handle \<times> ec200_status \<times> nat option) option" where
  "ec200_tcp_bytes_available h conn_id bytes_avail =
     (if bytes_avail = None \<or> conn_id \<ge> EC200_MAX_CONNECTIONS
      then Some (h, EC200_ERR_PARAM, bytes_avail)
      else do {
        (h, st, resp) \<leftarrow> ec200_at_send_wait h
                           (Some (snprintf 32 (''AT+QIRD='' @ show_nat conn_id @ '',0'')))
                           (Some ''+QIRD:'') (char_buf 128) EC200_AT_TIMEOUT_DEFAULT;
        if st \<noteq> EC200_OK then Some (h, st, Some 0)
        else (case ec200_at_parse_int_field (buf_text resp) 2 of
                None \<Rightarrow> Some (h, EC200_ERR_PARSE, Some 0)
              | Some unread \<Rightarrow>
                  if unread < 0 then Some (h, EC200_ERR_PARSE, Some 0)
                  else Some (h, EC200_OK, Some (cast_u32 unread)))
      })"

section \<open>Name resolution and ping\<close>

definition dnsgip_prefix :: string where
  "dnsgip_prefix = ''+QIURC: '' @ quoted ''dnsgip''"

text \<open>The quoted address of a \<open>dnsgip\<close> line: after the first comma.\<close>

definition dnsgip_addr :: "string \<Rightarrow> string option" where
  "dnsgip_addr resp =
     (case strchr resp CHR '','' of
        None \<Rightarrow> None
      | Some q \<Rightarrow>
          (case strchr q DQUOTE of
             None \<Rightarrow> None
           | Some q \<Rightarrow>
               (case strchr (tl q) DQUOTE of
                  None \<Rightarrow> None
                | Some e \<Rightarrow> Some (take (length (tl q) - length e) (tl q)))))"

definition ec200_tcp_dns_resolve ::
    "'w ec200_handle \<Rightarrow> nat \<Rightarrow> string option \<Rightarrow> cbuf \<Rightarrow> nat
     \<Rightarrow> ('w ec200_handle \<times> ec200_status \<times> cbuf) option" where
  "ec200_tcp_dns_resolve h pdp_ctx host ip timeout_ms =
     (if no_host host \<or> no_buf ip \<or> pdp_ctx < 1 \<or> pdp_ctx > 16
      then Some (h, EC200_ERR_PARAM, ip)
      else if length (the host) \<ge> EC200_MAX_URL_LEN then Some (h, EC200_ERR_PARAM, ip)
      else do {
        (h, st, resp) \<leftarrow> ec200_at_send_await_urc h
          (Some (snprintf (EC200_MAX_URL_LEN + 32)
             (''AT+QIDNSGIP='' @ show_nat pdp_ctx @ '','' @ quoted (the host))))
          (Some dnsgip_prefix) (char_buf 128) EC200_AT_TIMEOUT_DEFAULT timeout_ms;
        if st \<noteq> EC200_OK then Some (h, st, ip)
        else if (case ec200_at_parse_int_field (buf_text resp) 1 of
                   Some err \<Rightarrow> err \<noteq> 0 | None \<Rightarrow> False)
        then Some (h, EC200_ERR_MODULE, ip)
        else do {
          (h, st, resp) \<leftarrow> ec200_at_wait_prefix h (Some dnsgip_prefix) resp timeout_ms;
          if st \<noteq> EC200_OK then Some (h, st, ip)
          else (case dnsgip_addr (buf_text resp) of
                  None \<Rightarrow> Some (h, EC200_ERR_PARSE, ip)
                | Some a \<Rightarrow> Some (h, EC200_OK, copy_line a ip))
        }
      })"

text \<open>The fields from \<open>7 - n\<close> on; \<open>None\<close> when one is missing.\<close>

fun ping_fields :: "nat \<Rightarrow> string \<Rightarrow> int list \<Rightarrow> int list option" where
  "ping_fields 0 resp f = Some f"
| "ping_fields (Suc n) resp f =
     (case ec200_at_parse_int_field resp (length f) of
        None \<Rightarrow> None | Some x \<Rightarrow> ping_fields n resp (f @ [x]))"

definition ping_zero :: ec200_ping_result where
  "ping_zero = \<lparr>ping_sent = 0, ping_received = 0, ping_lost = 0, ping_min_rtt_ms = 0,
                ping_max_rtt_ms = 0, ping_avg_rtt_ms = 0\<rparr>"

fun ping_loop ::
    "nat \<Rightarrow> 'w ec200_handle \<Rightarrow> cbuf \<Rightarrow> nat
     \<Rightarrow> ('w ec200_handle \<times> ec200_status \<times> ec200_ping_result) option" where
  "ping_loop 0 h resp timeout_ms = Some (h, EC200_ERR_TIMEOUT, ping_zero)"
| "ping_loop (Suc k) h resp timeout_ms =
     (case ping_fields 7 (buf_text resp) [] of
        Some f \<Rightarrow>
          if f ! 0 \<noteq> 0 then Some (h, EC200_ERR_MODULE, ping_zero)
          else Some (h, EC200_OK,
                 \<lparr>ping_sent = cast_u16 (f ! 1), ping_received = cast_u16 (f ! 2),
                  ping_lost = cast_u16 (f ! 3), ping_min_rtt_ms = cast_u32 (f ! 4),
                  ping_max_rtt_ms = cast_u32 (f ! 5), ping_avg_rtt_ms = cast_u32 (f ! 6)\<rparr>)
      | None \<Rightarrow> do {
          (h, st, resp) \<leftarrow> ec200_at_wait_prefix h (Some ''+QPING:'') resp timeout_ms;
          if st \<noteq> EC200_OK then Some (h, st, ping_zero)
          else ping_loop k h resp timeout_ms
        })"

definition ec200_tcp_ping ::
    "'w ec200_handle \<Rightarrow> nat \<Rightarrow> string option \<Rightarrow> nat \<Rightarrow> ec200_ping_result option \<Rightarrow> nat
     \<Rightarrow> ('w ec200_handle \<times> ec200_status \<times> ec200_ping_result option) option" where
  "ec200_tcp_ping h pdp_ctx host cnt res timeout_ms =
     (if no_host host \<or> res = None \<or> pdp_ctx < 1 \<or> pdp_ctx > 16 \<or> cnt = 0 \<or> cnt > 10
      then Some (h, EC200_ERR_PARAM, res)
      else if length (the host) \<ge> EC200_MAX_URL_LEN then Some (h, EC200_ERR_PARAM, res)
      else do {
        (h, st, resp) \<leftarrow> ec200_at_send_await_urc h
          (Some (snprintf (EC200_MAX_URL_LEN + 48)
             (''AT+QPING='' @ show_nat pdp_ctx @ '','' @ quoted (the host) @ '',4,'' @
              show_nat cnt)))
          (Some ''+QPING:'') (char_buf 128) EC200_AT_TIMEOUT_DEFAULT timeout_ms;
        if st \<noteq> EC200_OK then Some (h, st, Some ping_zero)
        else do {
          (h, st, r) \<leftarrow> ping_loop EC200_AT_MAX_LINES h resp timeout_ms;
          Some (h, st, Some r)
        }
      })"

section \<open>What the operations keep\<close>

context at_frame
begin

lemma keeps_tcp_open: "keeps R h (ec200_tcp_open h c i t host p a)"
  unfolding ec200_tcp_open_def by (intro keeps_body)

lemma keeps_tcp_close: "keeps R h (ec200_tcp_close h i)"
  unfolding ec200_tcp_close_def by (intro keeps_body keeps_plain)

lemma keeps_tcp_send: "keeps R h (ec200_tcp_send h i d l)"
  unfolding ec200_tcp_send_def by (intro keeps_body)

lemma keeps_tcp_recv: "keeps R h (ec200_tcp_recv h i b m n t)"
  unfolding ec200_tcp_recv_def by (intro keeps_body)

lemma keeps_tcp_get_state: "keeps R h (ec200_tcp_get_state h i s)"
  unfolding ec200_tcp_get_state_def by (intro keeps_body keeps_let)

lemma keeps_tcp_bytes_available: "keeps R h (ec200_tcp_bytes_available h i n)"
  unfolding ec200_tcp_bytes_available_def by (intro keeps_body)

lemma keeps_tcp_dns_resolve: "keeps R h (ec200_tcp_dns_resolve h c host ip t)"
  unfolding ec200_tcp_dns_resolve_def by (intro keeps_body)

lemma keeps_ping_loop: "keeps R h (ping_loop k h resp t)"
proof (induction k arbitrary: h resp)
  case 0
  then show ?case by (simp add: keeps_same)
next
  case (Suc k)
  show ?case
    unfolding ping_loop.simps by (intro keeps_body Suc.IH)
qed

lemma keeps_tcp_ping: "keeps R h (ec200_tcp_ping h c host n r t)"
  unfolding ec200_tcp_ping_def by (intro keeps_body keeps_seq [OF keeps_ping_loop])

lemmas keeps_tcp_ops =
  keeps_tcp_open keeps_tcp_close keeps_tcp_send keeps_tcp_recv keeps_tcp_get_state
  keeps_tcp_bytes_available keeps_tcp_dns_resolve keeps_tcp_ping

end

end
