(* ===== verification/Ec200_Sim.thy ===== *)
theory Ec200_Sim
  imports Ec200_Core
begin

text \<open>SIM management, \<^verbatim>\<open>src/ec200_sim.c\<close>: the PIN state, PIN entry, IMSI and ICCID.\<close>

datatype ec200_sim_status =
    EC200_SIM_READY | EC200_SIM_PIN_REQUIRED | EC200_SIM_PUK_REQUIRED
  | EC200_SIM_PIN2_REQUIRED | EC200_SIM_PUK2_REQUIRED | EC200_SIM_NOT_INSERTED
  | EC200_SIM_UNKNOWN

definition resp_value :: "string \<Rightarrow> string" where
  "resp_value resp = skip_spaces (after_colon resp)"

definition parse_sim_status :: "string \<Rightarrow> ec200_sim_status" where
  "parse_sim_status val =
     (if strncmp_eq val ''READY'' 5 then EC200_SIM_READY
      else if strncmp_eq val ''SIM PIN2'' 8 then EC200_SIM_PIN2_REQUIRED
      else if strncmp_eq val ''SIM PUK2'' 8 then EC200_SIM_PUK2_REQUIRED
      else if strncmp_eq val ''SIM PIN'' 7 then EC200_SIM_PIN_REQUIRED
      else if strncmp_eq val ''SIM PUK'' 7 then EC200_SIM_PUK_REQUIRED
      else if strncmp_eq val ''NOT INSERT'' 10 then EC200_SIM_NOT_INSERTED
      else EC200_SIM_UNKNOWN)"

definition ec200_sim_get_status ::
    "'w ec200_handle \<Rightarrow> ec200_sim_status option
     \<Rightarrow> ('w ec200_handle \<times> ec200_status \<times> ec200_sim_status option) option" where
  "ec200_sim_get_status h status =
     (if status = None then Some (h, EC200_ERR_PARAM, status)
      else do {
        (h, st, resp) \<leftarrow> ec200_at_send_wait h (Some ''AT+CPIN?'') (Some ''+CPIN:'')
                           (char_buf 64) EC200_AT_TIMEOUT_DEFAULT;
        if st \<noteq> EC200_OK then Some (h, st, status)
        else Some (h, EC200_OK, Some (parse_sim_status (resp_value (buf_text resp))))
      })"

definition ec200_sim_enter_pin ::
    "'w ec200_handle \<Rightarrow> string option \<Rightarrow> ('w ec200_handle \<times> ec200_status) option" where
  "ec200_sim_enter_pin h pin =
     (case pin of
        None \<Rightarrow> Some (h, EC200_ERR_PARAM)
      | Some p \<Rightarrow>
          if p = [] \<or> length p > 8 then Some (h, EC200_ERR_PARAM)
          else send_plain h (snprintf 32 (''AT+CPIN='' @ quoted p)) EC200_AT_TIMEOUT_DEFAULT)"

definition ec200_sim_get_imsi ::
    "'w ec200_handle \<Rightarrow> cbuf \<Rightarrow> ('w ec200_handle \<times> ec200_status \<times> cbuf) option" where
  "ec200_sim_get_imsi h imsi =
     (if no_buf imsi then Some (h, EC200_ERR_PARAM, imsi)
      else do {
        (h, st, resp) \<leftarrow> ec200_at_send h (Some ''AT+CIMI'') (char_buf 64)
                           EC200_AT_TIMEOUT_DEFAULT;
        if st \<noteq> EC200_OK then Some (h, st, imsi)
        else Some (h, store_string (body_line (buf_text resp)) imsi)
      })"

text \<open>
  Two forms of the answer: a \<open>+ICCID:\<close> line, or, when that transaction fails for any
  reason, a plain body line of a second one.
\<close>

definition ec200_sim_get_iccid ::
    "'w ec200_handle \<Rightarrow> cbuf \<Rightarrow> ('w ec200_handle \<times> ec200_status \<times> cbuf) option" where
  "ec200_sim_get_iccid h iccid =
     (if no_buf iccid then Some (h, EC200_ERR_PARAM, iccid)
      else do {
        (h, st, resp) \<leftarrow> ec200_at_send_wait h (Some ''AT+CCID'') (Some ''+ICCID:'')
                           (char_buf 64) EC200_AT_TIMEOUT_DEFAULT;
        if st = EC200_OK
        then Some (h, store_string (resp_value (buf_text resp)) iccid)
        else do {
          (h, st, resp) \<leftarrow> ec200_at_send h (Some ''AT+CCID'') resp EC200_AT_TIMEOUT_DEFAULT;
          if st \<noteq> EC200_OK then Some (h, st, iccid)
          else Some (h, store_string (body_line (buf_text resp)) iccid)
        }
      })"

context at_frame
begin

lemma keeps_sim_get_status: "keeps R h (ec200_sim_get_status h s)"
  unfolding ec200_sim_get_status_def by (intro keeps_body)

lemma keeps_sim_enter_pin: "keeps R h (ec200_sim_enter_pin h p)"
  unfolding ec200_sim_enter_pin_def by (intro keeps_body keeps_plain)

lemma keeps_sim_get_imsi: "keeps R h (ec200_sim_get_imsi h b)"
  unfolding ec200_sim_get_imsi_def by (intro keeps_body)

lemma keeps_sim_get_iccid: "keeps R h (ec200_sim_get_iccid h b)"
  unfolding ec200_sim_get_iccid_def by (intro keeps_body)

lemmas keeps_sim_ops =
  keeps_sim_get_status keeps_sim_enter_pin keeps_sim_get_imsi keeps_sim_get_iccid

end

end
