(* ===== verification/Ec200_Network.thy ===== *)
theory Ec200_Network
  imports Ec200_Sim
begin

text \<open>
  Registration, signal quality and operators, \<^verbatim>\<open>src/ec200_network.c\<close>. Enumerations the
  code fills by a cast from an unchecked number (\<open>mode\<close>, \<open>format\<close>, \<open>act\<close>) are
  integers; the registration status is range-checked and so a datatype.
\<close>

section \<open>Types\<close>

datatype ec200_reg_status =
    EC200_REG_NOT_REGISTERED | EC200_REG_REGISTERED_HOME | EC200_REG_SEARCHING
  | EC200_REG_DENIED | EC200_REG_UNKNOWN | EC200_REG_REGISTERED_ROAMING

definition reg_status_of :: "int \<Rightarrow> ec200_reg_status" where
  "reg_status_of i =
     (if i = 0 then EC200_REG_NOT_REGISTERED
      else if i = 1 then EC200_REG_REGISTERED_HOME
      else if i = 2 then EC200_REG_SEARCHING
      else if i = 3 then EC200_REG_DENIED
      else if i = 5 then EC200_REG_REGISTERED_ROAMING
      else EC200_REG_UNKNOWN)"

record ec200_signal_quality =
  sq_rssi :: int
  sq_ber :: nat
  sq_rsrp :: int
  sq_sinr :: int

definition EC200_SIGNAL_UNKNOWN :: int where "EC200_SIGNAL_UNKNOWN = -32768"

record ec200_operator_info =
  op_mode :: int
  op_format :: int
  op_name :: string
  op_act :: int

definition EC200_ACT_UNKNOWN :: int where "EC200_ACT_UNKNOWN = 255"
definition EC200_COPS_MODE_AUTOMATIC :: int where "EC200_COPS_MODE_AUTOMATIC = 0"

record ec200_network_info =
  ni_act :: string
  ni_oper :: string
  ni_band :: string
  ni_channel :: nat

definition empty_network_info :: ec200_network_info where
  "empty_network_info = \<lparr>ni_act = [], ni_oper = [], ni_band = [], ni_channel = 0\<rparr>"

section \<open>Registration\<close>

text \<open>\<open>None\<close> is \<open>EC200_ERR_PARSE\<close>.\<close>

definition parse_reg_status :: "string \<Rightarrow> ec200_reg_status option" where
  "parse_reg_status line =
     (let p = skip_spaces (after_colon line);
          field = (case strchr p CHR '','' of Some q \<Rightarrow> tl q | None \<Rightarrow> p)
      in if \<not> has_digit field then None
         else if atoi field > 5 then None
         else Some (reg_status_of (atoi field)))"

definition get_reg ::
    "'w ec200_handle \<Rightarrow> string \<Rightarrow> string \<Rightarrow> ec200_reg_status option
     \<Rightarrow> ('w ec200_handle \<times> ec200_status \<times> ec200_reg_status option) option" where
  "get_reg h cmd prefix status =
     (if status = None then Some (h, EC200_ERR_PARAM, status)
      else do {
        (h, st, resp) \<leftarrow> ec200_at_send_wait h (Some cmd) (Some prefix) (char_buf 64)
                           EC200_AT_TIMEOUT_DEFAULT;
        if st \<noteq> EC200_OK then Some (h, st, status)
        else (case parse_reg_status (buf_text resp) of
                None \<Rightarrow> Some (h, EC200_ERR_PARSE, status)
              | Some s \<Rightarrow> Some (h, EC200_OK, Some s))
      })"

definition ec200_net_get_creg ::
    "'w ec200_handle \<Rightarrow> ec200_reg_status option
     \<Rightarrow> ('w ec200_handle \<times> ec200_status \<times> ec200_reg_status option) option" where
  "ec200_net_get_creg h status = get_reg h ''AT+CREG?'' ''+CREG:'' status"

definition ec200_net_get_cgreg ::
    "'w ec200_handle \<Rightarrow> ec200_reg_status option
     \<Rightarrow> ('w ec200_handle \<times> ec200_status \<times> ec200_reg_status option) option" where
  "ec200_net_get_cgreg h status = get_reg h ''AT+CGREG?'' ''+CGREG:'' status"

definition ec200_net_get_cereg ::
    "'w ec200_handle \<Rightarrow> ec200_reg_status option
     \<Rightarrow> ('w ec200_handle \<times> ec200_status \<times> ec200_reg_status option) option" where
  "ec200_net_get_cereg h status = get_reg h ''AT+CEREG?'' ''+CEREG:'' status"

text \<open>
  Polling for registration. \<open>elapsed\<close> is a \<^verbatim>\<open>uint32_t\<close> and wraps around, so the loop
  is a partial function.
\<close>

partial_function (option) wait_registered_loop ::
    "'w ec200_handle \<Rightarrow> 32 word \<Rightarrow> 32 word \<Rightarrow> ('w ec200_handle \<times> ec200_status) option" where
  "wait_registered_loop h elapsed timeout_ms =
     (case ec200_net_get_cereg h (Some EC200_REG_UNKNOWN) of
        None \<Rightarrow> None
      | Some (h, st, reg) \<Rightarrow>
          if st = EC200_OK \<and> (reg = Some EC200_REG_REGISTERED_HOME
                               \<or> reg = Some EC200_REG_REGISTERED_ROAMING)
          then Some (h, EC200_OK)
          else if timeout_ms \<le> elapsed then Some (h, EC200_ERR_TIMEOUT)
          else wait_registered_loop (h\<lparr>user_ctx := h_delay_ms h 2000 (user_ctx h)\<rparr>)
                 (elapsed + 2000) timeout_ms)"

declare wait_registered_loop.simps [code]

definition ec200_net_wait_registered ::
    "'w ec200_handle \<Rightarrow> 32 word \<Rightarrow> ('w ec200_handle \<times> ec200_status) option" where
  "ec200_net_wait_registered h timeout_ms = wait_registered_loop h 0 timeout_ms"

section \<open>Signal quality\<close>

definition ec200_net_get_signal ::
    "'w ec200_handle \<Rightarrow> ec200_signal_quality option
     \<Rightarrow> ('w ec200_handle \<times> ec200_status \<times> ec200_signal_quality option) option" where
  "ec200_net_get_signal h sq =
     (if sq = None then Some (h, EC200_ERR_PARAM, sq)
      else do {
        (h, st, resp) \<leftarrow> ec200_at_send_wait h (Some ''AT+CSQ'') (Some ''+CSQ:'') (char_buf 64)
                           EC200_AT_TIMEOUT_DEFAULT;
        if st \<noteq> EC200_OK then Some (h, st, sq)
        else
          let vs = sscanf (after_colon (buf_text resp)) [ScanSp, ScanD, ScanLit CHR '','', ScanD];
              raw = scan_int vs 0 0
          in if length vs \<noteq> 2 then Some (h, EC200_ERR_PARSE, sq)
             else Some (h, EC200_OK,
                    Some \<lparr>sq_rssi = (if raw = 99 \<or> raw < 0 \<or> raw > 31 then 0
                                     else cast_i16 (-113 + raw * 2)),
                          sq_ber = cast_u8 (scan_int vs 1 0),
                          sq_rsrp = EC200_SIGNAL_UNKNOWN, sq_sinr = EC200_SIGNAL_UNKNOWN\<rparr>)
      })"

definition ec200_net_get_signal_ext ::
    "'w ec200_handle \<Rightarrow> ec200_signal_quality option
     \<Rightarrow> ('w ec200_handle \<times> ec200_status \<times> ec200_signal_quality option) option" where
  "ec200_net_get_signal_ext h sq =
     (if sq = None then Some (h, EC200_ERR_PARAM, sq)
      else do {
        (h, st, resp) \<leftarrow> ec200_at_send_wait h (Some ''AT+QCSQ'') (Some ''+QCSQ:'')
                           (char_buf 128) EC200_AT_TIMEOUT_DEFAULT;
        if st \<noteq> EC200_OK then ec200_net_get_signal h sq
        else (case strchr (buf_text resp) CHR '','' of
                None \<Rightarrow> Some (h, EC200_ERR_PARSE, sq)
              | Some p \<Rightarrow>
                  (let vs = sscanf (tl p) [ScanD, ScanLit CHR '','', ScanD, ScanLit CHR '','', ScanD]
                   in if length vs < 1 then Some (h, EC200_ERR_PARSE, sq)
                      else Some (h, EC200_OK,
                        Some \<lparr>sq_rssi = cast_i16 (scan_int vs 0 0), sq_ber = 99,
                              sq_rsrp = (if length vs \<ge> 2 then cast_i16 (scan_int vs 1 0)
                                         else EC200_SIGNAL_UNKNOWN),
                              sq_sinr = (if length vs \<ge> 3 then cast_i16 (scan_int vs 2 0)
                                         else EC200_SIGNAL_UNKNOWN)\<rparr>)))
      })"

section \<open>Operators and network information\<close>

definition ec200_net_get_operator ::
    "'w ec200_handle \<Rightarrow> ec200_operator_info option
     \<Rightarrow> ('w ec200_handle \<times> ec200_status \<times> ec200_operator_info option) option" where
  "ec200_net_get_operator h info =
     (if info = None then Some (h, EC200_ERR_PARAM, info)
      else do {
        (h, st, resp) \<leftarrow> ec200_at_send_wait h (Some ''AT+COPS?'') (Some ''+COPS:'')
                           (char_buf 128) EC200_AT_TIMEOUT_DEFAULT;
        if st \<noteq> EC200_OK then Some (h, st, info)
        else
          let vs = sscanf (skip_spaces (after_colon (buf_text resp)))
                     [ScanD, ScanLit CHR '','', ScanD, ScanLit CHR '','', ScanLit DQUOTE,
                      ScanSet 31 DQUOTE, ScanLit DQUOTE, ScanLit CHR '','', ScanD]
          in if length vs < 1 then Some (h, EC200_ERR_PARSE, info)
             else Some (h, EC200_OK,
                    Some \<lparr>op_mode = scan_int vs 0 0, op_format = scan_int vs 1 0,
                          op_name = scan_str vs 2 [],
                          op_act = scan_int vs 3 EC200_ACT_UNKNOWN\<rparr>)
      })"

definition ec200_net_set_operator ::
    "'w ec200_handle \<Rightarrow> int \<Rightarrow> int \<Rightarrow> string option \<Rightarrow> int
     \<Rightarrow> ('w ec200_handle \<times> ec200_status) option" where
  "ec200_net_set_operator h mode format oper act =
     (if oper \<noteq> None \<and> length (the oper) \<ge> EC200_MAX_OPERATOR_LEN
      then Some (h, EC200_ERR_PARAM)
      else send_plain h
             (snprintf 96
                (if mode = EC200_COPS_MODE_AUTOMATIC then ''AT+COPS='' @ show_int mode
                 else if oper \<noteq> None \<and> the oper \<noteq> []
                 then ''AT+COPS='' @ show_int mode @ '','' @ show_int format @ '','' @
                      quoted (the oper) @ '','' @ show_int act
                 else ''AT+COPS='' @ show_int mode @ '','' @ show_int format))
             EC200_AT_TIMEOUT_COPS)"

definition ec200_net_get_info ::
    "'w ec200_handle \<Rightarrow> ec200_network_info option
     \<Rightarrow> ('w ec200_handle \<times> ec200_status \<times> ec200_network_info option) option" where
  "ec200_net_get_info h info =
     (if info = None then Some (h, EC200_ERR_PARAM, info)
      else do {
        let info = Some empty_network_info;
        (h, st, resp) \<leftarrow> ec200_at_send_wait h (Some ''AT+QNWINFO'') (Some ''+QNWINFO:'')
                           (char_buf 128) EC200_AT_TIMEOUT_DEFAULT;
        if st \<noteq> EC200_OK then Some (h, st, info)
        else
          let vs = sscanf (after_colon (buf_text resp))
                     [ScanSp, ScanLit DQUOTE, ScanSet 23 DQUOTE, ScanLit DQUOTE,
                      ScanLit CHR '','', ScanLit DQUOTE, ScanSet 15 DQUOTE, ScanLit DQUOTE,
                      ScanLit CHR '','', ScanLit DQUOTE, ScanSet 23 DQUOTE, ScanLit DQUOTE,
                      ScanLit CHR '','', ScanU]
          in if length vs < 1 then Some (h, EC200_ERR_PARSE, info)
             else Some (h, EC200_OK,
                    Some \<lparr>ni_act = scan_str vs 0 [], ni_oper = scan_str vs 1 [],
                          ni_band = scan_str vs 2 [], ni_channel = cast_u32 (scan_int vs 3 0)\<rparr>)
      })"

text \<open>The text between the first two quotes; \<open>None\<close> when there are not two.\<close>

definition first_quoted :: "string \<Rightarrow> string option" where
  "first_quoted s = do {
     p \<leftarrow> strchr s DQUOTE;
     q \<leftarrow> strchr (tl p) DQUOTE;
     Some (take (length (tl p) - length q) (tl p))
   }"

definition ec200_net_get_spn ::
    "'w ec200_handle \<Rightarrow> cbuf \<Rightarrow> ('w ec200_handle \<times> ec200_status \<times> cbuf) option" where
  "ec200_net_get_spn h name =
     (if no_buf name then Some (h, EC200_ERR_PARAM, name)
      else do {
        (h, st, resp) \<leftarrow> ec200_at_send_wait h (Some ''AT+QSPN'') (Some ''+QSPN:'')
                           (char_buf 128) EC200_AT_TIMEOUT_DEFAULT;
        if st \<noteq> EC200_OK then Some (h, st, name)
        else (case first_quoted (buf_text resp) of
                None \<Rightarrow> Some (h, EC200_ERR_PARSE, name)
              | Some q \<Rightarrow> Some (h, EC200_OK, copy_line q name))
      })"

section \<open>Packet attach\<close>

definition ec200_net_set_attached ::
    "'w ec200_handle \<Rightarrow> bool \<Rightarrow> ('w ec200_handle \<times> ec200_status) option" where
  "ec200_net_set_attached h attach =
     send_plain h (snprintf 24 (''AT+CGATT='' @ show_int (if attach then 1 else 0)))
       EC200_AT_TIMEOUT_LONG"

definition ec200_net_is_attached ::
    "'w ec200_handle \<Rightarrow> bool option
     \<Rightarrow> ('w ec200_handle \<times> ec200_status \<times> bool option) option" where
  "ec200_net_is_attached h attached =
     (if attached = None then Some (h, EC200_ERR_PARAM, attached)
      else do {
        (h, st, resp) \<leftarrow> ec200_at_send_wait h (Some ''AT+CGATT?'') (Some ''+CGATT:'')
                           (char_buf 48) EC200_AT_TIMEOUT_DEFAULT;
        if st \<noteq> EC200_OK then Some (h, st, attached)
        else (case ec200_at_parse_int_field (buf_text resp) 0 of
                None \<Rightarrow> Some (h, EC200_ERR_PARSE, attached)
              | Some v \<Rightarrow> Some (h, EC200_OK, Some (v = 1)))
      })"

section \<open>What the operations keep\<close>

context at_frame
begin

lemma keeps_get_reg: "keeps R h (get_reg h cmd prefix s)"
  unfolding get_reg_def by (intro keeps_body)

lemma keeps_get_cereg: "keeps R h (ec200_net_get_cereg h s)"
  by (simp add: ec200_net_get_cereg_def keeps_get_reg)

lemma keeps_get_signal: "keeps R h (ec200_net_get_signal h s)"
  unfolding ec200_net_get_signal_def by (intro keeps_body keeps_let)

lemma keeps_get_signal_ext: "keeps R h (ec200_net_get_signal_ext h s)"
  unfolding ec200_net_get_signal_ext_def by (intro keeps_body keeps_let keeps_get_signal)

lemma keeps_get_operator: "keeps R h (ec200_net_get_operator h i)"
  unfolding ec200_net_get_operator_def by (intro keeps_body keeps_let)

lemma keeps_set_operator: "keeps R h (ec200_net_set_operator h m f oper act)"
  unfolding ec200_net_set_operator_def by (intro keeps_body keeps_plain)

lemma keeps_get_net_info: "keeps R h (ec200_net_get_info h i)"
  unfolding ec200_net_get_info_def by (intro keeps_body keeps_let)

lemma keeps_get_spn: "keeps R h (ec200_net_get_spn h n)"
  unfolding ec200_net_get_spn_def by (intro keeps_body)

lemma keeps_set_attached: "keeps R h (ec200_net_set_attached h a)"
  by (simp add: ec200_net_set_attached_def keeps_plain)

lemma keeps_is_attached: "keeps R h (ec200_net_is_attached h a)"
  unfolding ec200_net_is_attached_def by (intro keeps_body)

lemma keeps_wait_registered_loop: "keeps R h (wait_registered_loop h elapsed t)"
proof (rule keepsI)
  fix h' st
  assume ret: "wait_registered_loop h elapsed t = Some (h', st)"
  have "keeps R h (Some (h', st))"
  proof (rule wait_registered_loop.raw_induct
      [where P = "\<lambda>h e t x. keeps R h (Some x)", OF _ ret])
    fix f :: "'w ec200_handle \<Rightarrow> 32 word \<Rightarrow> 32 word \<Rightarrow> ('w ec200_handle \<times> ec200_status) option"
      and h :: "'w ec200_handle" and elapsed t :: "32 word" and x
    assume IH: "\<And>h e t y. f h e t = Some y \<Longrightarrow> keeps R h (Some y)"
    have f: "keeps R h (f h e t)" for h e t
      using IH [of h e t] by (cases "f h e t") (auto simp: keeps_None)
    assume eq: "(case ec200_net_get_cereg h (Some EC200_REG_UNKNOWN) of
        None \<Rightarrow> None
      | Some (h, st, reg) \<Rightarrow>
          if st = EC200_OK \<and> (reg = Some EC200_REG_REGISTERED_HOME
                               \<or> reg = Some EC200_REG_REGISTERED_ROAMING)
          then Some (h, EC200_OK)
          else if t \<le> elapsed then Some (h, EC200_ERR_TIMEOUT)
          else f (h\<lparr>user_ctx := h_delay_ms h 2000 (user_ctx h)\<rparr>) (elapsed + 2000) t) = Some x"
    show "keeps R h (Some x)"
    proof (cases "ec200_net_get_cereg h (Some EC200_REG_UNKNOWN)")
      case None
      then show ?thesis using eq by simp
    next
      case (Some r)
      obtain h1 st reg where r: "r = (h1, st, reg)" by (cases r) auto
      have 1: "R h h1"
        using keeps_get_cereg Some unfolding r by (rule keepsD)
      show ?thesis
        unfolding eq [symmetric] Some r
        by (auto intro!: keeps_after [OF 1] keeps_same keeps_after [OF R_delay f])
    qed
  qed
  then show "R h h'" by (rule keepsD) (rule refl)
qed

lemma keeps_wait_registered: "keeps R h (ec200_net_wait_registered h t)"
  by (simp add: ec200_net_wait_registered_def keeps_wait_registered_loop)

lemmas keeps_net_ops =
  keeps_get_reg keeps_get_cereg keeps_get_signal keeps_get_signal_ext keeps_get_operator
  keeps_set_operator keeps_get_net_info keeps_get_spn keeps_set_attached keeps_is_attached
  keeps_wait_registered

end

end
