(* ===== verification/Ec200_Sms.thy ===== *)
theory Ec200_Sms
  imports Ec200_Network
begin

text \<open>
  Short messages, \<^verbatim>\<open>src/ec200_sms.c\<close>: submission and storage through the text prompt,
  reading and listing, storage selection, the service centre address and new-message
  indications. Enumeration arguments the code checks (or indexes an array with) are
  integers. A caller's array of messages is a list; a store outside it, or a read outside
  a constant table, is the outcome \<open>None\<close>.
\<close>

section \<open>Types\<close>

datatype ec200_sms_stat =
    EC200_SMS_STAT_REC_UNREAD | EC200_SMS_STAT_REC_READ | EC200_SMS_STAT_STO_UNSENT
  | EC200_SMS_STAT_STO_SENT | EC200_SMS_STAT_ALL

record ec200_sms_message =
  sms_index :: int
  sms_stat :: ec200_sms_stat
  sms_sender :: string
  sms_timestamp :: string
  sms_text :: string

definition empty_sms :: ec200_sms_message where
  "empty_sms = \<lparr>sms_index = 0, sms_stat = EC200_SMS_STAT_REC_UNREAD, sms_sender = [],
                sms_timestamp = [], sms_text = []\<rparr>"

datatype ec200_sms_mem = EC200_SMS_MEM_SM | EC200_SMS_MEM_ME | EC200_SMS_MEM_MT

record ec200_sms_mem_usage =
  mem_used :: nat
  mem_total :: nat

record ec200_sms_storage =
  st_read_delete :: ec200_sms_mem_usage
  st_write_send :: ec200_sms_mem_usage
  st_receive :: ec200_sms_mem_usage

record ec200_sms_cnmi =
  cnmi_mode :: nat
  cnmi_mt :: nat
  cnmi_bm :: nat
  cnmi_ds :: nat
  cnmi_bfr :: nat

record ec200_sms_notification =
  ntf_mem :: ec200_sms_mem
  ntf_index :: int

section \<open>Parsers\<close>

definition SMS_CTRL_Z :: char where "SMS_CTRL_Z = CHR 0x1A"

definition stat_from_string :: "string \<Rightarrow> ec200_sms_stat" where
  "stat_from_string s =
     (if strncmp_eq s ''REC UNREAD'' 10 then EC200_SMS_STAT_REC_UNREAD
      else if strncmp_eq s ''REC READ'' 8 then EC200_SMS_STAT_REC_READ
      else if strncmp_eq s ''STO UNSENT'' 10 then EC200_SMS_STAT_STO_UNSENT
      else if strncmp_eq s ''STO SENT'' 8 then EC200_SMS_STAT_STO_SENT
      else EC200_SMS_STAT_ALL)"

text \<open>The extracted string and the new cursor; \<open>None\<close> when the C function returns false.\<close>

definition extract_quoted :: "string \<Rightarrow> nat \<Rightarrow> (string \<times> string) option" where
  "extract_quoted cursor out_sz = do {
     p \<leftarrow> strchr cursor DQUOTE;
     q \<leftarrow> strchr (tl p) DQUOTE;
     Some (copy_trunc out_sz (take (length (tl p) - length q) (tl p)), tl q)
   }"

definition mem_strings :: "string list" where
  "mem_strings = [''SM'', ''ME'', ''MT'']"

definition mem_of :: "nat \<Rightarrow> ec200_sms_mem" where
  "mem_of i = (if i = 0 then EC200_SMS_MEM_SM else if i = 1 then EC200_SMS_MEM_ME
               else EC200_SMS_MEM_MT)"

fun mem_search :: "string \<Rightarrow> nat \<Rightarrow> string list \<Rightarrow> ec200_sms_mem option" where
  "mem_search s i [] = None"
| "mem_search s i (m # ms) = (if s = m then Some (mem_of i) else mem_search s (Suc i) ms)"

definition mem_from_string :: "string \<Rightarrow> ec200_sms_mem option" where
  "mem_from_string s = mem_search s 0 mem_strings"

definition set_slot ::
    "nat \<Rightarrow> ec200_sms_mem_usage \<Rightarrow> ec200_sms_storage \<Rightarrow> ec200_sms_storage" where
  "set_slot i u out =
     (if i = 0 then out\<lparr>st_read_delete := u\<rparr>
      else if i = 1 then out\<lparr>st_write_send := u\<rparr>
      else out\<lparr>st_receive := u\<rparr>)"

text \<open>The loop over the three areas, from area \<open>3 - k\<close> on.\<close>

fun cpms_loop ::
    "nat \<Rightarrow> string \<Rightarrow> nat \<Rightarrow> nat \<Rightarrow> ec200_sms_storage \<Rightarrow> ec200_status \<times> ec200_sms_storage" where
  "cpms_loop 0 line first stride out = (EC200_OK, out)"
| "cpms_loop (Suc k) line first stride out =
     (let i = 3 - Suc k; base = first + i * stride in
      case ec200_at_parse_int_field line base of
        None \<Rightarrow> (EC200_ERR_PARSE, out)
      | Some used \<Rightarrow>
          (case ec200_at_parse_int_field line (base + 1) of
             None \<Rightarrow> (EC200_ERR_PARSE, out)
           | Some tot \<Rightarrow>
               if used < 0 \<or> tot < 0 then (EC200_ERR_PARSE, out)
               else cpms_loop k line first stride
                      (set_slot i \<lparr>mem_used = cast_u16 used, mem_total = cast_u16 tot\<rparr> out)))"

definition parse_cpms_usage ::
    "string \<Rightarrow> nat \<Rightarrow> nat \<Rightarrow> ec200_sms_storage \<Rightarrow> ec200_status \<times> ec200_sms_storage" where
  "parse_cpms_usage line first stride out = cpms_loop 3 line first stride out"

text \<open>
  The header of \<open>+CMGR:\<close> and \<open>+CMGL:\<close> lines: an optional index, the state, the sender,
  and the timestamp, which is the next quoted string or, when that is an alpha field (no
  leading digit), the one after it.
\<close>

definition header_cursor :: "string \<Rightarrow> ec200_sms_message \<Rightarrow> string \<times> ec200_sms_message" where
  "header_cursor line msg =
     (case strchr line CHR '':'' of
        None \<Rightarrow> (line, msg)
      | Some colon \<Rightarrow>
          (case strtol (tl colon) of
             Some (idx, endptr) \<Rightarrow> (endptr, msg\<lparr>sms_index := idx\<rparr>)
           | None \<Rightarrow> (tl colon, msg)))"

definition parse_cmgr_header :: "string \<Rightarrow> ec200_sms_message \<Rightarrow> ec200_sms_message" where
  "parse_cmgr_header line msg =
     (case header_cursor line msg of (cursor, msg) \<Rightarrow>
      (case (case extract_quoted cursor 16 of
               Some (s, c) \<Rightarrow> (c, msg\<lparr>sms_stat := stat_from_string s\<rparr>)
             | None \<Rightarrow> (cursor, msg)) of (cursor, msg) \<Rightarrow>
       (case (case extract_quoted cursor EC200_MAX_PHONE_NUM_LEN of
                Some (s, c) \<Rightarrow> (c, msg\<lparr>sms_sender := s\<rparr>)
              | None \<Rightarrow> (cursor, msg)) of (cursor, msg) \<Rightarrow>
        (case extract_quoted cursor 24 of
           None \<Rightarrow> msg
         | Some (field, cursor) \<Rightarrow>
             if has_digit field then msg\<lparr>sms_timestamp := field\<rparr>
             else (case extract_quoted cursor 24 of
                     Some (s, _) \<Rightarrow> msg\<lparr>sms_timestamp := s\<rparr>
                   | None \<Rightarrow> msg)))))"

definition sms_body :: "string \<Rightarrow> string" where
  "sms_body s = take EC200_MAX_SMS_TEXT_LEN s"

section \<open>Sending and storing\<close>

definition ec200_sms_set_format ::
    "'w ec200_handle \<Rightarrow> int \<Rightarrow> ('w ec200_handle \<times> ec200_status) option" where
  "ec200_sms_set_format h format =
     (if format \<noteq> 0 \<and> format \<noteq> 1 then Some (h, EC200_ERR_PARAM)
      else send_plain h (snprintf 16 (''AT+CMGF='' @ show_int format)) EC200_AT_TIMEOUT_DEFAULT)"

text \<open>\<open>value_out\<close>: \<open>None\<close> is NULL, otherwise the integer it points to.\<close>

definition sms_submit ::
    "'w ec200_handle \<Rightarrow> string \<Rightarrow> string option \<Rightarrow> string option \<Rightarrow> int option
     \<Rightarrow> ('w ec200_handle \<times> ec200_status \<times> int option) option" where
  "sms_submit h op number txt value_out =
     (if number = None \<or> number = Some [] \<or> txt = None then Some (h, EC200_ERR_PARAM, value_out)
      else if length (the number) \<ge> EC200_MAX_PHONE_NUM_LEN
      then Some (h, EC200_ERR_PARAM, value_out)
      else if length (the txt) > EC200_MAX_SMS_TEXT_LEN then Some (h, EC200_ERR_PARAM, value_out)
      else if SMS_CTRL_Z \<in> set (the txt) then Some (h, EC200_ERR_PARAM, value_out)
      else do {
        (h, st) \<leftarrow> ec200_at_send_prompt h
                     (Some (snprintf 36 (''AT+'' @ op @ ''='' @ quoted (the number))))
                     EC200_AT_TIMEOUT_DEFAULT;
        if st \<noteq> EC200_OK then Some (h, st, value_out)
        else do {
          (h, st) \<leftarrow> ec200_at_write_raw h txt (length (the txt));
          if st \<noteq> EC200_OK then Some (h, st, value_out)
          else do {
            (h, st) \<leftarrow> ec200_at_write_raw h (Some [SMS_CTRL_Z]) 1;
            if st \<noteq> EC200_OK then Some (h, st, value_out)
            else do {
              (h, st, resp) \<leftarrow> ec200_at_wait_prefix h
                                 (Some (snprintf 12 (''+'' @ op @ '':''))) (char_buf 64)
                                 EC200_AT_TIMEOUT_LONG;
              if st \<noteq> EC200_OK then Some (h, st, value_out)
              else do {
                let v = (if value_out = None then None
                         else case ec200_at_parse_int_field (buf_text resp) 0 of
                                Some i \<Rightarrow> Some i | None \<Rightarrow> Some (-1));
                (h, st) \<leftarrow> ec200_at_wait_final h EC200_AT_TIMEOUT_DEFAULT;
                Some (h, st, v)
              }
            }
          }
        }
      })"

definition ec200_sms_send ::
    "'w ec200_handle \<Rightarrow> string option \<Rightarrow> string option
     \<Rightarrow> ('w ec200_handle \<times> ec200_status) option" where
  "ec200_sms_send h number txt = do {
     (h, st, _) \<leftarrow> sms_submit h ''CMGS'' number txt None;
     Some (h, st)
   }"

definition ec200_sms_write ::
    "'w ec200_handle \<Rightarrow> string option \<Rightarrow> string option \<Rightarrow> int option
     \<Rightarrow> ('w ec200_handle \<times> ec200_status \<times> int option) option" where
  "ec200_sms_write h number txt index_out = sms_submit h ''CMGW'' number txt index_out"

definition ec200_sms_send_stored ::
    "'w ec200_handle \<Rightarrow> int \<Rightarrow> int option
     \<Rightarrow> ('w ec200_handle \<times> ec200_status \<times> int option) option" where
  "ec200_sms_send_stored h index mr_out =
     (if index < 0 then Some (h, EC200_ERR_PARAM, mr_out)
      else do {
        (h, st, resp) \<leftarrow> ec200_at_send_wait h
                           (Some (snprintf 32 (''AT+CMSS='' @ show_int index)))
                           (Some ''+CMSS:'') (char_buf 64) EC200_AT_TIMEOUT_LONG;
        if st \<noteq> EC200_OK then Some (h, st, mr_out)
        else Some (h, EC200_OK,
               if mr_out = None then None
               else case ec200_at_parse_int_field (buf_text resp) 0 of
                      Some i \<Rightarrow> Some i | None \<Rightarrow> Some (-1))
      })"

section \<open>Reading, listing and deleting\<close>

definition ec200_sms_read ::
    "'w ec200_handle \<Rightarrow> int \<Rightarrow> ec200_sms_message option
     \<Rightarrow> ('w ec200_handle \<times> ec200_status \<times> ec200_sms_message option) option" where
  "ec200_sms_read h index msg =
     (if msg = None \<or> index < 0 then Some (h, EC200_ERR_PARAM, msg)
      else do {
        let msg = empty_sms\<lparr>sms_index := index\<rparr>;
        (h, st, resp) \<leftarrow> ec200_at_send h (Some (snprintf 32 (''AT+CMGR='' @ show_int index)))
                           (char_buf EC200_SMS_READ_BUF_LEN) EC200_AT_TIMEOUT_DEFAULT;
        if st \<noteq> EC200_OK then Some (h, st, Some msg)
        else (case strstr (buf_text resp) ''+CMGR:'' of
                None \<Rightarrow> Some (h, EC200_ERR_PARSE, Some msg)
              | Some hdr \<Rightarrow>
                  (let msg = (parse_cmgr_header (body_line hdr) msg)\<lparr>sms_index := index\<rparr> in
                   Some (h, EC200_OK,
                     Some (case strchr hdr LF of
                             None \<Rightarrow> msg
                           | Some body \<Rightarrow> msg\<lparr>sms_text := sms_body (tl body)\<rparr>))))
      })"

text \<open>
  The loop of \<^verbatim>\<open>ec200_sms_list\<close> over the lines of the response. A header without a body
  line is parsed into the array but not counted.
\<close>

lemma strchr_length: "strchr s c = Some r \<Longrightarrow> r \<noteq> [] \<and> length r \<le> length s"
  by (induction s) (auto split: if_splits)

function sms_list_loop ::
    "string \<Rightarrow> ec200_sms_message list \<Rightarrow> nat \<Rightarrow> nat \<Rightarrow> (ec200_sms_message list \<times> nat) option"
    where
  "sms_list_loop line msgs count_out max_msgs =
     (if line \<noteq> [] \<and> count_out < max_msgs then
        (if strncmp_eq line ''+CMGL:'' 6 then
           (if count_out \<ge> length msgs then None
            else
              let m = parse_cmgr_header (body_line line) empty_sms in
              (case strchr line LF of
                 None \<Rightarrow> Some (msgs[count_out := m], count_out)
               | Some nl \<Rightarrow>
                   (let msgs = msgs[count_out := m\<lparr>sms_text := sms_body (body_line (tl nl))\<rparr>]
                    in case strchr (tl nl) LF of
                         None \<Rightarrow> Some (msgs, count_out + 1)
                       | Some body_end \<Rightarrow>
                           sms_list_loop (tl body_end) msgs (count_out + 1) max_msgs)))
         else (case strchr line LF of
                 None \<Rightarrow> Some (msgs, count_out)
               | Some nl \<Rightarrow> sms_list_loop (tl nl) msgs count_out max_msgs))
      else Some (msgs, count_out))"
  by pat_completeness auto
termination
proof (relation "measure (\<lambda>(line, msgs, c, m). length line)", goal_cases)
  case (2 line msgs c m x nl y be)
  then show ?case
    using strchr_length [of line LF nl] strchr_length [of "tl nl" LF be] by (cases nl; cases be) auto
next
  case (3 line msgs c m nl)
  then show ?case
    using strchr_length [of line LF nl] by (cases nl) auto
qed simp

declare sms_list_loop.simps [simp del]

definition stat_strings :: "string list" where
  "stat_strings = [''REC UNREAD'', ''REC READ'', ''STO UNSENT'', ''STO SENT'', ''ALL'']"

definition ec200_sms_list ::
    "'w ec200_handle \<Rightarrow> int \<Rightarrow> ec200_sms_message list option \<Rightarrow> nat \<Rightarrow> nat option
     \<Rightarrow> ('w ec200_handle \<times> ec200_status \<times> ec200_sms_message list option \<times> nat option) option"
    where
  "ec200_sms_list h stat msgs max_msgs count_out =
     (if msgs = None \<or> count_out = None \<or> max_msgs = 0
      then Some (h, EC200_ERR_PARAM, msgs, count_out)
      else if stat > 4 then Some (h, EC200_ERR_PARAM, msgs, Some 0)
      else if stat < 0 then None
      else do {
        (h, st, resp) \<leftarrow> ec200_at_send h
                           (Some (snprintf 32
                              (''AT+CMGL='' @ quoted (stat_strings ! nat stat))))
                           (char_buf EC200_SMS_LIST_BUF_LEN) EC200_AT_TIMEOUT_LONG;
        if st \<noteq> EC200_OK then Some (h, st, msgs, Some 0)
        else (case sms_list_loop (buf_text resp) (the msgs) 0 max_msgs of
                None \<Rightarrow> None
              | Some (ms, n) \<Rightarrow> Some (h, EC200_OK, Some ms, Some n))
      })"

definition ec200_sms_delete ::
    "'w ec200_handle \<Rightarrow> int \<Rightarrow> ('w ec200_handle \<times> ec200_status) option" where
  "ec200_sms_delete h index =
     (if index < 0 then Some (h, EC200_ERR_PARAM)
      else send_plain h (snprintf 32 (''AT+CMGD='' @ show_int index)) EC200_AT_TIMEOUT_DEFAULT)"

definition ec200_sms_delete_all ::
    "'w ec200_handle \<Rightarrow> nat \<Rightarrow> ('w ec200_handle \<times> ec200_status) option" where
  "ec200_sms_delete_all h flag =
     (if flag < 1 \<or> flag > 4 then Some (h, EC200_ERR_PARAM)
      else send_plain h (snprintf 32 (''AT+CMGD=1,'' @ show_nat flag)) EC200_AT_TIMEOUT_LONG)"

section \<open>Storage selection\<close>

text \<open>The three selectors are checked as unsigned values, so a negative one is refused.\<close>

definition mem_arg_ok :: "int \<Rightarrow> bool" where
  "mem_arg_ok m \<longleftrightarrow> \<not> cast_u32 m \<ge> length mem_strings"

definition ec200_sms_set_storage ::
    "'w ec200_handle \<Rightarrow> int \<Rightarrow> int \<Rightarrow> int \<Rightarrow> ec200_sms_storage option
     \<Rightarrow> ('w ec200_handle \<times> ec200_status \<times> ec200_sms_storage option) option" where
  "ec200_sms_set_storage h read_delete write_send receive usage_out =
     (if \<not> mem_arg_ok read_delete \<or> \<not> mem_arg_ok write_send \<or> \<not> mem_arg_ok receive
      then Some (h, EC200_ERR_PARAM, usage_out)
      else if write_send = 2 then Some (h, EC200_ERR_PARAM, usage_out)
      else do {
        (h, st, resp) \<leftarrow> ec200_at_send_wait h
                           (Some (snprintf 48
                              (''AT+CPMS='' @ quoted (mem_strings ! nat read_delete) @ '','' @
                               quoted (mem_strings ! nat write_send) @ '','' @
                               quoted (mem_strings ! nat receive))))
                           (Some ''+CPMS:'') (char_buf 96) EC200_AT_TIMEOUT_DEFAULT;
        if st \<noteq> EC200_OK then Some (h, st, usage_out)
        else (case usage_out of
                None \<Rightarrow> Some (h, EC200_OK, None)
              | Some out \<Rightarrow>
                  (case parse_cpms_usage (buf_text resp) 0 2 out of
                     (st, out) \<Rightarrow> Some (h, st, Some out)))
      })"

definition ec200_sms_get_storage ::
    "'w ec200_handle \<Rightarrow> ec200_sms_storage option
     \<Rightarrow> ('w ec200_handle \<times> ec200_status \<times> ec200_sms_storage option) option" where
  "ec200_sms_get_storage h usage_out =
     (case usage_out of
        None \<Rightarrow> Some (h, EC200_ERR_PARAM, None)
      | Some out \<Rightarrow> do {
          (h, st, resp) \<leftarrow> ec200_at_send_wait h (Some ''AT+CPMS?'') (Some ''+CPMS:'')
                             (char_buf 96) EC200_AT_TIMEOUT_DEFAULT;
          if st \<noteq> EC200_OK then Some (h, st, usage_out)
          else (case parse_cpms_usage (buf_text resp) 1 3 out of
                  (st, out) \<Rightarrow> Some (h, st, Some out))
        })"

section \<open>Service centre address\<close>

definition ec200_sms_set_smsc ::
    "'w ec200_handle \<Rightarrow> string option \<Rightarrow> ('w ec200_handle \<times> ec200_status) option" where
  "ec200_sms_set_smsc h number =
     (case number of
        None \<Rightarrow> Some (h, EC200_ERR_PARAM)
      | Some n \<Rightarrow>
          if n = [] \<or> length n \<ge> EC200_MAX_PHONE_NUM_LEN then Some (h, EC200_ERR_PARAM)
          else send_plain h (snprintf 36 (''AT+CSCA='' @ quoted n)) EC200_AT_TIMEOUT_DEFAULT)"

definition store_exact :: "string \<Rightarrow> cbuf \<Rightarrow> ec200_status \<times> cbuf" where
  "store_exact s out =
     (case out of
        None \<Rightarrow> (EC200_ERR_PARAM, out)
      | Some (sz, old) \<Rightarrow>
          if length s \<ge> sz then (EC200_ERR_OVERFLOW, out) else (EC200_OK, Some (sz, s)))"

definition ec200_sms_get_smsc ::
    "'w ec200_handle \<Rightarrow> cbuf \<Rightarrow> ('w ec200_handle \<times> ec200_status \<times> cbuf) option" where
  "ec200_sms_get_smsc h out =
     (if no_buf out then Some (h, EC200_ERR_PARAM, out)
      else do {
        let out = clear_buf out;
        (h, st, resp) \<leftarrow> ec200_at_send_wait h (Some ''AT+CSCA?'') (Some ''+CSCA:'')
                           (char_buf 96) EC200_AT_TIMEOUT_DEFAULT;
        if st \<noteq> EC200_OK then Some (h, st, out)
        else (case first_quoted (buf_text resp) of
                None \<Rightarrow> Some (h, EC200_ERR_PARSE, out)
              | Some q \<Rightarrow> Some (h, store_exact q out))
      })"

section \<open>New-message indication\<close>

definition ec200_sms_set_indication ::
    "'w ec200_handle \<Rightarrow> ec200_sms_cnmi option \<Rightarrow> ('w ec200_handle \<times> ec200_status) option" where
  "ec200_sms_set_indication h cfg =
     (case cfg of
        None \<Rightarrow> Some (h, EC200_ERR_PARAM)
      | Some c \<Rightarrow>
          if cnmi_mode c > 2 \<or> cnmi_mt c > 3 \<or> cnmi_bm c > 3 \<or> cnmi_ds c > 2 \<or> cnmi_bfr c > 1
          then Some (h, EC200_ERR_PARAM)
          else send_plain h
                 (snprintf 40 (''AT+CNMI='' @ show_nat (cnmi_mode c) @ '','' @
                    show_nat (cnmi_mt c) @ '','' @ show_nat (cnmi_bm c) @ '','' @
                    show_nat (cnmi_ds c) @ '','' @ show_nat (cnmi_bfr c)))
                 EC200_AT_TIMEOUT_DEFAULT)"

text \<open>All fields are read before any is stored; the list is the array \<open>v\<close> so far.\<close>

fun cnmi_fields :: "nat \<Rightarrow> string \<Rightarrow> int list \<Rightarrow> int list option" where
  "cnmi_fields 0 resp v = Some v"
| "cnmi_fields (Suc k) resp v =
     (case ec200_at_parse_int_field resp (length v) of
        None \<Rightarrow> None
      | Some x \<Rightarrow> if x < 0 \<or> x > 255 then None else cnmi_fields k resp (v @ [x]))"

definition ec200_sms_get_indication ::
    "'w ec200_handle \<Rightarrow> ec200_sms_cnmi option
     \<Rightarrow> ('w ec200_handle \<times> ec200_status \<times> ec200_sms_cnmi option) option" where
  "ec200_sms_get_indication h cfg =
     (if cfg = None then Some (h, EC200_ERR_PARAM, cfg)
      else do {
        (h, st, resp) \<leftarrow> ec200_at_send_wait h (Some ''AT+CNMI?'') (Some ''+CNMI:'')
                           (char_buf 64) EC200_AT_TIMEOUT_DEFAULT;
        if st \<noteq> EC200_OK then Some (h, st, cfg)
        else (case cnmi_fields 5 (buf_text resp) [] of
                None \<Rightarrow> Some (h, EC200_ERR_PARSE, cfg)
              | Some v \<Rightarrow>
                  Some (h, EC200_OK,
                    Some \<lparr>cnmi_mode = cast_u8 (v ! 0), cnmi_mt = cast_u8 (v ! 1),
                          cnmi_bm = cast_u8 (v ! 2), cnmi_ds = cast_u8 (v ! 3),
                          cnmi_bfr = cast_u8 (v ! 4)\<rparr>))
      })"

text \<open>
  The storage is assigned as soon as it is recognised, before the index is checked: a line
  with a bad index leaves \<open>mem\<close> updated.
\<close>

definition ec200_sms_parse_notification ::
    "string option \<Rightarrow> ec200_sms_notification option
     \<Rightarrow> ec200_status \<times> ec200_sms_notification option" where
  "ec200_sms_parse_notification line out =
     (case (line, out) of
        (Some l, Some n) \<Rightarrow>
          if \<not> strncmp_eq l ''+CMTI:'' 6 then (EC200_ERR_PARSE, out)
          else (case extract_quoted l 8 of
                  None \<Rightarrow> (EC200_ERR_PARSE, out)
                | Some (mem_str, _) \<Rightarrow>
                    (case mem_from_string mem_str of
                       None \<Rightarrow> (EC200_ERR_PARSE, out)
                     | Some m \<Rightarrow>
                         (case ec200_at_parse_int_field l 1 of
                            None \<Rightarrow> (EC200_ERR_PARSE, Some (n\<lparr>ntf_mem := m\<rparr>))
                          | Some i \<Rightarrow>
                              if i < 0 then (EC200_ERR_PARSE, Some (n\<lparr>ntf_mem := m\<rparr>))
                              else (EC200_OK, Some \<lparr>ntf_mem = m, ntf_index = i\<rparr>))))
      | _ \<Rightarrow> (EC200_ERR_PARAM, out))"

section \<open>What the operations keep\<close>

context at_frame
begin

lemma keeps_sms_set_format: "keeps R h (ec200_sms_set_format h f)"
  unfolding ec200_sms_set_format_def by (intro keeps_body keeps_plain)

lemma keeps_sms_submit: "keeps R h (sms_submit h op n t v)"
  unfolding sms_submit_def by (intro keeps_body keeps_let)

lemma keeps_sms_send: "keeps R h (ec200_sms_send h n t)"
  unfolding ec200_sms_send_def by (intro keeps_body keeps_seq [OF keeps_sms_submit])

lemma keeps_sms_write: "keeps R h (ec200_sms_write h n t v)"
  by (simp add: ec200_sms_write_def keeps_sms_submit)

lemma keeps_sms_send_stored: "keeps R h (ec200_sms_send_stored h i v)"
  unfolding ec200_sms_send_stored_def by (intro keeps_body)

lemma keeps_sms_read: "keeps R h (ec200_sms_read h i m)"
  unfolding ec200_sms_read_def by (intro keeps_body keeps_let)

lemma keeps_sms_list: "keeps R h (ec200_sms_list h s m k c)"
  unfolding ec200_sms_list_def by (intro keeps_body)

lemma keeps_sms_delete: "keeps R h (ec200_sms_delete h i)"
  unfolding ec200_sms_delete_def by (intro keeps_body keeps_plain)

lemma keeps_sms_delete_all: "keeps R h (ec200_sms_delete_all h f)"
  unfolding ec200_sms_delete_all_def by (intro keeps_body keeps_plain)

lemma keeps_sms_set_storage: "keeps R h (ec200_sms_set_storage h a b c u)"
  unfolding ec200_sms_set_storage_def by (intro keeps_body)

lemma keeps_sms_get_storage: "keeps R h (ec200_sms_get_storage h u)"
  unfolding ec200_sms_get_storage_def by (intro keeps_body)

lemma keeps_sms_set_smsc: "keeps R h (ec200_sms_set_smsc h n)"
  unfolding ec200_sms_set_smsc_def by (intro keeps_body keeps_plain)

lemma keeps_sms_get_smsc: "keeps R h (ec200_sms_get_smsc h b)"
  unfolding ec200_sms_get_smsc_def by (intro keeps_body keeps_let)

lemma keeps_sms_set_indication: "keeps R h (ec200_sms_set_indication h c)"
  unfolding ec200_sms_set_indication_def by (intro keeps_body keeps_plain)

lemma keeps_sms_get_indication: "keeps R h (ec200_sms_get_indication h c)"
  unfolding ec200_sms_get_indication_def by (intro keeps_body)

lemmas keeps_sms_ops =
  keeps_sms_set_format keeps_sms_submit keeps_sms_send keeps_sms_write keeps_sms_send_stored
  keeps_sms_read keeps_sms_list keeps_sms_delete keeps_sms_delete_all keeps_sms_set_storage
  keeps_sms_get_storage keeps_sms_set_smsc keeps_sms_get_smsc keeps_sms_set_indication
  keeps_sms_get_indication

end

end
