(* ===== verification/Ec200_Term.thy ===== *)
theory Ec200_Term
  imports Ec200_Loopback Ec200_Http Ec200_Data Ec200_Tcpip Ec200_Sms
begin

text \<open>
  Which calls return. The locale \<open>finite_input\<close> is what a transport guarantees when at any
  moment only finitely many bytes are still to come: a successful read uses some of them up.
  \<open>transport\<close> adds the documented bounds of both callbacks and handlers that bring no
  new input. Under these contracts every loop of the engine ends; without the first one the
  line assembly does not.
\<close>

section \<open>Contracts\<close>

locale finite_input =
  fixes rem :: "'w \<Rightarrow> nat" and rd :: "'w read_fn"
  assumes read_uses: "rd n tmo w = (k, d, w') \<Longrightarrow> k > 0 \<Longrightarrow> rem w' < rem w"
    and read_idle: "rd n tmo w = (k, d, w') \<Longrightarrow> k \<le> 0 \<Longrightarrow> rem w' \<le> rem w"

locale transport = finite_input rem rd for rem :: "'w \<Rightarrow> nat" and rd :: "'w read_fn" +
  fixes wr :: "'w write_fn"
  assumes read_bound: "rd n tmo w = (k, d, w') \<Longrightarrow> k \<le> int n"
    and write_bound: "wr data w = (k', w') \<Longrightarrow> k' \<le> int (length data)"

text \<open>Handlers that bring no new input.\<close>

definition calm :: "('w \<Rightarrow> nat) \<Rightarrow> 'w ec200_handle \<Rightarrow> bool" where
  "calm rem h \<longleftrightarrow>
     (\<forall>e g line w. e \<in> set (urc_table h) \<and> ue_fn e = Some (UserUrc g) \<longrightarrow>
        rem (g line (ue_ctx e) w) \<le> rem w) \<and>
     (\<forall>cb m w. mqtt_msg_cb h = Some cb \<longrightarrow> rem (cb m w) \<le> rem w)"

definition connected ::
    "('w \<Rightarrow> nat) \<Rightarrow> 'w read_fn \<Rightarrow> 'w write_fn \<Rightarrow> 'w ec200_handle \<Rightarrow> bool" where
  "connected rem rd wr h \<longleftrightarrow> h_read h = rd \<and> h_write h = wr \<and> calm rem h"

interpretation lbf: transport "\<lambda>lb. length (lb_rx lb)" lb_read lb_write
  by unfold_locales
    (auto simp: lb_read_def lb_write_def Let_def split: if_splits)

interpretation tpf: transport "\<lambda>w :: tape. length (fst w)" tape_read tape_write
  by unfold_locales (auto simp: tape_read_def tape_write_def min_def split: if_splits)

lemma feed_same: "rx_feed h c = (h', r) \<Longrightarrow> h_read h' = h_read h \<and> user_ctx h' = user_ctx h"
  by (auto simp: rx_feed_def split: if_splits)

section \<open>The receiving side\<close>

context finite_input
begin

lemma getc_rem:
  "rx_getc h b = (h', rc, b') \<Longrightarrow> h_read h = rd \<Longrightarrow>
   h_read h' = rd \<and> rem (user_ctx h') \<le> rem (user_ctx h) \<and>
   (\<forall>c. rc = RX_OK c \<longrightarrow> rem (user_ctx h') < rem (user_ctx h))"
proof (induction h b arbitrary: h' rc b' rule: rx_getc.induct)
  case (1 h b)
  obtain n d w where r: "h_read h 1 (poll_slice b) (user_ctx h) = (n, d, w)"
    by (cases "h_read h 1 (poll_slice b) (user_ctx h)") auto
  note r' = r [unfolded "1.prems"(2)]
  show ?case
  proof (cases "n = 0 \<and> b \<noteq> 0")
    case True
    then have "rx_getc (h\<lparr>user_ctx := w\<rparr>) (b - poll_slice b) = (h', rc, b')"
      using "1.prems"(1) r by (simp add: rx_getc.simps [of h b])
    then show ?thesis
      using "1.IH" [OF refl r [symmetric] refl refl] True "1.prems"(2) read_idle [OF r'] by fastforce
  next
    case False
    then show ?thesis
      using "1.prems" r read_idle [OF r'] read_uses [OF r']
      by (auto simp: rx_getc.simps [of h b] Let_def split: if_splits)
  qed
qed

lemma line_returns: "h_read h = rd \<Longrightarrow> rx_line h b \<noteq> None"
proof (induction "rem (user_ctx h)" arbitrary: h b rule: less_induct)
  case less
  obtain h1 rc b1 where g: "rx_getc h b = (h1, rc, b1)" by (cases "rx_getc h b") auto
  note g' = getc_rem [OF g less.prems]
  show ?case
  proof (cases rc)
    case (RX_OK c)
    obtain h2 l where f: "rx_feed h1 c = (h2, l)" by (cases "rx_feed h1 c") auto
    then show ?thesis
      using less.hyps [of h2 b1] feed_same [OF f] g' RX_OK g
      by (subst rx_line.simps) (auto split: option.splits)
  qed (use g in \<open>subst rx_line.simps, simp\<close>)+
qed

end

section \<open>Operations that return\<close>

context transport
begin

abbreviation good :: "'w ec200_handle \<Rightarrow> bool" where
  "good \<equiv> connected rem rd wr"

lemma good_same: "good h \<Longrightarrow> same_setup h h' \<Longrightarrow> good h'"
  by (simp add: connected_def same_setup_def calm_def)

lemma good_returns: "good h \<Longrightarrow> keeps same_setup h m \<Longrightarrow> m \<noteq> None \<Longrightarrow> returns good m"
  by (auto simp: returns_def keeps_def intro: good_same)

lemma good_upd [simp]:
  "good (h\<lparr>rx_buf := x1\<rparr>) = good h" "good (h\<lparr>rx_overlong := x2\<rparr>) = good h"
  "good (h\<lparr>tx_buf := x3\<rparr>) = good h" "good (h\<lparr>user_ctx := x4\<rparr>) = good h"
  "good (h\<lparr>last_err_kind := x5\<rparr>) = good h" "good (h\<lparr>last_err_text := x6\<rparr>) = good h"
  "good (h\<lparr>last_cme_error := x7\<rparr>) = good h" "good (h\<lparr>last_cms_error := x8\<rparr>) = good h"
  "good (h\<lparr>ppp_data_mode := x9\<rparr>) = good h" "good (h\<lparr>initialised := x10\<rparr>) = good h"
  by (simp_all add: connected_def calm_def)

lemma line_ends: "good h \<Longrightarrow> rx_line h b \<noteq> None"
  by (rule line_returns) (simp add: connected_def)

lemma returns_line:
  "good h \<Longrightarrow> (\<And>h' rc b'. good h' \<Longrightarrow> returns good (f h' rc b')) \<Longrightarrow>
   returns good (Option.bind (rx_line h b) (\<lambda>(h', rc, b'). f h' rc b'))"
  by (rule returns_bind [OF good_returns [OF _ cfgr.keeps_line]])
    (auto simp del: not_None_eq dest: line_ends)

lemma returns_rc:
  "(\<And>x. returns P (f x)) \<Longrightarrow> returns P m \<Longrightarrow> returns P m' \<Longrightarrow>
   returns P (case rc of RX_OK x \<Rightarrow> f x | RX_TIMEOUT \<Rightarrow> m | RX_IO_ERROR \<Rightarrow> m')"
  by (cases rc) simp_all

lemma returns_terminal:
  "good h \<Longrightarrow> (\<And>h' t. good h' \<Longrightarrow> returns P (f h' t)) \<Longrightarrow>
   returns P (case is_terminal h line of (h', t) \<Rightarrow> f h' t)"
  by (cases "is_terminal h line") (auto dest: cfgr.R_terminal intro: good_same)

lemma returns_dispatch:
  "good h \<Longrightarrow> (\<And>h' b. good h' \<Longrightarrow> returns P (f h' b)) \<Longrightarrow>
   returns P (case dispatch_registered_urc h line of (h', b) \<Rightarrow> f h' b)"
  by (cases "dispatch_registered_urc h line") (auto dest: cfgr.R_dispatch intro: good_same)

lemma good_dispatch: "good h \<Longrightarrow> good (fst (dispatch_registered_urc h line))"
  by (rule good_same [OF _ cfgr.R_dispatch_fst])

lemma returns_term:
  "returns P m \<Longrightarrow> returns P m' \<Longrightarrow> returns P m'' \<Longrightarrow>
   returns P (case t of TERM_NONE \<Rightarrow> m | TERM_OK \<Rightarrow> m' | TERM_ERR \<Rightarrow> m'')"
  by (cases t) simp_all

lemma returns_bool:
  "returns P m \<Longrightarrow> returns P m' \<Longrightarrow> returns P (case b of True \<Rightarrow> m | False \<Rightarrow> m')"
  by (cases b) simp_all

lemmas returns_code =
  returns_line returns_rc returns_terminal returns_dispatch returns_term returns_bool
  returns_if returns_option returns_Some

lemma returns_receive_loop: "good h \<Longrightarrow> returns good (receive_loop k h prefix stop matched buf b)"
proof (induction k arbitrary: h matched buf b)
  case 0
  then show ?case by (simp add: returns_Some)
next
  case (Suc k)
  show ?case
    unfolding receive_loop.simps by (intro returns_code Suc) simp_all
qed

lemma returns_receive: "good h \<Longrightarrow> returns good (receive_transaction h prefix stop buf t)"
  by (simp add: receive_transaction_def returns_receive_loop)

lemma returns_wait_prefix_loop: "good h \<Longrightarrow> returns good (wait_prefix_loop k h prefix buf b)"
proof (induction k arbitrary: h b)
  case 0
  then show ?case by (simp add: returns_Some)
next
  case (Suc k)
  show ?case
    unfolding wait_prefix_loop.simps by (intro returns_code Suc good_dispatch) simp_all
qed

lemma returns_wait_final_loop: "good h \<Longrightarrow> returns good (wait_final_loop k h b)"
proof (induction k arbitrary: h b)
  case 0
  then show ?case by (simp add: returns_Some)
next
  case (Suc k)
  show ?case
    unfolding wait_final_loop.simps by (intro returns_code Suc good_dispatch) simp_all
qed

lemma returns_poll_loop: "good h \<Longrightarrow> returns good (poll_loop k h b)"
proof (induction k arbitrary: h b)
  case 0
  then show ?case by (simp add: returns_Some)
next
  case (Suc k)
  show ?case
    unfolding poll_loop.simps by (intro returns_code Suc) (simp_all add: Suc.prems)
qed

text \<open>The write loop: every round accepts bytes or is charged to the budget.\<close>

lemma returns_write_loop:
  "good h \<Longrightarrow> len < 65536 \<Longrightarrow> returns good (write_loop data len h sent b)"
proof (induction "len - sent + b" arbitrary: h sent b rule: less_induct)
  case less
  show ?case
  proof (cases "sent < len")
    case False
    then show ?thesis using less.prems by (simp add: write_loop.simps [of data len h] returns_Some)
  next
    case True
    obtain n w where wr: "wr (take (len - sent) (drop sent data)) (user_ctx h) = (n, w)"
      by (cases "wr (take (len - sent) (drop sent data)) (user_ctx h)") auto
    have n: "n \<le> int (len - sent)" using write_bound [OF wr] True by (auto simp: min_def split: if_splits)
    have hw: "h_write h = wr" using less.prems by (simp add: connected_def)
    consider (fail) "n < 0" | (zero) "n = 0" | (some) "n > 0" by linarith
    then show ?thesis
    proof cases
      case fail
      then show ?thesis using True wr hw less.prems
        by (simp add: write_loop.simps [of data len h] returns_Some)
    next
      case zero
      have step: "returns good (write_loop data len (h\<lparr>user_ctx := h_delay_ms h 5 w\<rparr>) sent
          (if b \<ge> 5 then b - 5 else 0))" if "b \<noteq> 0"
        using that less.prems by (intro less.hyps) simp_all
      show ?thesis
      proof (cases "b = 0")
        case True
        then show ?thesis using \<open>sent < len\<close> wr hw less.prems zero
          by (simp add: write_loop.simps [of data len h sent 0] returns_Some)
      next
        case False
        then show ?thesis using \<open>sent < len\<close> wr hw zero step
          by (simp add: write_loop.simps [of data len h sent b] Let_def split del: if_split)
      qed
    next
      case some
      then have c: "cast_u16 n = nat n" "nat n \<le> len - sent" "0 < nat n"
        using n less.prems True by (simp_all add: cast_u16_small)
      then have "returns good (write_loop data len (h\<lparr>user_ctx := w\<rparr>) (sent + nat n) b)"
        using less.hyps [of "sent + nat n" b] less.prems True by simp
      then show ?thesis using True wr hw some c
        by (simp add: write_loop.simps [of data len h sent b])
    qed
  qed
qed

lemma returns_write_raw: "good h \<Longrightarrow> len < 65536 \<Longrightarrow> returns good (ec200_at_write_raw h data len)"
  by (simp add: ec200_at_write_raw_def returns_write_loop returns_Some)

lemma returns_transmit: "good h \<Longrightarrow> returns good (at_transmit h cmd)"
  by (auto simp: at_transmit_def Let_def reset_error_state_def size_defs
      intro!: returns_Some returns_write_raw)

lemma returns_wait_prefix: "good h \<Longrightarrow> returns good (ec200_at_wait_prefix h prefix buf t)"
  by (simp add: ec200_at_wait_prefix_def returns_wait_prefix_loop returns_Some)

lemma returns_wait_final: "good h \<Longrightarrow> returns good (ec200_at_wait_final h t)"
  by (simp add: ec200_at_wait_final_def returns_wait_final_loop returns_Some)

lemma returns_poll: "good h \<Longrightarrow> returns good (ec200_at_poll_urc h t)"
  by (simp add: ec200_at_poll_urc_def returns_poll_loop returns_Some)

lemma returns_seq:
  "returns good m \<Longrightarrow> (\<And>h a. good h \<Longrightarrow> returns good (f h a)) \<Longrightarrow>
   returns good (Option.bind m (\<lambda>(h, a). f h a))"
  by (rule returns_bind)

lemma returns_send: "good h \<Longrightarrow> returns good (ec200_at_send h cmd buf t)"
  unfolding ec200_at_send_def
  by (intro returns_code returns_seq returns_transmit returns_receive)

lemma returns_send_wait: "good h \<Longrightarrow> returns good (ec200_at_send_wait h cmd prefix buf t)"
  unfolding ec200_at_send_wait_def
  by (intro returns_code returns_seq returns_transmit returns_receive)

lemma returns_send_expect: "good h \<Longrightarrow> returns good (ec200_at_send_expect h cmd prefix buf t)"
  unfolding ec200_at_send_expect_def
  by (intro returns_code returns_seq returns_transmit returns_receive)

lemma returns_send_await_urc:
  "good h \<Longrightarrow> returns good (ec200_at_send_await_urc h cmd prefix buf t t')"
  unfolding ec200_at_send_await_urc_def
  by (intro returns_code returns_prod returns_seq returns_transmit returns_receive
      returns_wait_final returns_wait_prefix)

text \<open>
  The prompt loop has no line cap: it ends because every round uses up a byte and the
  handlers it calls bring no new ones.
\<close>

lemma dispatch_rem:
  assumes "dispatch_slots es h line = (h', d)" "set es \<subseteq> set (urc_table h)" "calm rem h"
  shows "rem (user_ctx h') \<le> rem (user_ctx h)"
  using assms
proof (induction es h line rule: dispatch_slots.induct)
  case (2 e es h line)
  have "rem (user_ctx (call_urc_handler f line (ue_ctx e) h)) \<le> rem (user_ctx h)"
    if "ue_fn e = Some f" for f
    using that "2.prems"(2,3)
    by (cases f) (auto simp: call_urc_handler_def mqtt_recv_urc_def calm_def split: option.splits)
  then show ?case using 2 by (auto split: option.splits if_splits)
qed simp

lemma terminal_same: "is_terminal h line = (h', t) \<Longrightarrow> user_ctx h' = user_ctx h"
  by (auto simp: is_terminal_def record_error_def set_err_code_def Let_def
      split: if_splits err_field.splits)

lemma returns_prompt_loop: "good h \<Longrightarrow> returns good (prompt_loop h b)"
proof (induction "rem (user_ctx h)" arbitrary: h b rule: less_induct)
  case less
  obtain h1 rc b1 where g: "rx_getc h b = (h1, rc, b1)" by (cases "rx_getc h b") auto
  have g1: "good h1" using less.prems cfgr.R_getc [OF g] by (rule good_same)
  have h: "h_read h = rd" using less.prems by (simp add: connected_def)
  show ?case
  proof (cases rc)
    case (RX_OK ch)
    have dec: "rem (user_ctx h1) < rem (user_ctx h)" using getc_rem [OF g h] RX_OK by blast
    have sp: "good h'" if "rx_getc h1 0 = (h', r)" for h' r
      using g1 cfgr.R_getc [OF that] by (rule good_same)
    obtain h2 l where f: "rx_feed h1 ch = (h2, l)" by (cases "rx_feed h1 ch") auto
    have g2: "good h2" using g1 cfgr.R_feed [OF f] by (rule good_same)
    have dec2: "rem (user_ctx h2) < rem (user_ctx h)" using dec feed_same [OF f] by simp
    have body: "returns good (case is_terminal h2 line of
                  (h, TERM_NONE) \<Rightarrow> prompt_loop (fst (dispatch_registered_urc h line)) b1
                | (h, TERM_OK) \<Rightarrow> Some (h, EC200_ERR_PARSE)
                | (h, TERM_ERR) \<Rightarrow> Some (h, map_error_terminal h))" for line
    proof -
      obtain h3 t where t: "is_terminal h2 line = (h3, t)" by (cases "is_terminal h2 line") auto
      have g3: "good h3" using g2 cfgr.R_terminal [OF t] by (rule good_same)
      obtain h4 d where d: "dispatch_registered_urc h3 line = (h4, d)" by fastforce
      have "rem (user_ctx h4) \<le> rem (user_ctx h3)"
        using dispatch_rem [of "urc_table h3" h3 line h4 d] d g3
        by (simp add: dispatch_registered_urc_def connected_def)
      then have "returns good (prompt_loop h4 b1)"
        using less.hyps [of h4 b1] terminal_same [OF t] dec2 good_dispatch [OF g3, of line] d by simp
      then show ?thesis using t d g3 by (cases t) (simp_all add: returns_Some)
    qed
    have fin: "returns good (case rx_getc h1 0 of
                 (h, RX_OK sp, _) \<Rightarrow>
                   if sp \<noteq> CHR '' '' then Some (fst (rx_feed h sp), EC200_OK)
                   else Some (h, EC200_OK)
               | (h, RX_TIMEOUT, _) \<Rightarrow> Some (h, EC200_OK)
               | (h, RX_IO_ERROR, _) \<Rightarrow> Some (h, EC200_OK))"
    proof -
      obtain h' r b' where r: "rx_getc h1 0 = (h', r, b')" by (cases "rx_getc h1 0") auto
      have "good h'" using sp [OF r] .
      moreover have "good (fst (rx_feed h' s))" for s
        using \<open>good h'\<close> cfgr.R_feed [of h' s] by (cases "rx_feed h' s") (auto intro: good_same)
      ultimately show ?thesis using r by (cases r) (simp_all add: returns_Some)
    qed
    show ?thesis
      using less.hyps [OF dec2 g2, of b1] body fin g f RX_OK
      by (subst prompt_loop.simps) (auto split: option.splits)
  qed (use g g1 in \<open>subst prompt_loop.simps, simp add: returns_Some\<close>)+
qed

lemma returns_send_prompt: "good h \<Longrightarrow> returns good (ec200_at_send_prompt h cmd t)"
  unfolding ec200_at_send_prompt_def
  by (intro returns_code returns_seq returns_transmit returns_prompt_loop)

section \<open>Raw reads\<close>

lemma returns_read_raw: "good h \<Longrightarrow> returns good (ec200_at_read_raw h buf len t n)"
proof (rule good_returns [OF _ cfgr.keeps_read_raw])
  show "ec200_at_read_raw h buf len t n \<noteq> None"
    by (auto simp: ec200_at_read_raw_def split: prod.split)
qed

lemma read_raw_some: "\<exists>h1 st c got. ec200_at_read_raw h buf len t n = Some (h1, st, c, got)"
  by (simp add: ec200_at_read_raw_def split: prod.split)

lemma returns_read_exact_loop:
  "good h \<Longrightarrow> len < 65536 \<Longrightarrow> returns good (read_exact_loop h buf len got b)"
proof (induction "len - got + b" arbitrary: h buf got b rule: less_induct)
  case less
  show ?case
  proof (cases "got < len")
    case False
    then show ?thesis using less.prems by (simp add: read_exact_loop.simps [of h] returns_Some)
  next
    case True
    obtain n d w where r: "rd (len - got) (poll_slice b) (user_ctx h) = (n, d, w)"
      by (cases "rd (len - got) (poll_slice b) (user_ctx h)") auto
    have n: "n \<le> int (len - got)" using read_bound [OF r] .
    have hr: "h_read h = rd" using less.prems by (simp add: connected_def)
    consider (fail) "n < 0" | (zero) "n = 0" | (some) "n > 0" by linarith
    then show ?thesis
    proof cases
      case fail
      then show ?thesis using True r hr less.prems
        by (simp add: read_exact_loop.simps [of h] returns_Some)
    next
      case zero
      have "returns good (read_exact_loop h' buf' len got (b - poll_slice b))"
        if "good h'" "b \<noteq> 0" for h' buf'
        using less.hyps [OF _ that(1)] that(2) less.prems poll_slice_less [of b] True by simp
      then show ?thesis using zero True r hr less.prems
        by (simp add: read_exact_loop.simps [of h buf len got b] Let_def returns_Some)
    next
      case some
      then have "cast_u16 n = nat n" "nat n \<le> len - got" "0 < nat n"
        using n less.prems True by (simp_all add: cast_u16_small)
      then show ?thesis using True r hr some less.prems less.hyps [of "got + nat n" b]
        by (simp add: read_exact_loop.simps [of h buf len got b] Let_def)
    qed
  qed
qed

lemma returns_read_exact:
  "good h \<Longrightarrow> len < 65536 \<Longrightarrow> returns good (ec200_at_read_exact h buf len t n)"
proof -
  assume h: "good h" and len: "len < 65536"
  obtain h1 b got where tb: "rx_take_buffered h (the buf) len = (h1, b, got)"
    by (cases "rx_take_buffered h (the buf) len") auto
  have "good h1" using h cfgr.R_take_buffered [OF tb] by (rule good_same)
  then show ?thesis
    unfolding ec200_at_read_exact_def tb prod.case
    by (intro returns_code h returns_seq [OF returns_read_exact_loop [OF _ len]])
      (auto intro: returns_Some)
qed

lemmas returns_at_ops =
  returns_send returns_send_wait returns_send_expect returns_send_await_urc returns_send_prompt
  returns_wait_prefix returns_wait_final returns_poll returns_write_raw returns_read_raw
  returns_read_exact

lemmas returns_body = returns_at_ops returns_seq returns_if returns_option returns_prod returns_Some

section \<open>Operations of the modules\<close>

lemma returns_plain: "good h \<Longrightarrow> returns good (send_plain h cmd t)"
  unfolding send_plain_def by (intro returns_body)

lemma returns_probe: "good h \<Longrightarrow> returns good (probe_loop k h st)"
proof (induction k arbitrary: h st)
  case 0
  then show ?case by (simp add: returns_Some)
next
  case (Suc k)
  show ?case
    unfolding probe_loop.simps ec200_check_at_def
    by (intro returns_body returns_plain Suc) simp_all
qed

lemma returns_init:
  assumes "handlers = (wr, rd, dl)"
  shows "\<exists>h' st. ec200_init h (Some wr) (Some rd) (Some dl) w = Some (h', st)"
proof -
  have "good (fresh_handle wr rd dl w)"
    by (simp add: connected_def fresh_handle_def calm_def free_urc_entry_def)
  then have "returns (\<lambda>_. True) (ec200_init h (Some wr) (Some rd) (Some dl) w)"
    unfolding ec200_init_def ec200_set_echo_def
    by (auto intro!: returns_if returns_Some returns_prod
        returns_bind [OF returns_probe] returns_bind [OF returns_plain])
  then show ?thesis by (auto simp: returns_def)
qed

lemma returns_sms_submit: "good h \<Longrightarrow> returns good (sms_submit h op n t v)"
  unfolding sms_submit_def
  by (intro returns_body returns_let) (auto simp: size_defs)

lemma returns_data_connect:
  "good h \<Longrightarrow> pdp_type c \<ge> 0 \<Longrightarrow> returns good (ec200_data_connect h (Some c))"
proof -
  assume h: "good h" and c: "pdp_type c \<ge> 0"
  have ip: "good h \<Longrightarrow> returns good (ec200_data_get_ip h i b)" for h i b
    unfolding ec200_data_get_ip_def by (intro returns_body)
  have act: "good h \<Longrightarrow> returns good (ec200_data_activate h i)" for h i
    unfolding ec200_data_activate_def by (intro returns_body returns_plain)
  have pdp: "good h \<Longrightarrow> x = set_ip c b \<Longrightarrow> returns good (ec200_data_set_pdp h (Some x))" for h b x
    using c unfolding ec200_data_set_pdp_def
    by (auto simp: set_ip_def intro!: returns_body returns_plain)
  show ?thesis
    unfolding ec200_data_connect_def option.case
    by (intro returns_if returns_Some returns_prod returns_let ip act pdp h
        returns_seq [OF ip] returns_seq [OF act] returns_seq [OF pdp])
qed

lemma returns_ping_loop: "good h \<Longrightarrow> returns good (ping_loop k h resp t)"
proof (induction k arbitrary: h resp)
  case 0
  then show ?case by (simp add: returns_Some)
next
  case (Suc k)
  show ?case
    unfolding ping_loop.simps by (intro returns_body Suc)
qed

lemma returns_ping: "good h \<Longrightarrow> returns good (ec200_tcp_ping h c host n r t)"
  unfolding ec200_tcp_ping_def by (intro returns_body returns_ping_loop)

lemma returns_read_body: "good h \<Longrightarrow> returns good (read_body_until_ok h a match b)"
proof (rule good_returns [OF _ cfgr.keeps_read_body])
  show "read_body_until_ok h a match b \<noteq> None"
  proof (induction h a match b rule: read_body_until_ok.induct)
    case (1 h a match b)
    obtain h1 st c got where
      rd: "ec200_at_read_raw h (Some [NUL]) 1 (poll_slice b) (Some 0) = Some (h1, st, c, got)"
      using read_raw_some by blast
    show ?case
      using "1.IH" [OF refl rd refl refl refl]
      unfolding read_body_until_ok.simps [of h a match b] Let_def rd option.case prod.case
      by (auto split: prod.splits)
  qed
qed

lemma returns_http_read: "good h \<Longrightarrow> returns good (ec200_http_read h buf n t)"
  unfolding ec200_http_read_def by (intro returns_body returns_let returns_read_body)

end

section \<open>What returns, and what does not\<close>

text \<open>
  C4. Every blocking call of the AT engine returns: on a transport that has only finitely many
  bytes to deliver at any moment and respects the bounds of its callbacks, with handlers that
  bring no new input, every transaction, wait, poll and raw transfer (of at most 65535 bytes)
  ends with a status, whatever the module sends and whatever timeouts are given.
\<close>

theorem engine_calls_return:
  assumes "transport rem (h_read h) (h_write h)" and "calm rem h" and "len < 65536"
  shows "ec200_at_send h cmd buf t \<noteq> None \<and> ec200_at_send_wait h cmd prefix buf t \<noteq> None \<and>
         ec200_at_send_expect h cmd prefix buf t \<noteq> None \<and>
         ec200_at_send_await_urc h cmd prefix buf t t' \<noteq> None \<and>
         ec200_at_send_prompt h cmd t \<noteq> None \<and> ec200_at_wait_prefix h prefix buf t \<noteq> None \<and>
         ec200_at_wait_final h t \<noteq> None \<and> ec200_at_poll_urc h t \<noteq> None \<and>
         ec200_at_write_raw h data len \<noteq> None \<and> ec200_at_read_raw h data len t n \<noteq> None \<and>
         ec200_at_read_exact h data len t n \<noteq> None"
proof -
  have "connected rem (h_read h) (h_write h) h" using assms(2) by (simp add: connected_def)
  then show ?thesis
    by (intro conjI returns_not_None [where P = "connected rem (h_read h) (h_write h)"]
        transport.returns_at_ops [OF assms(1)] assms(3))
qed

theorem engine_calls_return_witness:
  "ec200_at_send (lb_handle (lb_answers ''AT'' [])) (Some ''AT'') None 10000 \<noteq> None \<and>
   ec200_at_send_prompt (lb_handle (lb_answers ''AT'' [])) (Some ''AT'') 10000 \<noteq> None"
proof -
  let ?h = "lb_handle (lb_answers ''AT'' [])"
  have "transport (\<lambda>lb. length (lb_rx lb)) (h_read ?h) (h_write ?h)"
    by (simp add: lbf.transport_axioms)
  moreover have "calm (\<lambda>lb. length (lb_rx lb)) ?h" by (simp add: calm_def free_urc_entry_def)
  ultimately show ?thesis
    using engine_calls_return [of "\<lambda>lb. length (lb_rx lb)" ?h 0 "Some ''AT''" None 10000] by simp
qed

text \<open>
  C34. The limit of the bounded waits: neither the timeout nor the cap of 64 lines bounds the
  bytes of one line. On a UART that keeps delivering bytes other than a line feed, as one at
  the wrong baud rate or one carrying PPP frames, assembling a line never ends, and a call
  with any timeout, even 0, that waits for one never returns.
\<close>

theorem endless_line_hangs:
  assumes "\<forall>w tmo. live w \<longrightarrow> (\<exists>n d w'. h_read h 1 tmo w = (n, d, w') \<and> n > 0 \<and>
             first_byte d \<noteq> LF \<and> live w')"
    and "live (user_ctx h)" and "initialised h" and "\<not> ppp_data_mode h"
  shows "rx_line h b = None \<and> ec200_at_wait_final h t = None \<and>
         ec200_at_wait_prefix h (Some p) buf t = None \<and> ec200_at_poll_urc h t = None"
proof -
  have "False" if "rx_line h' b = Some r" "h_read h' = h_read h" "live (user_ctx h')" for h' b r
  proof -
    have "h_read h' = h_read h \<longrightarrow> live (user_ctx h') \<longrightarrow> False"
    proof (rule rx_line.raw_induct [where P = "\<lambda>h' b x. h_read h' = h_read h \<longrightarrow>
          live (user_ctx h') \<longrightarrow> False", OF _ that(1)], intro impI)
      fix f h' b x
      assume IH: "\<And>h' b y. f h' b = Some y \<Longrightarrow> h_read h' = h_read h \<longrightarrow> live (user_ctx h') \<longrightarrow> False"
        and eq: "(case rx_getc h' b of (h, rc, budget) \<Rightarrow>
          (case rc of RX_OK ch \<Rightarrow> (case rx_feed h ch of (h, None) \<Rightarrow> f h budget
                                    | (h, Some line) \<Rightarrow> Some (h, RX_OK line, budget))
           | RX_TIMEOUT \<Rightarrow> Some (h, RX_TIMEOUT, budget)
           | RX_IO_ERROR \<Rightarrow> Some (h, RX_IO_ERROR, budget))) = Some x"
        and h': "h_read h' = h_read h" "live (user_ctx h')"
      obtain n d w' where rd: "h_read h 1 (poll_slice b) (user_ctx h') = (n, d, w')" "n > 0"
          "first_byte d \<noteq> LF" "live w'"
        using assms(1) h'(2) by blast
      have g: "rx_getc h' b = (h'\<lparr>user_ctx := w'\<rparr>, RX_OK (first_byte d), b)"
        using rd h'(1) by (simp add: rx_getc.simps [of h' b])
      obtain h2 l where "rx_feed (h'\<lparr>user_ctx := w'\<rparr>) (first_byte d) = (h2, l)" by fastforce
      moreover from this have "l = None" using rd(3) by (auto simp: rx_feed_def split: if_splits)
      ultimately have f: "rx_feed (h'\<lparr>user_ctx := w'\<rparr>) (first_byte d) = (h2, None)"
          "h_read h2 = h_read h" "user_ctx h2 = w'"
        using feed_same [of "h'\<lparr>user_ctx := w'\<rparr>" "first_byte d" h2 l] h'(1) by simp_all
      show False
        using eq g f rd(4) IH [of h2 b] by simp
    qed
    with that show False by simp
  qed
  then have none: "rx_line h b = None" for b
    using assms(2) by (metis option.exhaust)
  then show ?thesis
    using assms(3,4)
    by (simp add: ec200_at_wait_final_def ec200_at_wait_prefix_def ec200_at_poll_urc_def
        handle_ready_def EC200_AT_MAX_LINES_def numeral_eq_Suc)
qed

theorem endless_line_hangs_witness:
  "ec200_at_wait_final
     (fresh_handle (\<lambda>d w. (int (length d), w)) (\<lambda>n tmo w. (1, ''~'', w)) (\<lambda>ms w. w) ()) 1000 = None"
  using endless_line_hangs [of "\<lambda>_. True"
      "fresh_handle (\<lambda>d w. (int (length d), w)) (\<lambda>n tmo w. (1, ''~'', w)) (\<lambda>ms w. w) ()"
      0 1000]
  by (simp add: fresh_handle_def first_byte_def)

end
