(* ===== verification/Ec200_Digits.thy ===== *)
theory Ec200_Digits
  imports Ec200_CLib
begin

text \<open>
  Printing and scanning numbers: what \<open>%d\<close>, \<open>%u\<close> and \<open>%02u\<close> write, \<open>strtol\<close>,
  \<open>atoi\<close> and \<open>%d\<close> of \<open>sscanf\<close> read back.
\<close>

section \<open>Digits\<close>

lemma of_char_digit: "d < 10 \<Longrightarrow> (of_char (digit_char d) :: nat) = 48 + d"
  by (simp add: digit_char_def of_char_of)

lemma is_digit_char [simp]: "d < 10 \<Longrightarrow> is_digit (digit_char d)"
  by (simp add: is_digit_def of_char_digit)

lemma digit_val_char [simp]: "d < 10 \<Longrightarrow> digit_val (digit_char d) = d"
  by (simp add: digit_val_def of_char_digit)

lemma digit_not_special:
  assumes "is_digit c"
  shows "c \<noteq> CHR ''-''" "c \<noteq> CHR ''+''" "c \<noteq> CHR '',''" "c \<noteq> CHR '':''" "c \<noteq> CHR '' ''"
    "c \<noteq> DQUOTE" "c \<noteq> CR" "c \<noteq> LF" "c \<noteq> NUL" "c \<noteq> CHR ''/''" "\<not> is_space c"
  using assms by (auto simp: is_digit_def is_space_def)

lemma show_nat_digits: "list_all is_digit (show_nat n)"
  by (induction n rule: show_nat.induct) (subst show_nat.simps, simp)

lemma show_nat_not_Nil [simp]: "show_nat n \<noteq> []"
  by (subst show_nat.simps) simp

lemma show_nat_set: "c \<in> set (show_nat n) \<Longrightarrow> is_digit c"
  using show_nat_digits [of n] by (simp add: list_all_iff)

lemma has_digit_show [simp]: "has_digit (show_nat n @ r)"
  using show_nat_set [of "hd (show_nat n)" n]
  by (cases "show_nat n") (auto simp: has_digit_def)

section \<open>Scanning\<close>

lemma scan_digits_append:
  "list_all is_digit ds \<Longrightarrow>
   scan_digits acc (ds @ r) = scan_digits (fold (\<lambda>c a. 10 * a + digit_val c) ds acc) r"
  by (induction ds arbitrary: acc) auto

lemma scan_digits_end: "\<not> has_digit r \<Longrightarrow> scan_digits acc r = (acc, r)"
  by (cases r) (auto simp: has_digit_def)

lemma fold_show_nat: "fold (\<lambda>c a. 10 * a + digit_val c) (show_nat n) 0 = n"
  by (induction n rule: show_nat.induct) (subst show_nat.simps, simp)

lemma scan_show_nat: "\<not> has_digit r \<Longrightarrow> scan_digits 0 (show_nat n @ r) = (n, r)"
  by (simp add: scan_digits_append show_nat_digits fold_show_nat scan_digits_end)

lemma scan_zeros:
  "\<not> has_digit r \<Longrightarrow> scan_digits 0 (replicate k CHR ''0'' @ show_nat n @ r) = (n, r)"
  by (induction k) (simp_all add: scan_show_nat is_digit_def digit_val_def)

lemma has_digit_zeros [simp]: "has_digit (replicate k CHR ''0'' @ show_nat n @ r)"
  using has_digit_show [of n r] by (cases k) (simp_all add: has_digit_def is_digit_def)

definition is_int :: "int \<Rightarrow> bool" where
  "is_int i \<longleftrightarrow> int_min \<le> i \<and> i \<le> int_max"

lemma clamp_is_int: "is_int i \<Longrightarrow> clamp_int i = i"
  by (simp add: is_int_def clamp_int_def)

lemma dropWhile_space_digit: "has_digit s \<Longrightarrow> dropWhile is_space s = s"
  using digit_not_special(11) by (cases s) (auto simp: has_digit_def)

lemma strtol_digits:
  "has_digit s \<Longrightarrow> scan_digits 0 s = (n, r) \<Longrightarrow> is_int (int n) \<Longrightarrow> strtol s = Some (int n, r)"
  using dropWhile_space_digit [of s] digit_not_special(1,2)
  by (cases s) (auto simp: strtol_def Let_def clamp_is_int has_digit_def)

lemma strtol_show_int:
  assumes "is_int i" and "\<not> has_digit r"
  shows "strtol (show_int i @ r) = Some (i, r)"
proof (cases "i < 0")
  case True
  have "strtol (CHR ''-'' # show_nat (nat (- i)) @ r) = Some (clamp_int (- int (nat (- i))), r)"
    using assms(2) by (simp add: strtol_def Let_def is_space_def scan_show_nat)
  with True assms(1) show ?thesis by (simp add: show_int_def clamp_is_int)
next
  case False
  then show ?thesis
    using assms strtol_digits [of "show_nat (nat i) @ r" "nat i" r]
    by (simp add: show_int_def scan_show_nat)
qed

lemma atoi_show_int: "is_int i \<Longrightarrow> \<not> has_digit r \<Longrightarrow> atoi (show_int i @ r) = i"
  by (simp add: atoi_def strtol_show_int)

lemma show_int_nat: "show_int (int n) = show_nat n"
  by (simp add: show_int_def)

lemma atoi_show_nat: "is_int (int n) \<Longrightarrow> \<not> has_digit r \<Longrightarrow> atoi (show_nat n @ r) = int n"
  using atoi_show_int [of "int n" r] by (simp add: show_int_nat)

lemma strtol_02u: "is_int (int n) \<Longrightarrow> \<not> has_digit r \<Longrightarrow> strtol (show_02u n @ r) = Some (int n, r)"
  using strtol_digits [OF has_digit_zeros scan_zeros] by (simp add: show_02u_def pad_left_def)

lemma strtol_p03d: "is_int i \<Longrightarrow> \<not> has_digit r \<Longrightarrow> strtol (show_p03d i @ r) = Some (i, r)"
proof -
  assume i: "is_int i" and r: "\<not> has_digit r"
  show ?thesis
    using i scan_zeros [OF r] has_digit_zeros
    by (auto simp: show_p03d_def pad_left_def strtol_def Let_def is_space_def clamp_is_int)
qed

section \<open>Characters and lengths of printed numbers\<close>

lemma show_int_set: "c \<in> set (show_int i) \<Longrightarrow> is_digit c \<or> c = CHR ''-''"
  by (auto simp: show_int_def show_nat_set split: if_splits)

lemma show_int_not_Nil [simp]: "show_int i \<noteq> []"
  by (simp add: show_int_def)

lemma show_nat_length: "n < 10 ^ k \<Longrightarrow> 0 < k \<Longrightarrow> length (show_nat n) \<le> k"
proof (induction k arbitrary: n)
  case (Suc k)
  show ?case
  proof (cases "n < 10")
    case True
    then show ?thesis by (subst show_nat.simps) simp
  next
    case False
    then have k: "k \<noteq> 0" using Suc.prems by (cases k) auto
    have "n div 10 < 10 ^ k" using Suc.prems by (simp add: less_mult_imp_div_less)
    then have "length (show_nat (n div 10)) \<le> k" using k by (intro Suc.IH) simp_all
    then show ?thesis using False by (subst show_nat.simps) simp
  qed
qed simp

end
