(* ===== verification/Ec200_Fields.thy ===== *)
theory Ec200_Fields
  imports Ec200_Digits Ec200_At
begin

text \<open>
  Comma-separated result lines: what \<^verbatim>\<open>ec200_at_parse_int_field\<close> reads from the fields
  a module prints, integers and quoted strings.
\<close>

datatype field = FInt int | FStr string

fun show_field :: "field \<Rightarrow> string" where
  "show_field (FInt v) = show_int v"
| "show_field (FStr s) = quoted s"

fun show_fields :: "field list \<Rightarrow> string" where
  "show_fields [] = []"
| "show_fields [f] = show_field f"
| "show_fields (f # fs) = show_field f @ CHR '','' # show_fields fs"

definition result_line :: "string \<Rightarrow> field list \<Rightarrow> string" where
  "result_line pfx fs = pfx @ CHR '':'' # CHR '' '' # show_fields fs"

text \<open>The fields a line can carry: integers of the type \<open>int\<close>, text without a quote.\<close>

fun field_ok :: "field \<Rightarrow> bool" where
  "field_ok (FInt v) = is_int v"
| "field_ok (FStr s) = (DQUOTE \<notin> set s)"

section \<open>Short integers\<close>

text \<open>An integer of at most three digits.\<close>

definition short_int :: "int \<Rightarrow> bool" where
  "short_int v \<longleftrightarrow> -1000 < v \<and> v < 1000"

lemma short_int_fits: "short_int v \<Longrightarrow> is_int v \<and> length (show_int v) \<le> 4"
proof -
  assume v: "short_int v"
  then have "length (show_nat (nat (- v))) \<le> 3 \<and> length (show_nat (nat v)) \<le> 3"
    by (intro conjI show_nat_length) (auto simp: short_int_def)
  with v show ?thesis by (auto simp: short_int_def is_int_def int_min_def int_max_def show_int_def)
qed

lemma show_int_clean: "CR \<notin> set (show_int v)" "LF \<notin> set (show_int v)" "NUL \<notin> set (show_int v)"
  "CHR '':'' \<notin> set (show_int v)"
  using show_int_set [of CR v] show_int_set [of LF v] show_int_set [of NUL v] show_int_set [of "CHR '':''" v]
  by (auto simp: is_digit_def)

section \<open>Skipping fields\<close>

lemma seek_plain:
  "DQUOTE \<notin> set xs \<Longrightarrow> (inq \<or> CHR '','' \<notin> set xs) \<Longrightarrow>
   seek_field (Suc k) inq (xs @ r) = seek_field (Suc k) inq r"
  by (induction xs) auto

lemma show_int_plain: "DQUOTE \<notin> set (show_int v)" "CHR '','' \<notin> set (show_int v)"
  using show_int_set [of DQUOTE v] show_int_set [of "CHR '',''" v] by (auto simp: is_digit_def)

lemma seek_show_field:
  "field_ok f \<Longrightarrow> seek_field (Suc k) False (show_field f @ r) = seek_field (Suc k) False r"
  by (cases f) (simp_all add: seek_plain show_int_plain quoted_def)

lemma seek_show_fields:
  "list_all field_ok fs \<Longrightarrow> fs \<noteq> [] \<Longrightarrow>
   seek_field k False (show_fields fs) =
     (if k < length fs then Some (show_fields (drop k fs)) else None)"
proof (induction fs arbitrary: k rule: show_fields.induct)
  case (2 f)
  then show ?case
    using seek_show_field [of f "k - 1" "[]"] by (cases k) simp_all
next
  case (3 f g fs)
  then show ?case
    by (cases k) (simp_all add: seek_show_field)
qed simp

section \<open>Reading a field\<close>

lemma show_field_head:
  assumes "field_ok f"
  shows "show_field f \<noteq> []" "hd (show_field f) \<noteq> CHR '' ''"
    "(hd (show_field f) = CHR ''-'' \<or> is_digit (hd (show_field f))) = (\<exists>v. f = FInt v)"
proof -
  have int: "show_int v \<noteq> [] \<and> (hd (show_int v) = CHR ''-'' \<or> is_digit (hd (show_int v)))" for v
    using show_int_set [of "hd (show_int v)" v] hd_in_set [of "show_int v"] by auto
  have "\<not> is_digit DQUOTE" by (simp add: is_digit_def)
  then show "show_field f \<noteq> []" "hd (show_field f) \<noteq> CHR '' ''"
    "(hd (show_field f) = CHR ''-'' \<or> is_digit (hd (show_field f))) = (\<exists>v. f = FInt v)"
    using int digit_not_special(5) by (cases f; force simp: quoted_def)+
qed

lemma show_fields_Cons: "\<exists>r. show_fields (f # fs) = show_field f @ r \<and> \<not> has_digit r"
  by (cases fs) (auto simp: has_digit_def is_digit_def)

lemma skip_spaces_head: "s \<noteq> [] \<Longrightarrow> hd s \<noteq> CHR '' '' \<Longrightarrow> skip_spaces s = s"
  by (cases s) (simp_all add: skip_spaces_def)

lemma skip_show_fields: "list_all field_ok fs \<Longrightarrow> skip_spaces (show_fields fs) = show_fields fs"
proof (cases fs)
  case (Cons f fs')
  assume "list_all field_ok fs"
  then show ?thesis
    using Cons show_fields_Cons [of f fs'] show_field_head(1,2) [of f]
    by (auto intro: skip_spaces_head)
qed (simp add: skip_spaces_def)

lemma strchr_upto: "c \<notin> set s \<Longrightarrow> strchr (s @ c # r) c = Some (c # r)"
  by (induction s) auto

lemma strchr_none: "c \<notin> set s \<Longrightarrow> strchr s c = None"
  by (induction s) auto

lemma after_colon_result: "CHR '':'' \<notin> set pfx \<Longrightarrow> after_colon (result_line pfx fs) = CHR '' '' # show_fields fs"
  by (simp add: after_colon_def result_line_def strchr_upto)

definition read_field :: "string \<Rightarrow> int option" where
  "read_field p =
     (let p = skip_spaces p in
      if p \<noteq> [] \<and> (hd p = CHR ''-'' \<or> is_digit (hd p)) then Some (atoi p) else None)"

lemma read_show_fields:
  assumes "list_all field_ok (f # fs)"
  shows "read_field (show_fields (f # fs)) = (case f of FInt v \<Rightarrow> Some v | FStr s \<Rightarrow> None)"
proof -
  obtain r where r: "show_fields (f # fs) = show_field f @ r" "\<not> has_digit r"
    using show_fields_Cons by blast
  have f: "field_ok f" using assms by simp
  note hd = show_field_head [OF f]
  have sk: "skip_spaces (show_field f @ r) = show_field f @ r"
    using hd(1,2) by (intro skip_spaces_head) simp_all
  show ?thesis
  proof (cases f)
    case (FInt v)
    then show ?thesis
      using hd r f sk by (simp add: read_field_def atoi_show_int)
  next
    case (FStr s)
    then show ?thesis
      using hd(3) r sk by (simp add: read_field_def quoted_def is_digit_def)
  qed
qed

lemma parse_int_field_read:
  "ec200_at_parse_int_field line i =
     (case seek_field i False (skip_spaces (after_colon line)) of None \<Rightarrow> None | Some p \<Rightarrow> read_field p)"
  by (simp add: ec200_at_parse_int_field_def read_field_def Let_def split: option.split)

lemma parse_result_line:
  assumes "list_all field_ok fs" and "CHR '':'' \<notin> set pfx"
  shows "ec200_at_parse_int_field (result_line pfx fs) i =
           (if i < length fs then (case fs ! i of FInt v \<Rightarrow> Some v | FStr s \<Rightarrow> None) else None)"
proof (cases "fs = []")
  case True
  then show ?thesis
    using assms by (cases i) (simp_all add: parse_int_field_read after_colon_result skip_spaces_def read_field_def)
next
  case False
  have sk: "skip_spaces (after_colon (result_line pfx fs)) = show_fields fs"
    using assms skip_show_fields [of fs] by (simp add: after_colon_result skip_spaces_def)
  show ?thesis
  proof (cases "i < length fs")
    case True
    then have "drop i fs = fs ! i # drop (Suc i) fs" by (rule Cons_nth_drop_Suc [symmetric])
    moreover have "list_all field_ok (drop i fs)"
      using assms(1) by (auto simp: list_all_iff dest: in_set_dropD)
    ultimately show ?thesis
      using True False assms(1) sk read_show_fields [of "fs ! i" "drop (Suc i) fs"]
      by (simp add: parse_int_field_read seek_show_fields)
  next
    case out: False
    then show ?thesis
      using False assms(1) sk by (simp add: parse_int_field_read seek_show_fields)
  qed
qed

end
