(* ===== verification/Ec200_Transactions.thy ===== *)
theory Ec200_Transactions
  imports Ec200_Loopback Ec200_Fields
begin

text \<open>
  What a transaction of the AT engine returns for an answer of the module: lines are framed
  and completed across timeouts, the body of a response is collected, the first line with
  the expected prefix wins, error lines are classified with their code, and a storm of
  lines is cut off. The hypotheses \<open>byte_source\<close> and \<open>fed\<close> state what the read
  callback delivers.
\<close>

section \<open>Consequences of the specification\<close>

fun join_lf :: "string list \<Rightarrow> string" where
  "join_lf [] = []"
| "join_lf [l] = l"
| "join_lf (l # ls) = l @ LF # join_lf ls"

lemma join_lf_snoc: "ls \<noteq> [] \<Longrightarrow> join_lf (ls @ [l]) = join_lf ls @ LF # l"
  by (induction ls rule: join_lf.induct) (auto simp: neq_Nil_conv)

lemma join_lf_Nil: "\<forall>l\<in>set ls. l \<noteq> [] \<Longrightarrow> join_lf ls = [] \<longleftrightarrow> ls = []"
  by (cases ls rule: join_lf.cases) auto

text \<open>A line that is neither empty nor terminal.\<close>

definition body_only :: "string \<Rightarrow> bool" where
  "body_only l \<longleftrightarrow> l \<noteq> [] \<and> line_term l = TERM_NONE"

lemma append_line_join:
  assumes "\<forall>l\<in>set done. l \<noteq> []" "l \<noteq> []" "length (join_lf (done @ [l])) + 2 < sz"
  shows "append_line l (Some (sz, join_lf done)) = Some (sz, join_lf (done @ [l]))"
  using assms join_lf_Nil [of "done"]
  by (cases "done = []") (auto simp: append_line_def join_lf_snoc)

lemma join_lf_prefix_length: "length (join_lf xs) \<le> length (join_lf (xs @ ys))"
proof (induction ys arbitrary: xs)
  case (Cons y ys)
  have "length (join_lf xs) \<le> length (join_lf (xs @ [y]))"
    by (cases "xs = []") (simp_all add: join_lf_snoc)
  then show ?case using Cons.IH [of "xs @ [y]"] by simp
qed simp

text \<open>
  Body lines with blank ones among them, which do not reach the response, and the terminal line.
\<close>

lemma spec_collect_blanks:
  assumes "\<forall>l\<in>set body. l = [] \<or> body_only l \<and> \<not> reg l" "\<forall>l\<in>set done. l \<noteq> []"
    and "line_term t \<noteq> TERM_NONE" and "length body < k" "length (join_lf (done @ filter (\<lambda>l. l \<noteq> []) body)) + 2 < sz"
  shows "spec_receive reg k None stop matched (Some (sz, join_lf done)) (body @ t # rest) =
           (if t = ''OK'' then EC200_OK else line_error t, Some (sz, join_lf (done @ filter (\<lambda>l. l \<noteq> []) body)), rest)"
  using assms
proof (induction body arbitrary: k "done")
  case Nil
  moreover have "line_term t = (if t = ''OK'' then TERM_OK else TERM_ERR)" "t \<noteq> []"
    using Nil.prems(3) by (auto simp: line_term_def split: if_splits)
  ultimately show ?case by (cases k) (simp_all add: prefix_hit_def)
next
  case (Cons l body)
  obtain k' where k: "k = Suc k'" using Cons.prems(4) by (cases k) auto
  show ?case
  proof (cases "l = []")
    case True
    then show ?thesis using Cons.prems k Cons.IH [of "done" k'] by simp
  next
    case False
    let ?rest = "filter (\<lambda>l. l \<noteq> []) body"
    have "length (join_lf (done @ [l])) + 2 < sz"
      using join_lf_prefix_length [of "done @ [l]" ?rest] Cons.prems(5) False by simp
    then have "append_line l (Some (sz, join_lf done)) = Some (sz, join_lf (done @ [l]))"
      using Cons.prems False by (intro append_line_join) auto
    then show ?thesis
      using Cons.prems k False Cons.IH [of "done @ [l]" k']
      by (simp add: prefix_hit_def body_only_def)
  qed
qed

lemma spec_skip:
  assumes "\<forall>l\<in>set pre. body_only l \<and> (\<not> prefix_hit (Some p) l \<or> matched)" "length pre < k"
  shows "spec_receive reg k (Some p) stop matched buf (pre @ ls) =
           spec_receive reg (k - length pre) (Some p) stop matched buf ls"
  using assms
proof (induction pre arbitrary: k)
  case (Cons l pre)
  then show ?case by (cases k) (auto simp: body_only_def)
qed simp

lemma spec_storm:
  assumes "\<forall>l\<in>set storm. body_only l \<and> \<not> prefix_hit prefix l" "length storm = k"
    "prefix = None \<Longrightarrow> \<forall>l\<in>set storm. reg l"
  shows "spec_receive reg k prefix stop matched buf (storm @ ls) = (EC200_ERR_OVERFLOW, buf, ls)"
  using assms
proof (induction storm arbitrary: k)
  case (Cons l storm)
  then show ?case by (cases k) (auto simp: body_only_def)
qed simp

section \<open>Framing\<close>

text \<open>
  A complete line: with a byte source that holds bytes up to a line feed,
  \<open>rx_line\<close> consumes exactly the bytes up to and including the line feed, charges nothing
  to the budget, and returns the buffered part and the new bytes without carriage returns,
  cut at the buffer size and at a NUL byte; the assembler is empty again.
\<close>

lemma rx_line_complete:
  assumes "byte_source live pending (h_read h)" and "live (user_ctx h)"
    and "pending (user_ctx h) = cs @ LF # rest" and "LF \<notin> set cs"
    and "length (rx_buf h) < EC200_RX_BUFFER_SIZE"
  shows "\<exists>w. rx_line h b = Some (h\<lparr>user_ctx := w, rx_buf := [], rx_overlong := False\<rparr>,
             RX_OK (cstr (take 2047 (rx_buf h @ filter (\<lambda>c. c \<noteq> CR) cs))), b) \<and>
             live w \<and> pending w = rest"
  using byte_source.line_some [OF assms(1) refl assms(2-5), of b]
  by (simp add: assembled_def size_defs)

text \<open>
  C24. A partial line is kept across a timeout and never surfaced: a source that runs dry in
  the middle of a line costs the whole budget and leaves the bytes in the assembler, and the
  next call, whenever it comes and whatever happened to the transport in between, returns
  the line made of both parts.
\<close>

theorem rx_line_resumes:
  assumes "byte_source live pending (h_read h)" and "live (user_ctx h)"
    and "pending (user_ctx h) = cs" and "LF \<notin> set cs"
    and "length (rx_buf h) < EC200_RX_BUFFER_SIZE"
  shows "\<exists>h1. rx_line h b = Some (h1, RX_TIMEOUT, 0) \<and>
           (\<forall>w ds rest b'. live w \<and> pending w = ds @ LF # rest \<and> LF \<notin> set ds \<longrightarrow>
              (\<exists>w'. rx_line (h1\<lparr>user_ctx := w\<rparr>) b' =
                 Some (h\<lparr>user_ctx := w', rx_buf := [], rx_overlong := False\<rparr>,
                       RX_OK (cstr (assembled (rx_buf h) (cs @ ds))), b') \<and>
                 live w' \<and> pending w' = rest))"
proof -
  obtain w1 ov where h1: "rx_line h b = Some (h\<lparr>user_ctx := w1, rx_buf := assembled (rx_buf h) cs,
      rx_overlong := ov\<rparr>, RX_TIMEOUT, 0)"
    using byte_source.line_none [OF assms(1) refl assms(2-5), of b] by auto
  let ?h1 = "h\<lparr>user_ctx := w1, rx_buf := assembled (rx_buf h) cs, rx_overlong := ov\<rparr>"
  have len: "length (assembled (rx_buf h) cs) < EC200_RX_BUFFER_SIZE"
    by (simp add: assembled_def size_defs)
  have "\<exists>w'. rx_line (?h1\<lparr>user_ctx := w\<rparr>) b' =
          Some (h\<lparr>user_ctx := w', rx_buf := [], rx_overlong := False\<rparr>,
                RX_OK (cstr (assembled (rx_buf h) (cs @ ds))), b') \<and> live w' \<and> pending w' = rest"
    if "live w" "pending w = ds @ LF # rest" "LF \<notin> set ds" for w ds rest b'
    using byte_source.line_some [OF assms(1), of "?h1\<lparr>user_ctx := w\<rparr>" ds rest b'] that len
    by (simp add: assembled_append [OF assms(5)])
  with h1 show ?thesis by blast
qed

theorem rx_line_resumes_witness:
  "\<exists>h1 w'. rx_line (lb_handle (lb_reset\<lparr>lb_rx := ''+CM''\<rparr>)) 250 = Some (h1, RX_TIMEOUT, 0) \<and>
     rx_line (h1\<lparr>user_ctx := lb_reset\<lparr>lb_rx := ''TI: 1'' @ [CR, LF]\<rparr>\<rparr>) 9 =
       Some (lb_handle w', RX_OK ''+CMTI: 1'', 9) \<and> lb_rx w' = []"
proof -
  let ?h = "lb_handle (lb_reset\<lparr>lb_rx := ''+CM''\<rparr>)"
  have src: "byte_source lb_live lb_rx (h_read ?h)" by (simp add: lbs.byte_source_axioms)
  have "lb_live (user_ctx ?h)" "lb_rx (user_ctx ?h) = ''+CM''" "LF \<notin> set ''+CM''"
    "length (rx_buf ?h) < EC200_RX_BUFFER_SIZE"
    by (simp_all add: lb_live_def lb_reset_def size_defs)
  note res = rx_line_resumes [OF src this, of 250]
  then obtain h1 where h1: "rx_line ?h 250 = Some (h1, RX_TIMEOUT, 0)"
    "\<And>w ds rest b'. lb_live w \<and> lb_rx w = ds @ LF # rest \<and> LF \<notin> set ds \<Longrightarrow>
       \<exists>w'. rx_line (h1\<lparr>user_ctx := w\<rparr>) b' =
         Some (?h\<lparr>user_ctx := w', rx_buf := [], rx_overlong := False\<rparr>,
               RX_OK (cstr (assembled (rx_buf ?h) (''+CM'' @ ds))), b') \<and>
         lb_live w' \<and> lb_rx w' = rest" by blast
  have "?h\<lparr>user_ctx := w, rx_buf := [], rx_overlong := False\<rparr> = lb_handle w" for w
    by (simp add: lb_handle_def fresh_handle_def)
  then show ?thesis
    using h1(1) h1(2) [of "lb_reset\<lparr>lb_rx := ''TI: 1'' @ [CR, LF]\<rparr>" "''TI: 1'' @ [CR]" "[]" 9]
    by (auto simp: lb_live_def lb_reset_def size_defs cstr_def assembled_def)
qed

section \<open>Transactions\<close>

lemma receive_lines:
  assumes "byte_source live pending rd" and "fed live pending rd h ls"
    and "\<forall>l\<in>set ls. clean_line l"
  shows "\<exists>h' st buf' ls'. receive_transaction h prefix stop buf t = Some (h', st, buf') \<and>
           spec_receive (registered (urc_table h)) 64 prefix stop False (clear_buf buf) ls =
             (st, buf', ls') \<and>
           left_with live pending rd h' ls'"
  using byte_source.receive_refines [OF assms, of 64 prefix stop False "clear_buf buf" t]
  unfolding receive_transaction_def EC200_AT_MAX_LINES_def by blast

text \<open>
  C1. Refinement of the receive loop: for a transport that holds complete lines, the shared
  receive loop of all command transactions consumes lines and returns a status and a response
  exactly as the specification \<open>spec_receive\<close> does on the list of lines, for every
  prefix, response buffer and timeout, with handlers dispatched on the way.
\<close>

theorem receive_transaction_refines:
  assumes "byte_source live pending rd" and "fed live pending rd h ls"
    and "\<forall>l\<in>set ls. clean_line l"
  shows "\<exists>h' st buf' ls'. receive_transaction h prefix stop buf t = Some (h', st, buf') \<and>
           spec_receive (registered (urc_table h)) 64 prefix stop False (clear_buf buf) ls =
             (st, buf', ls') \<and>
           left_with live pending rd h' ls'"
  using assms by (rule receive_lines)

theorem receive_transaction_refines_witness:
  "\<exists>h'. receive_transaction (lb_handle (lb_reset\<lparr>lb_rx := crlf [''+CSQ: 9,0'', ''OK'', ''RDY'']\<rparr>))
          (Some ''+CSQ:'') False (char_buf 64) 300 = Some (h', EC200_OK, Some (64, ''+CSQ: 9,0'')) \<and>
        lb_rx (user_ctx h') = crlf [''RDY'']"
  using receive_transaction_refines [OF lbs.byte_source_axioms lb_fed,
      of "[''+CSQ: 9,0'', ''OK'', ''RDY'']" "Some ''+CSQ:''" False "char_buf 64" 300]
  by (auto simp: clean_line_def size_defs spec_numeral prefix_hit_def line_term_def char_buf_def
      clear_buf_def copy_line_def copy_trunc_def left_with_def)

lemma send_lines:
  assumes "byte_source live pending rd" and "initialised h"
    and "at_transmit h cmd = Some (h1, EC200_OK)"
    and "fed live pending rd h1 (body @ ''OK'' # rest)"
    and "\<forall>l\<in>set (body @ ''OK'' # rest). clean_line l"
    and "\<forall>l\<in>set body. l = [] \<or> body_only l \<and> \<not> registered (urc_table h1) l"
    and "length body < 64" and "length (join_lf (filter (\<lambda>l. l \<noteq> []) body)) + 2 < sz"
  shows "\<exists>h'. ec200_at_send h (Some cmd) (Some (sz, s)) t =
               Some (h', EC200_OK, Some (sz, join_lf (filter (\<lambda>l. l \<noteq> []) body))) \<and>
             left_with live pending rd h' rest"
proof -
  have "clear_buf (Some (sz, s)) = Some (sz, join_lf [])"
    using assms(8) by (simp add: clear_buf_def)
  moreover have "spec_receive (registered (urc_table h1)) 64 None False False
      (Some (sz, join_lf [])) (body @ ''OK'' # rest) =
      (EC200_OK, Some (sz, join_lf (filter (\<lambda>l. l \<noteq> []) body)), rest)"
    using spec_collect_blanks [of body "registered (urc_table h1)" "[]" "''OK''" 64 sz] assms(6-8)
    by (simp add: line_term_def)
  ultimately show ?thesis
    using receive_lines [OF assms(1,4,5), of None False "Some (sz, s)" t] assms(2,3)
    by (auto simp: ec200_at_send_def handle_ready_def)
qed

text \<open>
  C21. The body of a response is collected: when the module answers a command with lines that
  are blank, or are neither terminal nor have a handler, fewer than 64 and short enough for the
  caller's buffer, and then \<open>OK\<close>, the command succeeds, the buffer holds exactly the
  non-blank lines joined by line feeds, and what follows the \<open>OK\<close> is still unread.
\<close>

theorem send_collects_body:
  assumes "byte_source live pending rd" and "initialised h"
    and "at_transmit h cmd = Some (h1, EC200_OK)"
    and "fed live pending rd h1 (body @ ''OK'' # rest)"
    and "\<forall>l\<in>set (body @ ''OK'' # rest). clean_line l"
    and "\<forall>l\<in>set body. l = [] \<or> body_only l \<and> \<not> registered (urc_table h1) l"
    and "length body < 64" and "length (join_lf (filter (\<lambda>l. l \<noteq> []) body)) + 2 < sz"
  shows "\<exists>h'. ec200_at_send h (Some cmd) (Some (sz, s)) t =
               Some (h', EC200_OK, Some (sz, join_lf (filter (\<lambda>l. l \<noteq> []) body))) \<and>
             left_with live pending rd h' rest"
  using assms by (rule send_lines)

theorem send_collects_body_witness:
  "\<exists>h'. ec200_at_send (lb_handle (lb_answers ''AT+GMR'' [''EC200U'', ''R02'', ''OK'']))
          (Some ''AT+GMR'') (char_buf 64) 1000 =
          Some (h', EC200_OK, Some (64, ''EC200U'' @ [LF] @ ''R02'')) \<and>
        lb_rx (user_ctx h') = []"
proof -
  obtain h1 where h1: "at_transmit (lb_handle (lb_answers ''AT+GMR'' [''EC200U'', ''R02'', ''OK'']))
      ''AT+GMR'' = Some (h1, EC200_OK)"
    "fed lb_live lb_rx lb_read h1 ([''EC200U'', ''R02''] @ ''OK'' # [])"
    "urc_table h1 = replicate EC200_MAX_URC_HANDLERS free_urc_entry"
    using lb_answers_fed [of "''AT+GMR''" "[''EC200U'', ''R02'', ''OK'']"] by (auto simp: LB_RX_SIZE_def)
  show ?thesis
    using send_collects_body [OF lbs.byte_source_axioms _ h1(1,2), of 64 "[]" 1000] h1(3)
    by (auto simp: clean_line_def size_defs body_only_def line_term_def left_with_def char_buf_def
        registered_def free_urc_entry_def)
qed

text \<open>
  C22. The first matching line wins: when lines without the prefix precede a line with it and
  further body lines and \<open>OK\<close> follow, a command that waits for the prefix succeeds with
  that first line, cut to the caller's buffer, and reads up to the \<open>OK\<close>; if the
  \<open>OK\<close> comes without a matching line, the status is \<open>EC200_ERR_PARSE\<close>.
\<close>

theorem send_wait_first_match:
  assumes "byte_source live pending rd" and "initialised h"
    and "at_transmit h cmd = Some (h1, EC200_OK)"
    and "fed live pending rd h1 (pre @ hits @ ''OK'' # rest)"
    and "\<forall>l\<in>set (pre @ hits @ ''OK'' # rest). clean_line l"
    and "\<forall>l\<in>set pre. body_only l \<and> \<not> prefix_hit (Some p) l"
    and "\<forall>l\<in>set hits. body_only l" and "hits \<noteq> [] \<Longrightarrow> prefix_hit (Some p) (hd hits)"
    and "\<not> prefix_hit (Some p) ''OK''" and "length pre + length hits < 64" and "sz > 0"
  shows "\<exists>h'. ec200_at_send_wait h (Some cmd) (Some p) (Some (sz, s)) t =
               (if hits = [] then Some (h', EC200_ERR_PARSE, Some (sz, []))
                else Some (h', EC200_OK, Some (sz, copy_trunc sz (hd hits)))) \<and>
             left_with live pending rd h' rest"
proof -
  let ?spec = "\<lambda>k. spec_receive (registered (urc_table h1)) k (Some p) False"
  have pre: "?spec 64 False (Some (sz, [])) (pre @ hits @ ''OK'' # rest) =
      ?spec (64 - length pre) False (Some (sz, [])) (hits @ ''OK'' # rest)"
    using assms(6,10) by (intro spec_skip) auto
  obtain k where k: "64 - length pre = Suc k" "length hits \<le> k"
    using assms(10) by (cases "64 - length pre") auto
  have tail: "?spec (64 - length pre) False (Some (sz, [])) (hits @ ''OK'' # rest) =
      (if hits = [] then (EC200_ERR_PARSE, Some (sz, []), rest)
       else (EC200_OK, Some (sz, copy_trunc sz (hd hits)), rest))"
  proof (cases hits)
    case Nil
    then show ?thesis using assms(9) k by (simp add: line_term_def)
  next
    case (Cons l ls)
    obtain k' where k': "k - length ls = Suc k'" using k(2) Cons by (cases "k - length ls") auto
    have "?spec k True (Some (sz, copy_trunc sz l)) (ls @ ''OK'' # rest) =
        (EC200_OK, Some (sz, copy_trunc sz l), rest)"
      using spec_skip [of ls p True k "registered (urc_table h1)" False] assms(7) k(2) Cons k'
      by (simp add: line_term_def)
    then show ?thesis
      using Cons assms(7,8,11) k by (simp add: copy_line_def body_only_def)
  qed
  show ?thesis
    using receive_lines [OF assms(1,4,5), of "Some p" False "Some (sz, s)" t]
      assms(2,3,11) pre tail
    by (auto simp: ec200_at_send_wait_def handle_ready_def clear_buf_def split: if_splits)
qed

theorem send_wait_first_match_witness:
  "\<exists>h'. ec200_at_send_wait (lb_handle (lb_answers ''AT+CSQ'' [''RDY'', ''+CSQ: 9,0'', ''+CSQ: 1,1'', ''OK'']))
          (Some ''AT+CSQ'') (Some ''+CSQ:'') (char_buf 64) 1000 =
          Some (h', EC200_OK, Some (64, ''+CSQ: 9,0'')) \<and> lb_rx (user_ctx h') = []"
proof -
  obtain h1 where h1: "at_transmit (lb_handle (lb_answers ''AT+CSQ''
      [''RDY'', ''+CSQ: 9,0'', ''+CSQ: 1,1'', ''OK''])) ''AT+CSQ'' = Some (h1, EC200_OK)"
    "fed lb_live lb_rx lb_read h1 ([''RDY''] @ [''+CSQ: 9,0'', ''+CSQ: 1,1''] @ ''OK'' # [])"
    using lb_answers_fed [of "''AT+CSQ''" "[''RDY'', ''+CSQ: 9,0'', ''+CSQ: 1,1'', ''OK'']"]
    by (auto simp: LB_RX_SIZE_def)
  show ?thesis
    using send_wait_first_match [OF lbs.byte_source_axioms _ h1, of "''+CSQ:''" 64 "[]" 1000]
    by (auto simp: clean_line_def size_defs body_only_def line_term_def left_with_def char_buf_def
        prefix_hit_def copy_trunc_def )
qed

text \<open>
  The line cap: a transaction that receives 64 lines which are neither terminal nor
  expected, as in a storm of unsolicited lines, gives up with \<open>EC200_ERR_OVERFLOW\<close> after
  exactly these 64 lines, leaving the response as it was and the rest of the stream unread;
  so an answer that is not in the first 64 lines is not seen by its command.
\<close>

lemma line_storm_overflow:
  assumes "byte_source live pending rd" and "fed live pending rd h (storm @ rest)"
    and "\<forall>l\<in>set (storm @ rest). clean_line l" and "length storm = 64"
    and "\<forall>l\<in>set storm. body_only l \<and> \<not> prefix_hit prefix l"
    and "prefix = None \<Longrightarrow> \<forall>l\<in>set storm. registered (urc_table h) l"
  shows "\<exists>h'. receive_transaction h prefix stop buf t = Some (h', EC200_ERR_OVERFLOW, clear_buf buf) \<and>
             left_with live pending rd h' rest"
  using receive_lines [OF assms(1-3), of prefix stop buf t]
    spec_storm [of storm prefix 64 "registered (urc_table h)" stop False "clear_buf buf" rest]
    assms(4-6) by auto

section \<open>Waiting for the tail of a dialogue\<close>

lemma spec_receive_rest:
  "spec_receive reg k prefix stop matched buf ls = (st, buf', ls') \<Longrightarrow> set ls' \<subseteq> set ls"
  by (induction reg k prefix stop matched buf ls rule: spec_receive.induct)
    (auto split: if_splits terminal.splits)

lemma wait_lines:
  assumes "byte_source live pending rd" and "fed live pending rd h ls"
    and "\<forall>l\<in>set ls. clean_line l" and "initialised h"
  shows "\<exists>h1 h2 st1 st2 buf1 ls1 ls2.
           ec200_at_wait_prefix h (Some p) buf t = Some (h1, st1, buf1) \<and>
           spec_wait 64 (Some p) buf ls = (st1, buf1, ls1) \<and> left_with live pending rd h1 ls1 \<and>
           (st1 = EC200_OK \<longrightarrow> fed live pending rd h1 ls1) \<and>
           ec200_at_wait_final h t = Some (h2, st2) \<and>
           spec_wait 64 None None ls = (st2, None, ls2) \<and> left_with live pending rd h2 ls2 \<and>
           (st2 = EC200_OK \<longrightarrow> fed live pending rd h2 ls2)"
  using byte_source.wait_prefix_refines [OF assms(1-3), of 64 p buf t]
    byte_source.wait_final_refines [OF assms(1-3), of 64 t] assms(4)
  unfolding ec200_at_wait_prefix_def ec200_at_wait_final_def EC200_AT_MAX_LINES_def handle_ready_def
  by auto

lemma await_lines:
  assumes "byte_source live pending rd" and "fed live pending rd h ls"
    and "\<forall>l\<in>set ls. clean_line l" and "initialised h"
    and "initialised g" and "at_transmit g cmd = Some (h, EC200_OK)"
  shows "\<exists>h' st buf' ls'. ec200_at_send_await_urc g (Some cmd) (Some p) buf t t' = Some (h', st, buf') \<and>
    spec_await (registered (urc_table h)) 64 p buf ls = (st, buf', ls') \<and> left_with live pending rd h' ls' \<and>
    (st = EC200_OK \<and> await_settled (registered (urc_table h)) 64 p buf ls \<longrightarrow> fed live pending rd h' ls')"
proof -
  obtain h1 st1 buf1 ls1 where r: "receive_transaction h (Some p) True buf t = Some (h1, st1, buf1)"
      "spec_receive (registered (urc_table h)) 64 (Some p) True False (clear_buf buf) ls = (st1, buf1, ls1)"
      "left_with live pending rd h1 ls1"
      "st1 = EC200_OK \<or> st1 = EC200_ERR_PARSE \<Longrightarrow> fed live pending rd h1 ls1"
    using byte_source.receive_refines [OF assms(1-3), of 64 "Some p" True False "clear_buf buf" t]
    unfolding receive_transaction_def EC200_AT_MAX_LINES_def by blast
  have i: "initialised h1" using keepsD [OF cfgr.keeps_receive r(1)] assms(4) by (simp add: same_setup_def)
  have clean: "\<forall>l\<in>set ls1. clean_line l" using spec_receive_rest [OF r(2)] assms(3) by blast
  note w = wait_lines [OF assms(1) r(4) clean i]
  show ?thesis
    using assms(5,6) r(1-3) w [where p = p and buf = buf1 and t = EC200_AT_TIMEOUT_SHORT]
      w [where p = p and buf = buf1 and t = t']
    by (auto simp: ec200_at_send_await_urc_def spec_await_def await_settled_def handle_ready_def)
qed

text \<open>
  C23. Refinement of the receive-only waits and of the asynchronous commands: for a transport that
  holds complete lines, \<open>ec200_at_wait_prefix\<close> and \<open>ec200_at_wait_final\<close> return what
  \<open>spec_wait\<close> returns on the list of lines and leave the lines after the decisive one unread;
  \<open>ec200_at_send_await_urc\<close>, once its command is out, returns what \<open>spec_await\<close> returns,
  whether the result line comes after the \<open>OK\<close> or before it.
\<close>

theorem waits_refine:
  assumes "byte_source live pending rd" and "fed live pending rd h ls"
    and "\<forall>l\<in>set ls. clean_line l" and "initialised h"
  shows "(\<exists>h1 h2 st1 st2 buf1 ls1 ls2.
           ec200_at_wait_prefix h (Some p) buf t = Some (h1, st1, buf1) \<and>
           spec_wait 64 (Some p) buf ls = (st1, buf1, ls1) \<and> left_with live pending rd h1 ls1 \<and>
           ec200_at_wait_final h t = Some (h2, st2) \<and>
           spec_wait 64 None None ls = (st2, None, ls2) \<and> left_with live pending rd h2 ls2) \<and>
         (initialised g \<and> at_transmit g cmd = Some (h, EC200_OK) \<longrightarrow>
          (\<exists>h3 st3 buf3 ls3.
           ec200_at_send_await_urc g (Some cmd) (Some p) buf t t' = Some (h3, st3, buf3) \<and>
           spec_await (registered (urc_table h)) 64 p buf ls = (st3, buf3, ls3) \<and>
           left_with live pending rd h3 ls3))"
  using wait_lines [OF assms, of p buf t] await_lines [OF assms, of g cmd p buf t t'] by blast

theorem waits_refine_witness:
  "(\<exists>h1 h2. ec200_at_wait_prefix (lb_handle (lb_reset\<lparr>lb_rx := crlf [''OK'', ''+QIOPEN: 0,0'']\<rparr>))
             (Some ''+QIOPEN:'') (char_buf 64) 500 = Some (h1, EC200_OK, Some (64, ''+QIOPEN: 0,0'')) \<and>
           ec200_at_wait_final (lb_handle (lb_reset\<lparr>lb_rx := crlf [''OK'', ''+QIOPEN: 0,0'']\<rparr>)) 500 =
             Some (h2, EC200_OK) \<and> lb_rx (user_ctx h2) = crlf [''+QIOPEN: 0,0'']) \<and>
   (\<exists>h3. ec200_at_send_await_urc (lb_handle (lb_answers ''AT+QIOPEN'' [''OK'', ''RING'', ''+QIOPEN: 0,0'']))
           (Some ''AT+QIOPEN'') (Some ''+QIOPEN:'') (char_buf 64) 300 500 =
         Some (h3, EC200_OK, Some (64, ''+QIOPEN: 0,0'')) \<and> lb_rx (user_ctx h3) = [])"
proof -
  let ?g = "lb_handle (lb_answers ''AT+QIOPEN'' [''OK'', ''RING'', ''+QIOPEN: 0,0''])"
  obtain h where h: "at_transmit ?g ''AT+QIOPEN'' = Some (h, EC200_OK)"
      "fed lb_live lb_rx lb_read h [''OK'', ''RING'', ''+QIOPEN: 0,0'']"
    using lb_answers_fed [of "''AT+QIOPEN''" "[''OK'', ''RING'', ''+QIOPEN: 0,0'']"]
    by (auto simp: LB_RX_SIZE_def)
  have "initialised h"
    using keepsD [OF cfgr.keeps_transmit h(1)] by (simp add: same_setup_def)
  then have "\<exists>h3. ec200_at_send_await_urc ?g (Some ''AT+QIOPEN'') (Some ''+QIOPEN:'') (char_buf 64) 300 500 =
         Some (h3, EC200_OK, Some (64, ''+QIOPEN: 0,0'')) \<and> lb_rx (user_ctx h3) = []"
    using waits_refine [OF lbs.byte_source_axioms h(2), of "''+QIOPEN:''" "char_buf 64" 300 ?g "''AT+QIOPEN''" 500] h(1)
    by (auto simp: clean_line_def size_defs spec_await_def spec_numeral prefix_hit_def line_term_def char_buf_def
        clear_buf_def copy_line_def copy_trunc_def left_with_def)
  moreover have "\<exists>h1 h2. ec200_at_wait_prefix (lb_handle (lb_reset\<lparr>lb_rx := crlf [''OK'', ''+QIOPEN: 0,0'']\<rparr>))
             (Some ''+QIOPEN:'') (char_buf 64) 500 = Some (h1, EC200_OK, Some (64, ''+QIOPEN: 0,0'')) \<and>
           ec200_at_wait_final (lb_handle (lb_reset\<lparr>lb_rx := crlf [''OK'', ''+QIOPEN: 0,0'']\<rparr>)) 500 =
             Some (h2, EC200_OK) \<and> lb_rx (user_ctx h2) = crlf [''+QIOPEN: 0,0'']"
    using waits_refine [OF lbs.byte_source_axioms lb_fed,
        of "[''OK'', ''+QIOPEN: 0,0'']" "''+QIOPEN:''" "char_buf 64" 500, THEN conjunct1]
    by (auto simp: clean_line_def size_defs spec_numeral prefix_hit_def line_term_def char_buf_def
        copy_line_def copy_trunc_def left_with_def)
  ultimately show ?thesis by blast
qed

section \<open>Errors of the module\<close>

lemma write_loop_world: "write_loop data len h sent b = Some (h', st) \<Longrightarrow> \<exists>w. h' = h\<lparr>user_ctx := w\<rparr>"
proof -
  let ?P = "\<lambda>h (x :: _ \<times> ec200_status). \<exists>w. fst x = h\<lparr>user_ctx := w\<rparr>"
  assume run: "write_loop data len h sent b = Some (h', st)"
  have "?P h (h', st)"
  proof (rule write_loop.raw_induct [where P = "\<lambda>data len h sent b x. ?P h x", OF _ run], goal_cases)
    case (1 loop data len h sent b x)
    have same: "\<exists>w. h = h\<lparr>user_ctx := w\<rparr>" by (intro exI [of _ "user_ctx h"]) simp
    show ?case
      using 1(2) 1(1) same
      by (auto simp: Let_def split: if_splits prod.splits dest!: 1(1))
  qed
  then show ?thesis by simp
qed

lemma transmit_errors: "at_transmit h cmd = Some (h', EC200_OK) \<Longrightarrow> errors h' = (-1, -1, [])"
  by (auto simp: at_transmit_def Let_def ec200_at_write_raw_def handle_ready_def reset_error_state_def errors_def
      ec200_at_last_cme_error_def ec200_at_last_cms_error_def ec200_at_last_error_text_def
      split: if_splits dest!: write_loop_world)

text \<open>The status and the error fields for an error line, with a number or any other text.\<close>

lemma error_fields:
  assumes "is_terminal h e = (h', TERM_ERR)" "errors h = (cme, cms, txt)"
    and "is_int (int n)" and "verbose \<noteq> []" "hd verbose \<noteq> CHR '' ''" "\<not> list_all is_digit verbose"
  shows "e = ''+CME ERROR: '' @ show_nat n \<Longrightarrow> errors h' = (int n, cms, show_nat n)"
    "e = ''+CMS ERROR: '' @ show_nat n \<Longrightarrow> errors h' = (cme, int n, show_nat n)"
    "e = ''+CME ERROR: '' @ verbose \<Longrightarrow> errors h' = (-1, cms, take 63 verbose)"
    "e = ''+CMS ERROR: '' @ verbose \<Longrightarrow> errors h' = (cme, -1, take 63 verbose)"
    "e = ''ERROR'' \<or> e = ''NO CARRIER'' \<Longrightarrow> errors h' = (cme, cms, txt)"
proof -
  have sp: "skip_spaces (CHR '' '' # show_nat n) = show_nat n"
    using show_nat_set [of "hd (show_nat n)" n] digit_not_special(5)
    by (cases "show_nat n") (auto simp: skip_spaces_def)
  have sp': "skip_spaces (CHR '' '' # verbose) = verbose"
    using assms(4,5) by (cases verbose) (simp_all add: skip_spaces_def)
  have num: "has_digit (show_nat n)" "list_all is_digit (show_nat n)" "atoi (show_nat n) = int n"
    using has_digit_show [of n "[]"] show_nat_digits [of n] atoi_show_nat [OF assms(3), of "[]"]
    by (simp_all add: has_digit_def)
  have kept: "copy_trunc EC200_MAX_ERR_TEXT_LEN verbose = take 63 verbose"
    by (simp add: copy_trunc_def size_defs)
  have "length (show_nat n) \<le> 10"
    using assms(3) by (intro show_nat_length) (simp_all add: is_int_def int_max_def)
  then have kept': "copy_trunc EC200_MAX_ERR_TEXT_LEN (show_nat n) = show_nat n"
    by (simp add: copy_trunc_fits size_defs)
  note rules = is_terminal_def record_error_def Let_def set_err_code_def errors_def
    ec200_at_last_cme_error_def ec200_at_last_cms_error_def ec200_at_last_error_text_def
  show "e = ''+CME ERROR: '' @ show_nat n \<Longrightarrow> errors h' = (int n, cms, show_nat n)"
    "e = ''+CMS ERROR: '' @ show_nat n \<Longrightarrow> errors h' = (cme, int n, show_nat n)"
    using assms(1,2) sp num kept' by (auto simp: rules)
  show "e = ''+CME ERROR: '' @ verbose \<Longrightarrow> errors h' = (-1, cms, take 63 verbose)"
    "e = ''+CMS ERROR: '' @ verbose \<Longrightarrow> errors h' = (cme, -1, take 63 verbose)"
    using assms(1,2,6) sp' kept by (auto simp: rules)
  show "e = ''ERROR'' \<or> e = ''NO CARRIER'' \<Longrightarrow> errors h' = (cme, cms, txt)"
    using assms(1,2) by (auto simp: rules)
qed

text \<open>
  C25. Error lines end a transaction and are recorded. When fewer than 64 lines without a terminal one
  (and, for the form that stops at its line, without the awaited one) precede an error line, the
  transaction ends there and leaves what follows unread. \<open>+CME ERROR: n\<close> gives
  \<open>EC200_ERR_CME\<close> with the code \<open>n\<close>, \<open>+CMS ERROR: n\<close> gives \<open>EC200_ERR_CMS\<close>; after
  either prefix a verbose text, anything that is not all digits, is kept (up to 63 characters)
  with the code -1 instead of a made-up 0; the code of the other kind stays what it was. A plain
  \<open>ERROR\<close> or \<open>NO CARRIER\<close> gives \<open>EC200_ERR_MODULE\<close> and records nothing. A command that is
  sent starts with both codes -1 and no text, so that nothing is left of an earlier failure.
\<close>

theorem error_line_recorded:
  assumes "byte_source live pending rd" and "fed live pending rd h (junk @ e # rest)"
    and "\<forall>l\<in>set (junk @ e # rest). clean_line l"
    and "\<forall>l\<in>set junk. l = [] \<or> line_term l = TERM_NONE \<and> \<not> (stop \<and> prefix_hit prefix l)"
    and "length junk < 64" and "\<not> prefix_hit prefix e"
    and "is_int (int n)" and "verbose \<noteq> []" "hd verbose \<noteq> CHR '' ''" "\<not> list_all is_digit verbose"
    and "e \<in> {''+CME ERROR: '' @ show_nat n, ''+CMS ERROR: '' @ show_nat n, ''+CME ERROR: '' @ verbose,
      ''+CMS ERROR: '' @ verbose, ''ERROR'', ''NO CARRIER''}"
  shows "(\<exists>h' st buf'. receive_transaction h prefix stop buf t = Some (h', st, buf') \<and>
      left_with live pending rd h' rest \<and>
      (st, ec200_at_last_cme_error h', ec200_at_last_cms_error h', ec200_at_last_error_text h') =
        (if e = ''+CME ERROR: '' @ show_nat n then (EC200_ERR_CME, int n, ec200_at_last_cms_error h, show_nat n)
         else if e = ''+CMS ERROR: '' @ show_nat n
         then (EC200_ERR_CMS, ec200_at_last_cme_error h, int n, show_nat n)
         else if e = ''+CME ERROR: '' @ verbose
         then (EC200_ERR_CME, -1, ec200_at_last_cms_error h, take 63 verbose)
         else if e = ''+CMS ERROR: '' @ verbose
         then (EC200_ERR_CMS, ec200_at_last_cme_error h, -1, take 63 verbose)
         else (EC200_ERR_MODULE, ec200_at_last_cme_error h, ec200_at_last_cms_error h,
               ec200_at_last_error_text h))) \<and>
    (at_transmit g cmd = Some (h, EC200_OK) \<longrightarrow> ec200_at_last_cme_error h = -1 \<and>
       ec200_at_last_cms_error h = -1 \<and> ec200_at_last_error_text h = [])"
proof (intro conjI impI)
  have terms: "line_term (''+CME ERROR: '' @ x) = TERM_ERR" "line_error (''+CME ERROR: '' @ x) = EC200_ERR_CME"
    "line_term (''+CMS ERROR: '' @ x) = TERM_ERR" "line_error (''+CMS ERROR: '' @ x) = EC200_ERR_CMS"
    "line_term ''ERROR'' = TERM_ERR" "line_error ''ERROR'' = EC200_ERR_MODULE"
    "line_term ''NO CARRIER'' = TERM_ERR" "line_error ''NO CARRIER'' = EC200_ERR_MODULE" for x
    by (simp_all add: line_term_def line_error_def)
  have e: "line_term e = TERM_ERR"
    using assms(11) by (elim insertE emptyE) (simp_all only: terms)
  obtain h1 h' buf' where r: "receive_transaction h prefix stop buf t = Some (h', line_error e, buf')"
      "is_terminal h1 e = (h', TERM_ERR)" "errors h1 = errors h" "left_with live pending rd h' rest"
    using byte_source.receive_ends_with_error [OF assms(1-5) e assms(6), of False "clear_buf buf" t]
    unfolding receive_transaction_def EC200_AT_MAX_LINES_def by blast
  have was: "errors h1 = (ec200_at_last_cme_error h, ec200_at_last_cms_error h, ec200_at_last_error_text h)"
    using r(3) by (simp add: errors_def)
  have f: "e = ''+CME ERROR: '' @ show_nat n \<Longrightarrow> errors h' = (int n, ec200_at_last_cms_error h, show_nat n)"
    "e = ''+CMS ERROR: '' @ show_nat n \<Longrightarrow> errors h' = (ec200_at_last_cme_error h, int n, show_nat n)"
    "e = ''+CME ERROR: '' @ verbose \<Longrightarrow> errors h' = (-1, ec200_at_last_cms_error h, take 63 verbose)"
    "e = ''+CMS ERROR: '' @ verbose \<Longrightarrow> errors h' = (ec200_at_last_cme_error h, -1, take 63 verbose)"
    "e = ''ERROR'' \<or> e = ''NO CARRIER'' \<Longrightarrow> errors h' = errors h"
    using error_fields [OF r(2) was assms(7-10)] by (simp_all add: errors_def)
  have "(line_error e, errors h') =
        (if e = ''+CME ERROR: '' @ show_nat n then (EC200_ERR_CME, int n, ec200_at_last_cms_error h, show_nat n)
         else if e = ''+CMS ERROR: '' @ show_nat n
         then (EC200_ERR_CMS, ec200_at_last_cme_error h, int n, show_nat n)
         else if e = ''+CME ERROR: '' @ verbose
         then (EC200_ERR_CME, -1, ec200_at_last_cms_error h, take 63 verbose)
         else if e = ''+CMS ERROR: '' @ verbose
         then (EC200_ERR_CMS, ec200_at_last_cme_error h, -1, take 63 verbose)
         else (EC200_ERR_MODULE, errors h))"
    using assms(11)
  proof (elim insertE emptyE)
    show ?thesis if c: "e = ''+CME ERROR: '' @ show_nat n"
      using f(1) [OF c] by (simp add: c terms [simplified])
    show ?thesis if c: "e = ''+CMS ERROR: '' @ show_nat n"
      using f(2) [OF c] by (simp add: c terms [simplified])
    show ?thesis if c: "e = ''+CME ERROR: '' @ verbose"
      using f(3) [OF c] assms(10) show_nat_digits [of n] by (auto simp: c terms [simplified])
    show ?thesis if c: "e = ''+CMS ERROR: '' @ verbose"
      using f(4) [OF c] assms(10) show_nat_digits [of n] by (auto simp: c terms [simplified])
    show ?thesis if c: "e = ''ERROR''"
      using f(5) c by (simp add: c terms [simplified] errors_def)
    show ?thesis if c: "e = ''NO CARRIER''"
      using f(5) c by (simp add: c terms [simplified] errors_def)
  qed
  then show "\<exists>h' st buf'. receive_transaction h prefix stop buf t = Some (h', st, buf') \<and>
      left_with live pending rd h' rest \<and>
      (st, ec200_at_last_cme_error h', ec200_at_last_cms_error h', ec200_at_last_error_text h') =
        (if e = ''+CME ERROR: '' @ show_nat n then (EC200_ERR_CME, int n, ec200_at_last_cms_error h, show_nat n)
         else if e = ''+CMS ERROR: '' @ show_nat n
         then (EC200_ERR_CMS, ec200_at_last_cme_error h, int n, show_nat n)
         else if e = ''+CME ERROR: '' @ verbose
         then (EC200_ERR_CME, -1, ec200_at_last_cms_error h, take 63 verbose)
         else if e = ''+CMS ERROR: '' @ verbose
         then (EC200_ERR_CMS, ec200_at_last_cme_error h, -1, take 63 verbose)
         else (EC200_ERR_MODULE, ec200_at_last_cme_error h, ec200_at_last_cms_error h,
               ec200_at_last_error_text h))"
    using r(1,4) by (intro exI [of _ h'] exI [of _ "line_error e"] exI [of _ buf']) (simp add: errors_def)
qed (auto simp: transmit_errors [unfolded errors_def] dest!: transmit_errors [unfolded errors_def])

theorem error_line_recorded_witness:
  "\<exists>h' buf'. receive_transaction (lb_handle (lb_reset\<lparr>lb_rx := crlf [''+CREG: 1'', ''+CMS ERROR: SIM busy'', ''RDY'']\<rparr>))
       (Some ''+CREG:'') False (char_buf 64) 300 = Some (h', EC200_ERR_CMS, buf') \<and>
     ec200_at_last_cms_error h' = -1 \<and> ec200_at_last_error_text h' = ''SIM busy'' \<and>
     lb_rx (user_ctx h') = crlf [''RDY'']"
proof -
  let ?e = "''+CMS ERROR: '' @ ''SIM busy''"
  have fed: "fed lb_live lb_rx lb_read (lb_handle (lb_reset\<lparr>lb_rx := crlf ([''+CREG: 1''] @ ?e # [''RDY''])\<rparr>))
      ([''+CREG: 1''] @ ?e # [''RDY''])" by (rule lb_fed)
  have d: "show_nat 30 = ''30''" by code_simp
  show ?thesis
    using error_line_recorded [OF lbs.byte_source_axioms fed, of False "Some ''+CREG:''" 30 "''SIM busy''"
        "char_buf 64" 300, THEN conjunct1]
    by (auto simp: d clean_line_def size_defs line_term_def prefix_hit_def is_int_def int_max_def int_min_def
        is_digit_def left_with_def)
qed

section \<open>Commands on a tape\<close>

text \<open>
  A chain of commands on a tape that answers \<open>OK\<close> to each: the state between two commands
  and the step that one command makes.
\<close>

definition tape_ready :: "string list \<Rightarrow> tape ec200_handle \<Rightarrow> bool" where
  "tape_ready ls h \<longleftrightarrow>
     h_write h = tape_write \<and> h_read h = tape_read \<and> fst (user_ctx h) = crlf ls \<and> rx_buf h = [] \<and>
     initialised h \<and> \<not> ppp_data_mode h \<and> mqtt_msg_cb h = None \<and>
     urc_table h = replicate EC200_MAX_URC_HANDLERS free_urc_entry"

lemma tape_ready_handle: "tape_ready ls (tape_handle (crlf ls))"
  by (simp add: tape_ready_def tape_handle_def fresh_handle_def)

lemma tape_transmit:
  assumes "tape_ready ls h" "length cmd < 511"
  shows "\<exists>h1. at_transmit h cmd = Some (h1, EC200_OK) \<and> fed (\<lambda>_. True) fst tape_read h1 ls \<and>
              urc_table h1 = urc_table h"
proof -
  have "cast_u16 (1 + int (length cmd)) = Suc (length cmd)"
    using assms(2) by (simp add: cast_u16_small)
  then show ?thesis
    using assms
    by (simp add: at_transmit_def ec200_at_write_raw_def handle_ready_def reset_error_state_def
        snprintf_def size_defs Let_def write_loop.simps tape_write_def tape_ready_def fed_def
        transparent_def free_urc_entry_def)
qed

lemma tape_after:
  assumes "tape_ready ls h" "keeps same_setup h m" "keeps (\<lambda>h h'. ppp_data_mode h' = ppp_data_mode h) h m"
    and "m = Some (h', r)" "left_with (\<lambda>_. True) fst tape_read h' ls'"
  shows "tape_ready ls' h'"
  using assms(1,5) keepsD [OF assms(2,4)] keepsD [OF assms(3,4)]
  by (simp add: tape_ready_def same_setup_def left_with_def)

text \<open>A command that ends with the terminal line on the tape.\<close>

lemma tape_final:
  assumes "tape_ready (ans # ls) h" "length cmd < 511" "\<forall>l\<in>set (ans # ls). clean_line l"
    and "line_term ans \<noteq> TERM_NONE"
  shows "\<exists>h'. send_plain h cmd t = Some (h', if ans = ''OK'' then EC200_OK else line_error ans) \<and>
           tape_ready ls h'"
proof -
  obtain h1 where h1: "at_transmit h cmd = Some (h1, EC200_OK)"
      "fed (\<lambda>_. True) fst tape_read h1 (ans # ls)"
    using tape_transmit [OF assms(1,2)] by blast
  have t: "line_term ans = (if ans = ''OK'' then TERM_OK else TERM_ERR)" "ans \<noteq> []"
    using assms(4) by (auto simp: line_term_def split: if_splits)
  obtain h' where h': "receive_transaction h1 None False None t =
        Some (h', if ans = ''OK'' then EC200_OK else line_error ans, None)"
      "left_with (\<lambda>_. True) fst tape_read h' ls"
    using receive_lines [OF tps.byte_source_axioms h1(2) assms(3), of None False None t] t
    by (auto simp: spec_numeral prefix_hit_def clear_buf_def split: if_splits)
  have run: "send_plain h cmd t = Some (h', if ans = ''OK'' then EC200_OK else line_error ans)"
    using h1(1) h'(1) assms(1)
    by (simp add: send_plain_def ec200_at_send_def handle_ready_def tape_ready_def)
  with tape_after [OF assms(1) cfgr.keeps_plain pppr.keeps_plain run h'(2)] show ?thesis by blast
qed

lemma tape_plain:
  assumes "tape_ready (''OK'' # ls) h" "length cmd < 511" "\<forall>l\<in>set ls. clean_line l"
  shows "\<exists>h'. send_plain h cmd t = Some (h', EC200_OK) \<and> tape_ready ls h'"
  using tape_final [OF assms(1,2)] assms(3) by (simp add: line_term_def clean_line_def size_defs)

text \<open>A query answered by nothing, or by one line with the prefix.\<close>

lemma tape_wait:
  assumes "tape_ready ls h" "length cmd < 511" "\<forall>x\<in>set ls. clean_line x"
    and "ls = [] \<and> st = EC200_ERR_TIMEOUT \<and> out = [] \<and> rest = [] \<or>
         ls = l # ''OK'' # rest \<and> prefix_hit (Some p) l \<and> l \<noteq> [] \<and> st = EC200_OK \<and> out = copy_trunc sz l"
    and "0 < sz"
  shows "\<exists>h'. ec200_at_send_wait h (Some cmd) (Some p) (Some (sz, s)) t = Some (h', st, Some (sz, out)) \<and>
           tape_ready rest h'"
proof -
  obtain h1 where h1: "at_transmit h cmd = Some (h1, EC200_OK)" "fed (\<lambda>_. True) fst tape_read h1 ls"
    using tape_transmit [OF assms(1,2)] by blast
  obtain h' where h': "receive_transaction h1 (Some p) False (Some (sz, s)) t = Some (h', st, Some (sz, out))"
      "left_with (\<lambda>_. True) fst tape_read h' rest"
    using receive_lines [OF tps.byte_source_axioms h1(2) assms(3), of "Some p" False "Some (sz, s)" t] assms(4,5)
    by (auto simp: spec_numeral line_term_def clear_buf_def copy_line_def)
  have run: "ec200_at_send_wait h (Some cmd) (Some p) (Some (sz, s)) t = Some (h', st, Some (sz, out))"
    using h1(1) h'(1) assms(1) by (simp add: ec200_at_send_wait_def handle_ready_def tape_ready_def)
  with tape_after [OF assms(1) cfgr.keeps_send_wait pppr.keeps_send_wait run h'(2)] show ?thesis by blast
qed

text \<open>The answer of a query in its usual form, into a buffer it fits in.\<close>

lemma tape_query:
  assumes "tape_ready (l # ''OK'' # ls) h" and "\<forall>x\<in>set (l # ls). clean_line x"
    and "prefix_hit (Some p) l" and "l \<noteq> []" and "length cmd < 511" and "length l < sz"
  shows "\<exists>h'. ec200_at_send_wait h (Some cmd) (Some p) (char_buf sz) t = Some (h', EC200_OK, Some (sz, l)) \<and>
    tape_ready ls h'"
  using tape_wait [OF assms(1,5), where st = EC200_OK and rest = ls and l = l and out = l and sz = sz
      and s = "[]" and p = p and t = t] assms
  by (auto simp: char_buf_def copy_trunc_fits clean_line_def size_defs)

end
