(* ===== verification/Ec200_Mqtt.thy ===== *)
theory Ec200_Mqtt
  imports Ec200_Core
begin

text \<open>
  The MQTT client, \<^verbatim>\<open>src/ec200_mqtt.c\<close>; its handler of inbound publications is in
  theory \<open>Ec200_Mqtt_Recv\<close>. Every operation is a command acknowledged with \<open>OK\<close> whose
  outcome is the result field of a later \<open>+QMTxxx:\<close> line.
\<close>

record ec200_mqtt_config =
  mq_host :: string
  mq_port :: nat
  mq_client_id :: string
  mq_username :: string
  mq_password :: string
  mq_keep_alive :: nat
  mq_clean_session :: bool
  mq_tcp_connect_id :: nat
  mq_client_idx :: nat
  mq_use_tls :: bool
  mq_ssl_ctx_id :: nat

definition qmt_result :: "string \<Rightarrow> nat \<Rightarrow> ec200_status" where
  "qmt_result line field =
     (case ec200_at_parse_int_field line field of
        None \<Rightarrow> EC200_ERR_PARSE
      | Some err \<Rightarrow> if err = 0 then EC200_OK else EC200_ERR_MODULE)"

text \<open>
  The tail every asynchronous command of the client shares: send, await the line with
  \<open>prefix\<close>, and map its result field.
\<close>

definition qmt_command ::
    "'w ec200_handle \<Rightarrow> string \<Rightarrow> string \<Rightarrow> nat \<Rightarrow> nat
     \<Rightarrow> ('w ec200_handle \<times> ec200_status) option" where
  "qmt_command h cmd prefix bufsz field = do {
     (h, st, resp) \<leftarrow> ec200_at_send_await_urc h (Some cmd) (Some prefix) (char_buf bufsz)
                        EC200_AT_TIMEOUT_DEFAULT EC200_AT_TIMEOUT_LONG;
     if st \<noteq> EC200_OK then Some (h, st) else Some (h, qmt_result (buf_text resp) field)
   }"

section \<open>Connection\<close>

definition ec200_mqtt_open ::
    "'w ec200_handle \<Rightarrow> ec200_mqtt_config option \<Rightarrow> ('w ec200_handle \<times> ec200_status) option"
    where
  "ec200_mqtt_open h cfg =
     (case cfg of
        None \<Rightarrow> Some (h, EC200_ERR_PARAM)
      | Some c \<Rightarrow>
          if mq_host c = [] then Some (h, EC200_ERR_PARAM)
          else if mq_use_tls c \<and> mq_ssl_ctx_id c > 5 then Some (h, EC200_ERR_PARAM)
          else do {
            (h, st) \<leftarrow> send_plain h
              (snprintf (EC200_MAX_URL_LEN + 32)
                 (''AT+QMTCFG='' @ quoted ''ssl'' @ '','' @ show_nat (mq_tcp_connect_id c) @ '','' @
                  show_nat (if mq_use_tls c then 1 else 0) @ '','' @ show_nat (mq_ssl_ctx_id c)))
              EC200_AT_TIMEOUT_DEFAULT;
            if st \<noteq> EC200_OK then Some (h, st)
            else qmt_command h
              (snprintf (EC200_MAX_URL_LEN + 32)
                 (''AT+QMTOPEN='' @ show_nat (mq_tcp_connect_id c) @ '','' @ quoted (mq_host c) @
                  '','' @ show_nat (mq_port c)))
              ''+QMTOPEN:'' 64 1
          })"

definition ec200_mqtt_connect ::
    "'w ec200_handle \<Rightarrow> ec200_mqtt_config option \<Rightarrow> ('w ec200_handle \<times> ec200_status) option"
    where
  "ec200_mqtt_connect h cfg =
     (case cfg of
        None \<Rightarrow> Some (h, EC200_ERR_PARAM)
      | Some c \<Rightarrow>
          if mq_client_id c = [] then Some (h, EC200_ERR_PARAM)
          else qmt_command h
            (snprintf 256
               (if mq_username c \<noteq> []
                then ''AT+QMTCONN='' @ show_nat (mq_client_idx c) @ '','' @ quoted (mq_client_id c) @
                     '','' @ quoted (mq_username c) @ '','' @ quoted (mq_password c)
                else ''AT+QMTCONN='' @ show_nat (mq_client_idx c) @ '','' @
                     quoted (mq_client_id c)))
            ''+QMTCONN:'' 64 1)"

definition ec200_mqtt_disconnect ::
    "'w ec200_handle \<Rightarrow> nat \<Rightarrow> ('w ec200_handle \<times> ec200_status) option" where
  "ec200_mqtt_disconnect h client_idx =
     qmt_command h (snprintf 32 (''AT+QMTDISC='' @ show_nat client_idx)) ''+QMTDISC:'' 64 1"

definition ec200_mqtt_close ::
    "'w ec200_handle \<Rightarrow> nat \<Rightarrow> ('w ec200_handle \<times> ec200_status) option" where
  "ec200_mqtt_close h tcp_connect_id =
     qmt_command h (snprintf 32 (''AT+QMTCLOSE='' @ show_nat tcp_connect_id)) ''+QMTCLOSE:'' 64 1"

section \<open>Subscriptions\<close>

definition bad_topic :: "string option \<Rightarrow> bool" where
  "bad_topic t = (case t of None \<Rightarrow> True | Some s \<Rightarrow> s = [] \<or> length s \<ge> EC200_MAX_TOPIC_LEN)"

definition ec200_mqtt_subscribe ::
    "'w ec200_handle \<Rightarrow> nat \<Rightarrow> nat \<Rightarrow> string option \<Rightarrow> int
     \<Rightarrow> ('w ec200_handle \<times> ec200_status) option" where
  "ec200_mqtt_subscribe h client_idx msg_id tpc qos =
     (if bad_topic tpc \<or> msg_id = 0 then Some (h, EC200_ERR_PARAM)
      else qmt_command h
        (snprintf (EC200_MAX_TOPIC_LEN + 48)
           (''AT+QMTSUB='' @ show_nat client_idx @ '','' @ show_nat msg_id @ '','' @
            quoted (the tpc) @ '','' @ show_nat (cast_u32 qos)))
        ''+QMTSUB:'' 128 2)"

definition ec200_mqtt_unsubscribe ::
    "'w ec200_handle \<Rightarrow> nat \<Rightarrow> nat \<Rightarrow> string option
     \<Rightarrow> ('w ec200_handle \<times> ec200_status) option" where
  "ec200_mqtt_unsubscribe h client_idx msg_id tpc =
     (if bad_topic tpc \<or> msg_id = 0 then Some (h, EC200_ERR_PARAM)
      else qmt_command h
        (snprintf (EC200_MAX_TOPIC_LEN + 48)
           (''AT+QMTUNS='' @ show_nat client_idx @ '','' @ show_nat msg_id @ '','' @
            quoted (the tpc)))
        ''+QMTUNS:'' 128 2)"

section \<open>Publishing\<close>

definition ec200_mqtt_publish ::
    "'w ec200_handle \<Rightarrow> nat \<Rightarrow> nat \<Rightarrow> int \<Rightarrow> bool \<Rightarrow> string option \<Rightarrow> char list option \<Rightarrow> nat
     \<Rightarrow> ('w ec200_handle \<times> ec200_status) option" where
  "ec200_mqtt_publish h client_idx msg_id qos retain tpc data data_len =
     (if bad_topic tpc then Some (h, EC200_ERR_PARAM)
      else if data = None \<or> data_len = 0 \<or> data_len > EC200_MAX_PAYLOAD_LEN
      then Some (h, EC200_ERR_PARAM)
      else if qos \<noteq> 0 \<and> msg_id = 0 then Some (h, EC200_ERR_PARAM)
      else do {
        (h, st) \<leftarrow> ec200_at_send_prompt h
          (Some (snprintf (EC200_MAX_TOPIC_LEN + 64)
             (''AT+QMTPUBEX='' @ show_nat client_idx @ '','' @ show_nat msg_id @ '','' @
              show_nat (cast_u32 qos) @ '','' @ show_nat (if retain then 1 else 0) @ '','' @
              quoted (the tpc) @ '','' @ show_nat data_len)))
          EC200_AT_TIMEOUT_DEFAULT;
        if st \<noteq> EC200_OK then Some (h, st)
        else do {
          (h, st) \<leftarrow> ec200_at_write_raw h data (cast_u16 (int data_len));
          if st \<noteq> EC200_OK then Some (h, st)
          else do {
            (h, st, resp) \<leftarrow> ec200_at_wait_prefix h (Some ''+QMTPUBEX:'') (char_buf 128)
                               EC200_AT_TIMEOUT_LONG;
            if st \<noteq> EC200_OK then Some (h, st)
            else Some (h, qmt_result (buf_text resp) 2)
          }
        }
      })"

section \<open>Inbound messages\<close>

definition ec200_mqtt_set_message_cb ::
    "'w ec200_handle \<Rightarrow> 'w mqtt_msg_fn option \<Rightarrow> 'w ec200_handle" where
  "ec200_mqtt_set_message_cb h callback =
     (let h = h\<lparr>mqtt_msg_cb := callback\<rparr> in
      if callback \<noteq> None
      then fst (ec200_at_register_urc h (Some ''+QMTRECV:'') (Some MqttRecvUrc) CtxHandle)
      else fst (ec200_at_unregister_urc h (Some ''+QMTRECV:'')))"

section \<open>What the operations keep\<close>

context at_frame
begin

lemma keeps_qmt_command: "keeps R h (qmt_command h cmd prefix n f)"
  unfolding qmt_command_def by (intro keeps_body)

lemma keeps_mqtt_open: "keeps R h (ec200_mqtt_open h c)"
  unfolding ec200_mqtt_open_def
  by (intro keeps_body keeps_seq [OF keeps_plain] keeps_qmt_command)

lemma keeps_mqtt_connect: "keeps R h (ec200_mqtt_connect h c)"
  unfolding ec200_mqtt_connect_def by (intro keeps_body keeps_qmt_command)

lemma keeps_mqtt_disconnect: "keeps R h (ec200_mqtt_disconnect h i)"
  by (simp add: ec200_mqtt_disconnect_def keeps_qmt_command)

lemma keeps_mqtt_close: "keeps R h (ec200_mqtt_close h i)"
  by (simp add: ec200_mqtt_close_def keeps_qmt_command)

lemma keeps_mqtt_subscribe: "keeps R h (ec200_mqtt_subscribe h i m t q)"
  unfolding ec200_mqtt_subscribe_def by (intro keeps_body keeps_qmt_command)

lemma keeps_mqtt_unsubscribe: "keeps R h (ec200_mqtt_unsubscribe h i m t)"
  unfolding ec200_mqtt_unsubscribe_def by (intro keeps_body keeps_qmt_command)

lemma keeps_mqtt_publish: "keeps R h (ec200_mqtt_publish h i m q r t d l)"
  unfolding ec200_mqtt_publish_def by (intro keeps_body)

lemmas keeps_mqtt_ops =
  keeps_mqtt_open keeps_mqtt_connect keeps_mqtt_disconnect keeps_mqtt_close
  keeps_mqtt_subscribe keeps_mqtt_unsubscribe keeps_mqtt_publish

end

end
