(* ===== verification/Ec200_Ssl.thy ===== *)
theory Ec200_Ssl
  imports Ec200_Core
begin

text \<open>
  TLS context configuration (\<^verbatim>\<open>src/ec200_ssl.c\<close>) and TLS client sockets
  (\<^verbatim>\<open>src/ec200_ssl_socket.c\<close>).
\<close>

section \<open>Context configuration\<close>

record ec200_ssl_config =
  ssl_ctx_id :: nat
  ssl_version :: int
  ssl_ciphersuite :: nat
  ssl_seclevel :: int
  ssl_cacert :: string
  ssl_clientcert :: string
  ssl_clientkey :: string
  ssl_ignore_localtime :: bool
  ssl_enable_sni :: bool

definition ec200_ssl_set_seclevel ::
    "'w ec200_handle \<Rightarrow> nat \<Rightarrow> int \<Rightarrow> ('w ec200_handle \<times> ec200_status) option" where
  "ec200_ssl_set_seclevel h ctx_id level =
     (if ctx_id > 5 \<or> level < 0 \<or> level > 2 then Some (h, EC200_ERR_PARAM)
      else send_plain h
             (snprintf 48 (''AT+QSSLCFG='' @ quoted ''seclevel'' @ '','' @ show_nat ctx_id @ '','' @
                show_nat (cast_u32 level)))
             EC200_AT_TIMEOUT_DEFAULT)"

definition cfg_num ::
    "'w ec200_handle \<Rightarrow> nat \<Rightarrow> string \<Rightarrow> nat \<Rightarrow> ('w ec200_handle \<times> ec200_status) option" where
  "cfg_num h ctx key val =
     send_plain h
       (snprintf 64 (''AT+QSSLCFG='' @ quoted key @ '','' @ show_nat ctx @ '','' @ show_nat val))
       EC200_AT_TIMEOUT_DEFAULT"

definition cfg_file ::
    "'w ec200_handle \<Rightarrow> nat \<Rightarrow> string \<Rightarrow> string \<Rightarrow> ('w ec200_handle \<times> ec200_status) option" where
  "cfg_file h ctx key file =
     send_plain h
       (snprintf (EC200_MAX_FILENAME_LEN + 48)
          (''AT+QSSLCFG='' @ quoted key @ '','' @ show_nat ctx @ '','' @ quoted file))
       EC200_AT_TIMEOUT_DEFAULT"

text \<open>A file is configured only when its name is not empty.\<close>

definition cfg_file_opt ::
    "'w ec200_handle \<Rightarrow> nat \<Rightarrow> string \<Rightarrow> string \<Rightarrow> ('w ec200_handle \<times> ec200_status) option" where
  "cfg_file_opt h ctx key file =
     (if file \<noteq> [] then cfg_file h ctx key file else Some (h, EC200_OK))"

definition cfg_ciphersuite ::
    "'w ec200_handle \<Rightarrow> nat \<Rightarrow> nat \<Rightarrow> ('w ec200_handle \<times> ec200_status) option" where
  "cfg_ciphersuite h ctx suite =
     send_plain h
       (snprintf 64 (''AT+QSSLCFG='' @ quoted ''ciphersuite'' @ '','' @ show_nat ctx @ '',0X'' @
          show_04X suite))
       EC200_AT_TIMEOUT_DEFAULT"

text \<open>The checks before the first command.\<close>

definition ssl_config_ok :: "ec200_ssl_config \<Rightarrow> bool" where
  "ssl_config_ok c \<longleftrightarrow>
     \<not> ssl_ctx_id c > 5 \<and> \<not> (ssl_version c < 0 \<or> ssl_version c > 4) \<and>
     \<not> (ssl_seclevel c < 0 \<or> ssl_seclevel c > 2) \<and>
     \<not> (ssl_seclevel c \<ge> 1 \<and> ssl_cacert c = []) \<and>
     \<not> (ssl_seclevel c = 2 \<and> (ssl_clientcert c = [] \<or> ssl_clientkey c = []))"

text \<open>\<open>st = f (...); if (st != EC200_OK) return st;\<close> and the rest.\<close>

definition and_then ::
    "('w ec200_handle \<times> ec200_status) option
     \<Rightarrow> ('w ec200_handle \<Rightarrow> ('w ec200_handle \<times> ec200_status) option)
     \<Rightarrow> ('w ec200_handle \<times> ec200_status) option" where
  "and_then m f = do {
     (h, st) \<leftarrow> m;
     if st \<noteq> EC200_OK then Some (h, st) else f h
   }"

definition ec200_ssl_configure ::
    "'w ec200_handle \<Rightarrow> ec200_ssl_config option \<Rightarrow> ('w ec200_handle \<times> ec200_status) option" where
  "ec200_ssl_configure h cfg =
     (case cfg of
        None \<Rightarrow> Some (h, EC200_ERR_PARAM)
      | Some c \<Rightarrow>
          if \<not> ssl_config_ok c then Some (h, EC200_ERR_PARAM)
          else let ctx = ssl_ctx_id c in
            and_then (cfg_num h ctx ''sslversion'' (cast_u32 (ssl_version c))) (\<lambda>h.
            and_then (cfg_ciphersuite h ctx (ssl_ciphersuite c)) (\<lambda>h.
            and_then (cfg_num h ctx ''seclevel'' (cast_u32 (ssl_seclevel c))) (\<lambda>h.
            and_then (cfg_file_opt h ctx ''cacert'' (ssl_cacert c)) (\<lambda>h.
            and_then (cfg_file_opt h ctx ''clientcert'' (ssl_clientcert c)) (\<lambda>h.
            and_then (cfg_file_opt h ctx ''clientkey'' (ssl_clientkey c)) (\<lambda>h.
            and_then (cfg_num h ctx ''ignorelocaltime''
                        (if ssl_ignore_localtime c then 1 else 0)) (\<lambda>h.
            cfg_num h ctx ''sni'' (if ssl_enable_sni c then 1 else 0)))))))))"

section \<open>TLS sockets\<close>

definition ec200_ssl_socket_open ::
    "'w ec200_handle \<Rightarrow> nat \<Rightarrow> nat \<Rightarrow> nat \<Rightarrow> string option \<Rightarrow> nat
     \<Rightarrow> ('w ec200_handle \<times> ec200_status) option" where
  "ec200_ssl_socket_open h pdp_ctx ssl_ctx conn_id host port =
     (if host = None \<or> host = Some [] \<or> conn_id \<ge> EC200_MAX_CONNECTIONS \<or>
         pdp_ctx < 1 \<or> pdp_ctx > 16 \<or> ssl_ctx > 5 then Some (h, EC200_ERR_PARAM)
      else if length (the host) \<ge> EC200_MAX_URL_LEN then Some (h, EC200_ERR_PARAM)
      else do {
        (h, st, resp) \<leftarrow> ec200_at_send_await_urc h
          (Some (snprintf (EC200_MAX_URL_LEN + 64)
             (''AT+QSSLOPEN='' @ show_nat pdp_ctx @ '','' @ show_nat ssl_ctx @ '','' @
              show_nat conn_id @ '','' @ quoted (the host) @ '','' @ show_nat port @ '',0'')))
          (Some ''+QSSLOPEN:'') (char_buf 64) EC200_AT_TIMEOUT_DEFAULT EC200_AT_TIMEOUT_LONG;
        if st \<noteq> EC200_OK then Some (h, st)
        else (case ec200_at_parse_int_field (buf_text resp) 1 of
                None \<Rightarrow> Some (h, EC200_ERR_PARSE)
              | Some err \<Rightarrow> Some (h, if err = 0 then EC200_OK else EC200_ERR_MODULE))
      })"

definition ec200_ssl_socket_send ::
    "'w ec200_handle \<Rightarrow> nat \<Rightarrow> char list option \<Rightarrow> nat
     \<Rightarrow> ('w ec200_handle \<times> ec200_status) option" where
  "ec200_ssl_socket_send h conn_id data len =
     (if data = None \<or> len = 0 \<or> len > EC200_MAX_PAYLOAD_LEN \<or> conn_id \<ge> EC200_MAX_CONNECTIONS
      then Some (h, EC200_ERR_PARAM)
      else do {
        (h, st) \<leftarrow> ec200_at_send_prompt h
                     (Some (snprintf 32 (''AT+QSSLSEND='' @ show_nat conn_id @ '','' @ show_nat len)))
                     EC200_AT_TIMEOUT_DEFAULT;
        if st \<noteq> EC200_OK then Some (h, st)
        else do {
          (h, st) \<leftarrow> ec200_at_write_raw h data len;
          if st \<noteq> EC200_OK then Some (h, st)
          else do {
            (h, st, resp) \<leftarrow> ec200_at_wait_prefix h (Some ''SEND'') (char_buf 32)
                               EC200_AT_TIMEOUT_LONG;
            if st \<noteq> EC200_OK then Some (h, st)
            else Some (h, if buf_text resp = ''SEND OK'' then EC200_OK else EC200_ERR_MODULE)
          }
        }
      })"

definition ec200_ssl_socket_recv ::
    "'w ec200_handle \<Rightarrow> nat \<Rightarrow> char list option \<Rightarrow> nat \<Rightarrow> nat option \<Rightarrow> nat
     \<Rightarrow> ('w ec200_handle \<times> ec200_status \<times> char list option \<times> nat option) option" where
  "ec200_ssl_socket_recv h conn_id buf max_len bytes_read timeout_ms =
     (if buf = None \<or> bytes_read = None \<or> max_len = 0 \<or> conn_id \<ge> EC200_MAX_CONNECTIONS
      then Some (h, EC200_ERR_PARAM, buf, bytes_read)
      else do {
        (h, st, hdr) \<leftarrow> ec200_at_send_expect h
          (Some (snprintf 32 (''AT+QSSLRECV='' @ show_nat conn_id @ '','' @ show_nat max_len)))
          (Some ''+QSSLRECV:'') (char_buf 48) timeout_ms;
        if st \<noteq> EC200_OK then Some (h, st, buf, Some 0)
        else (case ec200_at_parse_int_field (buf_text hdr) 0 of
                None \<Rightarrow> Some (h, EC200_ERR_PARSE, buf, Some 0)
              | Some actual \<Rightarrow>
                  if actual < 0 \<or> actual > int max_len
                  then Some (h, EC200_ERR_PARSE, buf, Some 0)
                  else if actual > 0 then do {
                    (h, st, b, got) \<leftarrow> ec200_at_read_exact h buf (cast_u16 actual) timeout_ms
                                        (Some 0);
                    if st \<noteq> EC200_OK then Some (h, st, b, got)
                    else do {
                      (h, st) \<leftarrow> ec200_at_wait_final h EC200_AT_TIMEOUT_DEFAULT;
                      Some (h, st, b, got)
                    }
                  }
                  else do {
                    (h, st) \<leftarrow> ec200_at_wait_final h EC200_AT_TIMEOUT_DEFAULT;
                    Some (h, st, buf, Some 0)
                  })
      })"

definition ec200_ssl_socket_close ::
    "'w ec200_handle \<Rightarrow> nat \<Rightarrow> ('w ec200_handle \<times> ec200_status) option" where
  "ec200_ssl_socket_close h conn_id =
     (if conn_id \<ge> EC200_MAX_CONNECTIONS then Some (h, EC200_ERR_PARAM)
      else send_plain h (snprintf 32 (''AT+QSSLCLOSE='' @ show_nat conn_id))
             EC200_AT_TIMEOUT_LONG)"

section \<open>What the operations keep\<close>

context at_frame
begin

lemma keeps_ssl_set_seclevel: "keeps R h (ec200_ssl_set_seclevel h c l)"
  unfolding ec200_ssl_set_seclevel_def by (intro keeps_body keeps_plain)

lemma keeps_cfg_num: "keeps R h (cfg_num h ctx key v)"
  by (simp add: cfg_num_def keeps_plain)

lemma keeps_cfg_file_opt: "keeps R h (cfg_file_opt h ctx key v)"
  by (simp add: cfg_file_opt_def cfg_file_def keeps_plain keeps_same)

lemma keeps_cfg_ciphersuite: "keeps R h (cfg_ciphersuite h ctx v)"
  by (simp add: cfg_ciphersuite_def keeps_plain)

lemma keeps_and_then:
  "keeps R h m \<Longrightarrow> (\<And>h'. keeps R h' (f h')) \<Longrightarrow> keeps R h (and_then m f)"
  unfolding and_then_def by (rule keeps_seq) (auto intro: keeps_same)

lemma keeps_ssl_configure: "keeps R h (ec200_ssl_configure h c)"
  unfolding ec200_ssl_configure_def
  by (intro keeps_body keeps_let keeps_and_then keeps_cfg_num keeps_cfg_file_opt
      keeps_cfg_ciphersuite)

lemma keeps_ssl_socket_open: "keeps R h (ec200_ssl_socket_open h p c i host port)"
  unfolding ec200_ssl_socket_open_def by (intro keeps_body)

lemma keeps_ssl_socket_send: "keeps R h (ec200_ssl_socket_send h i d l)"
  unfolding ec200_ssl_socket_send_def by (intro keeps_body)

lemma keeps_ssl_socket_recv: "keeps R h (ec200_ssl_socket_recv h i b m n t)"
  unfolding ec200_ssl_socket_recv_def by (intro keeps_body)

lemma keeps_ssl_socket_close: "keeps R h (ec200_ssl_socket_close h i)"
  unfolding ec200_ssl_socket_close_def by (intro keeps_body keeps_plain)

lemmas keeps_ssl_ops =
  keeps_ssl_set_seclevel keeps_ssl_configure keeps_ssl_socket_open keeps_ssl_socket_send
  keeps_ssl_socket_recv keeps_ssl_socket_close

end

end
