(* ===== verification/Ec200_Wire.thy ===== *)
theory Ec200_Wire
  imports Ec200_Transactions Ec200_Sms Ec200_Mqtt Ec200_Tcpip Ec200_Ssl
begin

text \<open>
  What goes out on the wire. \<open>log\<close> is a record of the bytes the transport has accepted;
  \<open>logs log h\<close> says that the write callback accepts a prefix of what it is given and
  appends it to the record, and that no other callback writes. The interpretation
  \<open>logr\<close> of the receiving frame then gives that every receiving operation leaves the
  record alone.
\<close>

section \<open>The contract\<close>

definition logs :: "('w \<Rightarrow> char list) \<Rightarrow> 'w ec200_handle \<Rightarrow> bool" where
  "logs log h \<longleftrightarrow>
     (\<forall>d w n w'. h_write h d w = (n, w') \<longrightarrow>
        n \<le> int (length d) \<and> log w' = log w @ take (nat n) d) \<and>
     (\<forall>len tmo w n d w'. h_read h len tmo w = (n, d, w') \<longrightarrow> log w' = log w) \<and>
     (\<forall>ms w. log (h_delay_ms h ms w) = log w) \<and>
     (\<forall>e g line w. e \<in> set (urc_table h) \<and> ue_fn e = Some (UserUrc g) \<longrightarrow>
        log (g line (ue_ctx e) w) = log w) \<and>
     (\<forall>cb m w. mqtt_msg_cb h = Some cb \<longrightarrow> log (cb m w) = log w) \<and>
     (\<forall>f line w. urc_handler h = Some f \<longrightarrow> log (f line w) = log w)"

lemma logs_write:
  "logs log h \<Longrightarrow> h_write h d w = (n, w') \<Longrightarrow>
   n \<le> int (length d) \<and> log w' = log w @ take (nat n) d"
  unfolding logs_def by metis

lemma logs_upd [simp]:
  "logs log (h\<lparr>rx_buf := x1\<rparr>) = logs log h" "logs log (h\<lparr>rx_overlong := x2\<rparr>) = logs log h"
  "logs log (h\<lparr>tx_buf := x3\<rparr>) = logs log h" "logs log (h\<lparr>user_ctx := x4\<rparr>) = logs log h"
  "logs log (h\<lparr>last_err_kind := x5\<rparr>) = logs log h" "logs log (h\<lparr>last_err_text := x6\<rparr>) = logs log h"
  "logs log (h\<lparr>last_cme_error := x7\<rparr>) = logs log h"
  "logs log (h\<lparr>last_cms_error := x8\<rparr>) = logs log h"
  "logs log (h\<lparr>ppp_data_mode := x9\<rparr>) = logs log h"
  by (simp_all add: logs_def)

abbreviation logged :: "('w \<Rightarrow> char list) \<Rightarrow> 'w ec200_handle \<Rightarrow> char list" where
  "logged log h \<equiv> log (user_ctx h)"

interpretation logr: rx_frame
  "\<lambda>h h'. logs log h \<longrightarrow> logs log h' \<and> logged log h' = logged log h" for log
  by unfold_locales (auto simp: transp_def, auto simp: logs_def)

section \<open>The sending operations\<close>

text \<open>
  Whatever the status, a prefix of the data has gone out; on success all of it. The number
  written is counted like the code does, by the results of the callback.
\<close>

lemma write_loop_wire:
  assumes "write_loop data len h sent b = Some (h', st)" and "logs log h"
    and "len \<le> length data" "len < 65536" "sent \<le> len"
  shows "logs log h' \<and> (\<exists>k. sent \<le> k \<and> k \<le> len \<and>
           logged log h' = logged log h @ take (k - sent) (drop sent data) \<and>
           (st = EC200_OK \<longrightarrow> k = len))"
proof -
  let ?goal = "\<lambda>data len h sent x. \<forall>h' st. x = (h', st) \<longrightarrow> logs log h \<longrightarrow> len \<le> length data \<longrightarrow>
      len < 65536 \<longrightarrow> sent \<le> len \<longrightarrow>
      logs log h' \<and> (\<exists>k. sent \<le> k \<and> k \<le> len \<and>
        logged log h' = logged log h @ take (k - sent) (drop sent data) \<and>
        (st = EC200_OK \<longrightarrow> k = len))"
  have "?goal data len h sent (h', st)"
  proof (rule write_loop.raw_induct [where P = "\<lambda>data len h sent b x. ?goal data len h sent x",
        OF _ assms(1)])
    fix f data len h sent b x
    assume IH: "\<And>data len h sent b y. f data len h sent b = Some y \<Longrightarrow> ?goal data len h sent y"
      and eq: "(if sent < len then
          (case h_write h (take (len - sent) (drop sent data)) (user_ctx h) of (n, w) \<Rightarrow>
             (let h' = h\<lparr>user_ctx := w\<rparr> in
              if n < 0 then Some (h', EC200_ERR_IO)
              else if n = 0 then
                (if b = 0 then Some (h', EC200_ERR_TIMEOUT)
                 else f data len (h'\<lparr>user_ctx := h_delay_ms h' 5 (user_ctx h')\<rparr>) sent
                        (if 5 \<le> b then b - 5 else 0))
              else if len - sent < cast_u16 n then Some (h', EC200_ERR_IO)
              else f data len h' (sent + cast_u16 n) b))
          else Some (h, EC200_OK)) = Some x"
    show "?goal data len h sent x"
    proof (intro allI impI)
      fix h' st
      assume x: "x = (h', st)" and lg: "logs log h" and len: "len \<le> length data" "len < 65536"
        and le: "sent \<le> len"
      let ?d = "take (len - sent) (drop sent data)"
      obtain n w where wr: "h_write h ?d (user_ctx h) = (n, w)"
        by (cases "h_write h ?d (user_ctx h)") auto
      have dlen: "length ?d = len - sent" using len by simp
      have "n \<le> int (length ?d)" "log w = logged log h @ take (nat n) ?d"
        using logs_write [OF lg wr] by blast+
      then have w: "n \<le> int (len - sent)" "log w = logged log h @ take (nat n) ?d"
        using dlen by simp_all
      consider (fin) "\<not> sent < len" | (fail) "sent < len" "n < 0"
        | (zero) "sent < len" "n = 0" | (some) "sent < len" "n > 0" by linarith
      then show "logs log h' \<and> (\<exists>k. sent \<le> k \<and> k \<le> len \<and>
          logged log h' = logged log h @ take (k - sent) (drop sent data) \<and>
          (st = EC200_OK \<longrightarrow> k = len))"
      proof cases
        case fin
        then show ?thesis using eq x lg le by (intro conjI exI [of _ sent]) auto
      next
        case fail
        then show ?thesis using eq x lg wr w by (auto simp: Let_def intro!: exI [of _ sent])
      next
        case zero
        have dl: "log (h_delay_ms h 5 w) = log w" using lg by (simp add: logs_def)
        show ?thesis
        proof (cases "b = 0")
          case True
          then show ?thesis using eq x lg wr w zero by (auto simp: Let_def intro!: exI [of _ sent])
        next
          case False
          then show ?thesis
            using eq x lg wr w zero dl le len
              IH [of data len "h\<lparr>user_ctx := h_delay_ms h 5 w\<rparr>" sent
                "if b \<ge> 5 then b - 5 else 0" x]
            by (simp add: Let_def split del: if_split)
        qed
      next
        case some
        then have c: "cast_u16 n = nat n" "nat n \<le> len - sent"
          using w(1) len by (simp_all add: cast_u16_small)
        then have "f data len (h\<lparr>user_ctx := w\<rparr>) (sent + nat n) b = Some (h', st)"
          using eq x some wr by (simp add: Let_def)
        then obtain k where k: "logs log h'" "sent + nat n \<le> k" "k \<le> len"
            "logged log h' = log w @ take (k - (sent + nat n)) (drop (sent + nat n) data)"
            "st = EC200_OK \<longrightarrow> k = len"
          using IH [of data len "h\<lparr>user_ctx := w\<rparr>" "sent + nat n" b "(h', st)"] lg c len some by auto
        have "take (k - sent) (drop sent data) =
            take (nat n) ?d @ take (k - (sent + nat n)) (drop (sent + nat n) data)"
          using k(2) c(2) take_add [of "nat n" "k - (sent + nat n)" "drop sent data"]
          by (simp add: min_absorb1 add.commute)
        then show ?thesis using k w(2) by (intro conjI exI [of _ k]) auto
      qed
    qed
  qed
  then show ?thesis using assms by blast
qed

lemma write_raw_wire:
  assumes "ec200_at_write_raw h (Some data) len = Some (h', st)" and "logs log h"
    and "len \<le> length data" "len < 65536"
  shows "logs log h' \<and> (\<exists>k\<le>len. logged log h' = logged log h @ take k data \<and>
           (st = EC200_OK \<longrightarrow> k = len))"
proof (cases "initialised h")
  case True
  then show ?thesis
    using write_loop_wire [OF _ assms(2-4), of 0 EC200_AT_WRITE_TIMEOUT_MS h' st] assms(1)
    by (auto simp: ec200_at_write_raw_def handle_ready_def)
next
  case False
  then show ?thesis using assms
    by (intro conjI exI [of _ 0]) (auto simp: ec200_at_write_raw_def handle_ready_def)
qed

lemma transmit_wire:
  assumes "at_transmit h cmd = Some (h', st)" and "logs log h"
  shows "logs log h' \<and> (\<exists>k\<le>length cmd + 1. logged log h' = logged log h @ take k (cmd @ [CR]) \<and>
           (st = EC200_OK \<longrightarrow> k = length cmd + 1))"
proof -
  let ?h = "(reset_error_state h)\<lparr>tx_buf := snprintf EC200_TX_BUFFER_SIZE (cmd @ [CR])\<rparr>"
  have lg: "logs log ?h" "logged log ?h = logged log h"
    using assms(2) by (simp_all add: reset_error_state_def)
  consider (busy) "h' = h" "st = EC200_ERR_BUSY" | (long) "h' = ?h" "st = EC200_ERR_OVERFLOW"
    | (sent) "length cmd + 1 < EC200_TX_BUFFER_SIZE"
        "ec200_at_write_raw ?h (Some (cmd @ [CR])) (length cmd + 1) = Some (h', st)"
    using assms(1) by (auto simp: at_transmit_def Let_def snprintf_def size_defs split: if_splits)
  then show ?thesis
  proof cases
    case sent
    then show ?thesis
      using write_raw_wire [OF sent(2) lg(1)] lg(2) by (auto simp: size_defs)
  qed (use assms(2) lg in \<open>auto intro!: exI [of _ "0::nat"]\<close>)
qed

lemmas quiet_receive =
  keepsD [OF logr.keeps_receive] keepsD [OF logr.keeps_wait_prefix] keepsD [OF logr.keeps_wait_final]
  keepsD [OF logr.keeps_prompt_loop]

lemma transmit_ok:
  "at_transmit h cmd = Some (h', EC200_OK) \<Longrightarrow> logs log h \<Longrightarrow>
   logs log h' \<and> logged log h' = logged log h @ cmd @ [CR]"
  using transmit_wire [of h cmd h' EC200_OK log] by auto

lemma write_raw_ok:
  "ec200_at_write_raw h (Some data) len = Some (h', EC200_OK) \<Longrightarrow> logs log h \<Longrightarrow>
   len \<le> length data \<Longrightarrow> len < 65536 \<Longrightarrow>
   logs log h' \<and> logged log h' = logged log h @ take len data"
  using write_raw_wire [of h data len h' EC200_OK log] by auto

lemma send_ok_wire:
  assumes "ec200_at_send h (Some cmd) buf t = Some (h', EC200_OK, buf')" and "logs log h"
  shows "logs log h' \<and> logged log h' = logged log h @ cmd @ [CR]"
proof -
  obtain h1 where t: "at_transmit h cmd = Some (h1, EC200_OK)"
    and r: "receive_transaction h1 None False buf t = Some (h', EC200_OK, buf')"
    using assms(1) by (auto simp: ec200_at_send_def bind_eq_Some_conv split: if_splits)
  show ?thesis
    using transmit_ok [OF t assms(2)] quiet_receive(1) [OF r, of log] by auto
qed

lemma send_wait_ok_wire:
  assumes "ec200_at_send_wait h (Some cmd) p buf t = Some (h', EC200_OK, buf')" and "logs log h"
  shows "logs log h' \<and> logged log h' = logged log h @ cmd @ [CR]"
proof -
  obtain h1 where t: "at_transmit h cmd = Some (h1, EC200_OK)"
    and r: "receive_transaction h1 p False buf t = Some (h', EC200_OK, buf')"
    using assms(1) by (auto simp: ec200_at_send_wait_def bind_eq_Some_conv split: if_splits)
  show ?thesis
    using transmit_ok [OF t assms(2)] quiet_receive(1) [OF r, of log] by auto
qed

lemma send_expect_ok_wire:
  assumes "ec200_at_send_expect h (Some cmd) p buf t = Some (h', EC200_OK, buf')" and "logs log h"
  shows "logs log h' \<and> logged log h' = logged log h @ cmd @ [CR]"
proof -
  obtain h1 where t: "at_transmit h cmd = Some (h1, EC200_OK)"
    and r: "receive_transaction h1 p True buf t = Some (h', EC200_OK, buf')"
    using assms(1) by (auto simp: ec200_at_send_expect_def bind_eq_Some_conv split: if_splits)
  show ?thesis
    using transmit_ok [OF t assms(2)] quiet_receive(1) [OF r, of log] by auto
qed

lemma send_prompt_ok_wire:
  assumes "ec200_at_send_prompt h (Some cmd) t = Some (h', EC200_OK)" and "logs log h"
  shows "logs log h' \<and> logged log h' = logged log h @ cmd @ [CR]"
proof -
  obtain h1 where t: "at_transmit h cmd = Some (h1, EC200_OK)"
    and r: "prompt_loop h1 t = Some (h', EC200_OK)"
    using assms(1) by (auto simp: ec200_at_send_prompt_def bind_eq_Some_conv split: if_splits)
  show ?thesis
    using transmit_ok [OF t assms(2)] quiet_receive(4) [OF r, of log] by auto
qed

section \<open>What the modules put on the wire\<close>

lemma snprintf_fits: "length s < n \<Longrightarrow> snprintf n s = s"
  by (simp add: snprintf_def)

lemma quoted_length [simp]: "length (quoted s) = length s + 2"
  by (simp add: quoted_def)

lemma tape_logs: "logs snd (tape_handle inp)"
  by (simp add: logs_def tape_handle_def fresh_handle_def tape_write_def tape_read_def
      tape_delay_def free_urc_entry_def)

text \<open>
  C6. Writing is exact, with a callback that reports how many bytes it accepts. A raw write: whatever
  status \<open>ec200_at_write_raw\<close> returns, a prefix of the data has gone out, in order and without
  repetition, across short writes and retries; on \<open>EC200_OK\<close> it is all of the first \<open>len\<close>
  bytes. A command is framed and sent at most once: \<open>at_transmit\<close> puts a prefix of the command and
  its carriage return on the wire, all of it when it returns \<open>EC200_OK\<close>; in PPP data mode, and
  for a command that does not fit the transmit buffer, nothing is written.
\<close>

theorem writes_exact:
  assumes "logs log h"
  shows "(ec200_at_write_raw h (Some data) len = Some (h1, st1) \<and> len \<le> length data \<and> len < 65536 \<longrightarrow>
      (\<exists>k\<le>len. log (user_ctx h1) = log (user_ctx h) @ take k data \<and> (st1 = EC200_OK \<longrightarrow> k = len))) \<and>
    (at_transmit h cmd = Some (h2, st2) \<longrightarrow>
      (\<exists>k\<le>length cmd + 1. log (user_ctx h2) = log (user_ctx h) @ take k (cmd @ [CR]) \<and>
         (st2 = EC200_OK \<longrightarrow> k = length cmd + 1)) \<and>
      (ppp_data_mode h \<longrightarrow> st2 = EC200_ERR_BUSY \<and> h2 = h) \<and>
      (\<not> ppp_data_mode h \<and> length cmd \<ge> 511 \<longrightarrow>
         st2 = EC200_ERR_OVERFLOW \<and> log (user_ctx h2) = log (user_ctx h)))"
proof (intro conjI impI)
  show "\<exists>k\<le>len. log (user_ctx h1) = log (user_ctx h) @ take k data \<and> (st1 = EC200_OK \<longrightarrow> k = len)"
    if "ec200_at_write_raw h (Some data) len = Some (h1, st1) \<and> len \<le> length data \<and> len < 65536"
    using write_raw_wire [OF _ assms] that by blast
  assume t: "at_transmit h cmd = Some (h2, st2)"
  show "\<exists>k\<le>length cmd + 1. log (user_ctx h2) = log (user_ctx h) @ take k (cmd @ [CR]) \<and>
      (st2 = EC200_OK \<longrightarrow> k = length cmd + 1)"
    using transmit_wire [OF t assms] by blast
qed (auto simp: at_transmit_def Let_def reset_error_state_def size_defs)

theorem writes_exact_witness:
  "(\<exists>h'. ec200_at_write_raw (tape_handle []) (Some ''abc'') 3 = Some (h', EC200_OK) \<and>
         snd (user_ctx h') = ''abc'') \<and>
   (\<exists>h'. at_transmit (tape_handle []) ''AT'' = Some (h', EC200_OK) \<and>
         snd (user_ctx h') = ''AT'' @ [CR])"
proof -
  have "observed (ec200_at_write_raw (tape_handle []) (Some ''abc'') 3) = Some (([], ''abc''), EC200_OK)"
    by code_simp
  then obtain h1 where h1: "ec200_at_write_raw (tape_handle []) (Some ''abc'') 3 = Some (h1, EC200_OK)"
    by (rule observedE)
  have "observed (at_transmit (tape_handle []) ''AT'') = Some (([], ''AT'' @ [CR]), EC200_OK)"
    by code_simp
  then obtain h2 where h2: "at_transmit (tape_handle []) ''AT'' = Some (h2, EC200_OK)"
    by (rule observedE)
  show ?thesis
    using writes_exact [OF tape_logs, of "[]" "''abc''" 3 h1 EC200_OK "''AT''" h2 EC200_OK] h1 h2
    by (auto simp: tape_handle_def fresh_handle_def)
qed

lemma sms_ok_wire:
  assumes "logs log h" and "ec200_sms_send h (Some number) (Some body) = Some (h', EC200_OK)"
  shows "0 < length number \<and> length number < 20 \<and> length body \<le> 160 \<and> SMS_CTRL_Z \<notin> set body \<and>
         log (user_ctx h') =
           log (user_ctx h) @ ''AT+CMGS='' @ quoted number @ [CR] @ body @ [SMS_CTRL_Z]"
proof -
  let ?cmd = "snprintf 36 (''AT+'' @ ''CMGS'' @ ''='' @ quoted number)"
  have num: "number \<noteq> []" "length number < 20" "length body \<le> 160" "SMS_CTRL_Z \<notin> set body"
    using assms(2) by (auto simp: ec200_sms_send_def sms_submit_def size_defs split: if_splits)
  then have cmd: "?cmd = ''AT+CMGS='' @ quoted number" by (simp add: snprintf_fits)
  obtain h1 h2 h3 h4 resp where
    s1: "ec200_at_send_prompt h (Some ?cmd) EC200_AT_TIMEOUT_DEFAULT = Some (h1, EC200_OK)" and
    s2: "ec200_at_write_raw h1 (Some body) (length body) = Some (h2, EC200_OK)" and
    s3: "ec200_at_write_raw h2 (Some [SMS_CTRL_Z]) 1 = Some (h3, EC200_OK)" and
    s4: "ec200_at_wait_prefix h3 (Some (snprintf 12 (''+'' @ ''CMGS'' @ '':''))) (char_buf 64)
           EC200_AT_TIMEOUT_LONG = Some (h4, EC200_OK, resp)" and
    s5: "ec200_at_wait_final h4 EC200_AT_TIMEOUT_DEFAULT = Some (h', EC200_OK)"
    using assms(2) num
    by (auto simp: ec200_sms_send_def sms_submit_def size_defs bind_eq_Some_conv Let_def
        simp del: append_Cons append_Nil split: if_splits)
  note w1 = send_prompt_ok_wire [OF s1 assms(1)]
  note w2 = write_raw_ok [OF s2 w1 [THEN conjunct1]]
  have w2': "logs log h2 \<and> logged log h2 = logged log h1 @ body" using w2 num(3) by simp
  note w3 = write_raw_ok [OF s3 w2' [THEN conjunct1]]
  have w4: "logged log h' = logged log h3"
    using quiet_receive(2) [OF s4, of log] quiet_receive(3) [OF s5, of log] w3 by auto
  show ?thesis using num w1 w2' w3 w4 cmd by simp
qed

lemma publish_ok_wire:
  assumes "logs log h" and "client_idx < 256" and "msg_id < 65536" and "data_len \<le> length data"
    and "ec200_mqtt_publish h client_idx msg_id qos retain (Some tpc) (Some data) data_len =
           Some (h', EC200_OK)"
  shows "tpc \<noteq> [] \<and> length tpc < 128 \<and> 0 < data_len \<and> data_len \<le> 1460 \<and>
         (qos = 0 \<or> 0 < msg_id) \<and>
         log (user_ctx h') = log (user_ctx h) @
           (''AT+QMTPUBEX='' @ show_nat client_idx @ '','' @ show_nat msg_id @ '','' @
            show_nat (cast_u32 qos) @ '','' @ show_nat (if retain then 1 else 0) @ '','' @
            quoted tpc @ '','' @ show_nat data_len) @ [CR] @ take data_len data"
proof -
  let ?args = "''AT+QMTPUBEX='' @ show_nat client_idx @ '','' @ show_nat msg_id @ '','' @
    show_nat (cast_u32 qos) @ '','' @ show_nat (if retain then 1 else 0) @ '','' @
    quoted tpc @ '','' @ show_nat data_len"
  let ?cmd = "snprintf (EC200_MAX_TOPIC_LEN + 64) ?args"
  have ok: "tpc \<noteq> []" "length tpc < 128" "0 < data_len" "data_len \<le> 1460" "qos = 0 \<or> 0 < msg_id"
    using assms(5) by (auto simp: ec200_mqtt_publish_def bad_topic_def size_defs split: if_splits)
  have nums: "length (show_nat client_idx) \<le> 3" "length (show_nat msg_id) \<le> 5"
    "length (show_nat (cast_u32 qos)) \<le> 10" "length (show_nat (if retain then 1 else 0)) \<le> 1"
    "length (show_nat data_len) \<le> 4"
    using assms(2,3) ok(4) cast_u32_bound [of qos] by (auto intro!: show_nat_length)
  then have cmd: "?cmd = ?args"
    using ok(2) by (intro snprintf_fits) (simp add: size_defs)
  obtain h1 h2 resp where
    s1: "ec200_at_send_prompt h (Some ?cmd) EC200_AT_TIMEOUT_DEFAULT = Some (h1, EC200_OK)" and
    s2: "ec200_at_write_raw h1 (Some data) (cast_u16 (int data_len)) = Some (h2, EC200_OK)" and
    s3: "ec200_at_wait_prefix h2 (Some ''+QMTPUBEX:'') (char_buf 128) EC200_AT_TIMEOUT_LONG =
           Some (h', EC200_OK, resp)"
    using assms(5) ok
    by (auto simp: ec200_mqtt_publish_def bad_topic_def size_defs bind_eq_Some_conv Let_def
        simp del: append_Cons append_Nil split: if_splits)
  have len: "cast_u16 (int data_len) = data_len" using ok(4) by (simp add: cast_u16_small)
  note w1 = send_prompt_ok_wire [OF s1 assms(1)]
  have w2: "logs log h2 \<and> logged log h2 = logged log h1 @ take data_len data"
    using write_raw_ok [OF s2 w1 [THEN conjunct1]] assms(4) ok(4) by (simp add: len)
  have "logged log h' = logged log h2"
    using quiet_receive(2) [OF s3, of log] w2 by auto
  then show ?thesis using ok w1 w2 cmd by simp
qed

text \<open>
  The topic goes out as it is, so a carriage return in it ends the command for the module and
  the text behind it is read as the next command.
\<close>

lemma publish_forwards_line_break:
  assumes "logs log h" and "client_idx < 256" and "msg_id < 65536" and "data_len \<le> length data"
    and "ec200_mqtt_publish h client_idx msg_id qos retain (Some (a @ [CR] @ c @ [CR] @ b)) (Some data) data_len =
           Some (h', EC200_OK)"
  shows "\<exists>pre post. log (user_ctx h') = pre @ [CR] @ c @ [CR] @ post"
proof -
  let ?topic = "a @ [CR] @ c @ [CR] @ b"
  have split: "\<exists>pre post. xs @ (ys @ quoted ?topic @ zs) @ us = pre @ [CR] @ c @ [CR] @ post" for xs ys zs us
    by (rule exI [of _ "xs @ ys @ DQUOTE # a"], rule exI [of _ "b @ DQUOTE # zs @ us"]) (simp add: quoted_def)
  obtain xs ys zs us where "log (user_ctx h') = xs @ (ys @ quoted ?topic @ zs) @ us"
    using publish_ok_wire [OF assms] by (metis append.assoc)
  then show ?thesis using split by metis
qed

text \<open>
  C29. A message goes out whole or is refused. When \<open>ec200_sms_send\<close> reports success, the number
  is shorter than 20 characters, the text has at most 160 characters and no Ctrl-Z, and the bytes
  on the wire are exactly the \<open>AT+CMGS\<close> command with the quoted number, a carriage return, the
  text, and one Ctrl-Z. When \<open>ec200_mqtt_publish\<close> reports success, the topic is not empty and
  shorter than 128 characters, the payload has between 1 and 1460 bytes, a QoS above 0 came with a
  message id, and the bytes on the wire are exactly the \<open>AT+QMTPUBEX\<close> command, never truncated,
  a carriage return, and the payload verbatim, whatever bytes it contains.
\<close>

theorem messages_wire:
  assumes "logs log h"
  shows "(ec200_sms_send h (Some number) (Some body) = Some (h1, EC200_OK) \<longrightarrow>
      0 < length number \<and> length number < 20 \<and> length body \<le> 160 \<and> SMS_CTRL_Z \<notin> set body \<and>
      log (user_ctx h1) =
        log (user_ctx h) @ ''AT+CMGS='' @ quoted number @ [CR] @ body @ [SMS_CTRL_Z]) \<and>
    (client_idx < 256 \<and> msg_id < 65536 \<and> data_len \<le> length data \<and>
     ec200_mqtt_publish h client_idx msg_id qos retain (Some tpc) (Some data) data_len =
       Some (h2, EC200_OK) \<longrightarrow>
      tpc \<noteq> [] \<and> length tpc < 128 \<and> 0 < data_len \<and> data_len \<le> 1460 \<and> (qos = 0 \<or> 0 < msg_id) \<and>
      log (user_ctx h2) = log (user_ctx h) @
        (''AT+QMTPUBEX='' @ show_nat client_idx @ '','' @ show_nat msg_id @ '','' @
         show_nat (cast_u32 qos) @ '','' @ show_nat (if retain then 1 else 0) @ '','' @
         quoted tpc @ '','' @ show_nat data_len) @ [CR] @ take data_len data)"
  by (intro conjI [OF impI impI]; (elim conjE)?; rule sms_ok_wire publish_ok_wire; (rule assms | assumption))

theorem messages_wire_witness:
  "(\<exists>h'. ec200_sms_send (tape_handle (''> '' @ crlf [''+CMGS: 5'', ''OK''])) (Some ''+4912'')
           (Some ''Hi'') = Some (h', EC200_OK) \<and>
        snd (user_ctx h') = ''AT+CMGS='' @ quoted ''+4912'' @ [CR] @ ''Hi'' @ [CHR 0x1A]) \<and>
   (\<exists>h'. ec200_mqtt_publish (tape_handle (''> '' @ crlf [''OK'', ''+QMTPUBEX: 0,7,0''])) 0 7 1 False
           (Some ''t'') (Some [CHR 0x1A, NUL]) 2 = Some (h', EC200_OK) \<and>
        snd (user_ctx h') = ''AT+QMTPUBEX=0,7,1,0,'' @ quoted ''t'' @ '',2'' @ [CR, CHR 0x1A, NUL])"
proof
  note wire = messages_wire [OF tape_logs]
  have "observed (ec200_sms_send (tape_handle (''> '' @ crlf [''+CMGS: 5'', ''OK'']))
      (Some ''+4912'') (Some ''Hi'')) =
      Some (([], ''AT+CMGS='' @ quoted ''+4912'' @ [CR] @ ''Hi'' @ [CHR 0x1A]), EC200_OK)"
    by code_simp
  then obtain h1 where h1: "ec200_sms_send (tape_handle (''> '' @ crlf [''+CMGS: 5'', ''OK'']))
      (Some ''+4912'') (Some ''Hi'') = Some (h1, EC200_OK)" by (rule observedE)
  show "\<exists>h'. ec200_sms_send (tape_handle (''> '' @ crlf [''+CMGS: 5'', ''OK''])) (Some ''+4912'')
           (Some ''Hi'') = Some (h', EC200_OK) \<and>
        snd (user_ctx h') = ''AT+CMGS='' @ quoted ''+4912'' @ [CR] @ ''Hi'' @ [CHR 0x1A]"
    using wire [THEN conjunct1, THEN mp, OF h1] h1
    by (auto simp: tape_handle_def fresh_handle_def SMS_CTRL_Z_def)
  have "observed (ec200_mqtt_publish (tape_handle (''> '' @ crlf [''OK'', ''+QMTPUBEX: 0,7,0'']))
      0 7 1 False (Some ''t'') (Some [CHR 0x1A, NUL]) 2) =
      Some (([], ''AT+QMTPUBEX=0,7,1,0,'' @ quoted ''t'' @ '',2'' @ [CR, CHR 0x1A, NUL]), EC200_OK)"
    by code_simp
  then obtain h2 where h2: "ec200_mqtt_publish
      (tape_handle (''> '' @ crlf [''OK'', ''+QMTPUBEX: 0,7,0''])) 0 7 1 False
      (Some ''t'') (Some [CHR 0x1A, NUL]) 2 = Some (h2, EC200_OK)" by (rule observedE)
  have "show_nat 0 = ''0''" "show_nat 7 = ''7''" "show_nat 1 = ''1''" "show_nat 2 = ''2''"
    "cast_u32 1 = 1" by code_simp+
  then show "\<exists>h'. ec200_mqtt_publish (tape_handle (''> '' @ crlf [''OK'', ''+QMTPUBEX: 0,7,0''])) 0 7 1 False
           (Some ''t'') (Some [CHR 0x1A, NUL]) 2 = Some (h', EC200_OK) \<and>
        snd (user_ctx h') = ''AT+QMTPUBEX=0,7,1,0,'' @ quoted ''t'' @ '',2'' @ [CR, CHR 0x1A, NUL]"
    using wire [THEN conjunct2, THEN mp, OF conjI [OF _ conjI [OF _ conjI [OF _ h2]]]] h2
    by (auto simp: tape_handle_def fresh_handle_def)
qed

section \<open>TLS configuration\<close>

lemma plain_ok_wire:
  assumes "send_plain h cmd t = Some (h', EC200_OK)" and "logs log h"
  shows "logs log h' \<and> logged log h' = logged log h @ cmd @ [CR]"
proof -
  obtain b where "ec200_at_send h (Some cmd) None t = Some (h', EC200_OK, b)"
    using assms(1) by (auto simp: send_plain_def bind_eq_Some_conv)
  then show ?thesis using assms(2) by (rule send_ok_wire)
qed

text \<open>The commands of a TLS configuration, in order.\<close>

definition qsslcfg :: "string \<Rightarrow> nat \<Rightarrow> string \<Rightarrow> string" where
  "qsslcfg key ctx val = ''AT+QSSLCFG='' @ quoted key @ '','' @ show_nat ctx @ '','' @ val"

definition ssl_commands :: "ec200_ssl_config \<Rightarrow> string list" where
  "ssl_commands c =
     (let cmd = (\<lambda>key val. qsslcfg key (ssl_ctx_id c) val);
          file = (\<lambda>key f. if f = [] then [] else [cmd key (quoted f)])
      in [cmd ''sslversion'' (show_nat (nat (ssl_version c))),
          cmd ''ciphersuite'' (''0X'' @ show_04X (ssl_ciphersuite c)),
          cmd ''seclevel'' (show_nat (nat (ssl_seclevel c)))] @
         file ''cacert'' (ssl_cacert c) @ file ''clientcert'' (ssl_clientcert c) @
         file ''clientkey'' (ssl_clientkey c) @
         [cmd ''ignorelocaltime'' (show_nat (if ssl_ignore_localtime c then 1 else 0)),
          cmd ''sni'' (show_nat (if ssl_enable_sni c then 1 else 0))])"

definition on_wire :: "string list \<Rightarrow> string" where
  "on_wire cmds = concat (map (\<lambda>c. c @ [CR]) cmds)"

lemma show_hex_length: "n < 16 ^ k \<Longrightarrow> 0 < k \<Longrightarrow> length (show_hex n) \<le> k"
proof (induction k arbitrary: n)
  case (Suc k)
  show ?case
  proof (cases "n < 16")
    case True
    then show ?thesis by (subst show_hex.simps) simp
  next
    case False
    then have k: "k \<noteq> 0" using Suc.prems by (cases k) auto
    have "n div 16 < 16 ^ k" using Suc.prems by (simp add: less_mult_imp_div_less)
    then have "length (show_hex (n div 16)) \<le> k" using k by (intro Suc.IH) simp_all
    then show ?thesis using False by (subst show_hex.simps) simp
  qed
qed simp

lemma cfg_num_ok_wire:
  assumes "cfg_num h ctx key v = Some (h', EC200_OK)" "logs log h"
    and "ctx \<le> 5" "v \<le> 9" "length key \<le> 16"
  shows "logs log h' \<and> logged log h' = logged log h @ qsslcfg key ctx (show_nat v) @ [CR]"
proof -
  have "length (show_nat ctx) \<le> 1" "length (show_nat v) \<le> 1"
    using assms(3,4) by (auto intro!: show_nat_length)
  then have "snprintf 64 (qsslcfg key ctx (show_nat v)) = qsslcfg key ctx (show_nat v)"
    using assms(5) by (intro snprintf_fits) (simp add: qsslcfg_def)
  then show ?thesis
    using plain_ok_wire [OF assms(1) [unfolded cfg_num_def] assms(2)] by (simp add: qsslcfg_def)
qed

lemma cfg_file_opt_ok_wire:
  assumes "cfg_file_opt h ctx key file = Some (h', EC200_OK)" "logs log h"
    and "ctx \<le> 5" "length key \<le> 16" "length file < 64"
  shows "logs log h' \<and> logged log h' = logged log h @
           on_wire (if file = [] then [] else [qsslcfg key ctx (quoted file)])"
proof (cases "file = []")
  case True
  then show ?thesis using assms(1,2) by (simp add: cfg_file_opt_def on_wire_def)
next
  case False
  have "length (show_nat ctx) \<le> 1" using assms(3) by (auto intro!: show_nat_length)
  then have "snprintf (EC200_MAX_FILENAME_LEN + 48) (qsslcfg key ctx (quoted file)) =
      qsslcfg key ctx (quoted file)"
    using assms(4,5) by (intro snprintf_fits) (simp add: qsslcfg_def size_defs)
  moreover have "cfg_file h ctx key file = Some (h', EC200_OK)"
    using assms(1) False by (simp add: cfg_file_opt_def)
  ultimately show ?thesis
    using plain_ok_wire [OF _ assms(2)] False
    by (simp add: qsslcfg_def on_wire_def cfg_file_def)
qed

lemma cfg_ciphersuite_ok_wire:
  assumes "cfg_ciphersuite h ctx v = Some (h', EC200_OK)" "logs log h" "ctx \<le> 5" "v < 65536"
  shows "logs log h' \<and>
         logged log h' = logged log h @ qsslcfg ''ciphersuite'' ctx (''0X'' @ show_04X v) @ [CR]"
proof -
  have "length (show_nat ctx) \<le> 1" using assms(3) by (auto intro!: show_nat_length)
  moreover have "length (show_04X v) \<le> 4"
    using show_hex_length [of v 4] assms(4) by (simp add: show_04X_def pad_left_def)
  ultimately have "snprintf 64 (qsslcfg ''ciphersuite'' ctx (''0X'' @ show_04X v)) =
      qsslcfg ''ciphersuite'' ctx (''0X'' @ show_04X v)"
    by (intro snprintf_fits) (simp add: qsslcfg_def)
  then show ?thesis
    using plain_ok_wire [OF assms(1) [unfolded cfg_ciphersuite_def] assms(2)]
    by (simp add: qsslcfg_def)
qed

lemma and_then_ok:
  "and_then m f = Some (h', EC200_OK) \<Longrightarrow> \<exists>h1. m = Some (h1, EC200_OK) \<and> f h1 = Some (h', EC200_OK)"
  by (auto simp: and_then_def bind_eq_Some_conv split: if_splits)

text \<open>
  C35. A TLS context is configured completely, in order, or the call fails: when
  \<open>ec200_ssl_configure\<close> reports success, the configuration was valid (context 0-5, known
  version and level, a CA file for server authentication, client certificate and key for
  mutual authentication), and the bytes on the wire are exactly the commands for version,
  cipher suite, level, the named files, time check and SNI, in this order.
\<close>

theorem ssl_configure_wire:
  assumes "logs log h" and "ssl_ciphersuite c < 65536"
    and "length (ssl_cacert c) < 64" "length (ssl_clientcert c) < 64" "length (ssl_clientkey c) < 64"
    and "ec200_ssl_configure h (Some c) = Some (h', EC200_OK)"
  shows "ssl_config_ok c \<and> log (user_ctx h') = log (user_ctx h) @ on_wire (ssl_commands c)"
proof -
  have ok: "ssl_config_ok c"
    using assms(6) by (auto simp: ec200_ssl_configure_def split: if_splits)
  let ?n = "ssl_ctx_id c"
  have n: "?n \<le> 5" and v: "cast_u32 (ssl_version c) = nat (ssl_version c)" "nat (ssl_version c) \<le> 9"
    and l: "cast_u32 (ssl_seclevel c) = nat (ssl_seclevel c)" "nat (ssl_seclevel c) \<le> 9"
    using ok by (auto simp: ssl_config_ok_def cast_u32_small)
  obtain h1 h2 h3 h4 h5 h6 h7 where
    c1: "cfg_num h ?n ''sslversion'' (nat (ssl_version c)) = Some (h1, EC200_OK)" and
    c2: "cfg_ciphersuite h1 ?n (ssl_ciphersuite c) = Some (h2, EC200_OK)" and
    c3: "cfg_num h2 ?n ''seclevel'' (nat (ssl_seclevel c)) = Some (h3, EC200_OK)" and
    c4: "cfg_file_opt h3 ?n ''cacert'' (ssl_cacert c) = Some (h4, EC200_OK)" and
    c5: "cfg_file_opt h4 ?n ''clientcert'' (ssl_clientcert c) = Some (h5, EC200_OK)" and
    c6: "cfg_file_opt h5 ?n ''clientkey'' (ssl_clientkey c) = Some (h6, EC200_OK)" and
    c7: "cfg_num h6 ?n ''ignorelocaltime'' (if ssl_ignore_localtime c then 1 else 0) =
           Some (h7, EC200_OK)" and
    c8: "cfg_num h7 ?n ''sni'' (if ssl_enable_sni c then 1 else 0) = Some (h', EC200_OK)"
    using assms(6) ok v(1) l(1)
    by (auto simp: ec200_ssl_configure_def Let_def dest!: and_then_ok)
  have w1: "logs log h1 \<and> logged log h1 = logged log h @
      qsslcfg ''sslversion'' ?n (show_nat (nat (ssl_version c))) @ [CR]"
    using cfg_num_ok_wire [OF c1 assms(1) n v(2)] by simp
  note w2 = cfg_ciphersuite_ok_wire [OF c2 w1 [THEN conjunct1] n assms(2)]
  have w3: "logs log h3 \<and> logged log h3 = logged log h2 @
      qsslcfg ''seclevel'' ?n (show_nat (nat (ssl_seclevel c))) @ [CR]"
    using cfg_num_ok_wire [OF c3 w2 [THEN conjunct1] n l(2)] by simp
  note w4 = cfg_file_opt_ok_wire [OF c4 w3 [THEN conjunct1] n _ assms(3), simplified]
  note w5 = cfg_file_opt_ok_wire [OF c5 w4 [THEN conjunct1] n _ assms(4), simplified]
  note w6 = cfg_file_opt_ok_wire [OF c6 w5 [THEN conjunct1] n _ assms(5), simplified]
  have w7: "logs log h7 \<and> logged log h7 = logged log h6 @
      qsslcfg ''ignorelocaltime'' ?n (show_nat (if ssl_ignore_localtime c then 1 else 0)) @ [CR]"
    using cfg_num_ok_wire [OF c7 w6 [THEN conjunct1] n] by simp
  have w8: "logged log h' = logged log h7 @
      qsslcfg ''sni'' ?n (show_nat (if ssl_enable_sni c then 1 else 0)) @ [CR]"
    using cfg_num_ok_wire [OF c8 w7 [THEN conjunct1] n] by simp
  show ?thesis
    using ok w1 w2 w3 w4 w5 w6 w7 w8 by (simp add: ssl_commands_def on_wire_def Let_def)
qed

definition ssl_sample :: ec200_ssl_config where
  "ssl_sample = \<lparr>ssl_ctx_id = 1, ssl_version = 4, ssl_ciphersuite = 65535, ssl_seclevel = 1,
                 ssl_cacert = ''ca.pem'', ssl_clientcert = [], ssl_clientkey = [],
                 ssl_ignore_localtime = True, ssl_enable_sni = False\<rparr>"

theorem ssl_configure_wire_witness:
  "\<exists>h'. ec200_ssl_configure (tape_handle (crlf (replicate 6 ''OK''))) (Some ssl_sample) =
          Some (h', EC200_OK) \<and>
        snd (user_ctx h') = on_wire (ssl_commands ssl_sample) \<and> length (ssl_commands ssl_sample) = 6"
proof -
  let ?h = "tape_handle (crlf (replicate 6 ''OK''))"
  have step: "\<exists>h'. send_plain h (snprintf k cmd) EC200_AT_TIMEOUT_DEFAULT = Some (h', EC200_OK) \<and>
      tape_ready (replicate n ''OK'') h'"
    if "tape_ready (replicate (Suc n) ''OK'') h" "k \<le> 112" for h k cmd n
  proof -
    have "length (snprintf k cmd) < 511" using that(2) by (simp add: snprintf_def)
    then show ?thesis
      using tape_plain [of "replicate n ''OK''" h "snprintf k cmd" EC200_AT_TIMEOUT_DEFAULT] that(1)
      by (auto simp: clean_line_def size_defs)
  qed
  have link: "\<exists>h'. (send_plain h (snprintf k cmd) EC200_AT_TIMEOUT_DEFAULT \<bind>
      (\<lambda>(h, st). if st \<noteq> EC200_OK then Some (h, st) else f h)) = Some (h', EC200_OK)"
    if "tape_ready (replicate (Suc n) ''OK'') h" "k \<le> 112"
      "\<And>h1. tape_ready (replicate n ''OK'') h1 \<Longrightarrow> \<exists>h'. f h1 = Some (h', EC200_OK)" for h k cmd n f
    using step [OF that(1,2), of cmd] that(3) by auto
  have final_link: "\<exists>h'. send_plain h (snprintf k cmd) EC200_AT_TIMEOUT_DEFAULT = Some (h', EC200_OK)"
    if "tape_ready (replicate (Suc n) ''OK'') h" "k \<le> 112" for h k cmd n
    using step [OF that] by blast
  have r0: "tape_ready (replicate (Suc 5) ''OK'') ?h"
    using tape_ready_handle [of "replicate 6 ''OK''"] by simp
  have "\<exists>h'. ec200_ssl_configure ?h (Some ssl_sample) = Some (h', EC200_OK)"
    apply (simp add: ec200_ssl_configure_def ssl_config_ok_def ssl_sample_def Let_def and_then_def
        cfg_num_def cfg_ciphersuite_def cfg_file_opt_def cfg_file_def size_defs
        del: replicate_Suc append_Cons append_Nil)
    apply (rule link [OF r0], simp)
    apply (rule link [where n = 4], simp add: numeral_eq_Suc, simp)
    apply (rule link [where n = 3], simp add: numeral_eq_Suc, simp)
    apply (rule link [where n = 2], simp add: numeral_eq_Suc, simp)
    apply (rule link [where n = 1], simp add: numeral_eq_Suc, simp)
    apply (rule final_link [where n = 0], simp, simp)
    done
  then obtain h' where h': "ec200_ssl_configure ?h (Some ssl_sample) = Some (h', EC200_OK)" by blast
  have "snd (user_ctx h') = on_wire (ssl_commands ssl_sample)"
    using ssl_configure_wire [OF tape_logs _ _ _ _ h']
    by (simp add: tape_handle_def fresh_handle_def ssl_sample_def)
  moreover have "length (ssl_commands ssl_sample) = 6"
    by (simp add: ssl_commands_def ssl_sample_def Let_def)
  ultimately show ?thesis using h' by blast
qed

end
