(* ===== verification/Ec200_File.thy ===== *)
theory Ec200_File
  imports Ec200_Core
begin

text \<open>The modem's file system, \<^verbatim>\<open>src/ec200_file.c\<close>.\<close>

definition FILE_MAX_UPLOAD :: nat where "FILE_MAX_UPLOAD = 65535"

record ec200_file_storage =
  fs_free_bytes :: nat
  fs_total_bytes :: nat

definition bad_name :: "string option \<Rightarrow> bool" where
  "bad_name name =
     (case name of None \<Rightarrow> True | Some n \<Rightarrow> n = [] \<or> length n \<ge> EC200_MAX_FILENAME_LEN)"

definition ec200_file_upload ::
    "'w ec200_handle \<Rightarrow> string option \<Rightarrow> char list option \<Rightarrow> nat \<Rightarrow> nat option
     \<Rightarrow> ('w ec200_handle \<times> ec200_status \<times> nat option) option" where
  "ec200_file_upload h name data len checksum =
     (if bad_name name \<or> data = None \<or> len = 0 \<or> len > FILE_MAX_UPLOAD
      then Some (h, EC200_ERR_PARAM, checksum)
      else do {
        (h, st, resp) \<leftarrow> ec200_at_send_expect h
          (Some (snprintf (EC200_MAX_FILENAME_LEN + 32)
             (''AT+QFUPL='' @ quoted (the name) @ '','' @ show_nat len @ '',60'')))
          (Some ''CONNECT'') (char_buf 48) EC200_AT_TIMEOUT_DEFAULT;
        if st \<noteq> EC200_OK then Some (h, st, checksum)
        else do {
          (h, st) \<leftarrow> ec200_at_write_raw h data (cast_u16 (int len));
          if st \<noteq> EC200_OK then Some (h, st, checksum)
          else do {
            (h, st, resp) \<leftarrow> ec200_at_wait_prefix h (Some ''+QFUPL:'') resp
                               EC200_AT_TIMEOUT_LONG;
            if st \<noteq> EC200_OK then Some (h, st, checksum)
            else do {
              let cs = (if checksum = None then None
                        else case ec200_at_parse_int_field (buf_text resp) 1 of
                               Some crc \<Rightarrow> Some (cast_u16 crc) | None \<Rightarrow> Some 0);
              (h, st) \<leftarrow> ec200_at_wait_final h EC200_AT_TIMEOUT_DEFAULT;
              Some (h, st, cs)
            }
          }
        }
      })"

definition ec200_file_delete ::
    "'w ec200_handle \<Rightarrow> string option \<Rightarrow> ('w ec200_handle \<times> ec200_status) option" where
  "ec200_file_delete h name =
     (if bad_name name then Some (h, EC200_ERR_PARAM)
      else send_plain h
             (snprintf (EC200_MAX_FILENAME_LEN + 16) (''AT+QFDEL='' @ quoted (the name)))
             EC200_AT_TIMEOUT_DEFAULT)"

definition qflst_size ::
    "'w ec200_handle \<Rightarrow> string \<Rightarrow> nat
     \<Rightarrow> ('w ec200_handle \<times> ec200_status \<times> nat) option" where
  "qflst_size h name fsize = do {
     (h, st, resp) \<leftarrow> ec200_at_send_wait h
       (Some (snprintf (EC200_MAX_FILENAME_LEN + 16) (''AT+QFLST='' @ quoted name)))
       (Some ''+QFLST:'') (char_buf 96) EC200_AT_TIMEOUT_DEFAULT;
     if st \<noteq> EC200_OK then Some (h, st, fsize)
     else (case ec200_at_parse_int_field (buf_text resp) 1 of
             None \<Rightarrow> Some (h, EC200_ERR_PARSE, fsize)
           | Some sz \<Rightarrow>
               if sz < 0 then Some (h, EC200_ERR_PARSE, fsize)
               else Some (h, EC200_OK, cast_u32 sz))
   }"

definition ec200_file_exists ::
    "'w ec200_handle \<Rightarrow> string option \<Rightarrow> bool option
     \<Rightarrow> ('w ec200_handle \<times> ec200_status \<times> bool option) option" where
  "ec200_file_exists h name found =
     (if bad_name name \<or> found = None then Some (h, EC200_ERR_PARAM, found)
      else do {
        (h, st, _) \<leftarrow> qflst_size h (the name) 0;
        if st = EC200_OK then Some (h, EC200_OK, Some True)
        else if st = EC200_ERR_CME \<or> st = EC200_ERR_MODULE \<or> st = EC200_ERR_PARSE
        then Some (h, EC200_OK, Some False)
        else Some (h, st, found)
      })"

definition ec200_file_size ::
    "'w ec200_handle \<Rightarrow> string option \<Rightarrow> nat option
     \<Rightarrow> ('w ec200_handle \<times> ec200_status \<times> nat option) option" where
  "ec200_file_size h name fsize =
     (if bad_name name \<or> fsize = None then Some (h, EC200_ERR_PARAM, fsize)
      else do {
        (h, st, sz) \<leftarrow> qflst_size h (the name) (the fsize);
        Some (h, st, Some sz)
      })"

definition ec200_file_storage_info ::
    "'w ec200_handle \<Rightarrow> ec200_file_storage option
     \<Rightarrow> ('w ec200_handle \<times> ec200_status \<times> ec200_file_storage option) option" where
  "ec200_file_storage_info h st_out =
     (if st_out = None then Some (h, EC200_ERR_PARAM, st_out)
      else do {
        (h, st, resp) \<leftarrow> ec200_at_send_wait h (Some (''AT+QFLDS='' @ quoted ''UFS''))
                           (Some ''+QFLDS:'') (char_buf 96) EC200_AT_TIMEOUT_DEFAULT;
        if st \<noteq> EC200_OK then Some (h, st, st_out)
        else (case (ec200_at_parse_int_field (buf_text resp) 0,
                    ec200_at_parse_int_field (buf_text resp) 1) of
                (Some freeb, Some tot) \<Rightarrow>
                  if freeb < 0 \<or> tot < 0 then Some (h, EC200_ERR_PARSE, st_out)
                  else Some (h, EC200_OK, Some \<lparr>fs_free_bytes = cast_u32 freeb,
                                                fs_total_bytes = cast_u32 tot\<rparr>)
              | _ \<Rightarrow> Some (h, EC200_ERR_PARSE, st_out))
      })"

context at_frame
begin

lemma keeps_file_upload: "keeps R h (ec200_file_upload h n d l c)"
  unfolding ec200_file_upload_def by (intro keeps_body keeps_let)

lemma keeps_file_delete: "keeps R h (ec200_file_delete h n)"
  unfolding ec200_file_delete_def by (intro keeps_body keeps_plain)

lemma keeps_qflst: "keeps R h (qflst_size h n s)"
  unfolding qflst_size_def by (intro keeps_body)

lemma keeps_file_exists: "keeps R h (ec200_file_exists h n e)"
  unfolding ec200_file_exists_def by (intro keeps_body keeps_seq [OF keeps_qflst])

lemma keeps_file_size: "keeps R h (ec200_file_size h n s)"
  unfolding ec200_file_size_def by (intro keeps_body keeps_seq [OF keeps_qflst])

lemma keeps_file_storage: "keeps R h (ec200_file_storage_info h s)"
  unfolding ec200_file_storage_info_def by (intro keeps_body)

lemmas keeps_file_ops =
  keeps_file_upload keeps_file_delete keeps_file_exists keeps_file_size keeps_file_storage

end

end
