(* ===== verification/Ec200_Payload.thy ===== *)
theory Ec200_Payload
  imports Ec200_Wire Ec200_Http Ec200_File
begin

text \<open>
  Payloads on the wire: what a socket send, a TLS socket send, the URL and the body of an HTTP
  request and a file upload put there. \<open>sent log h xs h'\<close> says that a step adds \<open>xs\<close>
  to the record; the steps of a call compose.
\<close>

definition sent :: "('w \<Rightarrow> char list) \<Rightarrow> 'w ec200_handle \<Rightarrow> char list \<Rightarrow> 'w ec200_handle \<Rightarrow> bool" where
  "sent log h xs h' \<longleftrightarrow> (logs log h \<longrightarrow> logs log h' \<and> logged log h' = logged log h @ xs)"

lemma sent_trans: "sent log h xs h1 \<Longrightarrow> sent log h1 ys h2 \<Longrightarrow> sent log h (xs @ ys) h2"
  by (simp add: sent_def)

lemma sent_quiet: "sent log h xs h1 \<Longrightarrow> sent log h1 [] h2 \<Longrightarrow> sent log h xs h2"
  by (simp add: sent_def)

text \<open>The steps, when they succeed.\<close>

lemma sent_steps:
  "send_plain h cmd t = Some (h', EC200_OK) \<Longrightarrow> sent log h (cmd @ [CR]) h'"
  "ec200_at_send_prompt h (Some cmd) t = Some (h', EC200_OK) \<Longrightarrow> sent log h (cmd @ [CR]) h'"
  "ec200_at_send_expect h (Some cmd) p buf t = Some (h', EC200_OK, buf') \<Longrightarrow> sent log h (cmd @ [CR]) h'"
  "ec200_at_write_raw h (Some data) len = Some (h', EC200_OK) \<Longrightarrow> len \<le> length data \<Longrightarrow> len < 65536 \<Longrightarrow>
   sent log h (take len data) h'"
  unfolding sent_def
  by - (rule impI, erule (1) plain_ok_wire send_prompt_ok_wire send_expect_ok_wire |
      rule impI, erule (3) write_raw_ok)+

lemma quiet_steps:
  "ec200_at_wait_prefix h p buf t = Some (h', st, buf') \<Longrightarrow> sent log h [] h'"
  "ec200_at_wait_final h t = Some (h', st) \<Longrightarrow> sent log h [] h'"
  using quiet_receive(2) [of h p buf t h' "(st, buf')" log] quiet_receive(3) [of h t h' st log]
  by (auto simp: sent_def)

section \<open>The calls\<close>

lemma prompt_payload:
  assumes "ec200_at_send_prompt h (Some cmd) t = Some (h1, EC200_OK)"
    and "ec200_at_write_raw h1 (Some data) len = Some (h2, EC200_OK)"
    and "ec200_at_wait_prefix h2 p buf t' = Some (h', st, buf')"
    and "len \<le> length data" "len < 65536"
  shows "sent log h (cmd @ [CR] @ take len data) h'"
  using sent_quiet [OF sent_trans [OF sent_steps(2) [OF assms(1)] sent_steps(4) [OF assms(2,4,5)]]
      quiet_steps(1) [OF assms(3)]] by simp

lemma tcp_send_wire:
  assumes "ec200_tcp_send h i (Some data) len = Some (h', EC200_OK)" and "len \<le> length data"
  shows "0 < len \<and> len \<le> 1460 \<and> i < 12 \<and>
    sent log h (''AT+QISEND='' @ show_nat i @ '','' @ show_nat len @ [CR] @ take len data) h'"
proof -
  let ?args = "''AT+QISEND='' @ show_nat i @ '','' @ show_nat len"
  have ok: "0 < len" "len \<le> 1460" "i < 12"
    using assms(1) by (auto simp: ec200_tcp_send_def size_defs split: if_splits)
  have "length (show_nat i) \<le> 2" "length (show_nat len) \<le> 4"
    using ok by (auto intro!: show_nat_length)
  then have cmd: "snprintf 32 ?args = ?args" by (intro snprintf_fits) simp
  show ?thesis
    using assms ok cmd
    by (auto simp: ec200_tcp_send_def size_defs bind_eq_Some_conv simp del: append_Cons append_Nil
        split: if_splits dest!: prompt_payload [where data = data and len = len and log = log])
qed

lemma ssl_send_wire:
  assumes "ec200_ssl_socket_send h i (Some data) len = Some (h', EC200_OK)" and "len \<le> length data"
  shows "0 < len \<and> len \<le> 1460 \<and> i < 12 \<and>
    sent log h (''AT+QSSLSEND='' @ show_nat i @ '','' @ show_nat len @ [CR] @ take len data) h'"
proof -
  let ?args = "''AT+QSSLSEND='' @ show_nat i @ '','' @ show_nat len"
  have ok: "0 < len" "len \<le> 1460" "i < 12"
    using assms(1) by (auto simp: ec200_ssl_socket_send_def size_defs split: if_splits)
  have "length (show_nat i) \<le> 2" "length (show_nat len) \<le> 4"
    using ok by (auto intro!: show_nat_length)
  then have cmd: "snprintf 32 ?args = ?args" by (intro snprintf_fits) simp
  show ?thesis
    using assms ok cmd
    by (auto simp: ec200_ssl_socket_send_def size_defs bind_eq_Some_conv simp del: append_Cons append_Nil
        split: if_splits dest!: prompt_payload [where data = data and len = len and log = log])
qed

lemma expect_payload:
  assumes "ec200_at_send_expect h (Some cmd) p buf t = Some (h1, EC200_OK, buf')"
    and "ec200_at_write_raw h1 (Some data) (cast_u16 (int len)) = Some (h2, EC200_OK)"
    and "len \<le> length data" "len < 65536"
  shows "sent log h (cmd @ [CR] @ take len data) h2"
  using sent_trans [OF sent_steps(3) [OF assms(1)] sent_steps(4) [OF assms(2)]] assms(3,4)
  by (simp add: cast_u16_small)

lemma set_url_wire:
  assumes "ec200_http_set_url h (Some u) = Some (h', EC200_OK)"
  shows "0 < length u \<and> length u \<le> 256 \<and>
    sent log h (''AT+QHTTPURL='' @ show_nat (length u) @ '',80'' @ [CR] @ u) h'"
proof -
  let ?args = "''AT+QHTTPURL='' @ show_nat (length u) @ '',80''"
  have ok: "0 < length u" "length u \<le> 256"
    using assms by (auto simp: ec200_http_set_url_def size_defs split: if_splits)
  then have cmd: "snprintf 32 ?args = ?args"
    using show_nat_length [of "length u" 3] by (intro snprintf_fits) simp
  obtain h1 h2 b where
    s1: "ec200_at_send_expect h (Some ?args) (Some ''CONNECT'') (char_buf 32) EC200_AT_TIMEOUT_DEFAULT =
           Some (h1, EC200_OK, b)" and
    s2: "ec200_at_write_raw h1 (Some u) (cast_u16 (int (length u))) = Some (h2, EC200_OK)" and
    s3: "ec200_at_wait_final h2 EC200_AT_TIMEOUT_DEFAULT = Some (h', EC200_OK)"
    using assms ok cmd
    by (auto simp: ec200_http_set_url_def size_defs bind_eq_Some_conv simp del: append_Cons append_Nil
        split: if_splits)
  show ?thesis
    using sent_quiet [OF expect_payload [OF s1 s2] quiet_steps(2) [OF s3]] ok by simp
qed

lemma case_result_Some:
  "(case p of (st, r) \<Rightarrow> Some (h, st, Some r)) = Some (h', st', x) \<longleftrightarrow>
   h = h' \<and> fst p = st' \<and> x = Some (snd p)"
  by (cases p) auto

lemma http_post_wire:
  assumes "ec200_http_post h (Some body) len ct t resp = Some (h', EC200_OK, resp')" and "len \<le> length body"
  shows "0 < len \<and> len \<le> 65535 \<and> 0 \<le> ct \<and> ct \<le> 4 \<and>
    sent log h ((''AT+QHTTPCFG='' @ quoted ''contenttype'' @ '','' @ show_int ct @ [CR]) @
      ''AT+QHTTPPOST='' @ show_nat len @ '','' @ show_nat (timeout_secs t) @ '','' @
      show_nat (timeout_secs t) @ [CR] @ take len body) h'"
proof -
  let ?cfg = "''AT+QHTTPCFG='' @ quoted ''contenttype'' @ '','' @ show_int ct"
  let ?post = "''AT+QHTTPPOST='' @ show_nat len @ '','' @ show_nat (timeout_secs t) @ '','' @
      show_nat (timeout_secs t)"
  have ok: "0 < len" "len \<le> 65535" "0 \<le> ct" "ct \<le> 4" "resp \<noteq> None"
    using assms(1) by (auto simp: ec200_http_post_def split: if_splits)
  have ct: "length (show_int ct) \<le> 1"
    using ok show_nat_length [of "nat ct" 1] by (simp add: show_int_def)
  have secs: "timeout_secs t \<le> 65535" by (simp add: timeout_secs_def Let_def)
  have nums: "length (show_nat len) \<le> 5" "length (show_nat (timeout_secs t)) \<le> 5"
    using ok secs by (auto intro!: show_nat_length)
  have cmds: "snprintf 48 ?cfg = ?cfg" "snprintf 64 ?post = ?post"
    using ct nums by (auto intro!: snprintf_fits)
  obtain h1 h2 h3 h4 b raw st wait where
    s1: "send_plain h ?cfg EC200_AT_TIMEOUT_DEFAULT = Some (h1, EC200_OK)" and
    s2: "ec200_at_send_expect h1 (Some ?post) (Some ''CONNECT'') (char_buf 32) wait = Some (h2, EC200_OK, b)" and
    s3: "ec200_at_write_raw h2 (Some body) (cast_u16 (int len)) = Some (h3, EC200_OK)" and
    s4: "ec200_at_wait_final h3 EC200_AT_TIMEOUT_LONG = Some (h4, EC200_OK)" and
    s5: "ec200_at_wait_prefix h4 (Some ''+QHTTPPOST:'') (char_buf 128) t = Some (h', st, raw)"
    using assms(1) ok cmds
    by (auto simp: ec200_http_post_def bind_eq_Some_conv case_result_Some simp del: append_Cons append_Nil
        split: if_splits)
  have "sent log h ((?cfg @ [CR]) @ (?post @ [CR] @ take len body)) h'"
    using sent_quiet [OF sent_quiet [OF sent_trans [OF sent_steps(1) [OF s1] expect_payload [OF s2 s3]]
        quiet_steps(2) [OF s4]] quiet_steps(1) [OF s5]] assms(2) ok by simp
  then show ?thesis using ok by simp
qed

lemma file_upload_wire:
  assumes "ec200_file_upload h (Some name) (Some data) len cs = Some (h', EC200_OK, cs')" and "len \<le> length data"
  shows "0 < len \<and> len \<le> 65535 \<and> name \<noteq> [] \<and> length name < 64 \<and>
    sent log h (''AT+QFUPL='' @ quoted name @ '','' @ show_nat len @ '',60'' @ [CR] @ take len data) h'"
proof -
  let ?args = "''AT+QFUPL='' @ quoted name @ '','' @ show_nat len @ '',60''"
  have ok: "0 < len" "len \<le> 65535" "name \<noteq> []" "length name < 64"
    using assms(1) by (auto simp: ec200_file_upload_def bad_name_def FILE_MAX_UPLOAD_def size_defs split: if_splits)
  then have cmd: "snprintf (EC200_MAX_FILENAME_LEN + 32) ?args = ?args"
    using show_nat_length [of len 5] by (intro snprintf_fits) (simp add: size_defs)
  obtain h1 h2 h3 b b' st where
    s1: "ec200_at_send_expect h (Some ?args) (Some ''CONNECT'') (char_buf 48) EC200_AT_TIMEOUT_DEFAULT =
           Some (h1, EC200_OK, b)" and
    s2: "ec200_at_write_raw h1 (Some data) (cast_u16 (int len)) = Some (h2, EC200_OK)" and
    s3: "ec200_at_wait_prefix h2 (Some ''+QFUPL:'') b EC200_AT_TIMEOUT_LONG = Some (h3, st, b')" and
    s4: "ec200_at_wait_final h3 EC200_AT_TIMEOUT_DEFAULT = Some (h', EC200_OK)"
    using assms(1) ok cmd
    by (auto simp: ec200_file_upload_def bad_name_def FILE_MAX_UPLOAD_def size_defs bind_eq_Some_conv Let_def
        simp del: append_Cons append_Nil split: if_splits)
  show ?thesis
    using sent_quiet [OF sent_quiet [OF expect_payload [OF s1 s2] quiet_steps(1) [OF s3]] quiet_steps(2) [OF s4]]
      assms(2) ok by simp
qed

section \<open>Property\<close>

text \<open>
  C10. Payloads are transparent. When a socket send, a TLS socket send, the URL of an HTTP request,
  a POST or a file upload reports success, its arguments were in range and the bytes on the wire
  are exactly its command, never truncated, with the length of the payload in it, a carriage
  return, and that many bytes of the payload, verbatim and once, whatever bytes they are.
\<close>

theorem payload_calls_wire:
  assumes "logs log h" and "len \<le> length data"
  shows
    "(ec200_tcp_send h i (Some data) len = Some (h', EC200_OK) \<longrightarrow>
        0 < len \<and> len \<le> 1460 \<and> i < 12 \<and> log (user_ctx h') = log (user_ctx h) @
          ''AT+QISEND='' @ show_nat i @ '','' @ show_nat len @ [CR] @ take len data) \<and>
     (ec200_ssl_socket_send h i (Some data) len = Some (h', EC200_OK) \<longrightarrow>
        0 < len \<and> len \<le> 1460 \<and> i < 12 \<and> log (user_ctx h') = log (user_ctx h) @
          ''AT+QSSLSEND='' @ show_nat i @ '','' @ show_nat len @ [CR] @ take len data) \<and>
     (ec200_http_set_url h (Some u) = Some (h', EC200_OK) \<longrightarrow>
        0 < length u \<and> length u \<le> 256 \<and> log (user_ctx h') = log (user_ctx h) @
          ''AT+QHTTPURL='' @ show_nat (length u) @ '',80'' @ [CR] @ u) \<and>
     (ec200_http_post h (Some data) len ct t resp = Some (h', EC200_OK, resp') \<longrightarrow>
        0 < len \<and> len \<le> 65535 \<and> 0 \<le> ct \<and> ct \<le> 4 \<and> log (user_ctx h') = log (user_ctx h) @
          (''AT+QHTTPCFG='' @ quoted ''contenttype'' @ '','' @ show_int ct @ [CR]) @
          ''AT+QHTTPPOST='' @ show_nat len @ '','' @ show_nat (timeout_secs t) @ '','' @
          show_nat (timeout_secs t) @ [CR] @ take len data) \<and>
     (ec200_file_upload h (Some name) (Some data) len cs = Some (h', EC200_OK, cs') \<longrightarrow>
        0 < len \<and> len \<le> 65535 \<and> name \<noteq> [] \<and> length name < 64 \<and> log (user_ctx h') = log (user_ctx h) @
          ''AT+QFUPL='' @ quoted name @ '','' @ show_nat len @ '',60'' @ [CR] @ take len data)"
proof -
  note wire = tcp_send_wire ssl_send_wire http_post_wire file_upload_wire
  show ?thesis
    by (intro conjI impI; drule wire [where log = log, OF _ assms(2)] set_url_wire [where log = log])
      (use assms(1) in \<open>simp_all add: sent_def\<close>)
qed

theorem payload_calls_wire_witness:
  "\<exists>h'. ec200_tcp_send (tape_handle (''> '' @ crlf [''SEND OK''])) 2 (Some [CHR 0x1A, NUL, CR, CHR 0xFF]) 3 =
       Some (h', EC200_OK) \<and>
     snd (user_ctx h') = ''AT+QISEND=2,3'' @ [CR, CHR 0x1A, NUL, CR]"
proof -
  let ?run = "ec200_tcp_send (tape_handle (''> '' @ crlf [''SEND OK''])) 2 (Some [CHR 0x1A, NUL, CR, CHR 0xFF]) 3"
  have "observed ?run = Some (([], ''AT+QISEND=2,3'' @ [CR, CHR 0x1A, NUL, CR]), EC200_OK)"
    by code_simp
  then obtain h' where h': "?run = Some (h', EC200_OK)" by (rule observedE)
  have "show_nat 3 = ''3''" "show_nat 2 = ''2''" by code_simp+
  then show ?thesis
    using payload_calls_wire [OF tape_logs, of 3 "[CHR 0x1A, NUL, CR, CHR 0xFF]"] h'
    by (auto simp: tape_handle_def fresh_handle_def)
qed

end
