(* ===== verification/Ec200_Power.thy ===== *)
theory Ec200_Power
  imports Ec200_Core
begin

unbundle bit_operations_syntax

text \<open>
  Power management, \<^verbatim>\<open>src/ec200_power.c\<close>: functionality level, sleep, the codec of
  3GPP timer octets, Power Saving Mode and extended DRX.
\<close>

section \<open>Functionality and sleep\<close>

definition ec200_power_set_cfun ::
    "'w ec200_handle \<Rightarrow> int \<Rightarrow> bool \<Rightarrow> ('w ec200_handle \<times> ec200_status) option" where
  "ec200_power_set_cfun h level rst =
     send_plain h
       (snprintf 24 (if rst then ''AT+CFUN='' @ show_int level @ '',1''
                     else ''AT+CFUN='' @ show_int level))
       EC200_AT_TIMEOUT_LONG"

definition ec200_power_get_cfun ::
    "'w ec200_handle \<Rightarrow> int option \<Rightarrow> ('w ec200_handle \<times> ec200_status \<times> int option) option"
    where
  "ec200_power_get_cfun h level =
     (if level = None then Some (h, EC200_ERR_PARAM, level)
      else do {
        (h, st, resp) \<leftarrow> ec200_at_send_wait h (Some ''AT+CFUN?'') (Some ''+CFUN:'')
                           (char_buf 32) EC200_AT_TIMEOUT_DEFAULT;
        if st \<noteq> EC200_OK then Some (h, st, level)
        else (case ec200_at_parse_int_field (buf_text resp) 0 of
                None \<Rightarrow> Some (h, EC200_ERR_PARSE, level)
              | Some v \<Rightarrow> Some (h, EC200_OK, Some v))
      })"

definition ec200_power_down ::
    "'w ec200_handle \<Rightarrow> bool \<Rightarrow> ('w ec200_handle \<times> ec200_status) option" where
  "ec200_power_down h normal =
     send_plain h (snprintf 24 (''AT+QPOWD='' @ show_int (if normal then 1 else 0)))
       EC200_AT_TIMEOUT_LONG"

definition ec200_power_set_sleep ::
    "'w ec200_handle \<Rightarrow> bool \<Rightarrow> ('w ec200_handle \<times> ec200_status) option" where
  "ec200_power_set_sleep h enable =
     send_plain h (snprintf 24 (''AT+QSCLK='' @ show_int (if enable then 1 else 0)))
       EC200_AT_TIMEOUT_DEFAULT"

definition ec200_power_reset :: "'w ec200_handle \<Rightarrow> ('w ec200_handle \<times> ec200_status) option"
    where
  "ec200_power_reset h = ec200_power_set_cfun h 1 True"

section \<open>3GPP timer octets\<close>

definition EC200_PSM_TIMER_STR_LEN :: nat where "EC200_PSM_TIMER_STR_LEN = 9"
definition PSM_UNIT_DEACTIVATED :: "8 word" where "PSM_UNIT_DEACTIVATED = 7"
definition PSM_MAX_MULTIPLIER :: nat where "PSM_MAX_MULTIPLIER = 31"

text \<open>The unit tables: the three unit bits and the seconds of one step.\<close>

type_synonym psm_unit = "8 word \<times> nat"

definition tau_units :: "psm_unit list" where
  "tau_units = [(6, 320 * 3600), (2, 10 * 3600), (1, 3600), (0, 600), (5, 60), (4, 30), (3, 2)]"

definition active_units :: "psm_unit list" where
  "active_units = [(2, 6 * 60), (1, 60), (0, 2)]"

definition psm_octet :: "8 word \<Rightarrow> 8 word \<Rightarrow> 8 word" where
  "psm_octet unit mult = push_bit 5 (unit AND 7) OR (mult AND 31)"

definition psm_write_bits :: "8 word \<Rightarrow> 8 word \<Rightarrow> string" where
  "psm_write_bits unit mult =
     (let octet = psm_octet unit mult in
      map (\<lambda>i. if octet AND drop_bit i 128 \<noteq> 0 then CHR ''1'' else CHR ''0'') [0..<8])"

text \<open>The search over the units; \<open>None\<close> is \<open>EC200_ERR_PARAM\<close>.\<close>

fun psm_search :: "nat \<Rightarrow> psm_unit list \<Rightarrow> string option" where
  "psm_search seconds [] = None"
| "psm_search seconds ((code, step) # us) =
     (if seconds mod step \<noteq> 0 then psm_search seconds us
      else if seconds div step \<le> PSM_MAX_MULTIPLIER
      then Some (psm_write_bits code (of_nat (seconds div step)))
      else psm_search seconds us)"

definition psm_encode :: "nat \<Rightarrow> psm_unit list \<Rightarrow> cbuf \<Rightarrow> ec200_status \<times> cbuf" where
  "psm_encode seconds units out =
     (case out of
        None \<Rightarrow> (EC200_ERR_PARAM, out)
      | Some (sz, old) \<Rightarrow>
          if sz < EC200_PSM_TIMER_STR_LEN then (EC200_ERR_PARAM, out)
          else if seconds = 0 then (EC200_OK, Some (sz, psm_write_bits PSM_UNIT_DEACTIVATED 0))
          else (case psm_search seconds units of
                  None \<Rightarrow> (EC200_ERR_PARAM, out)
                | Some s \<Rightarrow> (EC200_OK, Some (sz, s))))"

definition ec200_psm_encode_tau :: "nat \<Rightarrow> cbuf \<Rightarrow> ec200_status \<times> cbuf" where
  "ec200_psm_encode_tau seconds out = psm_encode seconds tau_units out"

definition ec200_psm_encode_active_time :: "nat \<Rightarrow> cbuf \<Rightarrow> ec200_status \<times> cbuf" where
  "ec200_psm_encode_active_time seconds out = psm_encode seconds active_units out"

text \<open>
  Reading the bits: \<open>n\<close> of them are left, \<open>octet\<close> holds those read. \<open>None\<close> is
  \<open>EC200_ERR_PARSE\<close>.
\<close>

fun psm_read_bits :: "nat \<Rightarrow> 8 word \<Rightarrow> string \<Rightarrow> 8 word option" where
  "psm_read_bits 0 octet s = (if s = [] then Some octet else None)"
| "psm_read_bits (Suc n) octet [] = None"
| "psm_read_bits (Suc n) octet (c # s) =
     (if c \<noteq> CHR ''0'' \<and> c \<noteq> CHR ''1'' then None
      else psm_read_bits n (push_bit 1 octet OR of_nat (of_char c - 48)) s)"

fun find_unit :: "8 word \<Rightarrow> psm_unit list \<Rightarrow> nat option" where
  "find_unit code [] = None"
| "find_unit code ((c, step) # us) = (if c = code then Some step else find_unit code us)"

definition psm_decode :: "string \<Rightarrow> psm_unit list \<Rightarrow> nat option" where
  "psm_decode s units =
     (case psm_read_bits 8 0 s of
        None \<Rightarrow> None
      | Some octet \<Rightarrow>
          (let unit = drop_bit 5 octet AND 7; mult = octet AND 31 in
           if unit = PSM_UNIT_DEACTIVATED then Some 0
           else map_option (\<lambda>step. cast_u32 (int (step * unat mult))) (find_unit unit units)))"

definition ec200_psm_decode_timer ::
    "string option \<Rightarrow> bool \<Rightarrow> nat option \<Rightarrow> ec200_status \<times> nat option" where
  "ec200_psm_decode_timer str is_tau seconds_out =
     (case str of
        None \<Rightarrow> (EC200_ERR_PARAM, seconds_out)
      | Some s \<Rightarrow>
          if seconds_out = None then (EC200_ERR_PARAM, seconds_out)
          else (case psm_decode s (if is_tau then tau_units else active_units) of
                  None \<Rightarrow> (EC200_ERR_PARSE, seconds_out)
                | Some v \<Rightarrow> (EC200_OK, Some v)))"

section \<open>Power Saving Mode\<close>

record ec200_psm_config =
  psm_enabled :: bool
  psm_periodic_tau :: string
  psm_active_time :: string

text \<open>The suffix after \<open>index\<close> commas, and the value there.\<close>

fun skip_commas :: "nat \<Rightarrow> string \<Rightarrow> string option" where
  "skip_commas 0 p = Some p"
| "skip_commas (Suc k) p = (case strchr p CHR '','' of None \<Rightarrow> None | Some q \<Rightarrow> skip_commas k (tl q))"

definition copy_field :: "string \<Rightarrow> nat \<Rightarrow> nat \<Rightarrow> string" where
  "copy_field line index out_sz =
     (case skip_commas index (after_colon line) of
        None \<Rightarrow> []
      | Some p \<Rightarrow>
          (let p = skip_spaces p;
               p = (if p \<noteq> [] \<and> hd p = DQUOTE then tl p else p)
           in take (out_sz - 1) (takeWhile (\<lambda>c. c \<noteq> DQUOTE \<and> c \<noteq> CHR '','') p)))"

definition ec200_psm_disable :: "'w ec200_handle \<Rightarrow> ('w ec200_handle \<times> ec200_status) option"
    where
  "ec200_psm_disable h = send_plain h ''AT+CPSMS=0'' EC200_AT_TIMEOUT_DEFAULT"

definition ec200_psm_set ::
    "'w ec200_handle \<Rightarrow> ec200_psm_config option \<Rightarrow> ('w ec200_handle \<times> ec200_status) option"
    where
  "ec200_psm_set h cfg =
     (case cfg of
        None \<Rightarrow> Some (h, EC200_ERR_PARAM)
      | Some c \<Rightarrow>
          if \<not> psm_enabled c then ec200_psm_disable h
          else if length (psm_periodic_tau c) \<noteq> 8 \<or> length (psm_active_time c) \<noteq> 8
          then Some (h, EC200_ERR_PARAM)
          else send_plain h
                 (snprintf 64 (''AT+CPSMS=1,,,'' @ quoted (psm_periodic_tau c) @ '','' @
                    quoted (psm_active_time c)))
                 EC200_AT_TIMEOUT_DEFAULT)"

definition ec200_psm_get ::
    "'w ec200_handle \<Rightarrow> ec200_psm_config option
     \<Rightarrow> ('w ec200_handle \<times> ec200_status \<times> ec200_psm_config option) option" where
  "ec200_psm_get h cfg =
     (if cfg = None then Some (h, EC200_ERR_PARAM, cfg)
      else do {
        let c = \<lparr>psm_enabled = False, psm_periodic_tau = [], psm_active_time = []\<rparr>;
        (h, st, resp) \<leftarrow> ec200_at_send_wait h (Some ''AT+CPSMS?'') (Some ''+CPSMS:'')
                           (char_buf 96) EC200_AT_TIMEOUT_DEFAULT;
        if st \<noteq> EC200_OK then Some (h, st, Some c)
        else (case ec200_at_parse_int_field (buf_text resp) 0 of
                None \<Rightarrow> Some (h, EC200_ERR_PARSE, Some c)
              | Some mode \<Rightarrow>
                  Some (h, EC200_OK,
                    Some \<lparr>psm_enabled = (mode \<noteq> 0),
                          psm_periodic_tau = copy_field (buf_text resp) 3 EC200_PSM_TIMER_STR_LEN,
                          psm_active_time = copy_field (buf_text resp) 4 EC200_PSM_TIMER_STR_LEN\<rparr>))
      })"

section \<open>Extended DRX\<close>

definition EC200_EDRX_VALUE_STR_LEN :: nat where "EC200_EDRX_VALUE_STR_LEN = 5"

record ec200_edrx_config =
  edrx_enabled :: bool
  edrx_act_type :: int
  edrx_requested :: string

record ec200_edrx_dynamic =
  edyn_act_type :: int
  edyn_requested :: string
  edyn_granted :: string
  edyn_paging_time_window :: string

definition edrx_act_valid :: "int \<Rightarrow> bool" where
  "edrx_act_valid act \<longleftrightarrow> act = 2 \<or> act = 3 \<or> act = 4 \<or> act = 5"

definition ec200_edrx_disable ::
    "'w ec200_handle \<Rightarrow> int \<Rightarrow> ('w ec200_handle \<times> ec200_status) option" where
  "ec200_edrx_disable h act_type =
     (if \<not> edrx_act_valid act_type then Some (h, EC200_ERR_PARAM)
      else send_plain h (snprintf 32 (''AT+CEDRXS=0,'' @ show_int act_type))
             EC200_AT_TIMEOUT_DEFAULT)"

definition ec200_edrx_set ::
    "'w ec200_handle \<Rightarrow> ec200_edrx_config option \<Rightarrow> ('w ec200_handle \<times> ec200_status) option"
    where
  "ec200_edrx_set h cfg =
     (case cfg of
        None \<Rightarrow> Some (h, EC200_ERR_PARAM)
      | Some c \<Rightarrow>
          if \<not> edrx_act_valid (edrx_act_type c) then Some (h, EC200_ERR_PARAM)
          else if \<not> edrx_enabled c then ec200_edrx_disable h (edrx_act_type c)
          else if length (edrx_requested c) \<noteq> 4 then Some (h, EC200_ERR_PARAM)
          else send_plain h
                 (snprintf 48 (''AT+CEDRXS=1,'' @ show_int (edrx_act_type c) @ '','' @
                    quoted (edrx_requested c)))
                 EC200_AT_TIMEOUT_DEFAULT)"

definition ec200_edrx_get ::
    "'w ec200_handle \<Rightarrow> ec200_edrx_config option
     \<Rightarrow> ('w ec200_handle \<times> ec200_status \<times> ec200_edrx_config option) option" where
  "ec200_edrx_get h cfg =
     (if cfg = None then Some (h, EC200_ERR_PARAM, cfg)
      else do {
        let c = \<lparr>edrx_enabled = False, edrx_act_type = 0, edrx_requested = []\<rparr>;
        (h, st, resp) \<leftarrow> ec200_at_send_wait h (Some ''AT+CEDRXS?'') (Some ''+CEDRXS:'')
                           (char_buf 96) EC200_AT_TIMEOUT_DEFAULT;
        if st \<noteq> EC200_OK then Some (h, st, Some c)
        else (case ec200_at_parse_int_field (buf_text resp) 0 of
                None \<Rightarrow> Some (h, EC200_ERR_PARSE, Some c)
              | Some mode \<Rightarrow>
                  (let c = c\<lparr>edrx_enabled := (mode \<noteq> 0)\<rparr> in
                   case ec200_at_parse_int_field (buf_text resp) 1 of
                     None \<Rightarrow> Some (h, EC200_OK, Some c)
                   | Some act \<Rightarrow>
                       Some (h, EC200_OK,
                         Some (c\<lparr>edrx_act_type := act,
                                 edrx_requested := copy_field (buf_text resp) 2
                                                     EC200_EDRX_VALUE_STR_LEN\<rparr>))))
      })"

definition ec200_edrx_get_dynamic ::
    "'w ec200_handle \<Rightarrow> ec200_edrx_dynamic option
     \<Rightarrow> ('w ec200_handle \<times> ec200_status \<times> ec200_edrx_dynamic option) option" where
  "ec200_edrx_get_dynamic h out =
     (if out = None then Some (h, EC200_ERR_PARAM, out)
      else do {
        let c = \<lparr>edyn_act_type = 0, edyn_requested = [], edyn_granted = [],
                 edyn_paging_time_window = []\<rparr>;
        (h, st, resp) \<leftarrow> ec200_at_send_wait h (Some ''AT+CEDRXRDP'') (Some ''+CEDRXRDP:'')
                           (char_buf 96) EC200_AT_TIMEOUT_DEFAULT;
        if st \<noteq> EC200_OK then Some (h, st, Some c)
        else (case ec200_at_parse_int_field (buf_text resp) 0 of
                None \<Rightarrow> Some (h, EC200_ERR_PARSE, Some c)
              | Some act \<Rightarrow>
                  Some (h, EC200_OK,
                    Some \<lparr>edyn_act_type = act,
                          edyn_requested = copy_field (buf_text resp) 1 EC200_EDRX_VALUE_STR_LEN,
                          edyn_granted = copy_field (buf_text resp) 2 EC200_EDRX_VALUE_STR_LEN,
                          edyn_paging_time_window =
                            copy_field (buf_text resp) 3 EC200_EDRX_VALUE_STR_LEN\<rparr>))
      })"

section \<open>What the operations keep\<close>

context at_frame
begin

lemma keeps_power_set_cfun: "keeps R h (ec200_power_set_cfun h l r)"
  by (simp add: ec200_power_set_cfun_def keeps_plain)

lemma keeps_power_get_cfun: "keeps R h (ec200_power_get_cfun h l)"
  unfolding ec200_power_get_cfun_def by (intro keeps_body)

lemma keeps_power_down: "keeps R h (ec200_power_down h n)"
  by (simp add: ec200_power_down_def keeps_plain)

lemma keeps_power_set_sleep: "keeps R h (ec200_power_set_sleep h e)"
  by (simp add: ec200_power_set_sleep_def keeps_plain)

lemma keeps_power_reset: "keeps R h (ec200_power_reset h)"
  by (simp add: ec200_power_reset_def keeps_power_set_cfun)

lemma keeps_psm_disable: "keeps R h (ec200_psm_disable h)"
  by (simp add: ec200_psm_disable_def keeps_plain)

lemma keeps_psm_set: "keeps R h (ec200_psm_set h c)"
  unfolding ec200_psm_set_def by (intro keeps_body keeps_plain keeps_psm_disable)

lemma keeps_psm_get: "keeps R h (ec200_psm_get h c)"
  unfolding ec200_psm_get_def by (intro keeps_body keeps_let)

lemma keeps_edrx_disable: "keeps R h (ec200_edrx_disable h a)"
  unfolding ec200_edrx_disable_def by (intro keeps_body keeps_plain)

lemma keeps_edrx_set: "keeps R h (ec200_edrx_set h c)"
  unfolding ec200_edrx_set_def by (intro keeps_body keeps_plain keeps_edrx_disable)

lemma keeps_edrx_get: "keeps R h (ec200_edrx_get h c)"
  unfolding ec200_edrx_get_def by (intro keeps_body keeps_let)

lemma keeps_edrx_get_dynamic: "keeps R h (ec200_edrx_get_dynamic h c)"
  unfolding ec200_edrx_get_dynamic_def by (intro keeps_body keeps_let)

lemmas keeps_power_ops =
  keeps_power_set_cfun keeps_power_get_cfun keeps_power_down keeps_power_set_sleep
  keeps_power_reset keeps_psm_disable keeps_psm_set keeps_psm_get keeps_edrx_disable
  keeps_edrx_set keeps_edrx_get keeps_edrx_get_dynamic

end

end
