(* ===== verification/Ec200_Psm_Codec.thy ===== *)
theory Ec200_Psm_Codec
  imports Ec200_Power
begin

unbundle bit_operations_syntax

text \<open>
  The codec of 3GPP timer octets. The locale \<open>timer_code\<close> is what the encoder and the
  decoder rely on in a unit table; its lemmas hold for every such table, and the two
  interpretations discharge the laws for the tables of \<^verbatim>\<open>src/ec200_power.c\<close>.
\<close>

section \<open>Bits of an octet\<close>

lemma bits_of_octet:
  "bit (octet :: 8 word) n \<Longrightarrow> n < 8"
  by (simp add: bit_imp_le_length [where 'a = 8, simplified])

lemma octet_bit: "i < 8 \<Longrightarrow> (octet :: 8 word) AND drop_bit i 128 \<noteq> 0 \<longleftrightarrow> bit octet (7 - i)"
proof -
  assume i: "i < 8"
  have b: "bit (128 :: 8 word) k \<longleftrightarrow> k = 7" for k
  proof -
    have "(128 :: 8 word) = 2 ^ 7" by simp
    then show ?thesis by (simp only: bit_exp_iff) (auto simp: possible_bit_def)
  qed
  have "drop_bit i (128 :: 8 word) = push_bit (7 - i) 1"
    using i by (intro bit_word_eqI)
      (auto simp only: bit_drop_bit_eq o_apply b bit_push_bit_iff bit_1_iff possible_bit_word len_num0 len_bit0)
  then show ?thesis by (simp add: push_bit_of_1 and_exp_eq_0_iff_not_bit)
qed

definition bit_char :: "bool \<Rightarrow> char" where
  "bit_char b = (if b then CHR ''1'' else CHR ''0'')"

lemma write_bits_chars:
  "psm_write_bits u m = map (\<lambda>i. bit_char (bit (psm_octet u m) (7 - i))) [0..<8]"
  by (simp add: psm_write_bits_def Let_def octet_bit bit_char_def)

lemma read_bit_chars:
  "length bs = n \<Longrightarrow>
   psm_read_bits n octet (map bit_char bs) =
     Some (fold (\<lambda>b octet. push_bit 1 octet OR of_bool b) bs octet)"
  by (induction bs arbitrary: n octet) (auto simp: bit_char_def)

lemma bit_shift_in:
  "bit (push_bit 1 w OR of_bool b :: 8 word) n \<longleftrightarrow> n < 8 \<and> (if n = 0 then b else bit w (n - 1))"
  using bits_of_octet [of w "n - 1"] by (auto simp: bit_simps simp del: push_bit_Suc)

lemma read_octet:
  fixes octet :: "8 word"
  shows "psm_read_bits 8 0 (map (\<lambda>i. bit_char (bit octet (7 - i))) [0..<8]) = Some octet"
proof -
  have l: "map (\<lambda>i. bit octet (7 - i)) [0..<8] =
      [bit octet 7, bit octet 6, bit octet 5, bit octet 4, bit octet 3, bit octet 2, bit octet 1,
       bit octet 0]" by (simp add: upt_rec)
  let ?v = "fold (\<lambda>b octet. push_bit 1 octet OR of_bool b) (map (\<lambda>i. bit octet (7 - i)) [0..<8]) 0
    :: 8 word"
  have "?v = octet"
  proof (rule bit_word_eqI)
    fix n assume "n < LENGTH(8)"
    then have "n \<in> {0, 1, 2, 3, 4, 5, 6, 7}" by auto
    then show "bit ?v n = bit octet n"
      unfolding l fold_simps by (elim insertE) (simp_all only: bit_shift_in, simp_all)
  qed
  then show ?thesis
    using read_bit_chars [of "map (\<lambda>i. bit octet (7 - i)) [0..<8]" 8 0] by (simp add: comp_def)
qed

lemma octet_unit:
  fixes c :: "8 word"
  assumes "unat c < 8" "m \<le> 31"
  shows "drop_bit 5 (psm_octet c (of_nat m)) AND 7 = c" "psm_octet c (of_nat m) AND 31 = of_nat m"
proof -
  have mask: "(7 :: 8 word) = mask 3" "(31 :: 8 word) = mask 5" by (simp_all add: mask_eq_exp_minus_1)
  have c: "take_bit 3 c = c"
    using assms(1) by (intro unsigned_word_eqI [where 'a = nat])
      (simp add: unsigned_take_bit_eq take_bit_nat_eq_self)
  have m: "take_bit 5 (of_nat m :: 8 word) = of_nat m"
    using assms(2) by (intro unsigned_word_eqI [where 'a = nat])
      (simp add: unsigned_take_bit_eq take_bit_nat_eq_self unat_of_nat)
  have high: "n < 3" if "bit c n" for n
    using c that by (metis bit_take_bit_iff not_le)
  have low: "n < 5" if "bit (of_nat m :: 8 word) n" for n
    using m that by (metis bit_take_bit_iff not_le)
  show "drop_bit 5 (psm_octet c (of_nat m)) AND 7 = c"
    unfolding psm_octet_def mask
    by (rule bit_word_eqI) (auto simp add: bit_drop_bit_eq bit_or_iff bit_and_iff bit_push_bit_iff
      bit_mask_iff possible_bit_word dest: high low)
  show "psm_octet c (of_nat m) AND 31 = of_nat m"
    unfolding psm_octet_def mask
    by (rule bit_word_eqI) (auto simp add: bit_or_iff bit_and_iff bit_push_bit_iff bit_mask_iff
      possible_bit_word dest: low)
qed

lemma psm_decode_write:
  fixes c :: "8 word"
  assumes "unat c < 8" "m \<le> 31"
  shows "psm_decode (psm_write_bits c (of_nat m)) units =
    (if c = PSM_UNIT_DEACTIVATED then Some 0
     else map_option (\<lambda>step. cast_u32 (int (step * m))) (find_unit c units))"
proof -
  have "unat (of_nat m :: 8 word) = m" using assms(2) by (simp add: unat_of_nat)
  then show ?thesis
    using octet_unit [OF assms] read_octet [of "psm_octet c (of_nat m)"]
    by (simp add: psm_decode_def write_bits_chars Let_def)
qed

section \<open>Unit tables\<close>

locale timer_code =
  fixes units :: "psm_unit list"
  assumes codes: "(c, step) \<in> set units \<Longrightarrow> unat c < 7"
    and distinct_codes: "distinct (map fst units)"
    and steps: "(c, step) \<in> set units \<Longrightarrow> 0 < step \<and> step * 31 < 4294967296"
    and coarsest_first: "sorted_wrt (\<lambda>u v. snd v < snd u) units"

text \<open>A duration a unit can express, and what the search finds in a table.\<close>

definition expressible :: "nat \<Rightarrow> nat \<Rightarrow> bool" where
  "expressible s step \<longleftrightarrow> step dvd s \<and> s div step \<le> PSM_MAX_MULTIPLIER"

lemma psm_search_Some:
  "psm_search s us = Some t \<Longrightarrow> sorted_wrt (\<lambda>u v. snd v < snd u) us \<Longrightarrow>
   \<exists>c step. (c, step) \<in> set us \<and> expressible s step \<and>
     t = psm_write_bits c (of_nat (s div step)) \<and>
     (\<forall>c' step'. (c', step') \<in> set us \<and> expressible s step' \<longrightarrow> step' \<le> step)"
proof (induction s us rule: psm_search.induct)
  case (2 s c step us)
  show ?case
  proof (cases "expressible s step")
    case True
    have "\<forall>c' step'. (c', step') \<in> set ((c, step) # us) \<longrightarrow> step' \<le> step"
      using "2.prems"(2) by force
    then show ?thesis using True "2.prems"(1)
      by (intro exI [of _ c] exI [of _ step]) (auto simp: expressible_def dvd_eq_mod_eq_0)
  next
    case False
    then have "psm_search s us = Some t"
      using "2.prems"(1) by (auto simp: expressible_def dvd_eq_mod_eq_0 split: if_splits)
    then obtain c1 step1 where "(c1, step1) \<in> set us" "expressible s step1"
        "t = psm_write_bits c1 (of_nat (s div step1))"
        "\<forall>c' step'. (c', step') \<in> set us \<and> expressible s step' \<longrightarrow> step' \<le> step1"
      using 2 False by (auto simp: expressible_def dvd_eq_mod_eq_0 split: if_splits)
    with False show ?thesis by (intro exI [of _ c1] exI [of _ step1]) auto
  qed
qed simp

lemma psm_search_None:
  "psm_search s us = None \<longleftrightarrow> (\<forall>c step. (c, step) \<in> set us \<longrightarrow> \<not> expressible s step)"
  by (induction s us rule: psm_search.induct) (auto simp: expressible_def dvd_eq_mod_eq_0)

lemma find_unit_member: "distinct (map fst us) \<Longrightarrow> (c, step) \<in> set us \<Longrightarrow> find_unit c us = Some step"
  by (induction c us rule: find_unit.induct) (auto simp: rev_image_eqI)

context timer_code
begin

lemma decode_unit:
  assumes "(c, step) \<in> set units" "m \<le> 31"
  shows "psm_decode (psm_write_bits c (of_nat m)) units = Some (step * m)"
proof -
  have c: "unat c < 7" "find_unit c units = Some step"
    using assms(1) codes find_unit_member [OF distinct_codes] by blast+
  have "step * m \<le> step * 31" using assms(2) by simp
  also have "\<dots> < 4294967296" using steps assms(1) by blast
  finally have "cast_u32 (int (step * m)) = step * m" by (simp only: cast_u32_small)
  moreover have "c \<noteq> PSM_UNIT_DEACTIVATED" using c(1) by (auto simp: PSM_UNIT_DEACTIVATED_def)
  ultimately show ?thesis
    using c assms(2) by (simp add: psm_decode_write)
qed

lemma decode_deactivated: "psm_decode (psm_write_bits PSM_UNIT_DEACTIVATED 0) units = Some 0"
  using psm_decode_write [of PSM_UNIT_DEACTIVATED 0 units] by (simp add: PSM_UNIT_DEACTIVATED_def)

lemma encode_decode:
  assumes "psm_encode s units (Some (sz, old)) = (EC200_OK, Some (sz', t))"
  shows "sz' = sz \<and> length t = 8 \<and> psm_decode t units = Some s"
proof (cases "s = 0")
  case True
  then show ?thesis
    using assms decode_deactivated
    by (auto simp: psm_encode_def write_bits_chars split: if_splits)
next
  case False
  then have f: "psm_search s units = Some t" "sz' = sz"
    using assms by (auto simp: psm_encode_def split: if_splits option.splits)
  obtain c step where u: "(c, step) \<in> set units" "expressible s step"
      "t = psm_write_bits c (of_nat (s div step))"
    using psm_search_Some [OF f(1) coarsest_first] by blast
  then have "psm_decode t units = Some (step * (s div step))"
    using decode_unit [OF u(1)] by (simp add: expressible_def PSM_MAX_MULTIPLIER_def)
  then show ?thesis using u f(2) by (simp add: expressible_def write_bits_chars)
qed

lemma encode_cases:
  assumes "9 \<le> sz" "s \<noteq> 0"
  shows "if \<exists>c step. (c, step) \<in> set units \<and> expressible s step
    then \<exists>c step. (c, step) \<in> set units \<and> expressible s step \<and>
           psm_encode s units (Some (sz, old)) =
             (EC200_OK, Some (sz, psm_write_bits c (of_nat (s div step)))) \<and>
           (\<forall>c' step'. (c', step') \<in> set units \<and> expressible s step' \<longrightarrow> step' \<le> step)
    else psm_encode s units (Some (sz, old)) = (EC200_ERR_PARAM, Some (sz, old))"
proof (cases "psm_search s units")
  case None
  then show ?thesis
    using assms psm_search_None [of s units]
    by (simp add: psm_encode_def EC200_PSM_TIMER_STR_LEN_def)
next
  case (Some t)
  then have enc: "psm_encode s units (Some (sz, old)) = (EC200_OK, Some (sz, t))"
    using assms by (simp add: psm_encode_def EC200_PSM_TIMER_STR_LEN_def)
  show ?thesis
    using psm_search_Some [OF Some coarsest_first] enc by auto
qed

lemma codec:
  assumes "9 \<le> sz"
  shows "if s = 0 \<or> (\<exists>c step. (c, step) \<in> set units \<and> expressible s step)
    then \<exists>t. psm_encode s units (Some (sz, old)) = (EC200_OK, Some (sz, t)) \<and> length t = 8 \<and>
           psm_decode t units = Some s \<and>
           (s \<noteq> 0 \<longrightarrow> (\<exists>c step. (c, step) \<in> set units \<and> expressible s step \<and>
              t = psm_write_bits c (of_nat (s div step)) \<and>
              (\<forall>c' step'. (c', step') \<in> set units \<and> expressible s step' \<longrightarrow> step' \<le> step)))
    else psm_encode s units (Some (sz, old)) = (EC200_ERR_PARAM, Some (sz, old))"
proof (cases "s = 0")
  case True
  then show ?thesis
    using assms decode_deactivated
    by (simp add: psm_encode_def EC200_PSM_TIMER_STR_LEN_def write_bits_chars)
next
  case False
  show ?thesis
  proof (cases "\<exists>c step. (c, step) \<in> set units \<and> expressible s step")
    case True
    obtain c step where u: "(c, step) \<in> set units" "expressible s step"
        "psm_encode s units (Some (sz, old)) =
           (EC200_OK, Some (sz, psm_write_bits c (of_nat (s div step))))"
        "\<forall>c' step'. (c', step') \<in> set units \<and> expressible s step' \<longrightarrow> step' \<le> step"
      using encode_cases [OF assms False, of old] unfolding if_P [OF True] by blast
    then show ?thesis using True encode_decode [OF u(3)] by auto
  next
    case none: False
    then show ?thesis
      using encode_cases [OF assms False, of old] False unfolding if_not_P [OF none] by simp
  qed
qed

end

interpretation tau: timer_code tau_units
  by unfold_locales (auto simp: tau_units_def)

interpretation act: timer_code active_units
  by unfold_locales (auto simp: active_units_def)

section \<open>The codec of the library\<close>

lemma read_bits_iff:
  "psm_read_bits n octet s \<noteq> None \<longleftrightarrow> length s = n \<and> set s \<subseteq> {CHR ''0'', CHR ''1''}"
  by (induction n octet s rule: psm_read_bits.induct) auto

lemma tau_covers: "u < 8 \<Longrightarrow> of_nat u \<noteq> PSM_UNIT_DEACTIVATED \<Longrightarrow> find_unit (of_nat u) tau_units \<noteq> None"
proof -
  assume "u < 8" and d: "of_nat u \<noteq> PSM_UNIT_DEACTIVATED"
  then have "u \<in> {0, 1, 2, 3, 4, 5, 6, 7}" by auto
  then show ?thesis using d by (auto simp: tau_units_def PSM_UNIT_DEACTIVATED_def)
qed

lemma decode_timer_iff:
  "ec200_psm_decode_timer (Some t) is_tau (Some v) = (EC200_OK, Some s) \<longleftrightarrow>
   psm_decode t (if is_tau then tau_units else active_units) = Some s"
  by (auto simp: ec200_psm_decode_timer_def split: option.splits)

text \<open>
  C17. The codec refuses rather than rounds, and loses nothing. For the periodic TAU and for the
  active time, into an array of at least nine characters: a duration is accepted exactly
  when it is zero or some unit of the table expresses it with a multiplier up to 31. Then
  eight characters are written, the decoder reads the same number of seconds back from them,
  and for a duration other than zero they hold the coarsest such unit with the exact multiplier.
  Any other duration gives \<open>EC200_ERR_PARAM\<close> and leaves the array as it was.
\<close>

theorem psm_timer_roundtrip:
  assumes "9 \<le> sz"
  shows "let units = (if is_tau then tau_units else active_units);
             encoded = (if is_tau then ec200_psm_encode_tau s (Some (sz, old))
                        else ec200_psm_encode_active_time s (Some (sz, old)))
    in if s = 0 \<or> (\<exists>c step. (c, step) \<in> set units \<and> expressible s step)
    then \<exists>t. encoded = (EC200_OK, Some (sz, t)) \<and> length t = 8 \<and>
           ec200_psm_decode_timer (Some t) is_tau (Some v) = (EC200_OK, Some s) \<and>
           (s \<noteq> 0 \<longrightarrow> (\<exists>c step. (c, step) \<in> set units \<and> expressible s step \<and>
              t = psm_write_bits c (of_nat (s div step)) \<and>
              (\<forall>c' step'. (c', step') \<in> set units \<and> expressible s step' \<longrightarrow> step' \<le> step)))
    else encoded = (EC200_ERR_PARAM, Some (sz, old))"
proof (cases is_tau)
  case True
  then show ?thesis
    using tau.codec [OF assms, of s old]
    by (simp only: decode_timer_iff ec200_psm_encode_tau_def Let_def if_True simp_thms)
next
  case False
  then show ?thesis
    using act.codec [OF assms, of s old]
    by (simp only: decode_timer_iff ec200_psm_encode_active_time_def Let_def if_False simp_thms)
qed

theorem psm_timer_roundtrip_witness:
  "(\<exists>t. ec200_psm_encode_tau 7200 (Some (9, [])) = (EC200_OK, Some (9, t)) \<and>
     ec200_psm_decode_timer (Some t) True (Some 0) = (EC200_OK, Some 7200)) \<and>
   ec200_psm_encode_active_time 61 (Some (9, ''old'')) = (EC200_ERR_PARAM, Some (9, ''old''))"
proof -
  have "(1, 3600) \<in> set tau_units" "expressible 7200 3600"
    by (simp_all add: tau_units_def expressible_def PSM_MAX_MULTIPLIER_def)
  moreover have "\<not> expressible 61 step" if "(c, step) \<in> set active_units" for c step
    using that by (auto simp: active_units_def expressible_def PSM_MAX_MULTIPLIER_def)
  ultimately show ?thesis
    using psm_timer_roundtrip [of 9 True 7200 "[]" 0] psm_timer_roundtrip [of 9 False 61 "''old''"]
    by (auto simp: Let_def split: if_splits)
qed

text \<open>
  The decoder accepts for the periodic TAU exactly the strings of eight characters 0 and
  1, and answers \<open>EC200_ERR_PARSE\<close> to every other string, leaving the caller's value
  alone.
\<close>

lemma psm_decode_total:
  "fst (ec200_psm_decode_timer (Some s) True (Some v)) =
     (if length s = 8 \<and> set s \<subseteq> {CHR ''0'', CHR ''1''} then EC200_OK else EC200_ERR_PARSE) \<and>
   (fst (ec200_psm_decode_timer (Some s) b (Some v)) \<noteq> EC200_OK \<longrightarrow>
      ec200_psm_decode_timer (Some s) b (Some v) = (EC200_ERR_PARSE, Some v))"
proof (cases "psm_read_bits 8 0 s")
  case None
  then show ?thesis
    using read_bits_iff [of 8 0 s] by (auto simp: ec200_psm_decode_timer_def psm_decode_def)
next
  case (Some octet)
  define u where "u = unat (drop_bit 5 octet AND 7 :: 8 word)"
  have u: "drop_bit 5 octet AND 7 = of_nat u" by (simp add: u_def)
  have "(drop_bit 5 octet AND 7 :: 8 word) \<le> 7" by (simp add: word_and_le1)
  then have "u < 8" unfolding u_def by (simp add: word_le_nat_alt)
  then have "psm_decode s tau_units \<noteq> None"
    using Some tau_covers [of u] by (auto simp: psm_decode_def Let_def u)
  then show ?thesis
    using Some read_bits_iff [of 8 0 s]
    by (auto simp: ec200_psm_decode_timer_def split: option.splits)
qed

end
