(* ===== verification/Ec200_Time.thy ===== *)
theory Ec200_Time
  imports Ec200_Core
begin

text \<open>
  The module clock, \<^verbatim>\<open>src/ec200_time.c\<close>. The same parser serves \<open>AT+CCLK?\<close> and
  \<open>AT+QLTS=2\<close>.
\<close>

record ec200_datetime =
  dt_year :: nat
  dt_month :: nat
  dt_day :: nat
  dt_hour :: nat
  dt_minute :: nat
  dt_second :: nat
  dt_tz_quarters :: int

definition zero_datetime :: ec200_datetime where
  "zero_datetime = \<lparr>dt_year = 0, dt_month = 0, dt_day = 0, dt_hour = 0, dt_minute = 0,
                    dt_second = 0, dt_tz_quarters = 0\<rparr>"

definition timestamp_format :: "scan_dir list" where
  "timestamp_format =
     [ScanD, ScanLit CHR ''/'', ScanD, ScanLit CHR ''/'', ScanD, ScanLit CHR '','',
      ScanD, ScanLit CHR '':'', ScanD, ScanLit CHR '':'', ScanD, ScanD]"

text \<open>\<open>None\<close> is \<open>EC200_ERR_PARSE\<close>.\<close>

definition parse_timestamp :: "string \<Rightarrow> ec200_datetime option" where
  "parse_timestamp s =
     (let s = (case strchr s DQUOTE of Some q \<Rightarrow> tl q | None \<Rightarrow> s);
          vs = sscanf s timestamp_format;
          yy = scan_int vs 0 0; mo = scan_int vs 1 0; dd = scan_int vs 2 0;
          hh = scan_int vs 3 0; mi = scan_int vs 4 0; ss = scan_int vs 5 0;
          tz = scan_int vs 6 0
      in if length vs < 6 then None
         else if mo < 1 \<or> mo > 12 \<or> dd < 1 \<or> dd > 31 \<or> hh < 0 \<or> hh > 23 \<or>
                 mi < 0 \<or> mi > 59 \<or> ss < 0 \<or> ss > 60 then None
         else Some \<lparr>dt_year = cast_u16 (2000 + yy), dt_month = cast_u8 mo,
                    dt_day = cast_u8 dd, dt_hour = cast_u8 hh, dt_minute = cast_u8 mi,
                    dt_second = cast_u8 ss, dt_tz_quarters = cast_i8 tz\<rparr>)"

text \<open>The query both getters share; the caller's struct is cleared first.\<close>

definition query_timestamp ::
    "'w ec200_handle \<Rightarrow> string \<Rightarrow> string \<Rightarrow> nat
     \<Rightarrow> ('w ec200_handle \<times> ec200_status \<times> ec200_datetime option) option" where
  "query_timestamp h cmd prefix bufsz = do {
     (h, st, resp) \<leftarrow> ec200_at_send_wait h (Some cmd) (Some prefix) (char_buf bufsz)
                        EC200_AT_TIMEOUT_DEFAULT;
     if st \<noteq> EC200_OK then Some (h, st, Some zero_datetime)
     else (case parse_timestamp (after_colon (buf_text resp)) of
             None \<Rightarrow> Some (h, EC200_ERR_PARSE, Some zero_datetime)
           | Some dt \<Rightarrow> Some (h, EC200_OK, Some dt))
   }"

definition ec200_time_get ::
    "'w ec200_handle \<Rightarrow> ec200_datetime option
     \<Rightarrow> ('w ec200_handle \<times> ec200_status \<times> ec200_datetime option) option" where
  "ec200_time_get h dt =
     (if dt = None then Some (h, EC200_ERR_PARAM, dt)
      else query_timestamp h ''AT+CCLK?'' ''+CCLK:'' 80)"

definition ec200_time_get_network ::
    "'w ec200_handle \<Rightarrow> ec200_datetime option
     \<Rightarrow> ('w ec200_handle \<times> ec200_status \<times> ec200_datetime option) option" where
  "ec200_time_get_network h dt =
     (if dt = None then Some (h, EC200_ERR_PARAM, dt)
      else query_timestamp h ''AT+QLTS=2'' ''+QLTS:'' 96)"

definition time_set_ok :: "ec200_datetime \<Rightarrow> bool" where
  "time_set_ok d \<longleftrightarrow>
     \<not> (dt_year d < 2000 \<or> dt_year d > 2099 \<or> dt_month d < 1 \<or> dt_month d > 12 \<or>
        dt_day d < 1 \<or> dt_day d > 31 \<or> dt_hour d > 23 \<or> dt_minute d > 59 \<or> dt_second d > 59)"

text \<open>\<open>%02u/%02u/%02u,%02u:%02u:%02u%+03d\<close>\<close>

definition format_datetime :: "ec200_datetime \<Rightarrow> string" where
  "format_datetime d =
     show_02u (dt_year d - 2000) @ ''/'' @ show_02u (dt_month d) @ ''/'' @ show_02u (dt_day d) @
     '','' @ show_02u (dt_hour d) @ '':'' @ show_02u (dt_minute d) @ '':'' @
     show_02u (dt_second d) @ show_p03d (dt_tz_quarters d)"

definition ec200_time_set ::
    "'w ec200_handle \<Rightarrow> ec200_datetime option \<Rightarrow> ('w ec200_handle \<times> ec200_status) option" where
  "ec200_time_set h dt =
     (case dt of
        None \<Rightarrow> Some (h, EC200_ERR_PARAM)
      | Some d \<Rightarrow>
          if \<not> time_set_ok d then Some (h, EC200_ERR_PARAM)
          else send_plain h (snprintf 64 (''AT+CCLK='' @ quoted (format_datetime d)))
                 EC200_AT_TIMEOUT_DEFAULT)"

definition ec200_time_set_auto_update ::
    "'w ec200_handle \<Rightarrow> bool \<Rightarrow> ('w ec200_handle \<times> ec200_status) option" where
  "ec200_time_set_auto_update h enable =
     send_plain h (snprintf 24 (''AT+CTZU='' @ show_int (if enable then 1 else 0)))
       EC200_AT_TIMEOUT_DEFAULT"

definition ec200_time_sync_ntp ::
    "'w ec200_handle \<Rightarrow> nat \<Rightarrow> string option \<Rightarrow> nat \<Rightarrow> nat
     \<Rightarrow> ('w ec200_handle \<times> ec200_status) option" where
  "ec200_time_sync_ntp h pdp_ctx server port timeout_ms =
     (if server = None \<or> server = Some [] \<or> pdp_ctx < 1 \<or> pdp_ctx > 16
      then Some (h, EC200_ERR_PARAM)
      else if length (the server) \<ge> EC200_MAX_URL_LEN then Some (h, EC200_ERR_PARAM)
      else do {
        (h, st, resp) \<leftarrow> ec200_at_send_await_urc h
          (Some (snprintf (EC200_MAX_URL_LEN + 32)
             (''AT+QNTP='' @ show_nat pdp_ctx @ '','' @ quoted (the server) @ '','' @
              show_nat (if port \<noteq> 0 then port else 123))))
          (Some ''+QNTP:'') (char_buf 96) EC200_AT_TIMEOUT_DEFAULT timeout_ms;
        if st \<noteq> EC200_OK then Some (h, st)
        else (case ec200_at_parse_int_field (buf_text resp) 0 of
                None \<Rightarrow> Some (h, EC200_ERR_PARSE)
              | Some err \<Rightarrow> Some (h, if err = 0 then EC200_OK else EC200_ERR_MODULE))
      })"

context at_frame
begin

lemma keeps_query_timestamp: "keeps R h (query_timestamp h cmd prefix n)"
  unfolding query_timestamp_def by (intro keeps_body)

lemma keeps_time_get: "keeps R h (ec200_time_get h d)"
  unfolding ec200_time_get_def by (intro keeps_body keeps_query_timestamp)

lemma keeps_time_get_network: "keeps R h (ec200_time_get_network h d)"
  unfolding ec200_time_get_network_def by (intro keeps_body keeps_query_timestamp)

lemma keeps_time_set: "keeps R h (ec200_time_set h d)"
  unfolding ec200_time_set_def by (intro keeps_body keeps_plain)

lemma keeps_time_auto: "keeps R h (ec200_time_set_auto_update h e)"
  by (simp add: ec200_time_set_auto_update_def keeps_plain)

lemma keeps_time_ntp: "keeps R h (ec200_time_sync_ntp h c s p t)"
  unfolding ec200_time_sync_ntp_def by (intro keeps_body)

lemmas keeps_time_ops =
  keeps_time_get keeps_time_get_network keeps_time_set keeps_time_auto keeps_time_ntp

end

end
