(* ===== verification/Ec200_Clock.thy ===== *)
theory Ec200_Clock
  imports Ec200_Time Ec200_Fields
begin

text \<open>
  The clock of the module: what \<open>AT+CCLK\<close> writes is what \<open>AT+CCLK?\<close> reads back, the
  ranges of a parsed timestamp, and the year of a four-digit network timestamp.
\<close>

text \<open>The dates \<^verbatim>\<open>ec200_time_set\<close> can be given: its guard, and the range of \<open>int8_t\<close>.\<close>

definition settable :: "ec200_datetime \<Rightarrow> bool" where
  "settable d \<longleftrightarrow> time_set_ok d \<and> -128 \<le> dt_tz_quarters d \<and> dt_tz_quarters d \<le> 127"

text \<open>A timestamp as the module prints it, with \<open>y\<close> in the place of the year.\<close>

definition printed_timestamp :: "string \<Rightarrow> ec200_datetime \<Rightarrow> string" where
  "printed_timestamp y d =
     y @ ''/'' @ show_02u (dt_month d) @ ''/'' @ show_02u (dt_day d) @ '','' @
     show_02u (dt_hour d) @ '':'' @ show_02u (dt_minute d) @ '':'' @
     show_02u (dt_second d) @ show_p03d (dt_tz_quarters d)"

lemma format_printed: "format_datetime d = printed_timestamp (show_02u (dt_year d - 2000)) d"
  by (simp add: format_datetime_def printed_timestamp_def)

lemma settable_bounds:
  assumes "settable d"
  shows "is_int (int (dt_year d - 2000))" "is_int (int (dt_month d))" "is_int (int (dt_day d))"
    "is_int (int (dt_hour d))" "is_int (int (dt_minute d))" "is_int (int (dt_second d))"
    "is_int (dt_tz_quarters d)"
  using assms by (auto simp: settable_def time_set_ok_def is_int_def int_max_def int_min_def)

lemma no_digit_head [simp]:
  "\<not> has_digit (CHR ''/'' # r)" "\<not> has_digit (CHR '','' # r)" "\<not> has_digit (CHR '':'' # r)"
  "\<not> has_digit [DQUOTE]" "\<not> has_digit (show_p03d i @ r)"
  by (auto simp: has_digit_def is_digit_def show_p03d_def)

lemma sscanf_timestamp:
  assumes "settable d" and "\<And>r. \<not> has_digit r \<Longrightarrow> strtol (y @ r) = Some (yy, r)" and "\<not> has_digit t"
  shows "sscanf (printed_timestamp y d @ t) timestamp_format =
    [SInt yy, SInt (int (dt_month d)), SInt (int (dt_day d)), SInt (int (dt_hour d)),
     SInt (int (dt_minute d)), SInt (int (dt_second d)), SInt (dt_tz_quarters d)]"
  using assms(2,3) settable_bounds [OF assms(1)]
  by (simp add: printed_timestamp_def timestamp_format_def strtol_02u strtol_p03d)

lemma cast_i8_small: "-128 \<le> i \<Longrightarrow> i \<le> 127 \<Longrightarrow> cast_i8 i = i"
  by (simp add: cast_i8_def)

lemma parse_timestamp_vals:
  assumes "strchr s DQUOTE = Some p"
    and "sscanf (tl p) timestamp_format = [SInt yy, SInt (int mo), SInt (int dd), SInt (int hh),
           SInt (int mi), SInt (int ss), SInt tz]"
    and "1 \<le> mo" "mo \<le> 12" "1 \<le> dd" "dd \<le> 31" "hh \<le> 23" "mi \<le> 59" "ss \<le> 60"
  shows "parse_timestamp s = Some \<lparr>dt_year = cast_u16 (2000 + yy), dt_month = mo, dt_day = dd,
    dt_hour = hh, dt_minute = mi, dt_second = ss, dt_tz_quarters = cast_i8 tz\<rparr>"
  using assms by (simp add: parse_timestamp_def Let_def scan_int_def cast_u8_small)

lemma parse_printed:
  assumes "settable d" and "\<And>r. \<not> has_digit r \<Longrightarrow> strtol (y @ r) = Some (yy, r)"
    and "\<not> has_digit t"
  shows "parse_timestamp (CHR '' '' # quoted (printed_timestamp y d @ t)) =
    Some (d\<lparr>dt_year := cast_u16 (2000 + yy)\<rparr>)"
proof -
  have q: "strchr (CHR '' '' # quoted (printed_timestamp y d @ t)) DQUOTE =
      Some (DQUOTE # printed_timestamp y d @ t @ [DQUOTE])"
    by (simp add: quoted_def)
  have t: "\<not> has_digit (t @ [DQUOTE])"
    using assms(3) by (cases t) (simp_all add: has_digit_def is_digit_def)
  have v: "sscanf (tl (DQUOTE # printed_timestamp y d @ t @ [DQUOTE])) timestamp_format =
      [SInt yy, SInt (int (dt_month d)), SInt (int (dt_day d)), SInt (int (dt_hour d)),
       SInt (int (dt_minute d)), SInt (int (dt_second d)), SInt (dt_tz_quarters d)]"
    using sscanf_timestamp [OF assms(1,2) t] by simp
  have "1 \<le> dt_month d" "dt_month d \<le> 12" "1 \<le> dt_day d" "dt_day d \<le> 31" "dt_hour d \<le> 23"
      "dt_minute d \<le> 59" "dt_second d \<le> 60" "cast_i8 (dt_tz_quarters d) = dt_tz_quarters d"
    using assms(1) by (auto simp: settable_def time_set_ok_def cast_i8_small)
  with parse_timestamp_vals [OF q v] show ?thesis by simp
qed

section \<open>Properties\<close>

text \<open>
  C18. Setting and reading the clock round-trips: the line with which the module reports the
  date that \<^verbatim>\<open>ec200_time_set\<close> put on the wire is parsed back to exactly that date, for
  every date the guard of the setter accepts, in every time zone.
\<close>

theorem clock_roundtrip:
  assumes "settable d"
  shows "parse_timestamp (after_colon (''+CCLK: '' @ quoted (format_datetime d))) = Some d"
proof -
  have ac: "after_colon (''+CCLK: '' @ quoted (format_datetime d)) = CHR '' '' # quoted (format_datetime d)"
    by (simp add: after_colon_def)
  have y: "2000 \<le> dt_year d" "dt_year d \<le> 2099"
    using assms by (auto simp: settable_def time_set_ok_def)
  have s: "strtol (show_02u (dt_year d - 2000) @ r) = Some (int (dt_year d - 2000), r)"
    if "\<not> has_digit r" for r
    using settable_bounds(1) [OF assms] that by (rule strtol_02u)
  have "cast_u16 (2000 + int (dt_year d - 2000)) = dt_year d"
    using y by (simp add: cast_u16_small)
  then show ?thesis
    using parse_printed [OF assms s, of "[]"] ac by (simp only: format_printed append_Nil2) (simp add: has_digit_def)
qed

definition sample_date :: ec200_datetime where
  "sample_date = \<lparr>dt_year = 2026, dt_month = 8, dt_day = 30, dt_hour = 9, dt_minute = 45,
                  dt_second = 0, dt_tz_quarters = -22\<rparr>"

lemma sample_settable: "settable sample_date"
  by (simp add: settable_def time_set_ok_def sample_date_def)

theorem clock_roundtrip_witness:
  "parse_timestamp (after_colon (''+CCLK: '' @ quoted (format_datetime sample_date))) = Some sample_date"
  by (rule clock_roundtrip [OF sample_settable])

text \<open>
  The parser adds 2000 to the year as it is printed. A network timestamp with a
  four-digit year and the daylight-saving field (\<open>AT+QLTS=2\<close>) is accepted and reported
  2000 years late, with every other field correct.
\<close>

lemma network_year_offset:
  assumes "settable d" and "1000 \<le> year" and "year \<le> 9999"
  shows "parse_timestamp (after_colon
      (''+QLTS: '' @ quoted (printed_timestamp (show_nat year) d @ '','' @ dst))) =
    Some (d\<lparr>dt_year := year + 2000\<rparr>)"
proof -
  let ?t = "quoted (printed_timestamp (show_nat year) d @ '','' @ dst)"
  have ac: "after_colon (''+QLTS: '' @ ?t) = CHR '' '' # ?t"
    by (simp add: after_colon_def)
  have i: "is_int (int year)" using assms(3) by (simp add: is_int_def int_max_def int_min_def)
  have s: "strtol (show_nat year @ r) = Some (int year, r)" if "\<not> has_digit r" for r
    using strtol_show_int [OF i that] by (simp add: show_int_nat)
  have "cast_u16 (2000 + int year) = year + 2000"
    using assms(3) by (simp add: cast_u16_small)
  then show ?thesis
    using parse_printed [OF assms(1) s, of "'','' @ dst"] unfolding ac by (simp add: has_digit_def is_digit_def)
qed

text \<open>
  Whatever text the module sends, a timestamp that is accepted has its month, day, hour,
  minute and second in range (a leap second is admitted).
\<close>

lemma parsed_ranges:
  assumes "parse_timestamp s = Some d"
  shows "1 \<le> dt_month d \<and> dt_month d \<le> 12 \<and> 1 \<le> dt_day d \<and> dt_day d \<le> 31 \<and>
    dt_hour d \<le> 23 \<and> dt_minute d \<le> 59 \<and> dt_second d \<le> 60 \<and> dt_year d < 65536 \<and>
    -128 \<le> dt_tz_quarters d \<and> dt_tz_quarters d \<le> 127"
proof -
  have tz: "-128 \<le> cast_i8 i \<and> cast_i8 i \<le> 127" for i
    using pos_mod_bound [of 256 "i + 128"] pos_mod_sign [of 256 "i + 128"]
    by (simp add: cast_i8_def)
  show ?thesis
    using assms cast_u16_bound tz
    by (auto simp: parse_timestamp_def Let_def cast_u8_small split: if_splits)
qed

end
