(* ===== verification/Ec200_Http_Body.thy ===== *)
theory Ec200_Http_Body
  imports Ec200_Http Ec200_Loopback
begin

text \<open>
  The body of an HTTP response. The loop of \<^verbatim>\<open>read_body_until_ok\<close> searches the
  byte stream for the trailer with one counter; \<open>scan_body\<close> is the search written
  without it. The loop is shown to compute the scan, although its counter falls back to 0
  or 1 only: no trailer is missed, no body byte is lost.
\<close>

section \<open>The matcher as a function of the bytes\<close>

text \<open>The loop on a list of bytes; an exhausted list is a timeout.\<close>

fun match_body :: "body_acc \<Rightarrow> nat \<Rightarrow> char list \<Rightarrow> ec200_status \<times> body_acc \<times> char list" where
  "match_body a m [] = (EC200_ERR_TIMEOUT, a, [])"
| "match_body a m (c # cs) =
     (if c = http_trailer ! m then
        (if m + 1 \<ge> length http_trailer
         then (if ba_overflow a then EC200_ERR_OVERFLOW else EC200_OK, a, cs)
         else match_body a (m + 1) cs)
      else case mismatch_byte c m a of
             (m, a) \<Rightarrow> if ba_discarded a > HTTP_MAX_DISCARD then (EC200_ERR_OVERFLOW, a, cs)
                      else match_body a m cs)"

text \<open>The search itself: the bytes before the first trailer are stored.\<close>

function scan_body :: "body_acc \<Rightarrow> char list \<Rightarrow> ec200_status \<times> body_acc \<times> char list" where
  "scan_body a s =
     (if take 6 s = http_trailer
      then (if ba_overflow a then EC200_ERR_OVERFLOW else EC200_OK, a, drop 6 s)
      else if take (length s) http_trailer = s then (EC200_ERR_TIMEOUT, a, [])
      else scan_body (put_byte (hd s) a) (tl s))"
  by pat_completeness auto
termination
proof (relation "measure (length \<circ> snd)", goal_cases)
  case (2 a s)
  then show ?case by (cases s) auto
qed simp

declare scan_body.simps [simp del]

lemma trailer_nth:
  "http_trailer ! 0 = CR" "http_trailer ! Suc 0 = LF" "http_trailer ! 2 = CHR ''O''"
  "http_trailer ! 3 = CHR ''K''" "http_trailer ! 4 = CR" "http_trailer ! 5 = LF"
  "length http_trailer = 6" "hd http_trailer = CR"
  by (simp_all add: http_trailer_def)

text \<open>A byte that breaks the match after \<open>m\<close> bytes: no trailer starts in between.\<close>

lemma scan_break:
  assumes "m < 6" and "c \<noteq> http_trailer ! m"
  shows "scan_body a (take m http_trailer @ c # cs) =
    scan_body (fold put_byte (take m http_trailer) a) (c # cs)"
proof -
  have "m = 0 \<or> m = Suc 0 \<or> m = 2 \<or> m = 3 \<or> m = 4 \<or> m = 5" using assms(1) by auto
  then show ?thesis
    using assms(2)
    by (elim disjE) (simp_all add: http_trailer_def scan_body.simps [of _ "_ # _"] numeral_eq_Suc)
qed

lemma scan_step:
  "c \<noteq> CR \<Longrightarrow> scan_body a (c # cs) = scan_body (put_byte c a) cs"
  by (simp add: scan_body.simps [of a "c # cs"] http_trailer_def)

lemma scan_discarded: "scan_body a s = (st, a', r) \<Longrightarrow> ba_discarded a \<le> ba_discarded a'"
proof (induction a s rule: scan_body.induct)
  case (1 a s)
  show ?case
    using "1.prems" "1.IH" put_byte_discarded [of a "hd s"]
    by (fastforce simp: scan_body.simps [of a s] split: if_splits)
qed

lemma match_scan:
  assumes "m < 6" and "scan_body a (take m http_trailer @ s) = (st, a', r)"
    and "ba_discarded a' \<le> HTTP_MAX_DISCARD"
  shows "match_body a m s = (st, a', r)"
  using assms
proof (induction s arbitrary: m a)
  case Nil
  then have "take (length (take m http_trailer)) http_trailer = take m http_trailer"
    "take 6 (take m http_trailer) \<noteq> http_trailer"
    using trailer_nth(7) by (simp, metis length_take min.absorb3 min_less_iff_conj nat_neq_iff)
  then show ?case
    using Nil by (simp add: scan_body.simps [of a "take m http_trailer"])
next
  case (Cons c cs)
  show ?case
  proof (cases "c = http_trailer ! m")
    case True
    then have t: "take m http_trailer @ c # cs = take (Suc m) http_trailer @ cs"
      using Cons.prems(1) by (simp add: take_Suc_conv_app_nth trailer_nth)
    show ?thesis
    proof (cases "Suc m < 6")
      case True
      moreover have "scan_body a (take (Suc m) http_trailer @ cs) = (st, a', r)"
        using Cons.prems(2) by (simp only: t)
      ultimately show ?thesis
        using Cons.IH [of "Suc m" a] Cons.prems(3) \<open>c = http_trailer ! m\<close> by (simp add: trailer_nth)
    next
      case False
      then have m: "Suc m = length http_trailer" using Cons.prems(1) by (simp add: trailer_nth)
      have "scan_body a (take (Suc m) http_trailer @ cs) = (st, a', r)"
        using Cons.prems(2) by (simp only: t)
      then show ?thesis
        using m \<open>c = http_trailer ! m\<close>
        by (auto simp: scan_body.simps [of a "http_trailer @ cs"] trailer_nth split: if_splits)
    qed
  next
    case False
    let ?f = "fold put_byte (take m http_trailer) a"
    have s: "scan_body ?f (c # cs) = (st, a', r)"
      using Cons.prems(1,2) False by (simp add: scan_break)
    show ?thesis
    proof (cases "c = CR")
      case True
      have d: "ba_discarded ?f \<le> HTTP_MAX_DISCARD"
        using scan_discarded [OF s] Cons.prems(3) by simp
      have "match_body ?f 1 cs = (st, a', r)"
        using Cons.IH [of 1 ?f] s Cons.prems(3) True by (simp add: http_trailer_def)
      then show ?thesis using False True d by (simp add: mismatch_byte_def trailer_nth)
    next
      case c: False
      have s': "scan_body (put_byte c ?f) cs = (st, a', r)"
        using s c by (simp add: scan_step)
      have d: "ba_discarded (put_byte c ?f) \<le> HTTP_MAX_DISCARD"
        using scan_discarded [OF s'] Cons.prems(3) by simp
      have "match_body (put_byte c ?f) 0 cs = (st, a', r)"
        using Cons.IH [of 0 "put_byte c ?f"] s' Cons.prems(3) by simp
      then show ?thesis using False c d by (simp add: mismatch_byte_def trailer_nth)
    qed
  qed
qed

section \<open>What the scan stores\<close>

lemma scan_to_trailer:
  assumes "\<forall>k<length body. take 6 (drop k (body @ http_trailer @ rest)) \<noteq> http_trailer"
  shows "scan_body a (body @ http_trailer @ rest) =
    (let a' = fold put_byte body a in
     (if ba_overflow a' then EC200_ERR_OVERFLOW else EC200_OK, a', rest))"
  using assms
proof (induction body arbitrary: a)
  case Nil
  then show ?case by (simp add: scan_body.simps [of a "http_trailer @ rest"] trailer_nth)
next
  case (Cons c body)
  let ?s = "c # body @ http_trailer @ rest"
  have a: "take 6 ?s \<noteq> http_trailer" using Cons.prems [rule_format, of 0] by simp
  have "length (take (length ?s) http_trailer) < length ?s" by (simp add: trailer_nth)
  then have b: "take (length ?s) http_trailer \<noteq> ?s" by (metis nat_neq_iff)
  have "\<forall>k<length body. take 6 (drop k (body @ http_trailer @ rest)) \<noteq> http_trailer"
    using Cons.prems by (auto dest: spec [of _ "Suc _"])
  then have "scan_body (put_byte c a) (body @ http_trailer @ rest) =
      (let a' = fold put_byte body (put_byte c a) in
       (if ba_overflow a' then EC200_ERR_OVERFLOW else EC200_OK, a', rest))"
    by (rule Cons.IH)
  then show ?case using a b by (simp add: scan_body.simps [of a ?s])
qed

text \<open>Filling the array of the caller from its start.\<close>

lemma fold_put:
  assumes "ba_pos a \<le> length (ba_buf a)"
  shows "fold put_byte body a =
    (let n = min (length body) (length (ba_buf a) - ba_pos a) in
     \<lparr>ba_buf = take (ba_pos a) (ba_buf a) @ take n body @ drop (ba_pos a + n) (ba_buf a),
      ba_pos = ba_pos a + n, ba_overflow = (ba_overflow a \<or> n < length body),
      ba_discarded = ba_discarded a + (length body - n)\<rparr>)"
  using assms
proof (induction body arbitrary: a)
  case (Cons c body)
  show ?case
  proof (cases "ba_pos a < length (ba_buf a)")
    case True
    let ?a = "a\<lparr>ba_buf := (ba_buf a)[ba_pos a := c], ba_pos := ba_pos a + 1\<rparr>"
    define n where "n = min (length body) (length (ba_buf ?a) - ba_pos ?a)"
    have n: "min (length (c # body)) (length (ba_buf a) - ba_pos a) = Suc n"
      using True by (simp add: n_def)
    have "fold put_byte (c # body) a = fold put_byte body ?a" using True by (simp add: put_byte_def)
    also have "\<dots> = \<lparr>ba_buf = take (ba_pos ?a) (ba_buf ?a) @ take n body @ drop (ba_pos ?a + n) (ba_buf ?a),
        ba_pos = ba_pos ?a + n, ba_overflow = (ba_overflow ?a \<or> n < length body),
        ba_discarded = ba_discarded ?a + (length body - n)\<rparr>"
      using Cons.IH [of ?a] True by (simp add: n_def Let_def)
    finally show ?thesis
      using True unfolding n Let_def by (simp add: take_Suc_conv_app_nth drop_update_cancel)
  next
    case False
    then show ?thesis
      using Cons.IH [of "a\<lparr>ba_overflow := True, ba_discarded := ba_discarded a + 1\<rparr>"] Cons.prems
      by (simp add: put_byte_def Let_def)
  qed
qed simp

section \<open>The loop of the library\<close>

text \<open>
  A handle on a source of bytes and what it still has to deliver: first the bytes in the
  line-assembly buffer, then those of the transport.
\<close>

definition sourced :: "('w \<Rightarrow> bool) \<Rightarrow> 'w read_fn \<Rightarrow> 'w ec200_handle \<Rightarrow> bool" where
  "sourced live rd h \<longleftrightarrow> h_read h = rd \<and> live (user_ctx h) \<and> initialised h"

definition stream :: "('w \<Rightarrow> char list) \<Rightarrow> 'w ec200_handle \<Rightarrow> char list" where
  "stream pending h = rx_buf h @ pending (user_ctx h)"

context byte_source
begin

lemma read_one:
  assumes "sourced live rd h" and "stream pending h = c # cs"
  shows "\<exists>h'. ec200_at_read_raw h (Some [NUL]) 1 tmo (Some 0) = Some (h', EC200_OK, Some [c], Some 1) \<and>
    sourced live rd h' \<and> stream pending h' = cs"
proof (cases "rx_buf h")
  case Nil
  then obtain w where "rd 1 (poll_slice tmo) (user_ctx h) = (1, [c], w)" "live w" "pending w = cs"
    using assms read_some [of "user_ctx h" 1 "poll_slice tmo"] by (auto simp: sourced_def stream_def)
  then show ?thesis
    using assms Nil
    by (simp add: ec200_at_read_raw_def handle_ready_def sourced_def stream_def rx_take_buffered_def
        read_raw_loop.simps [of h _ "Suc 0" tmo] Let_def mem_store_def cast_u16_def)
next
  case (Cons d ds)
  then show ?thesis
    using assms
    by (simp add: ec200_at_read_raw_def handle_ready_def sourced_def stream_def rx_take_buffered_def
        Let_def mem_store_def)
qed

lemma read_raw_none:
  assumes "h_read h = rd" "live (user_ctx h)" "pending (user_ctx h) = []"
  shows "\<exists>w b'. read_raw_loop h b len t = (h\<lparr>user_ctx := w\<rparr>, EC200_ERR_TIMEOUT, b', 0) \<and> live w \<and> pending w = []"
  using assms
proof (induction h b len t rule: read_raw_loop.induct)
  case (1 h b len t)
  obtain w where w: "rd len (poll_slice t) (user_ctx h) = (0, [], w)" "live w" "pending w = []"
    using read_none [of "user_ctx h" len "poll_slice t"] "1.prems" by blast
  show ?case
  proof (cases "t = 0")
    case True
    then show ?thesis using w "1.prems"
      by (intro exI [of _ w]) (simp add: read_raw_loop.simps [of h b len 0] Let_def)
  next
    case False
    have "\<exists>w' b'. read_raw_loop (h\<lparr>user_ctx := w\<rparr>) (mem_store b 0 []) len (t - poll_slice t) =
        (h\<lparr>user_ctx := w\<rparr>\<lparr>user_ctx := w'\<rparr>, EC200_ERR_TIMEOUT, b', 0) \<and> live w' \<and> pending w' = []"
      using "1.IH" [of "poll_slice t" 0 "([], w)" "[]" w "h\<lparr>user_ctx := w\<rparr>"] w "1.prems" False by simp
    then show ?thesis using w "1.prems" False by (simp add: read_raw_loop.simps [of h b len t] Let_def)
  qed
qed

lemma read_one_none:
  assumes "sourced live rd h" and "stream pending h = []"
  shows "\<exists>h' b. ec200_at_read_raw h (Some [NUL]) 1 tmo (Some 0) = Some (h', EC200_ERR_TIMEOUT, b, Some 0) \<and>
    sourced live rd h' \<and> stream pending h' = []"
  using assms read_raw_none [of h "[NUL]" 1 tmo]
  by (auto simp: ec200_at_read_raw_def handle_ready_def sourced_def stream_def rx_take_buffered_def)

lemma read_body_stream:
  assumes "sourced live rd h" and "match_body a m (stream pending h) = (st, a', r)"
  shows "\<exists>h'. read_body_until_ok h a m b = Some (h', st, a') \<and> sourced live rd h' \<and>
    stream pending h' = r"
  using assms
proof (induction h a m b rule: read_body_until_ok.induct)
  case (1 h a m b)
  show ?case
  proof (cases "stream pending h")
    case Nil
    obtain h1 c where rd: "ec200_at_read_raw h (Some [NUL]) 1 (poll_slice b) (Some 0) =
          Some (h1, EC200_ERR_TIMEOUT, c, Some 0)" "sourced live rd h1" "stream pending h1 = []"
      using read_one_none [OF "1.prems"(1) Nil] by blast
    show ?thesis
    proof (cases "b = 0")
      case True
      then show ?thesis
        using rd "1.prems"(2) Nil by (simp add: read_body_until_ok.simps [of h _ m 0] Let_def)
    next
      case False
      have "match_body a m (stream pending h1) = (st, a', r)" using "1.prems"(2) Nil rd(3) by simp
      then have "\<exists>h'. read_body_until_ok h1 a m (b - poll_slice b) = Some (h', st, a') \<and>
          sourced live rd h' \<and> stream pending h' = r"
        using "1.IH"(1) [OF refl rd(1) refl refl refl _ refl False rd(2)] by simp
      then show ?thesis
        using rd(1) False by (simp add: read_body_until_ok.simps [of h a m b] Let_def)
    qed
  next
    case (Cons c cs)
    obtain h1 where rd: "ec200_at_read_raw h (Some [NUL]) 1 (poll_slice b) (Some 0) =
          Some (h1, EC200_OK, Some [c], Some 1)" "sourced live rd h1" "stream pending h1 = cs"
      using read_one [OF "1.prems"(1) Cons] by blast
    note IH = "1.IH"(2,3) [OF refl rd(1) refl refl refl]
    show ?thesis
    proof (cases "c = http_trailer ! m")
      case True
      then show ?thesis
        using IH(1) [of c] rd "1.prems"(2) Cons
        by (auto simp: read_body_until_ok.simps [of h a m b] Let_def split: if_splits)
    next
      case False
      obtain m1 a1 where mm: "mismatch_byte c m a = (m1, a1)" by (cases "mismatch_byte c m a")
      then show ?thesis
        using IH(2) [of c m1 a1] rd "1.prems"(2) Cons False
        by (auto simp: read_body_until_ok.simps [of h a m b] Let_def split: if_splits)
    qed
  qed
qed

end

section \<open>Properties\<close>

definition body_start :: "char list \<Rightarrow> body_acc" where
  "body_start buf = \<lparr>ba_buf = buf, ba_pos = 0, ba_overflow = False, ba_discarded = 0\<rparr>"

text \<open>
  C11. If the transport holds a body, the first trailer and more, and the body is at most
  \<open>HTTP_MAX_DISCARD\<close> = 65536 bytes longer than the caller's array, the loop stores exactly the
  bytes before that trailer: all of them when they fit the caller's array, and otherwise
  its length of them with \<open>EC200_ERR_OVERFLOW\<close>. In both cases it stops right behind the
  trailer, so the line that follows is read next. The body may contain line ends, \<open>OK\<close>
  lines without the blank line, and any prefix of the trailer. (A body that is longer still is
  given up in its middle, which the property \<open>http_body_bounds\<close> bounds.)
\<close>

theorem http_body_exact:
  assumes src: "byte_source live pending rd" and "sourced live rd h"
    and bytes: "stream pending h = body @ http_trailer @ rest"
    and first: "\<forall>k<length body. take 6 (drop k (body @ http_trailer @ rest)) \<noteq> http_trailer"
    and "length body \<le> length buf + HTTP_MAX_DISCARD"
  shows "\<exists>h' a. read_body_until_ok h (body_start buf) 0 tmo =
      Some (h', if length body \<le> length buf then EC200_OK else EC200_ERR_OVERFLOW, a) \<and>
    ba_buf a = take (length buf) body @ drop (length body) buf \<and>
    ba_pos a = min (length body) (length buf) \<and>
    sourced live rd h' \<and> stream pending h' = rest"
proof -
  let ?a = "fold put_byte body (body_start buf)"
  have a: "?a = \<lparr>ba_buf = take (length buf) body @ drop (length body) buf,
      ba_pos = min (length body) (length buf), ba_overflow = (length buf < length body),
      ba_discarded = length body - length buf\<rparr>"
    by (auto simp: fold_put body_start_def Let_def min_def)
  have "scan_body (body_start buf) (body @ http_trailer @ rest) =
      (if ba_overflow ?a then EC200_ERR_OVERFLOW else EC200_OK, ?a, rest)"
    using scan_to_trailer [OF first] by (simp add: Let_def)
  then have "match_body (body_start buf) 0 (stream pending h) =
      (if ba_overflow ?a then EC200_ERR_OVERFLOW else EC200_OK, ?a, rest)"
    using assms(5) a by (intro match_scan) (simp_all add: bytes)
  from byte_source.read_body_stream [OF src assms(2) this, of tmo]
  show ?thesis unfolding a by auto
qed

theorem http_body_exact_witness:
  "\<exists>h' a. read_body_until_ok (tape_handle (''a'' @ [CR, LF] @ ''OK'' @ [CR] @ http_trailer @ ''+QHTTPREAD: 0''))
      (body_start (replicate 8 NUL)) 0 1000 = Some (h', EC200_OK, a) \<and>
    take (ba_pos a) (ba_buf a) = ''a'' @ [CR, LF] @ ''OK'' @ [CR] \<and>
    stream fst h' = ''+QHTTPREAD: 0''"
proof -
  let ?body = "''a'' @ [CR, LF] @ ''OK'' @ [CR]" and ?rest = "''+QHTTPREAD: 0''"
  let ?h = "tape_handle (?body @ http_trailer @ ?rest)"
  have "\<forall>k<length ?body. take 6 (drop k (?body @ http_trailer @ ?rest)) \<noteq> http_trailer"
    by (auto simp: http_trailer_def less_Suc_eq)
  moreover have "sourced (\<lambda>_. True) tape_read ?h" "stream fst ?h = ?body @ http_trailer @ ?rest"
    by (simp_all add: sourced_def stream_def tape_handle_def fresh_handle_def)
  ultimately show ?thesis
    using http_body_exact [OF tps.byte_source_axioms, of ?h ?body ?rest "replicate 8 NUL" 1000] by auto
qed

lemma put_byte_frame:
  "ba_pos a \<le> length (ba_buf a) \<Longrightarrow>
   length (ba_buf (put_byte c a)) = length (ba_buf a) \<and> ba_pos (put_byte c a) \<le> length (ba_buf a) \<and>
   drop (ba_pos (put_byte c a)) (ba_buf (put_byte c a)) = drop (ba_pos (put_byte c a)) (ba_buf a) \<and>
   ba_pos a \<le> ba_pos (put_byte c a) \<and> ba_discarded (put_byte c a) \<le> ba_discarded a + 1"
  by (auto simp: put_byte_def)

text \<open>What one round keeps: the array, what is beyond the fill position, the discard bound.\<close>

definition body_frame :: "body_acc \<Rightarrow> body_acc \<Rightarrow> bool" where
  "body_frame a a' \<longleftrightarrow>
     length (ba_buf a') = length (ba_buf a) \<and> ba_pos a \<le> ba_pos a' \<and> ba_pos a' \<le> length (ba_buf a) \<and>
     drop (ba_pos a') (ba_buf a') = drop (ba_pos a') (ba_buf a)"

lemma body_frame_trans: "body_frame a b \<Longrightarrow> body_frame b c \<Longrightarrow> body_frame a c"
proof -
  assume ab: "body_frame a b" and bc: "body_frame b c"
  have "drop (ba_pos c) (ba_buf b) = drop (ba_pos c - ba_pos b) (drop (ba_pos b) (ba_buf b))"
    using bc by (simp add: body_frame_def)
  also have "\<dots> = drop (ba_pos c) (ba_buf a)"
    using ab bc by (simp add: body_frame_def)
  finally show ?thesis using ab bc by (simp add: body_frame_def)
qed

lemma fold_put_frame:
  "ba_pos a \<le> length (ba_buf a) \<Longrightarrow>
   body_frame a (fold put_byte cs a) \<and> ba_discarded (fold put_byte cs a) \<le> ba_discarded a + length cs"
proof (induction cs arbitrary: a)
  case Nil
  then show ?case by (simp add: body_frame_def)
next
  case (Cons c cs)
  have f: "body_frame a (put_byte c a)" "ba_discarded (put_byte c a) \<le> ba_discarded a + 1"
    using put_byte_frame [OF Cons.prems, of c] by (simp_all add: body_frame_def)
  then have "ba_pos (put_byte c a) \<le> length (ba_buf (put_byte c a))" by (simp add: body_frame_def)
  then show ?case using Cons.IH [of "put_byte c a"] f body_frame_trans by force
qed

lemma mismatch_frame:
  assumes "ba_pos a \<le> length (ba_buf a)" and "mismatch_byte c m a = (m', a')" and "m < 6"
  shows "body_frame a a' \<and> ba_discarded a' \<le> ba_discarded a + 6 \<and> m' < 6"
proof -
  have l: "length (take m http_trailer @ [c]) \<le> 6" "length (take m http_trailer) \<le> 6"
    using assms(3) by (simp_all add: trailer_nth)
  have "a' = fold put_byte (take m http_trailer) a \<or> a' = fold put_byte (take m http_trailer @ [c]) a"
    using assms(2) by (auto simp: mismatch_byte_def Let_def split: if_splits)
  then show ?thesis
    using fold_put_frame [OF assms(1), of "take m http_trailer"]
      fold_put_frame [OF assms(1), of "take m http_trailer @ [c]"] l assms(2)
    by (auto simp: mismatch_byte_def Let_def split: if_splits)
qed

lemma read_body_bounds:
  assumes "read_body_until_ok h a m tmo = Some (h', st, a')"
    and "ba_pos a \<le> length (ba_buf a)" and "m < 6" and "ba_discarded a \<le> HTTP_MAX_DISCARD"
  shows "body_frame a a' \<and> ba_discarded a' \<le> HTTP_MAX_DISCARD + 6"
  using assms
proof (induction h a m tmo arbitrary: h' st a' rule: read_body_until_ok.induct)
  case (1 h a m tmo)
  have self: "body_frame a a" using "1.prems"(2) by (simp add: body_frame_def)
  obtain h1 st1 c got where rd:
    "ec200_at_read_raw h (Some [NUL]) 1 (poll_slice tmo) (Some 0) = Some (h1, st1, c, got)"
    using "1.prems"(1) by (auto simp: read_body_until_ok.simps [of h a m tmo] Let_def split: option.splits)
  note run = "1.prems"(1) [unfolded read_body_until_ok.simps [of h a m tmo] Let_def rd option.case prod.case]
  note IH = "1.IH" [OF refl rd refl refl refl]
  show ?case
  proof (cases "st1 = EC200_ERR_IO \<or> st1 = EC200_ERR_TIMEOUT")
    case True
    then show ?thesis
      using run self "1.prems"(2-4) IH(1) by (auto split: if_splits)
  next
    case byte: False
    show ?thesis
    proof (cases "hd (the c) = http_trailer ! m")
      case True
      then show ?thesis
        using run byte self "1.prems"(2-4) IH(2) by (auto simp: trailer_nth split: if_splits)
    next
      case False
      obtain m1 a1 where mm: "mismatch_byte (hd (the c)) m a = (m1, a1)"
        by (cases "mismatch_byte (hd (the c)) m a")
      have f: "body_frame a a1 \<and> ba_discarded a1 \<le> ba_discarded a + 6 \<and> m1 < 6"
        using "1.prems"(2,3) mm by (intro mismatch_frame) simp_all
      show ?thesis
      proof (cases "ba_discarded a1 > HTTP_MAX_DISCARD")
        case True
        then show ?thesis using run byte False mm f "1.prems"(4) by auto
      next
        case more: False
        have "ba_pos a1 \<le> length (ba_buf a1)" using f by (simp add: body_frame_def)
        then have "body_frame a1 a' \<and> ba_discarded a' \<le> HTTP_MAX_DISCARD + 6"
          using run byte False mm f more IH(3) [of "hd (the c)" m1 a1] by auto
        then show ?thesis using f body_frame_trans by blast
      qed
    qed
  qed
qed

text \<open>
  C12. On every transport, whatever it delivers, the loop never stores outside the caller's
  array, never touches the bytes behind the reported count, and discards at most
  \<open>HTTP_MAX_DISCARD\<close> bytes and the six of one trailer before it gives up.
\<close>

theorem http_body_bounds:
  assumes "read_body_until_ok h a m tmo = Some (h', st, a')"
    and "ba_pos a \<le> length (ba_buf a)" and "m < 6" and "ba_discarded a \<le> HTTP_MAX_DISCARD"
  shows "body_frame a a' \<and> ba_discarded a' \<le> HTTP_MAX_DISCARD + 6"
  using assms by (rule read_body_bounds)

theorem http_body_bounds_witness:
  "\<exists>h' a. read_body_until_ok (tape_handle http_trailer) (body_start [NUL]) 0 0 = Some (h', EC200_OK, a) \<and>
     length (ba_buf a) = 1"
proof -
  have "sourced (\<lambda>_. True) tape_read (tape_handle http_trailer)"
    "stream fst (tape_handle http_trailer) = http_trailer"
    by (simp_all add: sourced_def stream_def tape_handle_def fresh_handle_def)
  moreover have "match_body (body_start [NUL]) 0 http_trailer = (EC200_OK, body_start [NUL], [])"
    by (simp add: http_trailer_def body_start_def)
  ultimately obtain h' where h': "read_body_until_ok (tape_handle http_trailer) (body_start [NUL]) 0 0 =
      Some (h', EC200_OK, body_start [NUL])"
    using byte_source.read_body_stream [OF tps.byte_source_axioms, of "tape_handle http_trailer"
        "body_start [NUL]" 0 EC200_OK "body_start [NUL]" "[]" 0] by auto
  then show ?thesis
    using http_body_bounds [OF h'] by (auto simp: body_start_def body_frame_def)
qed

end
