(* ===== verification/Ec200_Registry.thy ===== *)
theory Ec200_Registry
  imports Ec200_Mqtt Ec200_Loopback
begin

text \<open>
  The table of URC handlers. The locale \<open>handler_table\<close> is the contract of a bounded table
  keyed by prefixes; the table of the handle is interpreted as one, with
  \<^verbatim>\<open>ec200_at_register_urc\<close> and \<^verbatim>\<open>ec200_at_unregister_urc\<close> as its operations.
  On it rest the dispatch of a line and the delivery of MQTT messages.
\<close>

section \<open>Bounded tables\<close>

locale handler_table =
  fixes good :: "'t \<Rightarrow> bool"
    and lookup :: "'t \<Rightarrow> 'k \<Rightarrow> 'v option"
    and insert_in :: "'t \<Rightarrow> 'k \<Rightarrow> 'v \<Rightarrow> 't option"
    and delete_in :: "'t \<Rightarrow> 'k \<Rightarrow> 't option"
    and capacity :: nat
  assumes insert_Some:
      "good t \<Longrightarrow> insert_in t k v = Some t' \<Longrightarrow> good t' \<and> lookup t' = (lookup t)(k \<mapsto> v)"
    and insert_None:
      "good t \<Longrightarrow> insert_in t k v = None \<longleftrightarrow> lookup t k = None \<and> card (dom (lookup t)) = capacity"
    and delete_Some:
      "good t \<Longrightarrow> delete_in t k = Some t' \<Longrightarrow> good t' \<and> lookup t' = (lookup t)(k := None)"
    and delete_None: "good t \<Longrightarrow> delete_in t k = None \<longleftrightarrow> lookup t k = None"
begin

lemma replace_succeeds: "good t \<Longrightarrow> lookup t k = Some v \<Longrightarrow> \<exists>t'. insert_in t k v' = Some t'"
  using insert_None [of t k v'] by (cases "insert_in t k v'") auto

lemma insert_then_delete:
  assumes "good t" "lookup t k = None" "insert_in t k v = Some t1"
  shows "\<exists>t2. delete_in t1 k = Some t2 \<and> good t2 \<and> lookup t2 = lookup t"
proof -
  have t1: "good t1" "lookup t1 = (lookup t)(k \<mapsto> v)" using insert_Some assms by blast+
  then obtain t2 where t2: "delete_in t1 k = Some t2"
    using delete_None [of t1 k] by (cases "delete_in t1 k") auto
  then show ?thesis using delete_Some [OF t1(1) t2] t1 assms(2) by auto
qed

lemma delete_makes_room:
  assumes "good t" "card (dom (lookup t)) = capacity" "finite (dom (lookup t))"
    and "delete_in t k = Some t1" "lookup t1 k' = None"
  shows "\<exists>t2. insert_in t1 k' v = Some t2"
proof -
  have t1: "good t1" "lookup t1 = (lookup t)(k := None)" using delete_Some assms by blast+
  have "k \<in> dom (lookup t)" using delete_None [OF assms(1), of k] assms(4) by auto
  then have "card (dom (lookup t1)) < capacity"
    using assms(2,3) card_Diff1_less [of "dom (lookup t)" k] by (simp add: t1(2))
  then show ?thesis using insert_None [OF t1(1), of k' v] by (cases "insert_in t1 k' v") auto
qed

end

section \<open>The table of the handle\<close>

text \<open>The handler of a prefix, and the shape of the table after any calls of the library.\<close>

type_synonym 'w urc_entries = "'w ec200_urc_entry list"

fun slot_lookup :: "'w urc_entries \<Rightarrow> string \<Rightarrow> ('w urc_handler_fn option \<times> urc_ctx) option" where
  "slot_lookup [] p = None"
| "slot_lookup (e # es) p =
     (if ue_prefix e = Some p then Some (ue_fn e, ue_ctx e) else slot_lookup es p)"

definition used_prefixes :: "'w urc_entries \<Rightarrow> string list" where
  "used_prefixes es = List.map_filter ue_prefix es"

definition table_ok :: "'w urc_entries \<Rightarrow> bool" where
  "table_ok es \<longleftrightarrow> length es = EC200_MAX_URC_HANDLERS \<and> distinct (used_prefixes es)"

definition table_insert ::
    "'w urc_entries \<Rightarrow> string \<Rightarrow> 'w urc_handler_fn option \<times> urc_ctx \<Rightarrow> 'w urc_entries option" where
  "table_insert es p v =
     (case find_slot (\<lambda>e. ue_prefix e = Some p) es of
        Some i \<Rightarrow> Some (es[i := (es ! i)\<lparr>ue_fn := fst v, ue_ctx := snd v\<rparr>])
      | None \<Rightarrow>
          (case find_slot (\<lambda>e. ue_prefix e = None) es of
             Some i \<Rightarrow> Some (es[i := \<lparr>ue_prefix = Some p, ue_fn = fst v, ue_ctx = snd v\<rparr>])
           | None \<Rightarrow> None))"

definition table_delete :: "'w urc_entries \<Rightarrow> string \<Rightarrow> 'w urc_entries option" where
  "table_delete es p = map_option (\<lambda>i. es[i := free_urc_entry]) (find_slot (\<lambda>e. ue_prefix e = Some p) es)"

lemma register_table:
  assumes "p \<noteq> []"
  shows "ec200_at_register_urc h (Some p) (Some f) c =
    (case table_insert (urc_table h) p (Some f, c) of
       Some es \<Rightarrow> (h\<lparr>urc_table := es\<rparr>, EC200_OK) | None \<Rightarrow> (h, EC200_ERR_OVERFLOW))"
  using assms by (simp add: ec200_at_register_urc_def table_insert_def split: option.split)

lemma unregister_table:
  "ec200_at_unregister_urc h (Some p) =
    (case table_delete (urc_table h) p of
       Some es \<Rightarrow> (h\<lparr>urc_table := es\<rparr>, EC200_OK) | None \<Rightarrow> (h, EC200_ERR_PARAM))"
  by (simp add: ec200_at_unregister_urc_def table_delete_def split: option.split)

lemma used_simps [simp]:
  "used_prefixes [] = []"
  "used_prefixes (e # es) = (case ue_prefix e of None \<Rightarrow> used_prefixes es | Some p \<Rightarrow> p # used_prefixes es)"
  by (simp_all add: used_prefixes_def map_filter_def split: option.split)

lemma used_append [simp]: "used_prefixes (es @ fs) = used_prefixes es @ used_prefixes fs"
  by (induction es) (simp_all split: option.split)

lemma lookup_append: "slot_lookup (es @ fs) p = (case slot_lookup es p of Some v \<Rightarrow> Some v | None \<Rightarrow> slot_lookup fs p)"
  by (induction es) simp_all

lemma lookup_None: "slot_lookup es p = None \<longleftrightarrow> p \<notin> set (used_prefixes es)"
  by (induction es) (auto split: option.splits)

lemma dom_lookup: "dom (slot_lookup es) = set (used_prefixes es)"
  using lookup_None [of es] by (auto simp: dom_def)

lemma find_slot_Some:
  "find_slot P es = Some i \<Longrightarrow>
   \<exists>pre e post. es = pre @ e # post \<and> length pre = i \<and> P e \<and> (\<forall>x\<in>set pre. \<not> P x)"
proof (induction P es arbitrary: i rule: find_slot.induct)
  case (2 P e es)
  show ?case
  proof (cases "P e")
    case True
    then show ?thesis using "2.prems" by (intro exI [of _ "[]"]) simp
  next
    case False
    then obtain j where "find_slot P es = Some j" "i = Suc j" using "2.prems" by auto
    with "2.IH" [OF False] obtain pre x post where
      "es = pre @ x # post" "length pre = j" "P x" "\<forall>y\<in>set pre. \<not> P y" by blast
    then show ?thesis
      using False \<open>i = Suc j\<close> by (intro exI [of _ "e # pre"]) auto
  qed
qed simp

lemma find_slot_None: "find_slot P es = None \<longleftrightarrow> (\<forall>e\<in>set es. \<not> P e)"
  by (induction P es rule: find_slot.induct) auto

lemma used_full: "\<forall>e\<in>set es. ue_prefix e \<noteq> None \<Longrightarrow> length (used_prefixes es) = length es"
  by (induction es) auto

lemma used_not_full: "e \<in> set es \<Longrightarrow> ue_prefix e = None \<Longrightarrow> length (used_prefixes es) < length es"
proof (induction es)
  case (Cons x es)
  have "length (used_prefixes es) \<le> length es"
    by (induction es) (auto split: option.split)
  then show ?case using Cons by (auto split: option.split)
qed simp

lemma used_member: "p \<in> set (used_prefixes es) \<longleftrightarrow> (\<exists>e\<in>set es. ue_prefix e = Some p)"
  by (induction es) (auto split: option.splits)

text \<open>The laws of the contract, for the slots of the code.\<close>

lemma table_insert_Some:
  assumes ok: "table_ok es" and ins: "table_insert es p v = Some es'"
  shows "table_ok es' \<and> slot_lookup es' = (slot_lookup es)(p \<mapsto> v)"
proof (cases "find_slot (\<lambda>e. ue_prefix e = Some p) es")
  case (Some i)
  obtain pre e post where s: "es = pre @ e # post" "length pre = i" "ue_prefix e = Some p"
      "\<forall>x\<in>set pre. ue_prefix x \<noteq> Some p"
    using find_slot_Some [OF Some] by blast
  have es': "es' = pre @ e\<lparr>ue_fn := fst v, ue_ctx := snd v\<rparr> # post"
    using ins Some s(1) s(2) [symmetric] by (simp add: table_insert_def)
  have "p \<notin> set (used_prefixes pre)" using s(4) by (auto simp: used_member)
  then have "slot_lookup pre p = None" by (simp add: lookup_None)
  then show ?thesis
    using ok s es' by (auto simp: table_ok_def lookup_append fun_eq_iff split: option.split)
next
  case None
  then obtain i where i: "find_slot (\<lambda>e. ue_prefix e = None) es = Some i"
    using ins by (auto simp: table_insert_def split: option.splits)
  obtain pre e post where s: "es = pre @ e # post" "length pre = i" "ue_prefix e = None"
    using find_slot_Some [OF i] by blast
  have es': "es' = pre @ \<lparr>ue_prefix = Some p, ue_fn = fst v, ue_ctx = snd v\<rparr> # post"
    using ins None i s(1) s(2) [symmetric] by (simp add: table_insert_def)
  have "p \<notin> set (used_prefixes es)" using None by (auto simp: find_slot_None used_member)
  then have p: "p \<notin> set (used_prefixes pre)" "p \<notin> set (used_prefixes post)" using s by auto
  then have "slot_lookup pre p = None" "slot_lookup post p = None" by (simp_all add: lookup_None)
  then show ?thesis
    using ok s es' p by (auto simp: table_ok_def lookup_append fun_eq_iff split: option.split)
qed

lemma table_insert_None:
  assumes ok: "table_ok es"
  shows "table_insert es p v = None \<longleftrightarrow>
    slot_lookup es p = None \<and> card (dom (slot_lookup es)) = EC200_MAX_URC_HANDLERS"
proof -
  have c: "card (dom (slot_lookup es)) = length (used_prefixes es)"
    using ok by (simp add: dom_lookup distinct_card table_ok_def)
  have p: "find_slot (\<lambda>e. ue_prefix e = Some p) es = None \<longleftrightarrow> slot_lookup es p = None"
    by (auto simp: find_slot_None lookup_None used_member)
  have f: "find_slot (\<lambda>e. ue_prefix e = None) es = None \<longleftrightarrow> length (used_prefixes es) = length es"
    using used_full [of es] used_not_full [of _ es] by (force simp: find_slot_None)
  show ?thesis
    using ok c p f by (auto simp: table_insert_def table_ok_def split: option.splits)
qed

lemma table_delete_Some:
  assumes ok: "table_ok es" and del: "table_delete es p = Some es'"
  shows "table_ok es' \<and> slot_lookup es' = (slot_lookup es)(p := None)"
proof -
  obtain i where i: "find_slot (\<lambda>e. ue_prefix e = Some p) es = Some i" "es' = es[i := free_urc_entry]"
    using del by (auto simp: table_delete_def)
  obtain pre e post where s: "es = pre @ e # post" "length pre = i" "ue_prefix e = Some p"
    using find_slot_Some [OF i(1)] by blast
  have es': "es' = pre @ free_urc_entry # post" using i(2) s(1) s(2) [symmetric] by simp
  have "p \<notin> set (used_prefixes pre)" "p \<notin> set (used_prefixes post)"
    using ok s by (auto simp: table_ok_def)
  then have "slot_lookup pre p = None" "slot_lookup post p = None" by (simp_all add: lookup_None)
  then show ?thesis
    using ok s es' by (auto simp: table_ok_def lookup_append fun_eq_iff free_urc_entry_def split: option.split)
qed

lemma table_delete_None: "table_delete es p = None \<longleftrightarrow> slot_lookup es p = None"
  by (auto simp: table_delete_def find_slot_None lookup_None used_member)

interpretation urcs: handler_table table_ok slot_lookup table_insert table_delete EC200_MAX_URC_HANDLERS
  by unfold_locales (use table_insert_Some table_insert_None table_delete_Some table_delete_None in blast)+

section \<open>Registering a handler\<close>

definition registered_at :: "'w ec200_handle \<Rightarrow> string \<Rightarrow> ('w urc_handler_fn option \<times> urc_ctx) option" where
  "registered_at h = slot_lookup (urc_table h)"

definition room_for :: "'w ec200_handle \<Rightarrow> string \<Rightarrow> bool" where
  "room_for h p \<longleftrightarrow> registered_at h p \<noteq> None \<or> card (dom (registered_at h)) < EC200_MAX_URC_HANDLERS"

lemma used_free [simp]: "used_prefixes (replicate n free_urc_entry) = []"
  by (induction n) (simp_all add: free_urc_entry_def)

lemma lookup_free [simp]: "slot_lookup (replicate n free_urc_entry) = (\<lambda>p. None)"
  by (induction n) (simp_all add: free_urc_entry_def fun_eq_iff)

lemma fresh_table_ok [simp]: "table_ok (replicate EC200_MAX_URC_HANDLERS free_urc_entry)"
  by (simp add: table_ok_def)

lemma registered_fresh [simp]: "registered_at (lb_handle lb) p = None"
  by (simp add: registered_at_def)

lemma card_registered: "table_ok (urc_table h) \<Longrightarrow> card (dom (registered_at h)) \<le> EC200_MAX_URC_HANDLERS"
proof -
  assume ok: "table_ok (urc_table h)"
  have le: "length (used_prefixes es) \<le> length es" for es :: "'a urc_entries"
    by (induction es) (auto split: option.split)
  have "card (dom (registered_at h)) = length (used_prefixes (urc_table h))"
    using ok by (simp add: registered_at_def dom_lookup distinct_card table_ok_def)
  then show ?thesis using ok le [of "urc_table h"] by (simp add: table_ok_def)
qed

lemma register_changes_map:
  assumes "table_ok (urc_table h)" and "p \<noteq> []"
  shows "if room_for h p
    then \<exists>es. ec200_at_register_urc h (Some p) (Some f) c = (h\<lparr>urc_table := es\<rparr>, EC200_OK) \<and>
           table_ok es \<and> slot_lookup es = (registered_at h)(p \<mapsto> (Some f, c))
    else ec200_at_register_urc h (Some p) (Some f) c = (h, EC200_ERR_OVERFLOW)"
proof (cases "table_insert (urc_table h) p (Some f, c)")
  case None
  then show ?thesis
    using urcs.insert_None [OF assms(1), of p "(Some f, c)"] assms(2)
    by (simp add: register_table room_for_def registered_at_def)
next
  case (Some es)
  then have "\<not> (slot_lookup (urc_table h) p = None \<and>
      card (dom (slot_lookup (urc_table h))) = EC200_MAX_URC_HANDLERS)"
    using urcs.insert_None [OF assms(1), of p "(Some f, c)"] by simp
  then have "room_for h p"
    using card_registered [OF assms(1)] by (auto simp: room_for_def registered_at_def)
  then show ?thesis
    using urcs.insert_Some [OF assms(1) Some] Some assms(2)
    by (auto simp: register_table registered_at_def intro!: exI [of _ es])
qed

lemma unregister_changes_map:
  assumes "table_ok (urc_table h)"
  shows "(case registered_at h p of
       None \<Rightarrow> ec200_at_unregister_urc h (Some p) = (h, EC200_ERR_PARAM)
     | Some _ \<Rightarrow> (\<exists>es. ec200_at_unregister_urc h (Some p) = (h\<lparr>urc_table := es\<rparr>, EC200_OK) \<and>
         table_ok es \<and> slot_lookup es = (registered_at h)(p := None))) \<and>
    (registered_at h p = None \<and> p \<noteq> [] \<and> ec200_at_register_urc h (Some p) (Some f) c = (h1, EC200_OK) \<longrightarrow>
      (\<exists>h2. ec200_at_unregister_urc h1 (Some p) = (h2, EC200_OK) \<and> registered_at h2 = registered_at h))"
proof (intro conjI impI)
  show "case registered_at h p of
       None \<Rightarrow> ec200_at_unregister_urc h (Some p) = (h, EC200_ERR_PARAM)
     | Some _ \<Rightarrow> (\<exists>es. ec200_at_unregister_urc h (Some p) = (h\<lparr>urc_table := es\<rparr>, EC200_OK) \<and>
         table_ok es \<and> slot_lookup es = (registered_at h)(p := None))"
    using urcs.delete_None [OF assms, of p] urcs.delete_Some [OF assms, of p]
    by (cases "table_delete (urc_table h) p") (auto simp: unregister_table registered_at_def split: option.split)
next
  assume a: "registered_at h p = None \<and> p \<noteq> [] \<and> ec200_at_register_urc h (Some p) (Some f) c = (h1, EC200_OK)"
  then obtain es where es: "table_insert (urc_table h) p (Some f, c) = Some es" "h1 = h\<lparr>urc_table := es\<rparr>"
    by (auto simp: register_table split: option.splits)
  obtain es2 where "table_delete es p = Some es2" "slot_lookup es2 = slot_lookup (urc_table h)"
    using urcs.insert_then_delete [OF assms _ es(1)] a by (auto simp: registered_at_def)
  then show "\<exists>h2. ec200_at_unregister_urc h1 (Some p) = (h2, EC200_OK) \<and> registered_at h2 = registered_at h"
    using es(2) by (auto simp: unregister_table registered_at_def)
qed

text \<open>
  C15. The table of URC handlers is a map from prefixes to handlers bounded by
  \<open>EC200_MAX_URC_HANDLERS\<close>. Registering a non-empty prefix overwrites the handler of that
  prefix, or adds one while there is a free slot; every other prefix keeps its handler. In a
  full table a new prefix is refused with \<open>EC200_ERR_OVERFLOW\<close> and nothing changes.
  Unregistering removes exactly the handler of that prefix; an unknown prefix is answered with
  \<open>EC200_ERR_PARAM\<close> and nothing changes. Registering a new prefix and unregistering it
  again restores the whole map, and neither call changes anything but the table.
\<close>

theorem register_updates_map:
  assumes "table_ok (urc_table h)"
  shows "(p \<noteq> [] \<longrightarrow>
      (if room_for h p
       then \<exists>es. ec200_at_register_urc h (Some p) (Some f) c = (h\<lparr>urc_table := es\<rparr>, EC200_OK) \<and>
              table_ok es \<and> slot_lookup es = (registered_at h)(p \<mapsto> (Some f, c))
       else ec200_at_register_urc h (Some p) (Some f) c = (h, EC200_ERR_OVERFLOW))) \<and>
    (case registered_at h p of
       None \<Rightarrow> ec200_at_unregister_urc h (Some p) = (h, EC200_ERR_PARAM)
     | Some _ \<Rightarrow> (\<exists>es. ec200_at_unregister_urc h (Some p) = (h\<lparr>urc_table := es\<rparr>, EC200_OK) \<and>
         table_ok es \<and> slot_lookup es = (registered_at h)(p := None))) \<and>
    (registered_at h p = None \<and> p \<noteq> [] \<and> ec200_at_register_urc h (Some p) (Some f) c = (h1, EC200_OK) \<longrightarrow>
      (\<exists>h2. ec200_at_unregister_urc h1 (Some p) = (h2, EC200_OK) \<and> registered_at h2 = registered_at h))"
  using register_changes_map [OF assms] unregister_changes_map [OF assms] by blast

theorem register_updates_map_witness:
  "(\<exists>es. ec200_at_register_urc (lb_handle lb_reset) (Some ''+CMTI:'') (Some MqttRecvUrc) CtxNull =
      ((lb_handle lb_reset)\<lparr>urc_table := es\<rparr>, EC200_OK) \<and>
      slot_lookup es ''+CMTI:'' = Some (Some MqttRecvUrc, CtxNull)) \<and>
   ec200_at_unregister_urc (lb_handle lb_reset) (Some ''+CMTI:'') = (lb_handle lb_reset, EC200_ERR_PARAM)"
proof -
  let ?h = "lb_handle lb_reset"
  have "room_for ?h ''+CMTI:''"
    by (simp add: room_for_def registered_at_def size_defs)
  then show ?thesis
    using register_updates_map [of ?h "''+CMTI:''" MqttRecvUrc CtxNull ?h] by auto
qed

section \<open>Dispatching a line\<close>

lemma dispatch_found:
  assumes "slot_lookup es p = Some (Some f, c)" and "take (length p) line = p"
    and "\<forall>q\<in>set (used_prefixes es). take (length q) line = q \<longrightarrow> q = p"
  shows "dispatch_slots es h line = (call_urc_handler f line c h, True)"
  using assms
proof (induction es)
  case (Cons e es)
  show ?case
  proof (cases "ue_prefix e")
    case None
    then show ?thesis using Cons.IH Cons.prems(1,2) Cons.prems(3) by simp
  next
    case (Some q)
    show ?thesis
    proof (cases "q = p")
      case True
      then show ?thesis using Cons.prems(1,2) Some by (simp add: strncmp_eq_take)
    next
      case False
      then have "take (length q) line \<noteq> q" using Cons.prems(3) Some by auto
      moreover have "dispatch_slots es h line = (call_urc_handler f line c h, True)"
        using Cons.prems Some False by (intro Cons.IH) auto
      ultimately show ?thesis using Some by (simp add: strncmp_eq_take)
    qed
  qed
qed simp

lemma dispatch_missed:
  "\<forall>q\<in>set (used_prefixes es). take (length q) line \<noteq> q \<Longrightarrow> dispatch_slots es h line = (h, False)"
  by (induction es h line rule: dispatch_slots.induct) (auto simp: strncmp_eq_take split: option.splits)

text \<open>
  C16. A line goes to the handler of its prefix: if exactly one registered prefix starts the
  line, the handler registered for it is called, once, with the whole line and its context,
  and the line is consumed; if none does, nothing happens and the line is left to the caller.
\<close>

theorem dispatch_by_prefix:
  assumes "\<forall>q. registered_at h q \<noteq> None \<and> take (length q) line = q \<longrightarrow> q = p"
    and "registered_at h p = None \<or> (\<exists>f c. registered_at h p = Some (Some f, c))"
  shows "dispatch_registered_urc h line =
    (case registered_at h p of
       Some (Some f, c) \<Rightarrow>
         if take (length p) line = p then (call_urc_handler f line c h, True) else (h, False)
     | _ \<Rightarrow> (h, False))"
proof -
  have q: "q \<in> set (used_prefixes (urc_table h)) \<longleftrightarrow> registered_at h q \<noteq> None" for q
    by (auto simp: registered_at_def lookup_None)
  show ?thesis
  proof (cases "registered_at h p \<noteq> None \<and> take (length p) line = p")
    case True
    then obtain f c where fc: "registered_at h p = Some (Some f, c)" using assms(2) by auto
    have "\<forall>r\<in>set (used_prefixes (urc_table h)). take (length r) line = r \<longrightarrow> r = p"
      using assms(1) q by blast
    then have "dispatch_slots (urc_table h) h line = (call_urc_handler f line c h, True)"
      using fc True by (intro dispatch_found) (simp_all add: registered_at_def)
    then show ?thesis using True fc by (simp add: dispatch_registered_urc_def)
  next
    case False
    then have "\<forall>r\<in>set (used_prefixes (urc_table h)). take (length r) line \<noteq> r"
      using assms(1) q by metis
    then have "dispatch_slots (urc_table h) h line = (h, False)" by (rule dispatch_missed)
    then show ?thesis
      using False assms(2) by (auto simp: dispatch_registered_urc_def)
  qed
qed

text \<open>A handler that takes the line and its context to the host's receive buffer.\<close>

definition note_line :: "string \<Rightarrow> urc_ctx \<Rightarrow> loopback \<Rightarrow> loopback" where
  "note_line l c w = w\<lparr>lb_rx := (if c = CtxNull then l else [])\<rparr>"

theorem dispatch_by_prefix_witness:
  "\<exists>h. ec200_at_register_urc (lb_handle lb_reset) (Some ''+CMTI:'') (Some (UserUrc note_line)) CtxNull =
         (h, EC200_OK) \<and>
       dispatch_registered_urc h (''+CMTI: '' @ quoted ''SM'' @ '',3'') =
         (h\<lparr>user_ctx := note_line (''+CMTI: '' @ quoted ''SM'' @ '',3'') CtxNull (user_ctx h)\<rparr>, True) \<and>
       dispatch_registered_urc h ''RING'' = (h, False)"
proof -
  let ?h = "lb_handle lb_reset" and ?l = "''+CMTI: '' @ quoted ''SM'' @ '',3''"
  have "room_for ?h ''+CMTI:''" by (simp add: room_for_def registered_at_def size_defs)
  then obtain es where es: "ec200_at_register_urc ?h (Some ''+CMTI:'') (Some (UserUrc note_line)) CtxNull =
      (?h\<lparr>urc_table := es\<rparr>, EC200_OK)"
      "slot_lookup es = (registered_at ?h)(''+CMTI:'' \<mapsto> (Some (UserUrc note_line), CtxNull))"
    using register_changes_map [of ?h "''+CMTI:''" "UserUrc note_line" CtxNull] by auto
  define h where "h = ?h\<lparr>urc_table := es\<rparr>"
  have reg: "registered_at h = [''+CMTI:'' \<mapsto> (Some (UserUrc note_line), CtxNull)]"
    using es(2) by (auto simp: h_def registered_at_def [of "_ \<lparr>urc_table := _\<rparr>"])
  have "dispatch_registered_urc h ?l = (h\<lparr>user_ctx := note_line ?l CtxNull (user_ctx h)\<rparr>, True)"
    using dispatch_by_prefix [of h ?l "''+CMTI:''"] by (simp add: reg call_urc_handler_def)
  moreover have "dispatch_registered_urc h ''RING'' = (h, False)"
    using dispatch_by_prefix [of h "''RING''" "''+CMTI:''"] by (simp add: reg)
  ultimately show ?thesis using es(1) by (auto simp: h_def [symmetric])
qed

end
