(* ===== verification/Ec200_Urc.thy ===== *)
theory Ec200_Urc
  imports Ec200_Transactions
begin

text \<open>
  Unsolicited lines in the middle of a transaction: each reaches the handler of its prefix, in the
  order of arrival, and the transaction goes on as if it had not been there. \<open>heard\<close> is what the
  handlers have been given, as far as the world records it; \<open>report e l\<close> is what the handler of
  the slot \<open>e\<close> adds to it for the line \<open>l\<close>.
\<close>

section \<open>Handlers that record their lines\<close>

text \<open>The slot that takes a line: the first one whose prefix starts it.\<close>

definition takes :: "'w ec200_urc_entry \<Rightarrow> string \<Rightarrow> bool" where
  "takes e l = (case ue_prefix e of None \<Rightarrow> False | Some p \<Rightarrow> strncmp_eq l p (length p))"

definition owner :: "'w ec200_urc_entry list \<Rightarrow> string \<Rightarrow> 'w ec200_urc_entry option" where
  "owner es l = find (\<lambda>e. takes e l) es"

definition given ::
    "('w ec200_urc_entry \<Rightarrow> string \<Rightarrow> 'r list) \<Rightarrow> 'w ec200_urc_entry list \<Rightarrow> string \<Rightarrow> 'r list" where
  "given report es l = (case owner es l of None \<Rightarrow> [] | Some e \<Rightarrow> report e l)"

lemma registered_owner: "registered es l \<longleftrightarrow> owner es l \<noteq> None"
  by (auto simp: registered_def owner_def takes_def find_None_iff split: option.splits)

lemma not_given: "\<not> registered es l \<Longrightarrow> given report es l = []"
  by (simp add: registered_owner given_def)

text \<open>A handler changes the world only, and sees nothing of the handle but the MQTT callback.\<close>

definition world_after :: "'w urc_handler_fn \<Rightarrow> string \<Rightarrow> urc_ctx \<Rightarrow> 'w ec200_handle \<Rightarrow> 'w \<Rightarrow> 'w" where
  "world_after f l c h w = user_ctx (call_urc_handler f l c (h\<lparr>user_ctx := w\<rparr>))"

lemma call_world: "call_urc_handler f l c h = h\<lparr>user_ctx := world_after f l c h (user_ctx h)\<rparr>"
  by (auto simp: world_after_def call_urc_handler_def mqtt_recv_urc_def split: urc_handler_fn.split option.split)

lemma world_after_cong: "mqtt_msg_cb h' = mqtt_msg_cb h \<Longrightarrow> world_after f l c h' = world_after f l c h"
  by (auto simp: fun_eq_iff world_after_def call_urc_handler_def mqtt_recv_urc_def
      split: urc_handler_fn.split option.split)

definition records ::
    "('w \<Rightarrow> bool) \<Rightarrow> ('w \<Rightarrow> char list) \<Rightarrow> ('w \<Rightarrow> 'r list) \<Rightarrow> ('w ec200_urc_entry \<Rightarrow> string \<Rightarrow> 'r list)
     \<Rightarrow> 'w ec200_handle \<Rightarrow> bool" where
  "records live pending heard report h \<longleftrightarrow>
     (\<forall>e\<in>set (urc_table h). ue_prefix e \<noteq> None \<longrightarrow>
        (\<exists>f. ue_fn e = Some f \<and>
           (\<forall>l w. live w \<longrightarrow> live (world_after f l (ue_ctx e) h w) \<and>
              pending (world_after f l (ue_ctx e) h w) = pending w \<and>
              heard (world_after f l (ue_ctx e) h w) = heard w @ report e l)))"

lemma records_cong:
  "urc_table h' = urc_table h \<Longrightarrow> mqtt_msg_cb h' = mqtt_msg_cb h \<Longrightarrow>
   records live pending heard report h' = records live pending heard report h"
  by (simp add: records_def world_after_cong [of h' h])

lemma slots_record:
  assumes "records live pending heard report h" and "live (user_ctx h)" and "set es \<subseteq> set (urc_table h)"
  shows "\<exists>w. dispatch_slots es h l = (h\<lparr>user_ctx := w\<rparr>, registered es l) \<and> live w \<and>
    pending w = pending (user_ctx h) \<and> heard w = heard (user_ctx h) @ given report es l"
  using assms(3)
proof (induction es)
  case Nil
  show ?case
    using assms(2) by (intro exI [of _ "user_ctx h"]) (simp add: registered_def given_def owner_def)
next
  case (Cons e es)
  show ?case
  proof (cases "takes e l")
    case True
    then obtain p where p: "ue_prefix e = Some p" "strncmp_eq l p (length p)"
      by (auto simp: takes_def split: option.splits)
    obtain f where f: "ue_fn e = Some f" "live (world_after f l (ue_ctx e) h (user_ctx h))"
        "pending (world_after f l (ue_ctx e) h (user_ctx h)) = pending (user_ctx h)"
        "heard (world_after f l (ue_ctx e) h (user_ctx h)) = heard (user_ctx h) @ report e l"
      using assms(1,2) Cons.prems p(1) by (fastforce simp: records_def)
    have "given report (e # es) l = report e l" "registered (e # es) l"
      using True p by (auto simp: given_def owner_def registered_def)
    then show ?thesis
      using p f call_world [of f l "ue_ctx e" h]
      by (intro exI [of _ "world_after f l (ue_ctx e) h (user_ctx h)"]) simp
  next
    case False
    then have "given report (e # es) l = given report es l" "registered (e # es) l = registered es l"
      "dispatch_slots (e # es) h l = dispatch_slots es h l"
      by (auto simp: given_def owner_def registered_def takes_def split: option.splits)
    then show ?thesis using Cons by simp
  qed
qed

section \<open>Lines that arrive\<close>

text \<open>A handle whose transport holds complete lines, whose handlers record, and what they have.\<close>

definition hears ::
    "('w \<Rightarrow> bool) \<Rightarrow> ('w \<Rightarrow> char list) \<Rightarrow> 'w read_fn \<Rightarrow> ('w \<Rightarrow> 'r list)
     \<Rightarrow> ('w ec200_urc_entry \<Rightarrow> string \<Rightarrow> 'r list) \<Rightarrow> 'w ec200_handle \<Rightarrow> string list \<Rightarrow> 'r list \<Rightarrow> bool" where
  "hears live pending rd heard report h ls us \<longleftrightarrow>
     h_read h = rd \<and> live (user_ctx h) \<and> pending (user_ctx h) = crlf ls \<and> rx_buf h = [] \<and>
     last_err_kind h = 0 \<and> records live pending heard report h \<and> heard (user_ctx h) = us"

definition same_handlers :: "'w ec200_handle \<Rightarrow> 'w ec200_handle \<Rightarrow> bool" where
  "same_handlers h h' \<longleftrightarrow> urc_table h' = urc_table h \<and> mqtt_msg_cb h' = mqtt_msg_cb h \<and> urc_handler h' = urc_handler h"

text \<open>Reading leaves the record alone.\<close>

definition reads_quietly :: "'w read_fn \<Rightarrow> ('w \<Rightarrow> 'r list) \<Rightarrow> bool" where
  "reads_quietly rd heard \<longleftrightarrow> (\<forall>n t w n' d w'. rd n t w = (n', d, w') \<longrightarrow> heard w' = heard w)"

lemma quiet_source:
  assumes "byte_source live pending rd" "reads_quietly rd heard"
  shows "byte_source (\<lambda>w. live w \<and> heard w = us) pending rd"
proof
  show "\<exists>w'. rd n tmo w = (int (min n (length (pending w))), take n (pending w), w') \<and>
      (live w' \<and> heard w' = us) \<and> pending w' = drop n (pending w)"
    if "live w \<and> heard w = us" "pending w \<noteq> []" "0 < n" for w n tmo
    using byte_source.read_some [OF assms(1)] assms(2) that unfolding reads_quietly_def by metis
  show "\<exists>w'. rd n tmo w = (0, [], w') \<and> (live w' \<and> heard w' = us) \<and> pending w' = []"
    if "live w \<and> heard w = us" "pending w = []" for w n tmo
    using byte_source.read_none [OF assms(1)] assms(2) that unfolding reads_quietly_def by metis
qed

lemma line_heard:
  assumes "byte_source live pending rd" "reads_quietly rd heard"
    and "hears live pending rd heard report h (l # ls) us" "clean_line l"
  shows "\<exists>h'. rx_line h b = Some (h', RX_OK l, b) \<and> hears live pending rd heard report h' ls us \<and> same_handlers h h'"
proof -
  have lf: "LF \<notin> set (l @ [CR])" using assms(4) by (simp add: clean_line_def)
  obtain w where "rx_line h b = Some (h\<lparr>user_ctx := w, rx_buf := [], rx_overlong := False\<rparr>,
      RX_OK (cstr (assembled [] (l @ [CR]))), b)" "live w \<and> heard w = us" "pending w = crlf ls"
    using byte_source.line_some [OF quiet_source [OF assms(1,2), of us], of h "l @ [CR]" "crlf ls" b] assms(3) lf
    by (auto simp: hears_def size_defs)
  then show ?thesis
    using assms(3,4) records_cong [of "h\<lparr>user_ctx := w, rx_buf := [], rx_overlong := False\<rparr>" h live pending heard report]
    by (auto simp: assembled_clean hears_def same_handlers_def)
qed

lemma no_line_heard:
  assumes "byte_source live pending rd" "reads_quietly rd heard" "hears live pending rd heard report h [] us"
  shows "\<exists>h'. rx_line h b = Some (h', RX_TIMEOUT, 0) \<and> heard (user_ctx h') = us"
  using byte_source.line_none [OF quiet_source [OF assms(1,2), of us], of h "[]" b] assms(3)
  by (auto simp: hears_def size_defs)

lemma dispatch_heard:
  assumes "hears live pending rd heard report h ls us"
  shows "\<exists>h'. dispatch_registered_urc h l = (h', registered (urc_table h) l) \<and>
    hears live pending rd heard report h' ls (us @ given report (urc_table h) l) \<and> same_handlers h h'"
proof -
  obtain w where "dispatch_registered_urc h l = (h\<lparr>user_ctx := w\<rparr>, registered (urc_table h) l)" "live w"
      "pending w = pending (user_ctx h)" "heard w = heard (user_ctx h) @ given report (urc_table h) l"
    using slots_record [of live pending heard report h "urc_table h" l] assms
    by (auto simp: hears_def dispatch_registered_urc_def)
  then show ?thesis
    using assms records_cong [of "h\<lparr>user_ctx := w\<rparr>" h live pending heard report]
    by (auto simp: hears_def same_handlers_def)
qed

section \<open>Which lines the handlers get\<close>

text \<open>
  Of the lines a transaction reads, the handlers get those with a registered prefix that are
  neither blank nor terminal, except the first line with the prefix the command awaits.
\<close>

fun served :: "(string \<Rightarrow> bool) \<Rightarrow> string option \<Rightarrow> bool \<Rightarrow> string list \<Rightarrow> string list" where
  "served reg prefix matched [] = []"
| "served reg prefix matched (l # ls) =
     (if l = [] then served reg prefix matched ls
      else if prefix_hit prefix l \<and> \<not> matched then served reg prefix True ls
      else if reg l \<and> line_term l = TERM_NONE then l # served reg prefix matched ls
      else served reg prefix matched ls)"

text \<open>The other lines.\<close>

fun unserved :: "(string \<Rightarrow> bool) \<Rightarrow> string option \<Rightarrow> bool \<Rightarrow> string list \<Rightarrow> string list" where
  "unserved reg prefix matched [] = []"
| "unserved reg prefix matched (l # ls) =
     (if l = [] then l # unserved reg prefix matched ls
      else if prefix_hit prefix l \<and> \<not> matched then l # unserved reg prefix True ls
      else if reg l \<and> line_term l = TERM_NONE then unserved reg prefix matched ls
      else l # unserved reg prefix matched ls)"

text \<open>The lines read, for the lines left.\<close>

definition consumed :: "string list \<Rightarrow> string list \<Rightarrow> string list" where
  "consumed ls ls' = take (length ls - length ls') ls"

lemma consumed_simps [simp]: "consumed ls ls = []" "consumed (l # ls) ls = [l]" "consumed [] ls = []"
  "consumed ls [] = ls"
  by (simp_all add: consumed_def)

lemma spec_receive_shorter:
  "spec_receive reg k prefix stop matched buf ls = (st, buf', ls') \<Longrightarrow> length ls' \<le> length ls"
  by (induction reg k prefix stop matched buf ls rule: spec_receive.induct)
    (force split: if_splits terminal.splits)+

lemma consumed_Cons: "length ls' \<le> length ls \<Longrightarrow> consumed (l # ls) ls' = l # consumed ls ls'"
  by (simp add: consumed_def Suc_diff_le)

text \<open>What the handlers get for some lines.\<close>

abbreviation all_given ::
    "('w ec200_urc_entry \<Rightarrow> string \<Rightarrow> 'r list) \<Rightarrow> 'w ec200_urc_entry list \<Rightarrow> string list \<Rightarrow> 'r list" where
  "all_given report es ls \<equiv> concat (map (given report es) ls)"

lemma receive_heard:
  assumes "byte_source live pending rd" "reads_quietly rd heard"
    and "hears live pending rd heard report h ls us" "\<forall>l\<in>set ls. clean_line l" "es = urc_table h"
  shows "\<exists>h' st buf' ls'. receive_loop k h prefix stop matched buf b = Some (h', st, buf') \<and>
    spec_receive (registered es) k prefix stop matched buf ls = (st, buf', ls') \<and>
    heard (user_ctx h') = us @ all_given report es (served (registered es) prefix matched (consumed ls ls'))"
  using assms(3-5)
proof (induction k arbitrary: h ls us matched buf b)
  case 0
  then show ?case by (simp add: hears_def)
next
  case (Suc k)
  show ?case
  proof (cases ls)
    case Nil
    then show ?thesis using no_line_heard [OF assms(1,2), of report h us b] Suc.prems by auto
  next
    case (Cons l ls')
    obtain h1 where h1: "rx_line h b = Some (h1, RX_OK l, b)" "hears live pending rd heard report h1 ls' us"
        "same_handlers h h1"
      using line_heard [OF assms(1,2), of report h l ls' us b] Suc.prems Cons by auto
    have clean: "\<forall>l\<in>set ls'. clean_line l" using Suc.prems(2) Cons by simp
    have es: "es = urc_table h1" using h1(3) Suc.prems(3) by (simp add: same_handlers_def)
    have IH: "\<exists>h' st buf' r. receive_loop k h2 prefix stop m bu b = Some (h', st, buf') \<and>
        spec_receive (registered es) k prefix stop m bu ls' = (st, buf', r) \<and> length r \<le> length ls' \<and>
        heard (user_ctx h') = vs @ all_given report es (served (registered es) prefix m (consumed ls' r))"
      if "hears live pending rd heard report h2 ls' vs" "same_handlers h1 h2" for h2 vs m bu
      using Suc.IH [OF that(1) clean, of m bu b] that(2) es spec_receive_shorter
      by (fastforce simp: same_handlers_def)
    note IH1 = IH [OF h1(2), unfolded same_handlers_def, simplified]
    have here: "heard (user_ctx h1) = us" using h1(2) by (simp add: hears_def)
    consider (empty) "l = []"
      | (hit) "l \<noteq> []" "prefix_hit prefix l" "\<not> matched"
      | (ok) "l \<noteq> []" "\<not> (prefix_hit prefix l \<and> \<not> matched)" "line_term l = TERM_OK"
      | (err) "l \<noteq> []" "\<not> (prefix_hit prefix l \<and> \<not> matched)" "line_term l = TERM_ERR"
      | (body) "l \<noteq> []" "\<not> (prefix_hit prefix l \<and> \<not> matched)" "line_term l = TERM_NONE"
      by (cases "line_term l") auto
    then show ?thesis
    proof cases
      case empty
      then show ?thesis using h1(1) Cons IH1 [of matched buf] by (auto simp: consumed_Cons)
    next
      case hit
      then show ?thesis
        using h1(1) Cons here IH1 [of True "copy_line l buf"]
        by (cases stop) (auto simp: consumed_Cons prefix_hit_def split: option.splits)
    next
      case ok
      then show ?thesis using h1 Cons here is_terminal_none [of l h1]
        by (auto simp: prefix_hit_def split: option.splits)
    next
      case err
      obtain h2 where "is_terminal h1 l = (h2, TERM_ERR)" "map_error_terminal h2 = line_error l" "user_ctx h2 = user_ctx h1"
        using is_terminal_err [of l h1] err(3) h1(2) by (auto simp: hears_def)
      then show ?thesis using h1 Cons err here
        by (auto simp: prefix_hit_def split: option.splits)
    next
      case body
      obtain h2 where h2: "dispatch_registered_urc h1 l = (h2, registered es l)"
          "hears live pending rd heard report h2 ls' (us @ given report es l)" "same_handlers h1 h2"
        using dispatch_heard [OF h1(2), of l] es by auto
      have "is_terminal h1 l = (h1, TERM_NONE)" using body is_terminal_none [of l h1] by simp
      then show ?thesis
        using h1(1) Cons body h2 not_given [of es l report]
          IH [OF h2(2,3), of matched "if registered es l \<or> prefix \<noteq> None then buf else append_line l buf"]
        by (cases "registered es l") (auto simp: prefix_hit_def consumed_Cons split: option.splits)
    qed
  qed
qed

text \<open>The poll gives the handlers every line that is not blank, terminal-looking ones included.\<close>

definition quiet_fallback ::
    "('w \<Rightarrow> bool) \<Rightarrow> ('w \<Rightarrow> char list) \<Rightarrow> ('w \<Rightarrow> 'r list) \<Rightarrow> 'w ec200_handle \<Rightarrow> bool" where
  "quiet_fallback live pending heard h \<longleftrightarrow>
     (\<forall>f l w. urc_handler h = Some f \<and> live w \<longrightarrow>
        live (f l w) \<and> pending (f l w) = pending w \<and> heard (f l w) = heard w)"

lemma poll_heard:
  assumes "byte_source live pending rd" "reads_quietly rd heard"
    and "hears live pending rd heard report h ls us" "\<forall>l\<in>set ls. clean_line l" "es = urc_table h"
    and "quiet_fallback live pending heard h"
  shows "\<exists>h'. poll_loop k h b = Some (h', EC200_OK) \<and>
    heard (user_ctx h') = us @ all_given report es (filter (\<lambda>l. l \<noteq> []) (take k ls))"
  using assms(3-6)
proof (induction k arbitrary: h ls us b)
  case 0
  then show ?case by (simp add: hears_def)
next
  case (Suc k)
  show ?case
  proof (cases ls)
    case Nil
    then show ?thesis using no_line_heard [OF assms(1,2), of report h us b] Suc.prems by auto
  next
    case (Cons l ls')
    obtain h1 where h1: "rx_line h b = Some (h1, RX_OK l, b)" "hears live pending rd heard report h1 ls' us"
        "same_handlers h h1"
      using line_heard [OF assms(1,2), of report h l ls' us b] Suc.prems Cons by auto
    have clean: "\<forall>l\<in>set ls'. clean_line l" using Suc.prems(2) Cons by simp
    have IH: "\<exists>h'. poll_loop k h2 b = Some (h', EC200_OK) \<and>
        heard (user_ctx h') = vs @ all_given report es (filter (\<lambda>l. l \<noteq> []) (take k ls'))"
      if "hears live pending rd heard report h2 ls' vs" "same_handlers h h2" for h2 vs
      using Suc.IH [OF that(1) clean, of b] that(2) Suc.prems(3,4)
      by (simp add: same_handlers_def quiet_fallback_def)
    show ?thesis
    proof (cases "l = []")
      case True
      then show ?thesis using h1 Cons IH [OF h1(2,3)] by auto
    next
      case False
      obtain h2 where h2: "dispatch_registered_urc h1 l = (h2, registered es l)"
          "hears live pending rd heard report h2 ls' (us @ given report es l)" "same_handlers h1 h2"
        using dispatch_heard [OF h1(2), of l] h1(3) Suc.prems(3) by (auto simp: same_handlers_def)
      have s: "same_handlers h h2" using h1(3) h2(3) by (simp add: same_handlers_def)
      show ?thesis
      proof (cases "registered es l \<or> urc_handler h2 = None")
        case True
        then show ?thesis
          using h1(1) Cons False h2(1) IH [OF h2(2) s] by (cases "registered es l") (auto split: option.split)
      next
        case fb: False
        then obtain f where f: "urc_handler h2 = Some f" by auto
        let ?h3 = "h2\<lparr>user_ctx := f l (user_ctx h2)\<rparr>"
        have "quiet_fallback live pending heard h2"
          using Suc.prems(4) s by (simp add: same_handlers_def quiet_fallback_def)
        then have "hears live pending rd heard report ?h3 ls' (us @ given report es l)"
          using h2(2) f records_cong [of ?h3 h2 live pending heard report]
          by (auto simp: hears_def quiet_fallback_def)
        moreover have "same_handlers h ?h3" using s by (simp add: same_handlers_def)
        ultimately obtain h' where "poll_loop k ?h3 b = Some (h', EC200_OK)"
            "heard (user_ctx h') = us @ given report es l @ all_given report es (filter (\<lambda>l. l \<noteq> []) (take k ls'))"
          using IH by fastforce
        then show ?thesis using h1(1) Cons False h2(1) fb f by simp
      qed
    qed
  qed
qed

section \<open>Without the lines of the handlers\<close>

lemma spec_receive_without:
  assumes "spec_receive reg k prefix stop matched buf ls = (st, buf', ls')" "st \<noteq> EC200_ERR_OVERFLOW" "k \<le> k'"
  shows "spec_receive (\<lambda>_. False) k' prefix stop matched buf
    (unserved reg prefix matched (consumed ls ls') @ ls') = (st, buf', ls')"
  using assms
proof (induction ls arbitrary: k k' matched buf)
  case Nil
  then show ?case by (cases k; cases k') auto
next
  case (Cons l ls)
  obtain j where k: "k = Suc j" using Cons.prems(1,2) by (cases k) auto
  obtain j' where k': "k' = Suc j'" "j \<le> j'" using Cons.prems(3) k by (cases k') auto
  have c: "consumed (l # ls) ls' = l # consumed ls ls'"
    if "spec_receive reg j prefix stop m b ls = (st, buf', ls')" for m b
    using spec_receive_shorter [OF that] by (rule consumed_Cons)
  have IH: "spec_receive (\<lambda>_. False) i prefix stop m b (unserved reg prefix m (consumed ls ls') @ ls') = (st, buf', ls')"
    if "spec_receive reg j prefix stop m b ls = (st, buf', ls')" "j \<le> i" for m b i
    using Cons.IH [OF that(1) Cons.prems(2) that(2)] .
  consider (empty) "l = []"
    | (hit) "l \<noteq> []" "prefix_hit prefix l" "\<not> matched"
    | (ok) "l \<noteq> []" "\<not> (prefix_hit prefix l \<and> \<not> matched)" "line_term l = TERM_OK"
    | (err) "l \<noteq> []" "\<not> (prefix_hit prefix l \<and> \<not> matched)" "line_term l = TERM_ERR"
    | (body) "l \<noteq> []" "\<not> (prefix_hit prefix l \<and> \<not> matched)" "line_term l = TERM_NONE"
    by (cases "line_term l") auto
  then show ?case
  proof cases
    case body
    let ?b = "if reg l \<or> prefix \<noteq> None then buf else append_line l buf"
    have r: "spec_receive reg j prefix stop matched ?b ls = (st, buf', ls')"
      using body Cons.prems(1) k by (auto split: if_splits)
    show ?thesis
      using body k k' c [OF r] IH [OF r, of j'] IH [OF r, of "Suc j'"] by (cases "reg l") auto
  qed (use Cons.prems(1) k k' c IH in \<open>auto split: if_splits\<close>)
qed

section \<open>Property\<close>

text \<open>The handlers record the lines they are given, with the prefix they were registered for.\<close>

definition signed :: "'w ec200_urc_entry \<Rightarrow> string \<Rightarrow> (string \<times> string) list" where
  "signed e l = [(the (ue_prefix e), l)]"

text \<open>
  C8. Unsolicited lines do not disturb a transaction. With handlers that record what they are given,
  a transaction gives every line it reads that has a registered prefix to the handler of the first
  slot with such a prefix, once and in the order of arrival; unless it ran into the limit of 64
  lines it returns the status and the response, and leaves the lines, that it would if these lines
  had not arrived. Lines that are blank or terminal go to no handler, and neither does the first
  line with the prefix the command awaits: that one is taken as the response even if a handler is
  registered for it.
\<close>

theorem urcs_do_not_disturb:
  assumes "byte_source live pending rd" and "reads_quietly rd heard"
    and "hears live pending rd heard signed h ls us" and "\<forall>l\<in>set ls. clean_line l"
  shows "\<exists>h' st buf' ls'. receive_transaction h prefix stop buf t = Some (h', st, buf') \<and>
    spec_receive (registered (urc_table h)) 64 prefix stop False (clear_buf buf) ls = (st, buf', ls') \<and>
    heard (user_ctx h') = us @ map (\<lambda>l. (the (ue_prefix (the (owner (urc_table h) l))), l))
      (served (registered (urc_table h)) prefix False (consumed ls ls')) \<and>
    (st \<noteq> EC200_ERR_OVERFLOW \<longrightarrow>
      spec_receive (\<lambda>_. False) 64 prefix stop False (clear_buf buf)
        (unserved (registered (urc_table h)) prefix False (consumed ls ls') @ ls') = (st, buf', ls'))"
proof -
  let ?es = "urc_table h"
  obtain h' st buf' ls' where r: "receive_transaction h prefix stop buf t = Some (h', st, buf')"
      "spec_receive (registered ?es) 64 prefix stop False (clear_buf buf) ls = (st, buf', ls')"
      "heard (user_ctx h') = us @ all_given signed ?es (served (registered ?es) prefix False (consumed ls ls'))"
    using receive_heard [OF assms refl, of 64 prefix stop False "clear_buf buf" t]
    unfolding receive_transaction_def EC200_AT_MAX_LINES_def by blast
  have "all_given signed ?es (served (registered ?es) prefix m xs) =
      map (\<lambda>l. (the (ue_prefix (the (owner ?es l))), l)) (served (registered ?es) prefix m xs)" for m xs
    by (induction "registered ?es" prefix m xs rule: served.induct)
      (auto simp: given_def signed_def registered_owner)
  with r spec_receive_without [OF r(2)] show ?thesis by fastforce
qed

text \<open>A tape with a book for what the handlers are given.\<close>

definition book_read :: "(tape \<times> 'r list) read_fn" where
  "book_read n tmo w = (case tape_read n tmo (fst w) of (k, d, v) \<Rightarrow> (k, d, (v, snd w)))"

definition book_keep :: "string \<Rightarrow> string \<Rightarrow> urc_ctx \<Rightarrow> tape \<times> (string \<times> string) list \<Rightarrow> tape \<times> (string \<times> string) list" where
  "book_keep p l ctx w = (fst w, snd w @ [(p, l)])"

definition book_write :: "(tape \<times> 'r list) write_fn" where
  "book_write d w = (case tape_write d (fst w) of (k, v) \<Rightarrow> (k, (v, snd w)))"

definition book_handle :: "string list \<Rightarrow> (tape \<times> 'r list) ec200_handle" where
  "book_handle ls = fresh_handle book_write book_read (\<lambda>ms w. w) ((crlf ls, []), [])"

definition book_slot :: "string \<Rightarrow> (tape \<times> (string \<times> string) list) ec200_urc_entry" where
  "book_slot p = \<lparr>ue_prefix = Some p, ue_fn = Some (UserUrc (book_keep p)), ue_ctx = CtxNull\<rparr>"

interpretation books: byte_source "\<lambda>_. True" "\<lambda>w :: tape \<times> 'r list. fst (fst w)" book_read
  by unfold_locales (auto simp: book_read_def tape_read_def)

lemma book_quiet: "reads_quietly book_read snd"
  by (auto simp: reads_quietly_def book_read_def split: prod.splits)

theorem urcs_do_not_disturb_witness:
  "\<exists>h'. receive_transaction ((book_handle [''+CMTI: 1'', ''+CREG: 0,1'', ''+CREG: 5'', ''OK''])
          \<lparr>urc_table := [book_slot ''+CREG:'', book_slot ''+CMTI:'']\<rparr>) (Some ''+CREG:'') False (char_buf 64) 300 =
       Some (h', EC200_OK, Some (64, ''+CREG: 0,1'')) \<and>
     snd (user_ctx h') = [(''+CMTI:'', ''+CMTI: 1''), (''+CREG:'', ''+CREG: 5'')]"
proof -
  let ?ls = "[''+CMTI: 1'', ''+CREG: 0,1'', ''+CREG: 5'', ''OK'']"
  let ?es = "[book_slot ''+CREG:'', book_slot ''+CMTI:'']"
  let ?h = "(book_handle ?ls)\<lparr>urc_table := ?es\<rparr>"
  have "hears (\<lambda>_. True) (\<lambda>w. fst (fst w)) book_read snd signed ?h ?ls []"
    by (simp add: hears_def records_def book_keep_def book_slot_def book_handle_def fresh_handle_def signed_def
        world_after_def call_urc_handler_def)
  moreover have "\<forall>l\<in>set ?ls. clean_line l" by (simp add: clean_line_def size_defs)
  ultimately obtain h' st buf' ls' where
      r: "receive_transaction ?h (Some ''+CREG:'') False (char_buf 64) 300 = Some (h', st, buf')"
      "spec_receive (registered ?es) 64 (Some ''+CREG:'') False False (clear_buf (char_buf 64)) ?ls = (st, buf', ls')"
      "snd (user_ctx h') = [] @ map (\<lambda>l. (the (ue_prefix (the (owner ?es l))), l))
        (served (registered ?es) (Some ''+CREG:'') False (consumed ?ls ls'))"
    using urcs_do_not_disturb [OF books.byte_source_axioms book_quiet, of ?h ?ls "[]" "Some ''+CREG:''" False
        "char_buf 64" 300]
    by auto
  have slot: "takes (book_slot p) l = strncmp_eq l p (length p)" "ue_prefix (book_slot p) = Some p" for p l
    by (simp_all add: takes_def book_slot_def)
  have own: "owner ?es l = (if takes (book_slot ''+CREG:'') l then Some (book_slot ''+CREG:'')
      else if takes (book_slot ''+CMTI:'') l then Some (book_slot ''+CMTI:'') else None)" for l
    by (simp add: owner_def)
  have "(st, buf', ls') = (EC200_OK, Some (64, ''+CREG: 0,1''), [])"
    using r(2) [symmetric]
    by (simp add: registered_owner own slot spec_numeral prefix_hit_def line_term_def clear_buf_def char_buf_def
        copy_line_def copy_trunc_def)
  then show ?thesis
    using r(1,3) by (simp add: registered_owner own slot prefix_hit_def line_term_def)
qed

end
