(* ===== verification/Ec200_Mqtt_Inbox.thy ===== *)
theory Ec200_Mqtt_Inbox
  imports Ec200_Registry Ec200_Fields Ec200_Urc
begin

text \<open>
  Inbound MQTT messages: what the handler of \<open>+QMTRECV:\<close> extracts from a line, and when
  the callback of the application is reached.
\<close>

text \<open>The line with which the module reports a message.\<close>

definition qmtrecv_line :: "nat \<Rightarrow> nat \<Rightarrow> string \<Rightarrow> string \<Rightarrow> string" where
  "qmtrecv_line idx msg_id tpc data =
     ''+QMTRECV: '' @ show_nat idx @ '','' @ show_nat msg_id @ '','' @ quoted tpc @ '','' @ quoted data"

lemma strchr_skip: "c \<notin> set s \<Longrightarrow> strchr (s @ r) c = strchr r c"
  by (induction s) auto

lemma strrchr_last: "strrchr (s @ [c]) c = Some [c]"
  by (induction s) auto

lemma no_quote_nat: "DQUOTE \<notin> set (show_nat n)"
  using show_nat_set [of DQUOTE n] by (auto simp: is_digit_def)

lemma qmtrecv_quote:
  "strchr (qmtrecv_line idx msg_id tpc data) DQUOTE =
     Some (DQUOTE # tpc @ DQUOTE # CHR '','' # DQUOTE # data @ [DQUOTE])"
proof -
  have "strchr ((''+QMTRECV: '' @ show_nat idx @ '','' @ show_nat msg_id @ '','') @
        DQUOTE # tpc @ DQUOTE # CHR '','' # DQUOTE # data @ [DQUOTE]) DQUOTE =
      Some (DQUOTE # tpc @ DQUOTE # CHR '','' # DQUOTE # data @ [DQUOTE])"
    by (rule strchr_upto) (auto simp: no_quote_nat)
  then show ?thesis by (simp add: qmtrecv_line_def quoted_def)
qed

lemma parse_qmtrecv_line:
  assumes "DQUOTE \<notin> set tpc" "length tpc < EC200_MAX_TOPIC_LEN"
  shows "parse_qmtrecv (qmtrecv_line idx msg_id tpc data) =
    Some \<lparr>msg_topic = tpc, msg_payload = take EC200_MAX_PAYLOAD_LEN data,
          msg_payload_len = min (length data) EC200_MAX_PAYLOAD_LEN, msg_qos = 0\<rparr>"
proof -
  have t: "strchr (tpc @ DQUOTE # CHR '','' # DQUOTE # data @ [DQUOTE]) DQUOTE =
      Some (DQUOTE # CHR '','' # DQUOTE # data @ [DQUOTE])"
    using assms(1) by (rule strchr_upto)
  have "take (min (length data) n) (data @ [DQUOTE]) = take n data" for n
    by (cases "n \<le> length data") (simp_all add: min_def)
  then show ?thesis
    using assms(2)
    by (simp add: parse_qmtrecv_def qmtrecv_quote t strrchr_last copy_trunc_fits Let_def min_def)
qed

section \<open>A message line after the callback was set\<close>

lemma set_message_cb_stores: "mqtt_msg_cb (ec200_mqtt_set_message_cb h (Some cb)) = Some cb"
  by (simp add: ec200_mqtt_set_message_cb_def Let_def register_table split: option.split)

definition full_table :: "'w urc_entries" where
  "full_table = map (\<lambda>d. \<lparr>ue_prefix = Some (''+P'' @ show_nat d), ue_fn = Some (UserUrc (\<lambda>l ctx w. w)), ue_ctx = CtxNull\<rparr>) [0..<8]"

lemma show_digit: "d < 10 \<Longrightarrow> show_nat d = [digit_char d]"
  by (simp add: show_nat.simps [of d])

lemma full_used: "used_prefixes full_table = map (\<lambda>d. ''+P'' @ [digit_char d]) [0..<8]"
  by (simp add: full_table_def upt_rec show_digit)

section \<open>The table after the callback was set\<close>

lemma set_message_cb_same [simp]:
  "user_ctx (ec200_mqtt_set_message_cb h cb) = user_ctx h" "h_read (ec200_mqtt_set_message_cb h cb) = h_read h"
  "rx_buf (ec200_mqtt_set_message_cb h cb) = rx_buf h"
  "last_err_kind (ec200_mqtt_set_message_cb h cb) = last_err_kind h"
  "urc_handler (ec200_mqtt_set_message_cb h cb) = urc_handler h"
  "initialised (ec200_mqtt_set_message_cb h cb) = initialised h"
  "ppp_data_mode (ec200_mqtt_set_message_cb h cb) = ppp_data_mode h"
  by (simp_all add: ec200_mqtt_set_message_cb_def Let_def ec200_at_register_urc_def ec200_at_unregister_urc_def
      split: option.split)

lemma lookup_slot:
  "distinct (used_prefixes es) \<Longrightarrow> e \<in> set es \<Longrightarrow> ue_prefix e = Some p \<Longrightarrow> slot_lookup es p = Some (ue_fn e, ue_ctx e)"
  by (induction es) (force simp: used_member split: option.splits)+

lemma lookup_used: "slot_lookup es p = Some v \<Longrightarrow> p \<in> set (used_prefixes es)"
  using lookup_None [of es p] by fastforce

lemma insert_keeps_slots:
  assumes "table_insert es p v = Some es'" "e \<in> set es'" "ue_prefix e \<noteq> Some p"
  shows "e \<in> set es"
proof (cases "find_slot (\<lambda>e. ue_prefix e = Some p) es")
  case (Some i)
  then obtain pre x post where s: "es = pre @ x # post" "length pre = i" "ue_prefix x = Some p"
    using find_slot_Some [OF Some] by blast
  then have "es' = pre @ x\<lparr>ue_fn := fst v, ue_ctx := snd v\<rparr> # post"
    using assms(1) Some by (auto simp: table_insert_def)
  then show ?thesis using assms(2,3) s by auto
next
  case None
  then obtain i where "find_slot (\<lambda>e. ue_prefix e = None) es = Some i" "es' = es[i := \<lparr>ue_prefix = Some p, ue_fn = fst v, ue_ctx = snd v\<rparr>]"
    using assms(1) by (auto simp: table_insert_def split: option.splits)
  then show ?thesis
    using assms(2,3) set_update_subset_insert [of es i "\<lparr>ue_prefix = Some p, ue_fn = fst v, ue_ctx = snd v\<rparr>"]
    by auto
qed

text \<open>
  With room for the prefix exactly one slot has it, with the handler of the library; without room
  the table is as it was, and no slot has it.
\<close>

lemma message_slot:
  assumes "table_ok (urc_table h)" and "es = urc_table (ec200_mqtt_set_message_cb h (Some cb))"
  shows "table_ok es"
    "e \<in> set es \<Longrightarrow> ue_prefix e = Some ''+QMTRECV:'' \<Longrightarrow>
       room_for h ''+QMTRECV:'' \<and> ue_fn e = Some MqttRecvUrc \<and> ue_ctx e = CtxHandle"
    "e \<in> set es \<Longrightarrow> ue_prefix e \<noteq> Some ''+QMTRECV:'' \<Longrightarrow> e \<in> set (urc_table h)"
    "room_for h ''+QMTRECV:'' \<Longrightarrow> ''+QMTRECV:'' \<in> set (used_prefixes es)"
proof -
  let ?p = "''+QMTRECV:''" and ?v = "(Some MqttRecvUrc, CtxHandle)"
  have reg: "ec200_mqtt_set_message_cb h (Some cb) = (case table_insert (urc_table h) ?p ?v of
      Some es \<Rightarrow> h\<lparr>mqtt_msg_cb := Some cb, urc_table := es\<rparr> | None \<Rightarrow> h\<lparr>mqtt_msg_cb := Some cb\<rparr>)"
    by (simp add: ec200_mqtt_set_message_cb_def register_table split: option.split)
  have room: "table_insert (urc_table h) ?p ?v = None \<longleftrightarrow> \<not> room_for h ?p"
    using urcs.insert_None [OF assms(1), of ?p ?v] card_registered [OF assms(1)]
    by (auto simp: room_for_def registered_at_def)
  have "table_ok es \<and> (e \<in> set es \<longrightarrow> ue_prefix e = Some ?p \<longrightarrow>
        room_for h ?p \<and> ue_fn e = Some MqttRecvUrc \<and> ue_ctx e = CtxHandle) \<and>
      (e \<in> set es \<longrightarrow> ue_prefix e \<noteq> Some ?p \<longrightarrow> e \<in> set (urc_table h)) \<and>
      (room_for h ?p \<longrightarrow> ?p \<in> set (used_prefixes es))"
  proof (cases "table_insert (urc_table h) ?p ?v")
    case None
    then have es: "es = urc_table h" using reg assms(2) by simp
    have "slot_lookup es ?p = None" using urcs.insert_None [OF assms(1), of ?p ?v] None es by simp
    then have "?p \<notin> set (used_prefixes es)" using lookup_None [of es ?p] by blast
    then show ?thesis using None room assms(1) es by (auto simp: used_member)
  next
    case (Some fs)
    then have es: "es = fs" using reg assms(2) by simp
    have f: "table_ok fs" "slot_lookup fs = (slot_lookup (urc_table h))(?p \<mapsto> ?v)"
      using urcs.insert_Some [OF assms(1) Some] by blast+
    have d: "distinct (used_prefixes fs)" using f(1) by (simp add: table_ok_def)
    have "slot_lookup fs ?p = Some ?v" using f(2) by simp
    then have "?p \<in> set (used_prefixes fs)" by (rule lookup_used)
    moreover have "ue_fn e = Some MqttRecvUrc \<and> ue_ctx e = CtxHandle" if "e \<in> set fs" "ue_prefix e = Some ?p"
      using lookup_slot [OF d that] f(2) by simp
    ultimately show ?thesis
      using f(1) es Some room insert_keeps_slots [OF Some, of e] by auto
  qed
  then show "table_ok es"
    "e \<in> set es \<Longrightarrow> ue_prefix e = Some ?p \<Longrightarrow> room_for h ?p \<and> ue_fn e = Some MqttRecvUrc \<and> ue_ctx e = CtxHandle"
    "e \<in> set es \<Longrightarrow> ue_prefix e \<noteq> Some ?p \<Longrightarrow> e \<in> set (urc_table h)"
    "room_for h ?p \<Longrightarrow> ?p \<in> set (used_prefixes es)"
    by blast+
qed

section \<open>The messages in some lines\<close>

definition message_line :: "string \<Rightarrow> bool" where
  "message_line l \<longleftrightarrow> take (length ''+QMTRECV:'') l = ''+QMTRECV:''"

definition message_of :: "string \<Rightarrow> ec200_mqtt_message list" where
  "message_of l = (if message_line l then (case parse_qmtrecv l of None \<Rightarrow> [] | Some m \<Rightarrow> [m]) else [])"

abbreviation messages :: "string list \<Rightarrow> ec200_mqtt_message list" where
  "messages ls \<equiv> concat (map message_of ls)"

lemma message_prefix: "''+QMTRECV:'' @ r \<noteq> [] \<and> line_term (''+QMTRECV:'' @ r) = TERM_NONE"
  by (simp add: line_term_def)

lemma message_line_body: "message_line l \<Longrightarrow> l \<noteq> [] \<and> line_term l = TERM_NONE"
proof -
  assume "message_line l"
  then have "l = ''+QMTRECV:'' @ drop (length ''+QMTRECV:'') l"
    using append_take_drop_id [of "length ''+QMTRECV:''" l] unfolding message_line_def by metis
  then show ?thesis by (metis message_prefix)
qed

lemma printed_message:
  assumes "DQUOTE \<notin> set tpc" "length tpc < EC200_MAX_TOPIC_LEN"
  shows "message_of (qmtrecv_line idx msg_id tpc data) =
    [\<lparr>msg_topic = tpc, msg_payload = take EC200_MAX_PAYLOAD_LEN data,
      msg_payload_len = min (length data) EC200_MAX_PAYLOAD_LEN, msg_qos = 0\<rparr>]"
  using parse_qmtrecv_line [OF assms, of idx msg_id data]
  by (simp add: message_of_def message_line_def) (simp add: qmtrecv_line_def)

text \<open>What the slot of the library adds to an inbox; the others add nothing.\<close>

definition delivers_to :: "'w ec200_urc_entry \<Rightarrow> string \<Rightarrow> ec200_mqtt_message list" where
  "delivers_to e l = (if ue_prefix e = Some ''+QMTRECV:'' then (case parse_qmtrecv l of None \<Rightarrow> [] | Some m \<Rightarrow> [m])
     else [])"

text \<open>No other registered prefix starts a message line.\<close>

definition sole_prefix :: "'w ec200_handle \<Rightarrow> string list \<Rightarrow> bool" where
  "sole_prefix h ls \<longleftrightarrow> (\<forall>l\<in>set ls. message_line l \<longrightarrow>
     (\<forall>q. registered_at h q \<noteq> None \<and> take (length q) l = q \<longrightarrow> q = ''+QMTRECV:''))"

lemma takes_iff: "takes e l \<longleftrightarrow> (\<exists>p. ue_prefix e = Some p \<and> take (length p) l = p)"
  by (simp add: takes_def strncmp_eq_take split: option.split)

lemma message_taken: "message_line l \<Longrightarrow> ue_prefix e = Some ''+QMTRECV:'' \<Longrightarrow> takes e l"
  unfolding takes_iff message_line_def by blast

lemma given_message:
  assumes "table_ok (urc_table h)" "es = urc_table (ec200_mqtt_set_message_cb h (Some cb))"
    and "room_for h ''+QMTRECV:''" "sole_prefix h ls" "l \<in> set ls"
  shows "given delivers_to es l = message_of l" "message_line l \<Longrightarrow> registered es l"
proof -
  note slot = message_slot [OF assms(1,2)]
  have own: "e \<in> set es \<and> (\<exists>p. ue_prefix e = Some p \<and> take (length p) l = p)" if "owner es l = Some e" for e
    using that by (auto simp: owner_def find_Some_iff takes_iff in_set_conv_nth)
  have only: "ue_prefix e = Some ''+QMTRECV:''" if "owner es l = Some e" "message_line l" for e
  proof (rule ccontr)
    note taken = own [OF that(1)]
    assume n: "ue_prefix e \<noteq> Some ''+QMTRECV:''"
    obtain p where p: "e \<in> set es" "ue_prefix e = Some p" "take (length p) l = p" using taken by blast
    then have "e \<in> set (urc_table h)" using slot(3) n by blast
    then have "registered_at h p \<noteq> None"
      using p(2) lookup_None [of "urc_table h" p] by (auto simp: registered_at_def used_member)
    then show False using assms(4,5) that(2) p n by (auto simp: sole_prefix_def)
  qed
  have hit: "owner es l \<noteq> None" if "message_line l"
  proof -
    obtain e where "e \<in> set es" "ue_prefix e = Some ''+QMTRECV:''" using slot(4) [OF assms(3)] by (auto simp: used_member)
    then show ?thesis
      using message_taken [OF that] by (auto simp: owner_def find_None_iff)
  qed
  show "message_line l \<Longrightarrow> registered es l" using hit by (simp add: registered_owner)
  show "given delivers_to es l = message_of l"
  proof (cases "message_line l")
    case True
    then show ?thesis using hit only by (auto simp: given_def delivers_to_def message_of_def)
  next
    case False
    then have "ue_prefix e \<noteq> Some ''+QMTRECV:''" if "owner es l = Some e" for e
      using own [OF that] by (auto simp: message_line_def)
    then show ?thesis using False by (auto simp: given_def delivers_to_def message_of_def split: option.split)
  qed
qed

lemma given_lost:
  assumes "table_ok (urc_table h)" "es = urc_table (ec200_mqtt_set_message_cb h (Some cb))"
    and "\<not> room_for h ''+QMTRECV:''"
  shows "given delivers_to es l = []"
proof (cases "owner es l")
  case (Some e)
  then have "e \<in> set es" by (auto simp: owner_def find_Some_iff)
  then show ?thesis using Some message_slot(2) [OF assms(1,2), of e] assms(3) by (auto simp: given_def delivers_to_def)
qed (simp add: given_def)

lemma served_messages:
  assumes "\<And>l. l \<in> set ls \<Longrightarrow> given delivers_to es l = message_of l"
    and "\<And>l. l \<in> set ls \<Longrightarrow> message_line l \<Longrightarrow> registered es l"
    and "\<And>l. l \<in> set ls \<Longrightarrow> message_line l \<Longrightarrow> \<not> prefix_hit prefix l"
  shows "all_given delivers_to es (served (registered es) prefix matched ls) = messages ls"
  using assms
proof (induction ls arbitrary: matched)
  case (Cons l ls)
  have IH: "all_given delivers_to es (served (registered es) prefix m ls) = messages ls" for m
    using Cons.prems by (intro Cons.IH) auto
  have plain: "message_of l = []" if "\<not> message_line l" using that by (simp add: message_of_def)
  show ?case
    using Cons.prems [of l] IH message_line_body [of l] plain by (cases "message_line l") auto
qed simp

section \<open>Property\<close>

text \<open>
  What the application's handlers do to the transport and the inbox: the callback appends the
  message, the others leave the inbox alone.
\<close>

definition fills_inbox ::
    "('w \<Rightarrow> bool) \<Rightarrow> ('w \<Rightarrow> char list) \<Rightarrow> ('w \<Rightarrow> ec200_mqtt_message list) \<Rightarrow> 'w ec200_handle
     \<Rightarrow> (ec200_mqtt_message \<Rightarrow> 'w \<Rightarrow> 'w) \<Rightarrow> bool" where
  "fills_inbox live pending inbox h cb \<longleftrightarrow>
     (\<forall>m w. live w \<longrightarrow> live (cb m w) \<and> pending (cb m w) = pending w \<and> inbox (cb m w) = inbox w @ [m]) \<and>
     (\<forall>e\<in>set (urc_table h). ue_prefix e \<noteq> None \<and> ue_prefix e \<noteq> Some ''+QMTRECV:'' \<longrightarrow>
        (\<exists>g. ue_fn e = Some (UserUrc g) \<and> (\<forall>l w. live w \<longrightarrow>
           live (g l (ue_ctx e) w) \<and> pending (g l (ue_ctx e) w) = pending w \<and> inbox (g l (ue_ctx e) w) = inbox w))) \<and>
     quiet_fallback live pending inbox h"

lemma records_messages:
  assumes "table_ok (urc_table h)" "fills_inbox live pending inbox h cb"
  shows "records live pending inbox delivers_to (ec200_mqtt_set_message_cb h (Some cb))"
  unfolding records_def
proof (intro ballI impI)
  let ?h = "ec200_mqtt_set_message_cb h (Some cb)"
  fix e assume e: "e \<in> set (urc_table ?h)" "ue_prefix e \<noteq> None"
  note slot = message_slot [OF assms(1) refl, where cb = cb]
  show "\<exists>f. ue_fn e = Some f \<and> (\<forall>l w. live w \<longrightarrow> live (world_after f l (ue_ctx e) ?h w) \<and>
      pending (world_after f l (ue_ctx e) ?h w) = pending w \<and>
      inbox (world_after f l (ue_ctx e) ?h w) = inbox w @ delivers_to e l)"
  proof (cases "ue_prefix e = Some ''+QMTRECV:''")
    case True
    then have "ue_fn e = Some MqttRecvUrc" "ue_ctx e = CtxHandle" using slot(2) e(1) by blast+
    then show ?thesis
      using True assms(2)
      by (auto simp: world_after_def call_urc_handler_def mqtt_recv_urc_def set_message_cb_stores delivers_to_def
          fills_inbox_def split: option.split)
  next
    case False
    then have "e \<in> set (urc_table h)" using slot(3) e(1) by blast
    then obtain g where "ue_fn e = Some (UserUrc g)" "\<forall>l w. live w \<longrightarrow> live (g l (ue_ctx e) w) \<and>
        pending (g l (ue_ctx e) w) = pending w \<and> inbox (g l (ue_ctx e) w) = inbox w"
      using assms(2) e(2) False by (auto simp: fills_inbox_def)
    then show ?thesis using False by (auto simp: world_after_def call_urc_handler_def delivers_to_def)
  qed
qed

text \<open>
  C37. Whether messages reach the callback depends on the handler table alone. If there is room for
  \<open>+QMTRECV:\<close> when the callback is set, then every message line that a transaction or a poll
  reads, also one in the middle of the answer to a command, calls it exactly once, in the order of
  arrival, with the topic (shorter than \<open>EC200_MAX_TOPIC_LEN\<close> and without a quote), the payload
  and its length; the payload is copied byte for byte, quotes and commas included, and is cut
  only beyond \<open>EC200_MAX_PAYLOAD_LEN\<close>. This is for message lines that no other registered prefix
  starts, that do not begin with the prefix the command awaits, and other handlers that leave the
  callback's record and the transport alone. With the table full of other prefixes the callback is
  stored in the handle, its caller is not told, and no message line calls it.
\<close>

theorem mqtt_message_delivered:
  assumes "byte_source live pending rd" and "reads_quietly rd inbox"
    and "table_ok (urc_table h)" and "fills_inbox live pending inbox h cb" and "sole_prefix h ls"
    and "h_read h = rd" "live (user_ctx h)" "pending (user_ctx h) = crlf ls" "rx_buf h = []" "last_err_kind h = 0"
    and "initialised h" "\<not> ppp_data_mode h" and "\<forall>l\<in>set ls. clean_line l"
    and "\<forall>l\<in>set ls. message_line l \<longrightarrow> \<not> prefix_hit prefix l"
    and "DQUOTE \<notin> set tpc" "length tpc < EC200_MAX_TOPIC_LEN"
  shows "let h0 = ec200_mqtt_set_message_cb h (Some cb); reg = registered (urc_table h0);
      new = (\<lambda>ls. if room_for h ''+QMTRECV:'' then messages ls else [])
    in mqtt_msg_cb h0 = Some cb \<and>
      (\<exists>h' st buf' ls'. receive_transaction h0 prefix stop buf t = Some (h', st, buf') \<and>
         spec_receive reg 64 prefix stop False (clear_buf buf) ls = (st, buf', ls') \<and>
         inbox (user_ctx h') = inbox (user_ctx h) @ new (consumed ls ls')) \<and>
      (\<exists>h'. ec200_at_poll_urc h0 t = Some (h', EC200_OK) \<and>
         inbox (user_ctx h') = inbox (user_ctx h) @ new (take 64 ls)) \<and>
      message_of (qmtrecv_line idx msg_id tpc data) =
        [\<lparr>msg_topic = tpc, msg_payload = take EC200_MAX_PAYLOAD_LEN data,
          msg_payload_len = min (length data) EC200_MAX_PAYLOAD_LEN, msg_qos = 0\<rparr>]"
proof -
  define h0 where "h0 = ec200_mqtt_set_message_cb h (Some cb)"
  define es where "es = urc_table h0"
  let ?us = "inbox (user_ctx h)" and ?room = "room_for h ''+QMTRECV:''"
  let ?new = "\<lambda>ls. if ?room then messages ls else []"
  have es: "es = urc_table (ec200_mqtt_set_message_cb h (Some cb))" by (simp add: es_def h0_def)
  have hears: "hears live pending rd inbox delivers_to h0 ls ?us"
    using records_messages [OF assms(3,4)] assms(6-10) by (simp add: hears_def h0_def)
  have served: "all_given delivers_to es (served (registered es) prefix m xs) = ?new xs" if "set xs \<subseteq> set ls" for m xs
  proof (cases ?room)
    case True
    then show ?thesis
      using given_message [OF assms(3) es True assms(5)] assms(14) that
      by (subst served_messages) (auto simp: subset_iff)
  qed (simp add: given_lost [OF assms(3) es] concat_eq_Nil_conv)
  have polled: "all_given delivers_to es (filter (\<lambda>l. l \<noteq> []) xs) = ?new xs" if "set xs \<subseteq> set ls" for xs
    using that
  proof (induction xs)
    case (Cons l xs)
    then show ?case
      using given_message(1) [OF assms(3) es _ assms(5), of l] given_lost [OF assms(3) es, of l]
        message_line_body [of "[]"] by (auto simp: message_of_def [of "[]"])
  qed simp
  obtain h1 st buf' ls' where r: "receive_transaction h0 prefix stop buf t = Some (h1, st, buf')"
      "spec_receive (registered es) 64 prefix stop False (clear_buf buf) ls = (st, buf', ls')"
      "inbox (user_ctx h1) = ?us @ all_given delivers_to es (served (registered es) prefix False (consumed ls ls'))"
    using receive_heard [OF assms(1,2) hears assms(13) es_def, of 64 prefix stop False "clear_buf buf" t]
    unfolding receive_transaction_def EC200_AT_MAX_LINES_def by blast
  have "set (consumed ls ls') \<subseteq> set ls" by (simp add: consumed_def set_take_subset)
  then have 1: "inbox (user_ctx h1) = ?us @ ?new (consumed ls ls')" using r(3) served by simp
  have "quiet_fallback live pending inbox h0"
    using assms(4) by (simp add: fills_inbox_def quiet_fallback_def h0_def)
  then obtain h2 where p: "poll_loop 64 h0 t = Some (h2, EC200_OK)"
      "inbox (user_ctx h2) = ?us @ all_given delivers_to es (filter (\<lambda>l. l \<noteq> []) (take 64 ls))"
    using poll_heard [OF assms(1,2) hears assms(13) es_def, of 64 t] by blast
  have "ec200_at_poll_urc h0 t = Some (h2, EC200_OK)"
    using p(1) assms(11,12) by (simp add: ec200_at_poll_urc_def handle_ready_def h0_def EC200_AT_MAX_LINES_def)
  moreover have "inbox (user_ctx h2) = ?us @ ?new (take 64 ls)"
    using p(2) polled [of "take 64 ls"] set_take_subset [of 64 ls] by simp
  ultimately show ?thesis
    using r(1,2) 1 printed_message [OF assms(15,16)]
    unfolding Let_def h0_def [symmetric] es_def [symmetric] by (auto simp: h0_def set_message_cb_stores)
qed

definition keep_message :: "ec200_mqtt_message \<Rightarrow> tape \<times> ec200_mqtt_message list \<Rightarrow> tape \<times> ec200_mqtt_message list" where
  "keep_message m w = (fst w, snd w @ [m])"

definition led_line :: string where
  "led_line = qmtrecv_line 0 0 ''led'' ''{on}''"

theorem mqtt_message_delivered_witness:
  "(\<exists>h' r. receive_transaction (ec200_mqtt_set_message_cb (book_handle [led_line, ''OK'']) (Some keep_message))
       None False (char_buf 64) 300 = Some (h', EC200_OK, r) \<and> map msg_payload (snd (user_ctx h')) = [''{on}'']) \<and>
   (\<exists>h'. ec200_at_poll_urc (ec200_mqtt_set_message_cb
         ((book_handle [led_line])\<lparr>urc_table := full_table\<rparr>) (Some keep_message)) 300 = Some (h', EC200_OK) \<and>
       snd (user_ctx h') = [])"
proof -
  let ?e = "book_handle [led_line, ''OK''] :: (tape \<times> ec200_mqtt_message list) ec200_handle"
  let ?es = "full_table :: (tape \<times> ec200_mqtt_message list) urc_entries"
  let ?f = "(book_handle [led_line])\<lparr>urc_table := ?es\<rparr>"
  have d: "show_nat 0 = ''0''" by code_simp
  have clean: "clean_line led_line" "clean_line ''OK''"
    by (simp_all add: led_line_def qmtrecv_line_def d quoted_def clean_line_def size_defs)
  have base: "h_read ?e = book_read" "fst (fst (user_ctx ?e)) = crlf [led_line, ''OK'']" "rx_buf ?e = []" "last_err_kind ?e = 0"
    "initialised ?e" "\<not> ppp_data_mode ?e" "urc_table ?e = replicate EC200_MAX_URC_HANDLERS free_urc_entry"
    "urc_handler ?e = None" "snd (user_ctx ?e) = []"
    by (simp_all add: book_handle_def fresh_handle_def)
  have none: "registered_at ?e q = None" for q using base(7) by (simp add: registered_at_def)
  have room: "room_for ?e ''+QMTRECV:''" "table_ok (urc_table ?e)" "sole_prefix ?e [led_line, ''OK'']"
    using base(7) by (simp_all add: room_for_def none dom_def sole_prefix_def) (simp add: size_defs)
  have fills: "fills_inbox (\<lambda>_. True) (\<lambda>w. fst (fst w)) snd ?e keep_message"
    "fills_inbox (\<lambda>_. True) (\<lambda>w. fst (fst w)) snd ?f keep_message"
    by (auto simp: fills_inbox_def keep_message_def quiet_fallback_def book_handle_def fresh_handle_def
        free_urc_entry_def full_table_def)
  have line_term_OK: "line_term ''OK'' = TERM_OK" by (simp add: line_term_def)
  have used: "used_prefixes ?es = map (\<lambda>d. ''+P'' @ [digit_char d]) [0..<8]" by (rule full_used)
  have dist: "distinct (used_prefixes ?es)" unfolding used by (simp add: upt_rec digit_char_def)
  have ok: "table_ok (urc_table ?f)"
    using dist by (simp add: table_ok_def) (simp add: full_table_def size_defs)
  have not: "''+QMTRECV:'' \<notin> set (used_prefixes ?es)" unfolding used by auto
  have "card (dom (registered_at ?f)) = 8"
    using dist by (simp add: registered_at_def dom_lookup distinct_card) (simp add: used)
  then have full: "\<not> room_for ?f ''+QMTRECV:''"
    using not lookup_None [of ?es "''+QMTRECV:''"] by (simp add: room_for_def registered_at_def size_defs)
  have sole: "sole_prefix ?f [led_line]"
    unfolding sole_prefix_def
  proof (intro ballI impI allI, elim conjE)
    fix l q assume l: "l \<in> set [led_line]" and q: "registered_at ?f q \<noteq> None" "take (length q) l = q"
    have "q \<in> set (used_prefixes ?es)" using q(1) by (simp add: registered_at_def lookup_None)
    then show "q = ''+QMTRECV:''" using l q(2) unfolding used by (auto simp: led_line_def qmtrecv_line_def)
  qed
  note msg = mqtt_message_delivered [OF books.byte_source_axioms book_quiet]
  have led: "messages [led_line] = [\<lparr>msg_topic = ''led'', msg_payload = ''{on}'', msg_payload_len = 4, msg_qos = 0\<rparr>]"
    "message_of ''OK'' = []"
    using printed_message [of "''led''" 0 0 "''{on}''"]
    by (simp_all add: led_line_def size_defs message_of_def message_line_def)
  obtain h1 st buf' ls' where h1: "receive_transaction (ec200_mqtt_set_message_cb ?e (Some keep_message))
        None False (char_buf 64) 300 = Some (h1, st, buf')"
      "spec_receive (registered (urc_table (ec200_mqtt_set_message_cb ?e (Some keep_message)))) 64 None False False
         (clear_buf (char_buf 64)) [led_line, ''OK''] = (st, buf', ls')"
      "snd (user_ctx h1) = messages (consumed [led_line, ''OK''] ls')"
    using msg [OF room(2) fills(1) room(3) base(1) TrueI base(2-6), of None "''x''" False "char_buf 64" 300 0 0 "[]"] clean room(1)
      base(9)
    by (auto simp: Let_def prefix_hit_def size_defs)
  have "st = EC200_OK \<and> ls' = []"
    using h1(2) message_prefix [of "'' '' @ show_nat 0 @ '','' @ show_nat 0 @ '','' @ quoted ''led'' @ '','' @ quoted ''{on}''"]
    by (simp add: spec_numeral prefix_hit_def line_term_OK led_line_def qmtrecv_line_def)
  then have 1: "map msg_payload (snd (user_ctx h1)) = [''{on}'']" "st = EC200_OK" using h1(3) led by simp_all
  have f: "h_read ?f = book_read" "fst (fst (user_ctx ?f)) = crlf [led_line]" "rx_buf ?f = []" "last_err_kind ?f = 0"
    "initialised ?f" "\<not> ppp_data_mode ?f" "snd (user_ctx ?f) = []"
    by (simp_all add: book_handle_def fresh_handle_def)
  obtain h2 where "ec200_at_poll_urc (ec200_mqtt_set_message_cb ?f (Some keep_message)) 300 = Some (h2, EC200_OK)"
      "snd (user_ctx h2) = []"
    using msg [OF ok fills(2) sole f(1) TrueI f(2-6), of None "''x''" False "char_buf 64" 300 0 0 "[]"] clean full f(7)
    by (auto simp: Let_def prefix_hit_def size_defs)
  with h1(1) 1 show ?thesis by auto
qed


end
