(* ===== verification/Ec200_Ppp.thy ===== *)
theory Ec200_Ppp
  imports Ec200_Core
begin

text \<open>
  The PPP control plane, \<^verbatim>\<open>src/ec200_ppp.c\<close>: the only operations that change the
  \<open>ppp_data_mode\<close> flag, which makes every AT operation of the handle answer
  \<open>EC200_ERR_BUSY\<close> while the UART carries PPP frames.
\<close>

definition EC200_PPP_ESCAPE_GUARD_MS :: nat where "EC200_PPP_ESCAPE_GUARD_MS = 1000"

definition delay_by :: "nat \<Rightarrow> 'w ec200_handle \<Rightarrow> 'w ec200_handle" where
  "delay_by ms h = h\<lparr>user_ctx := h_delay_ms h ms (user_ctx h)\<rparr>"

definition ec200_ppp_dial ::
    "'w ec200_handle \<Rightarrow> nat \<Rightarrow> ('w ec200_handle \<times> ec200_status) option" where
  "ec200_ppp_dial h cid =
     (if cid < 1 \<or> cid > 16 then Some (h, EC200_ERR_PARAM)
      else if ppp_data_mode h then Some (h, EC200_ERR_BUSY)
      else do {
        (h, st, _) \<leftarrow> ec200_at_send_expect h
                        (Some (snprintf 24 (''ATD*99***'' @ show_nat cid @ ''#'')))
                        (Some ''CONNECT'') (char_buf 32) EC200_AT_TIMEOUT_LONG;
        if st \<noteq> EC200_OK then Some (h, st)
        else Some (h\<lparr>ppp_data_mode := True\<rparr>, EC200_OK)
      })"

definition ec200_ppp_escape ::
    "'w ec200_handle \<Rightarrow> ('w ec200_handle \<times> ec200_status) option" where
  "ec200_ppp_escape h =
     (if \<not> ppp_data_mode h then Some (h, EC200_ERR_PARAM)
      else do {
        let h = delay_by EC200_PPP_ESCAPE_GUARD_MS h;
        (h, st) \<leftarrow> ec200_at_write_raw h (Some ''+++'') 3;
        if st \<noteq> EC200_OK then Some (h, st)
        else do {
          let h = delay_by EC200_PPP_ESCAPE_GUARD_MS h;
          (h, st) \<leftarrow> ec200_at_wait_final h EC200_AT_TIMEOUT_DEFAULT;
          if st = EC200_ERR_MODULE \<or> st = EC200_ERR_CME \<or> st = EC200_ERR_CMS
          then Some (h\<lparr>ppp_data_mode := False\<rparr>, st)
          else if st \<noteq> EC200_OK then Some (h, st)
          else Some (h\<lparr>ppp_data_mode := False\<rparr>, EC200_OK)
        }
      })"

definition ec200_ppp_resume ::
    "'w ec200_handle \<Rightarrow> ('w ec200_handle \<times> ec200_status) option" where
  "ec200_ppp_resume h =
     (if ppp_data_mode h then Some (h, EC200_ERR_BUSY)
      else do {
        (h, st, _) \<leftarrow> ec200_at_send_expect h (Some ''ATO'') (Some ''CONNECT'') (char_buf 32)
                        EC200_AT_TIMEOUT_DEFAULT;
        if st \<noteq> EC200_OK then Some (h, st)
        else Some (h\<lparr>ppp_data_mode := True\<rparr>, EC200_OK)
      })"

definition ec200_ppp_hangup ::
    "'w ec200_handle \<Rightarrow> ('w ec200_handle \<times> ec200_status) option" where
  "ec200_ppp_hangup h =
     (if ppp_data_mode h then Some (h, EC200_ERR_PARAM)
      else send_plain h ''ATH'' EC200_AT_TIMEOUT_LONG)"

definition ec200_ppp_disconnect ::
    "'w ec200_handle \<Rightarrow> ('w ec200_handle \<times> ec200_status) option" where
  "ec200_ppp_disconnect h =
     (if ppp_data_mode h then do {
        (h, st) \<leftarrow> ec200_ppp_escape h;
        if st \<noteq> EC200_OK \<and> ppp_data_mode h then Some (h, st)
        else ec200_ppp_hangup h
      }
      else ec200_ppp_hangup h)"

definition ec200_ppp_in_data_mode :: "'w ec200_handle \<Rightarrow> bool" where
  "ec200_ppp_in_data_mode h = ppp_data_mode h"

end
