(* ===== verification/Ec200_Link.thy ===== *)
theory Ec200_Link
  imports Ec200_Ppp Ec200_Wire
begin

text \<open>
  The UART as a link that carries either AT commands or PPP frames. The inductive relation
  \<open>link_step\<close> is the state machine of \<^verbatim>\<open>src/ec200_ppp.c\<close> as the comments of the source
  describe it, each step labelled with the bytes it writes; the operations of the library are
  shown to be steps of it, with the flag \<open>ppp_data_mode\<close> as the state and the record of
  \<open>Ec200_Wire\<close> as the bytes.
\<close>

section \<open>The machine\<close>

datatype ppp_call = Dial nat | Escape | Resume | Hangup | Disconnect

text \<open>The answers after which the module is known to be in command mode.\<close>

definition answered :: "ec200_status \<Rightarrow> bool" where
  "answered st \<longleftrightarrow> st \<in> {EC200_OK, EC200_ERR_MODULE, EC200_ERR_CME, EC200_ERR_CMS}"

text \<open>The outcomes that leave the state of the module unknown.\<close>

definition unknown :: "ec200_status \<Rightarrow> bool" where
  "unknown st \<longleftrightarrow> st \<in> {EC200_ERR_TIMEOUT, EC200_ERR_IO, EC200_ERR_OVERFLOW, EC200_ERR_NOT_READY}"

text \<open>What has gone out of some bytes: all of them, unless the outcome is unknown.\<close>

definition goes_out :: "char list \<Rightarrow> ec200_status \<Rightarrow> char list \<Rightarrow> bool" where
  "goes_out cmd st out \<longleftrightarrow> (\<exists>k\<le>length cmd. out = take k cmd) \<and> (\<not> unknown st \<longrightarrow> out = cmd)"

definition dial_command :: "nat \<Rightarrow> char list" where
  "dial_command cid = ''ATD*99***'' @ show_nat cid @ ''#'' @ [CR]"

text \<open>
  \<open>link_step d call st out d'\<close>: in data mode (\<open>d\<close>) or command mode, the call returns
  \<open>st\<close>, has written \<open>out\<close>, and the mode is \<open>d'\<close> afterwards.
\<close>

inductive link_step :: "bool \<Rightarrow> ppp_call \<Rightarrow> ec200_status \<Rightarrow> char list \<Rightarrow> bool \<Rightarrow> bool" where
  dial_refused: "cid < 1 \<or> cid > 16 \<Longrightarrow> link_step d (Dial cid) EC200_ERR_PARAM [] d"
| dial_busy: "1 \<le> cid \<Longrightarrow> cid \<le> 16 \<Longrightarrow> link_step True (Dial cid) EC200_ERR_BUSY [] True"
| dial_ends: "1 \<le> cid \<Longrightarrow> cid \<le> 16 \<Longrightarrow> goes_out (dial_command cid) st out \<Longrightarrow>
    link_step False (Dial cid) st out (st = EC200_OK)"
| escape_refused: "link_step False Escape EC200_ERR_PARAM [] False"
| escape_answered: "answered st \<Longrightarrow> link_step True Escape st ''+++'' False"
| escape_unknown: "unknown st \<Longrightarrow> goes_out ''+++'' st out \<Longrightarrow> link_step True Escape st out True"
| resume_busy: "link_step True Resume EC200_ERR_BUSY [] True"
| resume_ends: "goes_out (''ATO'' @ [CR]) st out \<Longrightarrow> link_step False Resume st out (st = EC200_OK)"
| hangup_refused: "link_step True Hangup EC200_ERR_PARAM [] True"
| hangup_ends: "answered st \<or> unknown st \<Longrightarrow> goes_out (''ATH'' @ [CR]) st out \<Longrightarrow>
    link_step False Hangup st out False"
| disconnect_stuck: "st \<noteq> EC200_OK \<Longrightarrow> link_step True Escape st out True \<Longrightarrow>
    link_step True Disconnect st out True"
| disconnect_escaped: "link_step True Escape st1 out1 False \<Longrightarrow> link_step False Hangup st out2 False \<Longrightarrow>
    link_step True Disconnect st (out1 @ out2) False"
| disconnect_idle: "link_step False Hangup st out False \<Longrightarrow> link_step False Disconnect st out False"

inductive_simps link_step_simps:
  "link_step d (Dial cid) st out d'" "link_step d Escape st out d'" "link_step d Resume st out d'"
  "link_step d Hangup st out d'" "link_step d Disconnect st out d'"

text \<open>The calls that do not fit the mode or the arguments.\<close>

fun refused :: "bool \<Rightarrow> ppp_call \<Rightarrow> bool" where
  "refused d (Dial cid) = (cid < 1 \<or> cid > 16 \<or> d)"
| "refused d Escape = (\<not> d)"
| "refused d Resume = d"
| "refused d Hangup = d"
| "refused d Disconnect = False"

fun ppp_run :: "ppp_call \<Rightarrow> 'w ec200_handle \<Rightarrow> ('w ec200_handle \<times> ec200_status) option" where
  "ppp_run (Dial cid) h = ec200_ppp_dial h cid"
| "ppp_run Escape h = ec200_ppp_escape h"
| "ppp_run Resume h = ec200_ppp_resume h"
| "ppp_run Hangup h = ec200_ppp_hangup h"
| "ppp_run Disconnect h = ec200_ppp_disconnect h"

section \<open>The statuses of the waits\<close>

lemma write_loop_status:
  assumes "write_loop data len h sent budget = Some (h', st)"
  shows "st = EC200_OK \<or> unknown st"
proof -
  have "snd (h', st) = EC200_OK \<or> unknown (snd (h', st))"
  proof (rule write_loop.raw_induct
      [where P = "\<lambda>data len h sent b x. snd x = EC200_OK \<or> unknown (snd x)", OF _ assms], goal_cases)
    case (1 loop data len h sent b x)
    then show ?case
      by (auto simp: Let_def unknown_def split: if_splits prod.splits)
  qed
  then show ?thesis by simp
qed

lemma write_raw_status:
  "ec200_at_write_raw h data len = Some (h', st) \<Longrightarrow> st = EC200_OK \<or> unknown st"
  by (auto simp: ec200_at_write_raw_def unknown_def write_loop_status [unfolded unknown_def] split: if_splits
      dest: write_loop_status)

lemma map_error_answered: "answered (map_error_terminal h)"
  by (simp add: map_error_terminal_def answered_def)

lemma wait_final_loop_status:
  "wait_final_loop k h b = Some (h', st) \<Longrightarrow> answered st \<or> unknown st"
proof (induction k arbitrary: h b)
  case 0
  then show ?case by (simp add: unknown_def)
next
  case (Suc k)
  obtain h1 rc b1 where l: "rx_line h b = Some (h1, rc, b1)"
    using Suc.prems by (auto simp: bind_eq_Some_conv)
  show ?case
  proof (cases rc)
    case (RX_OK line)
    obtain h2 t where "is_terminal h1 line = (h2, t)" by fastforce
    then show ?thesis
      using Suc.prems Suc.IH l RX_OK map_error_answered
      by (cases t) (auto simp: answered_def [of EC200_OK] split: if_splits)
  qed (use Suc.prems l in \<open>auto simp: unknown_def\<close>)
qed

lemma wait_final_status: "ec200_at_wait_final h t = Some (h', st) \<Longrightarrow> answered st \<or> unknown st"
  using wait_final_loop_status by (fastforce simp: ec200_at_wait_final_def unknown_def split: if_splits)

section \<open>What the calls write\<close>

lemma goes_out_all: "goes_out cmd st cmd"
  by (auto simp: goes_out_def)

lemma goes_out_prefix: "unknown st \<Longrightarrow> k \<le> length cmd \<Longrightarrow> goes_out cmd st (take k cmd)"
  by (auto simp: goes_out_def)

lemma transmit_fails:
  assumes "at_transmit h cmd = Some (h', st)" "st \<noteq> EC200_OK" "\<not> ppp_data_mode h"
  shows "unknown st"
  using assms write_raw_status
  by (auto simp: at_transmit_def Let_def unknown_def dest: write_raw_status [unfolded unknown_def] split: if_splits)

text \<open>A command in command mode: sent once, and whole unless the outcome is unknown.\<close>

lemma command_sent:
  assumes "at_transmit h cmd = Some (h1, st1)" "logs log h" "\<not> ppp_data_mode h" "st1 \<noteq> EC200_OK \<Longrightarrow> st = st1"
  obtains out where "logs log h1" "logged log h1 = logged log h @ out" "goes_out (cmd @ [CR]) st out"
proof -
  obtain k where k: "k \<le> length cmd + 1" "logged log h1 = logged log h @ take k (cmd @ [CR])"
      "st1 = EC200_OK \<longrightarrow> k = length cmd + 1" and lg: "logs log h1"
    using transmit_wire [OF assms(1,2)] by blast
  have "goes_out (cmd @ [CR]) st (take k (cmd @ [CR]))"
  proof (cases "st1 = EC200_OK")
    case True
    then have "take k (cmd @ [CR]) = cmd @ [CR]" using k(3) by simp
    then show ?thesis using goes_out_all by metis
  next
    case False
    then show ?thesis
      using transmit_fails [OF assms(1) False assms(3)] assms(4) k(1) by (intro goes_out_prefix) simp_all
  qed
  with k(2) lg that show ?thesis by blast
qed

lemma expect_sent:
  assumes "ec200_at_send_expect h (Some cmd) (Some p) buf t = Some (h', st, buf')" "logs log h" "\<not> ppp_data_mode h"
    and "p \<noteq> []"
  obtains out where "logs log h'" "logged log h' = logged log h @ out" "goes_out (cmd @ [CR]) st out"
proof (cases "handle_ready h")
  case False
  then have "h' = h" "st = EC200_ERR_NOT_READY" using assms(1,4) by (auto simp: ec200_at_send_expect_def split: if_splits)
  then show ?thesis using that [of "[]"] assms(2) goes_out_prefix [of st 0 "cmd @ [CR]"] by (simp add: unknown_def)
next
  case True
  obtain h1 st1 where t: "at_transmit h cmd = Some (h1, st1)"
    using assms(1) True assms(4) by (auto simp: ec200_at_send_expect_def bind_eq_Some_conv split: if_splits)
  have rest: "st1 \<noteq> EC200_OK \<Longrightarrow> h' = h1 \<and> st = st1"
    "st1 = EC200_OK \<Longrightarrow> receive_transaction h1 (Some p) True buf t = Some (h', st, buf')"
    using assms(1) True t assms(4) by (auto simp: ec200_at_send_expect_def split: if_splits)
  obtain out where o: "logs log h1" "logged log h1 = logged log h @ out" "goes_out (cmd @ [CR]) st out"
    by (rule command_sent [OF t assms(2,3), of st]) (use rest(1) in auto)
  have "logs log h' \<and> logged log h' = logged log h1"
    using rest quiet_receive(1) [of h1 "Some p" True buf t h' "(st, buf')" log] o(1) by (cases "st1 = EC200_OK") auto
  with o that show ?thesis by metis
qed

lemma receive_loop_status:
  "receive_loop k h None stop matched buf b = Some (h', st, buf') \<Longrightarrow> answered st \<or> unknown st"
proof (induction k arbitrary: h matched buf b)
  case 0
  then show ?case by (simp add: unknown_def)
next
  case (Suc k)
  obtain h1 rc b1 where l: "rx_line h b = Some (h1, rc, b1)"
    using Suc.prems by (auto simp: bind_eq_Some_conv)
  show ?case
  proof (cases rc)
    case (RX_OK line)
    obtain h2 t where "is_terminal h1 line = (h2, t)" by fastforce
    moreover obtain h3 d where "dispatch_registered_urc h2 line = (h3, d)" by fastforce
    ultimately show ?thesis
      using Suc.prems Suc.IH l RX_OK map_error_answered
      by (cases t; cases d) (auto simp: answered_def [of EC200_OK] split: if_splits)
  qed (use Suc.prems l in \<open>auto simp: unknown_def\<close>)
qed

lemma plain_sent:
  assumes "send_plain h cmd t = Some (h', st)" "logs log h" "\<not> ppp_data_mode h"
  obtains out where "logs log h'" "logged log h' = logged log h @ out" "goes_out (cmd @ [CR]) st out" "answered st \<or> unknown st"
proof -
  obtain buf' where s: "ec200_at_send h (Some cmd) None t = Some (h', st, buf')"
    using assms(1) by (auto simp: send_plain_def bind_eq_Some_conv)
  show ?thesis
  proof (cases "handle_ready h")
    case False
    then have "h' = h" "st = EC200_ERR_NOT_READY" using s by (auto simp: ec200_at_send_def split: if_splits)
    then show ?thesis using that [of "[]"] assms(2) goes_out_prefix [of st 0 "cmd @ [CR]"] by (simp add: unknown_def)
  next
    case True
    obtain h1 st1 where t: "at_transmit h cmd = Some (h1, st1)"
      using s True by (auto simp: ec200_at_send_def bind_eq_Some_conv split: if_splits)
    have rest: "st1 \<noteq> EC200_OK \<Longrightarrow> h' = h1 \<and> st = st1"
      "st1 = EC200_OK \<Longrightarrow> receive_transaction h1 None False None t = Some (h', st, buf')"
      using s True t by (auto simp: ec200_at_send_def split: if_splits)
    obtain out where o: "logs log h1" "logged log h1 = logged log h @ out" "goes_out (cmd @ [CR]) st out"
      by (rule command_sent [OF t assms(2,3), of st]) (use rest(1) in auto)
    have "logs log h' \<and> logged log h' = logged log h1"
      using rest quiet_receive(1) [of h1 None False None t h' "(st, buf')" log] o(1) by (cases "st1 = EC200_OK") auto
    moreover have "answered st \<or> unknown st"
      using rest transmit_fails [OF t _ assms(3)]
        receive_loop_status [of EC200_AT_MAX_LINES h1 False False "clear_buf None" t h' st buf']
      by (cases "st1 = EC200_OK") (auto simp: receive_transaction_def)
    ultimately show ?thesis using o that by metis
  qed
qed

section \<open>The operations are steps of the machine\<close>

lemma flag_kept:
  "ec200_at_send_expect h cmd p b t = Some (h', r) \<Longrightarrow> ppp_data_mode h' = ppp_data_mode h"
  "send_plain h c t = Some (h', r') \<Longrightarrow> ppp_data_mode h' = ppp_data_mode h"
  "ec200_at_write_raw h data len = Some (h', r') \<Longrightarrow> ppp_data_mode h' = ppp_data_mode h"
  "ec200_at_wait_final h t = Some (h', r') \<Longrightarrow> ppp_data_mode h' = ppp_data_mode h"
  using pppr.keeps_send_expect pppr.keeps_plain pppr.keeps_write_raw pppr.keeps_wait_final
  by (blast dest: keepsD)+

lemma delay_simps [simp]: "ppp_data_mode (delay_by ms h) = ppp_data_mode h" "logs log (delay_by ms h) = logs log h"
  by (simp_all add: delay_by_def)

lemma delay_logged: "logs log h \<Longrightarrow> logged log (delay_by ms h) = logged log h"
  by (simp add: delay_by_def logs_def)

text \<open>What a call shows: a step of the machine, with what it adds to the record.\<close>

definition shows_step :: "('w \<Rightarrow> char list) \<Rightarrow> 'w ec200_handle \<Rightarrow> ppp_call \<Rightarrow> 'w ec200_handle \<Rightarrow> ec200_status \<Rightarrow> bool" where
  "shows_step log h call h' st \<longleftrightarrow> logs log h' \<and>
     (\<exists>out. logged log h' = logged log h @ out \<and> link_step (ppp_data_mode h) call st out (ppp_data_mode h'))"

lemma escape_step:
  assumes "ec200_ppp_escape h = Some (h', st)" "logs log h"
  shows "shows_step log h Escape h' st"
proof (cases "ppp_data_mode h")
  case False
  then show ?thesis
    using assms by (auto simp: ec200_ppp_escape_def link_step_simps shows_step_def)
next
  case True
  let ?h0 = "delay_by EC200_PPP_ESCAPE_GUARD_MS h"
  obtain h1 st1 where w: "ec200_at_write_raw ?h0 (Some ''+++'') 3 = Some (h1, st1)"
    using assms True by (auto simp: ec200_ppp_escape_def bind_eq_Some_conv Let_def)
  obtain k where k: "logs log h1" "k \<le> 3" "logged log h1 = logged log h @ take k ''+++''" "st1 = EC200_OK \<longrightarrow> k = 3"
    using write_raw_wire [OF w, of log] assms(2) by (auto simp: delay_logged)
  have f1: "ppp_data_mode h1" using flag_kept(3) [OF w] True by simp
  show ?thesis
  proof (cases "st1 = EC200_OK")
    case False
    then have "unknown st1" using write_raw_status [OF w] by blast
    moreover have "h' = h1" "st = st1" using assms True w False by (auto simp: ec200_ppp_escape_def Let_def)
    ultimately show ?thesis
      using k f1 True goes_out_prefix [of st1 k "''+++''"]
      by (auto simp: shows_step_def link_step_simps)
  next
    case ok: True
    then obtain h2 st2 where f: "ec200_at_wait_final (delay_by EC200_PPP_ESCAPE_GUARD_MS h1)
        EC200_AT_TIMEOUT_DEFAULT = Some (h2, st2)"
      using assms True w by (auto simp: ec200_ppp_escape_def bind_eq_Some_conv Let_def)
    have l: "logs log h2" "logged log h2 = logged log h @ ''+++''"
      using quiet_receive(3) [OF f, of log] k ok by (auto simp: delay_logged)
    have "ppp_data_mode h2" using flag_kept(4) [OF f] f1 by simp
    then show ?thesis
      using assms True w ok f wait_final_status [OF f] l goes_out_all [of "''+++''" st2]
      by (auto simp: ec200_ppp_escape_def Let_def shows_step_def link_step_simps answered_def unknown_def
          split: if_splits)
  qed
qed

lemma hangup_step:
  assumes "ec200_ppp_hangup h = Some (h', st)" "logs log h"
  shows "shows_step log h Hangup h' st"
proof (cases "ppp_data_mode h")
  case True
  then show ?thesis using assms by (auto simp: ec200_ppp_hangup_def link_step_simps shows_step_def)
next
  case False
  then have s: "send_plain h ''ATH'' EC200_AT_TIMEOUT_LONG = Some (h', st)"
    using assms(1) by (simp add: ec200_ppp_hangup_def)
  obtain out where "logs log h'" "logged log h' = logged log h @ out" "goes_out (''ATH'' @ [CR]) st out"
      "answered st \<or> unknown st"
    by (rule plain_sent [OF s assms(2) False])
  then show ?thesis
    using flag_kept(2) [OF s] False by (auto simp: shows_step_def link_step_simps)
qed

lemma dial_command_fits: "snprintf 24 (''ATD*99***'' @ show_nat cid @ ''#'') @ [CR] = dial_command cid" if "cid \<le> 16"
proof -
  have "length (show_nat cid) \<le> 2" using that by (intro show_nat_length) simp_all
  then show ?thesis by (simp add: snprintf_fits dial_command_def)
qed

lemma dial_step:
  assumes "ec200_ppp_dial h cid = Some (h', st)" "logs log h"
  shows "shows_step log h (Dial cid) h' st"
proof (cases "cid < 1 \<or> cid > 16 \<or> ppp_data_mode h")
  case True
  then show ?thesis
    using assms by (auto simp: ec200_ppp_dial_def shows_step_def intro: link_step.intros split: if_splits)
next
  case False
  let ?cmd = "snprintf 24 (''ATD*99***'' @ show_nat cid @ ''#'')"
  obtain h1 st1 b where s: "ec200_at_send_expect h (Some ?cmd)
      (Some ''CONNECT'') (char_buf 32) EC200_AT_TIMEOUT_LONG = Some (h1, st1, b)"
    using assms False by (auto simp: ec200_ppp_dial_def bind_eq_Some_conv)
  obtain out where o: "logs log h1" "logged log h1 = logged log h @ out" "goes_out (?cmd @ [CR]) st1 out"
    by (rule expect_sent [OF s assms(2)]) (use False in auto)
  have "h' = (if st1 = EC200_OK then h1\<lparr>ppp_data_mode := True\<rparr> else h1)" "st = st1"
    using assms(1) False s by (auto simp: ec200_ppp_dial_def split: if_splits)
  then show ?thesis
    using o False flag_kept(1) [OF s] dial_command_fits [of cid]
    by (auto simp: shows_step_def link_step_simps)
qed

lemma resume_step:
  assumes "ec200_ppp_resume h = Some (h', st)" "logs log h"
  shows "shows_step log h Resume h' st"
proof (cases "ppp_data_mode h")
  case True
  then show ?thesis using assms by (auto simp: ec200_ppp_resume_def shows_step_def intro: link_step.intros)
next
  case False
  then obtain h1 st1 b where s: "ec200_at_send_expect h (Some ''ATO'') (Some ''CONNECT'') (char_buf 32)
      EC200_AT_TIMEOUT_DEFAULT = Some (h1, st1, b)"
    using assms by (auto simp: ec200_ppp_resume_def bind_eq_Some_conv)
  obtain out where o: "logs log h1" "logged log h1 = logged log h @ out" "goes_out (''ATO'' @ [CR]) st1 out"
    by (rule expect_sent [OF s assms(2) False]) auto
  have "h' = (if st1 = EC200_OK then h1\<lparr>ppp_data_mode := True\<rparr> else h1)" "st = st1"
    using assms(1) False s by (auto simp: ec200_ppp_resume_def split: if_splits)
  then show ?thesis
    using o False flag_kept(1) [OF s] by (auto simp: shows_step_def link_step_simps)
qed

lemma disconnect_step:
  assumes "ec200_ppp_disconnect h = Some (h', st)" "logs log h"
  shows "shows_step log h Disconnect h' st"
proof (cases "ppp_data_mode h")
  case False
  then show ?thesis
    using assms hangup_step [of h h' st log]
    by (auto simp: ec200_ppp_disconnect_def shows_step_def link_step_simps)
next
  case True
  then obtain h1 st1 where e: "ec200_ppp_escape h = Some (h1, st1)"
    using assms by (auto simp: ec200_ppp_disconnect_def bind_eq_Some_conv)
  obtain out1 where o1: "logs log h1" "logged log h1 = logged log h @ out1"
      "link_step True Escape st1 out1 (ppp_data_mode h1)"
    using escape_step [OF e assms(2)] True by (auto simp: shows_step_def)
  show ?thesis
  proof (cases "st1 \<noteq> EC200_OK \<and> ppp_data_mode h1")
    case stuck: True
    then show ?thesis
      using assms True e o1
      by (auto simp: ec200_ppp_disconnect_def shows_step_def intro: link_step.disconnect_stuck)
  next
    case False
    then have m: "\<not> ppp_data_mode h1" using o1(3) by (auto simp: unknown_def link_step_simps)
    moreover have g: "ec200_ppp_hangup h1 = Some (h', st)"
      using assms True e False by (simp add: ec200_ppp_disconnect_def)
    obtain out2 where "logs log h'" "logged log h' = logged log h1 @ out2" "link_step False Hangup st out2 (ppp_data_mode h')"
      using hangup_step [OF g o1(1)] m by (auto simp: shows_step_def)
    then show ?thesis
      using o1 m True
      by (auto simp: shows_step_def link_step_simps(4) intro!: link_step.disconnect_escaped
          intro: exI [of _ "out1 @ out2"])
  qed
qed

text \<open>
  C14. The PPP operations are steps of the link machine, and write what it says. Only a dial or a
  resume that reports \<open>EC200_OK\<close> enters data mode; an escape leaves it exactly when the module
  gave a terminal answer, positive or not, and stays in it when the answer timed out, the
  transport failed or the line limit was reached; a disconnect in data mode is an escape followed,
  unless that leaves data mode standing, by a hang-up. A dial, a resume and a hang-up send their
  command, an escape sends \<open>+++\<close>, once and whole unless the outcome is unknown (a timeout, a
  failed transport, a handle that is not initialised). A call that does not fit the mode or has a
  bad context number is refused: it writes nothing and leaves the handle as it was.
\<close>

theorem ppp_refines_link:
  assumes "logs log h" and "ppp_run call h = Some (h', st)"
  shows "(\<exists>out. log (user_ctx h') = log (user_ctx h) @ out \<and>
      link_step (ppp_data_mode h) call st out (ppp_data_mode h')) \<and>
    (refused (ppp_data_mode h) call \<longrightarrow> h' = h)"
proof
  show "\<exists>out. log (user_ctx h') = log (user_ctx h) @ out \<and>
      link_step (ppp_data_mode h) call st out (ppp_data_mode h')"
    using assms dial_step escape_step resume_step hangup_step disconnect_step
    by (cases call) (fastforce simp: shows_step_def)+
  show "refused (ppp_data_mode h) call \<longrightarrow> h' = h"
    using assms(2)
    by (cases call) (auto simp: ec200_ppp_dial_def ec200_ppp_escape_def ec200_ppp_resume_def
        ec200_ppp_hangup_def split: if_splits)
qed

theorem ppp_refines_link_witness:
  "\<exists>h' out. ppp_run Disconnect ((tape_handle (crlf [''NO CARRIER'', ''OK'']))\<lparr>ppp_data_mode := True\<rparr>) =
       Some (h', EC200_OK) \<and>
     snd (user_ctx h') = out \<and> link_step True Disconnect EC200_OK out (ppp_data_mode h') \<and>
     out = ''+++ATH'' @ [CR]"
proof -
  let ?h = "(tape_handle (crlf [''NO CARRIER'', ''OK'']))\<lparr>ppp_data_mode := True\<rparr>"
  have lg: "logs snd ?h" by (simp add: tape_logs)
  have "observed (ppp_run Disconnect ?h) = Some (([], ''+++ATH'' @ [CR]), EC200_OK)" by code_simp
  then obtain h' where h': "ppp_run Disconnect ?h = Some (h', EC200_OK)" "user_ctx h' = ([], ''+++ATH'' @ [CR])"
    by (rule observedE)
  have "snd (user_ctx ?h) = []" "ppp_data_mode ?h" by (simp_all add: tape_handle_def fresh_handle_def)
  then show ?thesis using ppp_refines_link [OF lg h'(1)] h' by auto
qed

section \<open>Leaving data mode\<close>

lemma spec_wait_terminal:
  assumes "\<forall>l\<in>set junk. line_term l = TERM_NONE" and "line_term t \<noteq> TERM_NONE" and "length junk < k"
  shows "spec_wait k None buf (junk @ t # rest) =
    (if t = ''OK'' then EC200_OK else line_error t, buf, rest)"
  using assms
proof (induction junk arbitrary: k)
  case Nil
  then have "t \<noteq> []" by (auto simp: line_term_def)
  then show ?case
    using Nil by (cases k) (auto simp: prefix_hit_def line_term_def split: if_splits)
next
  case (Cons l junk)
  then show ?case by (cases k) (auto simp: prefix_hit_def)
qed

lemma spec_wait_flood:
  assumes "\<forall>l\<in>set junk. line_term l = TERM_NONE" and "k \<le> length junk"
  shows "spec_wait k None buf (junk @ ls) = (EC200_ERR_OVERFLOW, buf, drop k (junk @ ls))"
  using assms
proof (induction junk arbitrary: k)
  case Nil
  then show ?case by simp
next
  case (Cons l junk)
  then show ?case by (cases k) (auto simp: prefix_hit_def)
qed

text \<open>
  While the UART carries PPP frames no AT operation touches it: each of the five send
  operations and the URC poll answer \<open>EC200_ERR_BUSY\<close> with the handle, the transport and
  the caller's buffer unchanged.
\<close>

lemma busy_in_data_mode:
  assumes "initialised h" and "ppp_data_mode h"
  shows "ec200_at_send h (Some cmd) buf t = Some (h, EC200_ERR_BUSY, buf) \<and>
    ec200_at_send_wait h (Some cmd) (Some p) buf t = Some (h, EC200_ERR_BUSY, buf) \<and>
    ec200_at_send_expect h (Some cmd) (Some p) buf t = Some (h, EC200_ERR_BUSY, buf) \<and>
    ec200_at_send_await_urc h (Some cmd) (Some p) buf t t' = Some (h, EC200_ERR_BUSY, buf) \<and>
    ec200_at_send_prompt h (Some cmd) t = Some (h, EC200_ERR_BUSY) \<and>
    ec200_at_poll_urc h t = Some (h, EC200_ERR_BUSY)"
  using assms
  by (simp add: ec200_at_send_def ec200_at_send_wait_def ec200_at_send_expect_def
      ec200_at_send_await_urc_def ec200_at_send_prompt_def ec200_at_poll_urc_def handle_ready_def
      at_transmit_def)

text \<open>
  C36. An escape resynchronises with the module. Residual lines of PPP data that arrive after the
  guard time, fewer than \<open>EC200_AT_MAX_LINES\<close> (64), are discarded up to the first terminal
  line; then the handle is back in command mode, also when that line is \<open>NO CARRIER\<close> or another
  error, which is reported. With 64 or more of them the escape gives up with
  \<open>EC200_ERR_OVERFLOW\<close> before it has seen the answer: the handle stays in data mode, and each
  of the five forms of command and the URC poll is from then on refused with
  \<open>EC200_ERR_BUSY\<close>, the handle unchanged, although the module is in command mode.
\<close>

theorem escape_recovers:
  assumes src: "byte_source live pending rd"
    and "initialised h" and "ppp_data_mode h"
    and sent: "h_write h ''+++'' (h_delay_ms h EC200_PPP_ESCAPE_GUARD_MS (user_ctx h)) = (3, w)"
    and fed: "fed live pending rd (h\<lparr>user_ctx := h_delay_ms h EC200_PPP_ESCAPE_GUARD_MS w\<rparr>)
      (junk @ t # rest)"
    and clean: "\<forall>l\<in>set (junk @ t # rest). clean_line l"
    and junk: "\<forall>l\<in>set junk. line_term l = TERM_NONE"
    and ends: "line_term t \<noteq> TERM_NONE"
  shows "\<exists>h'. if length junk < EC200_AT_MAX_LINES
    then ec200_ppp_escape h = Some (h', if t = ''OK'' then EC200_OK else line_error t) \<and>
      \<not> ppp_data_mode h' \<and> left_with live pending rd h' rest
    else ec200_ppp_escape h = Some (h', EC200_ERR_OVERFLOW) \<and> ppp_data_mode h' \<and>
      left_with live pending rd h' (drop EC200_AT_MAX_LINES (junk @ t # rest)) \<and>
      (\<forall>cmd p buf tmo tmo'.
        ec200_at_send h' (Some cmd) buf tmo = Some (h', EC200_ERR_BUSY, buf) \<and>
        ec200_at_send_wait h' (Some cmd) (Some p) buf tmo = Some (h', EC200_ERR_BUSY, buf) \<and>
        ec200_at_send_expect h' (Some cmd) (Some p) buf tmo = Some (h', EC200_ERR_BUSY, buf) \<and>
        ec200_at_send_await_urc h' (Some cmd) (Some p) buf tmo tmo' = Some (h', EC200_ERR_BUSY, buf) \<and>
        ec200_at_send_prompt h' (Some cmd) tmo = Some (h', EC200_ERR_BUSY) \<and>
        ec200_at_poll_urc h' tmo = Some (h', EC200_ERR_BUSY))"
proof -
  let ?g = EC200_PPP_ESCAPE_GUARD_MS and ?few = "length junk < EC200_AT_MAX_LINES"
  let ?h0 = "delay_by ?g h" and ?h1 = "h\<lparr>user_ctx := w\<rparr>"
  let ?st = "if ?few then if t = ''OK'' then EC200_OK else line_error t else EC200_ERR_OVERFLOW"
  let ?left = "if ?few then rest else drop EC200_AT_MAX_LINES (junk @ t # rest)"
  have w: "ec200_at_write_raw ?h0 (Some ''+++'') 3 = Some (?h1, EC200_OK)"
    using sent assms(2)
    by (simp add: ec200_at_write_raw_def handle_ready_def write_loop.simps delay_by_def cast_u16_def)
  have d: "delay_by ?g ?h1 = h\<lparr>user_ctx := h_delay_ms h ?g w\<rparr>" by (simp add: delay_by_def)
  have spec: "spec_wait EC200_AT_MAX_LINES None None (junk @ t # rest) = (?st, None, ?left)"
    using spec_wait_terminal [OF junk ends, of EC200_AT_MAX_LINES None rest]
      spec_wait_flood [OF junk, of EC200_AT_MAX_LINES None "t # rest"] by simp
  obtain h2 where h2: "wait_final_loop EC200_AT_MAX_LINES (delay_by ?g ?h1) EC200_AT_TIMEOUT_DEFAULT = Some (h2, ?st)"
      "left_with live pending rd h2 ?left"
    using byte_source.wait_final_refines [OF src fed clean, of EC200_AT_MAX_LINES EC200_AT_TIMEOUT_DEFAULT] spec
    unfolding d by auto
  have f: "ec200_at_wait_final (delay_by ?g ?h1) EC200_AT_TIMEOUT_DEFAULT = Some (h2, ?st)"
    using h2(1) assms(2) by (simp add: ec200_at_wait_final_def handle_ready_def delay_by_def)
  have "keeps (\<lambda>h h'. ppp_data_mode h' = ppp_data_mode h) (delay_by ?g ?h1)
      (ec200_at_wait_final (delay_by ?g ?h1) EC200_AT_TIMEOUT_DEFAULT)" by (rule pppr.keeps_wait_final)
  from keepsD [OF this f] have mode: "ppp_data_mode h2" using assms(3) by (simp add: delay_by_def)
  have "keeps same_setup (delay_by ?g ?h1) (ec200_at_wait_final (delay_by ?g ?h1) EC200_AT_TIMEOUT_DEFAULT)"
    by (rule cfgr.keeps_wait_final)
  from keepsD [OF this f] have ini: "initialised h2" using assms(2) by (simp add: same_setup_def delay_by_def)
  have e: "line_error t \<in> {EC200_ERR_MODULE, EC200_ERR_CME, EC200_ERR_CMS}"
    by (simp add: line_error_def)
  show ?thesis
  proof (cases ?few)
    case True
    then show ?thesis
      using assms(3) w f e h2(2) by (auto simp: ec200_ppp_escape_def Let_def left_with_def)
  next
    case False
    then have "ec200_ppp_escape h = Some (h2, EC200_ERR_OVERFLOW)"
      using assms(3) w f by (simp add: ec200_ppp_escape_def Let_def)
    then show ?thesis
      using False h2(2) mode busy_in_data_mode [OF ini mode] by (intro exI [of _ h2]) simp
  qed
qed

theorem escape_recovers_witness:
  "(\<exists>h'. ec200_ppp_escape ((tape_handle (crlf [''~junk'', ''NO CARRIER'']))\<lparr>ppp_data_mode := True\<rparr>) =
     Some (h', EC200_ERR_MODULE) \<and> \<not> ppp_data_mode h') \<and>
   (\<exists>h'. ec200_ppp_escape ((tape_handle (crlf (replicate 64 ''~'' @ [''OK''])))\<lparr>ppp_data_mode := True\<rparr>) =
     Some (h', EC200_ERR_OVERFLOW) \<and> ppp_data_mode h')"
proof -
  define run where "run ls = (tape_handle (crlf ls))\<lparr>ppp_data_mode := True\<rparr>" for ls
  have fed: "fed (\<lambda>_. True) fst tape_read
      (run ls\<lparr>user_ctx := h_delay_ms (run ls) EC200_PPP_ESCAPE_GUARD_MS (crlf ls, ''+++'')\<rparr>) ls" for ls
    by (simp add: run_def fed_def tape_handle_def fresh_handle_def tape_delay_def transparent_def free_urc_entry_def)
  have run: "initialised (run ls)" "ppp_data_mode (run ls)"
    "h_write (run ls) ''+++'' (h_delay_ms (run ls) EC200_PPP_ESCAPE_GUARD_MS (user_ctx (run ls))) = (3, crlf ls, ''+++'')" for ls
    by (simp_all add: run_def tape_handle_def fresh_handle_def tape_delay_def tape_write_def)
  let ?few = "[''~junk''] @ ''NO CARRIER'' # []" and ?many = "replicate 64 ''~'' @ ''OK'' # []"
  have "\<exists>h'. ec200_ppp_escape (run ?few) = Some (h', EC200_ERR_MODULE) \<and> \<not> ppp_data_mode h'"
    using escape_recovers [OF tps.byte_source_axioms run [of ?few] fed [of ?few]]
    by (auto simp: clean_line_def size_defs line_term_def line_error_def EC200_AT_MAX_LINES_def)
  moreover have "\<exists>h'. ec200_ppp_escape (run ?many) = Some (h', EC200_ERR_OVERFLOW) \<and> ppp_data_mode h'"
    using escape_recovers [OF tps.byte_source_axioms run [of ?many] fed [of ?many]]
    by (auto simp: clean_line_def size_defs line_term_def EC200_AT_MAX_LINES_def)
  ultimately show ?thesis by (simp add: run_def)
qed

end
