(* ===== verification/Ec200_Gnss.thy ===== *)
theory Ec200_Gnss
  imports Ec200_Core
begin

text \<open>
  GNSS control and position, \<^verbatim>\<open>src/ec200_gnss.c\<close>. The position query reads fields of
  type \<^verbatim>\<open>float\<close>; the floating-point type of the platform and its operations are a
  parameter.
\<close>

definition ec200_gnss_start :: "'w ec200_handle \<Rightarrow> ('w ec200_handle \<times> ec200_status) option"
    where
  "ec200_gnss_start h = send_plain h ''AT+QGPS=1'' EC200_AT_TIMEOUT_DEFAULT"

definition ec200_gnss_stop :: "'w ec200_handle \<Rightarrow> ('w ec200_handle \<times> ec200_status) option" where
  "ec200_gnss_stop h = send_plain h ''AT+QGPSEND'' EC200_AT_TIMEOUT_DEFAULT"

definition ec200_gnss_get_status ::
    "'w ec200_handle \<Rightarrow> bool option \<Rightarrow> ('w ec200_handle \<times> ec200_status \<times> bool option) option"
    where
  "ec200_gnss_get_status h enabled =
     (if enabled = None then Some (h, EC200_ERR_PARAM, enabled)
      else do {
        (h, st, resp) \<leftarrow> ec200_at_send_wait h (Some ''AT+QGPS?'') (Some ''+QGPS:'')
                           (char_buf 32) EC200_AT_TIMEOUT_DEFAULT;
        if st \<noteq> EC200_OK then Some (h, st, enabled)
        else (case ec200_at_parse_int_field (buf_text resp) 0 of
                None \<Rightarrow> Some (h, EC200_ERR_PARSE, enabled)
              | Some state \<Rightarrow> Some (h, EC200_OK, Some (state = 1)))
      })"

definition ec200_gnss_set_nmea_output ::
    "'w ec200_handle \<Rightarrow> nat \<Rightarrow> ('w ec200_handle \<times> ec200_status) option" where
  "ec200_gnss_set_nmea_output h nmea_types = do {
     (h, st) \<leftarrow> send_plain h
       (snprintf 48 (''AT+QGPSCFG='' @ quoted ''nmeasrc'' @ '','' @
          show_nat (if nmea_types \<noteq> 0 then 1 else 0)))
       EC200_AT_TIMEOUT_DEFAULT;
     if st \<noteq> EC200_OK then Some (h, st)
     else send_plain h
       (snprintf 48 (''AT+QGPSCFG='' @ quoted ''gpsnmeatype'' @ '','' @ show_nat nmea_types))
       EC200_AT_TIMEOUT_DEFAULT
   }"

section \<open>Position\<close>

text \<open>
  The floating point of the platform: the text conversion of \<open>%f\<close> with the rest of the
  input, zero, and \<open>(uint8_t)(x * 10.0f)\<close>, which C leaves undefined when the product does
  not fit (\<open>None\<close>).
\<close>

record 'f float_ops =
  fo_scan :: "string \<Rightarrow> ('f \<times> string) option"
  fo_zero :: 'f
  fo_tenths :: "'f \<Rightarrow> nat option"

record 'f ec200_gnss_location =
  loc_fix_valid :: bool
  loc_latitude :: 'f
  loc_longitude :: 'f
  loc_altitude :: 'f
  loc_speed_kmh :: 'f
  loc_course :: 'f
  loc_satellites_used :: nat
  loc_hdop :: nat
  loc_utc_time :: string

definition zero_location :: "'f float_ops \<Rightarrow> 'f ec200_gnss_location" where
  "zero_location fo =
     \<lparr>loc_fix_valid = False, loc_latitude = fo_zero fo, loc_longitude = fo_zero fo,
      loc_altitude = fo_zero fo, loc_speed_kmh = fo_zero fo, loc_course = fo_zero fo,
      loc_satellites_used = 0, loc_hdop = 0, loc_utc_time = []\<rparr>"

text \<open>
  The directives of the format string of the position line, after the first one each with the
  comma before it: a string up to a comma, \<open>%f\<close>, \<open>%*f\<close> and \<open>%d\<close>. As for
  \<open>sscanf\<close> the result is the list of the values assigned.
\<close>

datatype gps_dir = GpsSet nat | GpsF | GpsSkipF | GpsD
datatype 'f gps_val = GStr string | GFloat 'f | GInt int

fun gps_scan :: "'f float_ops \<Rightarrow> bool \<Rightarrow> string \<Rightarrow> gps_dir list \<Rightarrow> 'f gps_val list" where
  "gps_scan fo comma s [] = []"
| "gps_scan fo True s (d # ds) =
     (if s \<noteq> [] \<and> hd s = CHR '','' then gps_scan fo False (tl s) (d # ds) else [])"
| "gps_scan fo False s (GpsSet w # ds) =
     (let t = scan_set w CHR '','' s
      in if t = [] then [] else GStr t # gps_scan fo True (drop (length t) s) ds)"
| "gps_scan fo False s (GpsF # ds) =
     (case fo_scan fo (dropWhile is_space s) of
        Some (v, r) \<Rightarrow> GFloat v # gps_scan fo True r ds | None \<Rightarrow> [])"
| "gps_scan fo False s (GpsSkipF # ds) =
     (case fo_scan fo (dropWhile is_space s) of
        Some (v, r) \<Rightarrow> gps_scan fo True r ds | None \<Rightarrow> [])"
| "gps_scan fo False s (GpsD # ds) =
     (case strtol s of Some (v, r) \<Rightarrow> GInt v # gps_scan fo True r ds | None \<Rightarrow> [])"

definition gps_format :: "gps_dir list" where
  "gps_format =
     [GpsSet 23, GpsF, GpsF, GpsF, GpsF, GpsD, GpsF, GpsF, GpsSkipF, GpsSet 11, GpsD]"

definition gps_float :: "'f float_ops \<Rightarrow> 'f gps_val list \<Rightarrow> nat \<Rightarrow> 'f" where
  "gps_float fo vs i =
     (if i < length vs then (case vs ! i of GFloat v \<Rightarrow> v | _ \<Rightarrow> fo_zero fo) else fo_zero fo)"

definition gps_int :: "'f gps_val list \<Rightarrow> nat \<Rightarrow> int" where
  "gps_int vs i = (if i < length vs then (case vs ! i of GInt v \<Rightarrow> v | _ \<Rightarrow> 0) else 0)"

definition gps_str :: "'f gps_val list \<Rightarrow> nat \<Rightarrow> string" where
  "gps_str vs i = (if i < length vs then (case vs ! i of GStr v \<Rightarrow> v | _ \<Rightarrow> []) else [])"

definition gps_location ::
    "'f float_ops \<Rightarrow> 'f gps_val list \<Rightarrow> 'f ec200_gnss_location option" where
  "gps_location fo vs =
     (case fo_tenths fo (gps_float fo vs 3) of
        None \<Rightarrow> None
      | Some tenths \<Rightarrow>
          Some \<lparr>loc_fix_valid = (gps_int vs 5 > 0), loc_latitude = gps_float fo vs 1,
                loc_longitude = gps_float fo vs 2, loc_altitude = gps_float fo vs 4,
                loc_speed_kmh = gps_float fo vs 7, loc_course = gps_float fo vs 6,
                loc_satellites_used = cast_u8 (gps_int vs 9), loc_hdop = tenths,
                loc_utc_time = snprintf 40 (gps_str vs 8 @ '' '' @ gps_str vs 0)\<rparr>)"

definition ec200_gnss_get_location ::
    "'f float_ops \<Rightarrow> 'w ec200_handle \<Rightarrow> 'f ec200_gnss_location option
     \<Rightarrow> ('w ec200_handle \<times> ec200_status \<times> 'f ec200_gnss_location option) option" where
  "ec200_gnss_get_location fo h loc =
     (if loc = None then Some (h, EC200_ERR_PARAM, loc)
      else do {
        let loc = zero_location fo;
        (h, st, resp) \<leftarrow> ec200_at_send_wait h (Some ''AT+QGPSLOC=2'') (Some ''+QGPSLOC:'')
                           (char_buf 256) EC200_AT_TIMEOUT_DEFAULT;
        if st \<noteq> EC200_OK then Some (h, st, Some loc)
        else (case strchr (buf_text resp) CHR '':'' of
                None \<Rightarrow> Some (h, EC200_ERR_PARSE, Some loc)
              | Some p \<Rightarrow>
                  (let vs = gps_scan fo False (skip_spaces (tl p)) gps_format
                   in if length vs < 2 then Some (h, EC200_ERR_PARSE, Some loc)
                      else (case gps_location fo vs of
                              None \<Rightarrow> None
                            | Some loc \<Rightarrow> Some (h, EC200_OK, Some loc))))
      })"

context at_frame
begin

lemma keeps_gnss_get_location: "keeps R h (ec200_gnss_get_location fo h loc)"
  unfolding ec200_gnss_get_location_def by (intro keeps_body keeps_let)

lemma keeps_gnss_start: "keeps R h (ec200_gnss_start h)"
  by (simp add: ec200_gnss_start_def keeps_plain)

lemma keeps_gnss_stop: "keeps R h (ec200_gnss_stop h)"
  by (simp add: ec200_gnss_stop_def keeps_plain)

lemma keeps_gnss_get_status: "keeps R h (ec200_gnss_get_status h e)"
  unfolding ec200_gnss_get_status_def by (intro keeps_body)

lemma keeps_gnss_set_nmea_output: "keeps R h (ec200_gnss_set_nmea_output h n)"
  unfolding ec200_gnss_set_nmea_output_def
  by (intro keeps_body keeps_seq [OF keeps_plain] keeps_plain)

lemmas keeps_gnss_ops =
  keeps_gnss_start keeps_gnss_stop keeps_gnss_get_status keeps_gnss_set_nmea_output
  keeps_gnss_get_location

end

end
