(* ===== verification/Ec200_Api.thy ===== *)
theory Ec200_Api
  imports Ec200_Link Ec200_Registry
    Ec200_Sms Ec200_Data Ec200_Tcpip Ec200_Ssl Ec200_File
    Ec200_Http Ec200_Mqtt Ec200_Time Ec200_Power Ec200_Gnss
begin

text \<open>
  The public interface as one transition system. \<open>at_call\<close> has a rule for every function
  of the headers that talks to the module over AT commands, \<open>api_call\<close> adds the PPP
  control plane and the configuration of callbacks, \<open>live_handle\<close> are the handles an
  application can hold after a successful \<^verbatim>\<open>ec200_init\<close>. The position query appears
  there with floating-point values as bit patterns of 32 bits. What every module keeps is
  put together here into invariants of all of them.
\<close>

section \<open>Calls\<close>

inductive at_call :: "'w ec200_handle \<Rightarrow> 'w ec200_handle \<Rightarrow> bool" where
  call_at_read_raw: "ec200_at_read_raw h buf len t br = Some (h', res) \<Longrightarrow> at_call h h'"
| call_at_read_exact: "ec200_at_read_exact h buf len t br = Some (h', res) \<Longrightarrow> at_call h h'"
| call_at_wait_prefix: "ec200_at_wait_prefix h prefix buf t = Some (h', res) \<Longrightarrow> at_call h h'"
| call_at_wait_final: "ec200_at_wait_final h t = Some (h', res) \<Longrightarrow> at_call h h'"
| call_at_poll_urc: "ec200_at_poll_urc h t = Some (h', res) \<Longrightarrow> at_call h h'"
| call_at_write_raw: "ec200_at_write_raw h data len = Some (h', res) \<Longrightarrow> at_call h h'"
| call_at_send: "ec200_at_send h cmd buf t = Some (h', res) \<Longrightarrow> at_call h h'"
| call_at_send_wait: "ec200_at_send_wait h cmd prefix buf t = Some (h', res) \<Longrightarrow> at_call h h'"
| call_at_send_expect: "ec200_at_send_expect h cmd prefix buf t = Some (h', res) \<Longrightarrow> at_call h h'"
| call_at_send_await_urc: "ec200_at_send_await_urc h cmd prefix buf t t' = Some (h', res) \<Longrightarrow> at_call h h'"
| call_at_send_prompt: "ec200_at_send_prompt h cmd t = Some (h', res) \<Longrightarrow> at_call h h'"
| call_check_at: "ec200_check_at h = Some (h', res) \<Longrightarrow> at_call h h'"
| call_set_echo: "ec200_set_echo h e = Some (h', res) \<Longrightarrow> at_call h h'"
| call_set_cmee: "ec200_set_cmee h m = Some (h', res) \<Longrightarrow> at_call h h'"
| call_get_imei: "ec200_get_imei h b = Some (h', res) \<Longrightarrow> at_call h h'"
| call_get_fw_version: "ec200_get_fw_version h b = Some (h', res) \<Longrightarrow> at_call h h'"
| call_get_module_info: "ec200_get_module_info h b = Some (h', res) \<Longrightarrow> at_call h h'"
| call_sim_get_status: "ec200_sim_get_status h s = Some (h', res) \<Longrightarrow> at_call h h'"
| call_sim_enter_pin: "ec200_sim_enter_pin h p = Some (h', res) \<Longrightarrow> at_call h h'"
| call_sim_get_imsi: "ec200_sim_get_imsi h b = Some (h', res) \<Longrightarrow> at_call h h'"
| call_sim_get_iccid: "ec200_sim_get_iccid h b = Some (h', res) \<Longrightarrow> at_call h h'"
| call_net_get_creg: "ec200_net_get_creg h s = Some (h', res) \<Longrightarrow> at_call h h'"
| call_net_get_cgreg: "ec200_net_get_cgreg h s = Some (h', res) \<Longrightarrow> at_call h h'"
| call_net_get_cereg: "ec200_net_get_cereg h s = Some (h', res) \<Longrightarrow> at_call h h'"
| call_net_get_signal: "ec200_net_get_signal h s = Some (h', res) \<Longrightarrow> at_call h h'"
| call_net_get_signal_ext: "ec200_net_get_signal_ext h s = Some (h', res) \<Longrightarrow> at_call h h'"
| call_net_get_operator: "ec200_net_get_operator h i = Some (h', res) \<Longrightarrow> at_call h h'"
| call_net_set_operator: "ec200_net_set_operator h m f oper act = Some (h', res) \<Longrightarrow> at_call h h'"
| call_net_get_info: "ec200_net_get_info h i = Some (h', res) \<Longrightarrow> at_call h h'"
| call_net_get_spn: "ec200_net_get_spn h n = Some (h', res) \<Longrightarrow> at_call h h'"
| call_net_set_attached: "ec200_net_set_attached h a = Some (h', res) \<Longrightarrow> at_call h h'"
| call_net_is_attached: "ec200_net_is_attached h a = Some (h', res) \<Longrightarrow> at_call h h'"
| call_net_wait_registered: "ec200_net_wait_registered h t = Some (h', res) \<Longrightarrow> at_call h h'"
| call_sms_set_format: "ec200_sms_set_format h f = Some (h', res) \<Longrightarrow> at_call h h'"
| call_sms_send: "ec200_sms_send h n t = Some (h', res) \<Longrightarrow> at_call h h'"
| call_sms_write: "ec200_sms_write h n t v = Some (h', res) \<Longrightarrow> at_call h h'"
| call_sms_send_stored: "ec200_sms_send_stored h i v = Some (h', res) \<Longrightarrow> at_call h h'"
| call_sms_read: "ec200_sms_read h i m = Some (h', res) \<Longrightarrow> at_call h h'"
| call_sms_list: "ec200_sms_list h s m k c = Some (h', res) \<Longrightarrow> at_call h h'"
| call_sms_delete: "ec200_sms_delete h i = Some (h', res) \<Longrightarrow> at_call h h'"
| call_sms_delete_all: "ec200_sms_delete_all h f = Some (h', res) \<Longrightarrow> at_call h h'"
| call_sms_set_storage: "ec200_sms_set_storage h a b c u = Some (h', res) \<Longrightarrow> at_call h h'"
| call_sms_get_storage: "ec200_sms_get_storage h u = Some (h', res) \<Longrightarrow> at_call h h'"
| call_sms_set_smsc: "ec200_sms_set_smsc h n = Some (h', res) \<Longrightarrow> at_call h h'"
| call_sms_get_smsc: "ec200_sms_get_smsc h b = Some (h', res) \<Longrightarrow> at_call h h'"
| call_sms_set_indication: "ec200_sms_set_indication h c = Some (h', res) \<Longrightarrow> at_call h h'"
| call_sms_get_indication: "ec200_sms_get_indication h c = Some (h', res) \<Longrightarrow> at_call h h'"
| call_data_set_pdp: "ec200_data_set_pdp h c = Some (h', res) \<Longrightarrow> at_call h h'"
| call_data_activate: "ec200_data_activate h c = Some (h', res) \<Longrightarrow> at_call h h'"
| call_data_deactivate: "ec200_data_deactivate h c = Some (h', res) \<Longrightarrow> at_call h h'"
| call_data_get_ip: "ec200_data_get_ip h c b = Some (h', res) \<Longrightarrow> at_call h h'"
| call_data_connect: "ec200_data_connect h c = Some (h', res) \<Longrightarrow> at_call h h'"
| call_tcp_open: "ec200_tcp_open h c i t host p a = Some (h', res) \<Longrightarrow> at_call h h'"
| call_tcp_close: "ec200_tcp_close h i = Some (h', res) \<Longrightarrow> at_call h h'"
| call_tcp_send: "ec200_tcp_send h i d l = Some (h', res) \<Longrightarrow> at_call h h'"
| call_tcp_recv: "ec200_tcp_recv h i b m n t = Some (h', res) \<Longrightarrow> at_call h h'"
| call_tcp_get_state: "ec200_tcp_get_state h i s = Some (h', res) \<Longrightarrow> at_call h h'"
| call_tcp_bytes_available: "ec200_tcp_bytes_available h i n = Some (h', res) \<Longrightarrow> at_call h h'"
| call_tcp_dns_resolve: "ec200_tcp_dns_resolve h c host ip t = Some (h', res) \<Longrightarrow> at_call h h'"
| call_tcp_ping: "ec200_tcp_ping h c host n r t = Some (h', res) \<Longrightarrow> at_call h h'"
| call_ssl_set_seclevel: "ec200_ssl_set_seclevel h c l = Some (h', res) \<Longrightarrow> at_call h h'"
| call_ssl_configure: "ec200_ssl_configure h c = Some (h', res) \<Longrightarrow> at_call h h'"
| call_ssl_socket_open: "ec200_ssl_socket_open h p c i host port = Some (h', res) \<Longrightarrow> at_call h h'"
| call_ssl_socket_send: "ec200_ssl_socket_send h i d l = Some (h', res) \<Longrightarrow> at_call h h'"
| call_ssl_socket_recv: "ec200_ssl_socket_recv h i b m n t = Some (h', res) \<Longrightarrow> at_call h h'"
| call_ssl_socket_close: "ec200_ssl_socket_close h i = Some (h', res) \<Longrightarrow> at_call h h'"
| call_file_upload: "ec200_file_upload h n d l c = Some (h', res) \<Longrightarrow> at_call h h'"
| call_file_delete: "ec200_file_delete h n = Some (h', res) \<Longrightarrow> at_call h h'"
| call_file_exists: "ec200_file_exists h n e = Some (h', res) \<Longrightarrow> at_call h h'"
| call_file_size: "ec200_file_size h n s = Some (h', res) \<Longrightarrow> at_call h h'"
| call_file_storage_info: "ec200_file_storage_info h s = Some (h', res) \<Longrightarrow> at_call h h'"
| call_http_set_context: "ec200_http_set_context h c = Some (h', res) \<Longrightarrow> at_call h h'"
| call_http_set_ssl_context: "ec200_http_set_ssl_context h c = Some (h', res) \<Longrightarrow> at_call h h'"
| call_http_set_url: "ec200_http_set_url h u = Some (h', res) \<Longrightarrow> at_call h h'"
| call_http_stop: "ec200_http_stop h = Some (h', res) \<Longrightarrow> at_call h h'"
| call_http_get: "ec200_http_get h t r = Some (h', res) \<Longrightarrow> at_call h h'"
| call_http_post: "ec200_http_post h b l c t r = Some (h', res) \<Longrightarrow> at_call h h'"
| call_http_read: "ec200_http_read h b n t = Some (h', res) \<Longrightarrow> at_call h h'"
| call_mqtt_open: "ec200_mqtt_open h c = Some (h', res) \<Longrightarrow> at_call h h'"
| call_mqtt_connect: "ec200_mqtt_connect h c = Some (h', res) \<Longrightarrow> at_call h h'"
| call_mqtt_disconnect: "ec200_mqtt_disconnect h i = Some (h', res) \<Longrightarrow> at_call h h'"
| call_mqtt_close: "ec200_mqtt_close h i = Some (h', res) \<Longrightarrow> at_call h h'"
| call_mqtt_subscribe: "ec200_mqtt_subscribe h i m t q = Some (h', res) \<Longrightarrow> at_call h h'"
| call_mqtt_unsubscribe: "ec200_mqtt_unsubscribe h i m t = Some (h', res) \<Longrightarrow> at_call h h'"
| call_mqtt_publish: "ec200_mqtt_publish h i m q r t d l = Some (h', res) \<Longrightarrow> at_call h h'"
| call_time_get: "ec200_time_get h d = Some (h', res) \<Longrightarrow> at_call h h'"
| call_time_get_network: "ec200_time_get_network h d = Some (h', res) \<Longrightarrow> at_call h h'"
| call_time_set: "ec200_time_set h d = Some (h', res) \<Longrightarrow> at_call h h'"
| call_time_set_auto_update: "ec200_time_set_auto_update h e = Some (h', res) \<Longrightarrow> at_call h h'"
| call_time_sync_ntp: "ec200_time_sync_ntp h c s p t = Some (h', res) \<Longrightarrow> at_call h h'"
| call_power_set_cfun: "ec200_power_set_cfun h l r = Some (h', res) \<Longrightarrow> at_call h h'"
| call_power_get_cfun: "ec200_power_get_cfun h l = Some (h', res) \<Longrightarrow> at_call h h'"
| call_power_down: "ec200_power_down h n = Some (h', res) \<Longrightarrow> at_call h h'"
| call_power_set_sleep: "ec200_power_set_sleep h e = Some (h', res) \<Longrightarrow> at_call h h'"
| call_power_reset: "ec200_power_reset h = Some (h', res) \<Longrightarrow> at_call h h'"
| call_psm_disable: "ec200_psm_disable h = Some (h', res) \<Longrightarrow> at_call h h'"
| call_psm_set: "ec200_psm_set h c = Some (h', res) \<Longrightarrow> at_call h h'"
| call_psm_get: "ec200_psm_get h c = Some (h', res) \<Longrightarrow> at_call h h'"
| call_edrx_disable: "ec200_edrx_disable h a = Some (h', res) \<Longrightarrow> at_call h h'"
| call_edrx_set: "ec200_edrx_set h c = Some (h', res) \<Longrightarrow> at_call h h'"
| call_edrx_get: "ec200_edrx_get h c = Some (h', res) \<Longrightarrow> at_call h h'"
| call_edrx_get_dynamic: "ec200_edrx_get_dynamic h c = Some (h', res) \<Longrightarrow> at_call h h'"
| call_gnss_start: "ec200_gnss_start h = Some (h', res) \<Longrightarrow> at_call h h'"
| call_gnss_stop: "ec200_gnss_stop h = Some (h', res) \<Longrightarrow> at_call h h'"
| call_gnss_get_status: "ec200_gnss_get_status h e = Some (h', res) \<Longrightarrow> at_call h h'"
| call_gnss_set_nmea_output: "ec200_gnss_set_nmea_output h n = Some (h', res) \<Longrightarrow> at_call h h'"
| call_gnss_get_location: "ec200_gnss_get_location (fo :: 32 word float_ops) h loc = Some (h', res) \<Longrightarrow> at_call h h'"

inductive api_call :: "'w ec200_handle \<Rightarrow> 'w ec200_handle \<Rightarrow> bool" where
  api_at: "at_call h h' \<Longrightarrow> api_call h h'"
| api_ppp: "ppp_run c h = Some (h', st) \<Longrightarrow> api_call h h'"
| api_register: "ec200_at_register_urc h p f ctx = (h', st) \<Longrightarrow> api_call h h'"
| api_unregister: "ec200_at_unregister_urc h p = (h', st) \<Longrightarrow> api_call h h'"
| api_message_cb: "api_call h (ec200_mqtt_set_message_cb h cb)"
| api_urc_handler: "api_call h (ec200_set_urc_handler h f)"

inductive live_handle :: "'w ec200_handle \<Rightarrow> bool" where
  live_init: "ec200_init h0 wr rd dl w = Some (h, EC200_OK) \<Longrightarrow> live_handle h"
| live_call: "live_handle h \<Longrightarrow> api_call h h' \<Longrightarrow> live_handle h'"

section \<open>Calls respect every frame\<close>

context at_frame
begin

lemma keeps_get_creg: "keeps R h (ec200_net_get_creg h s)"
  by (simp add: ec200_net_get_creg_def keeps_get_reg)

lemma keeps_get_cgreg: "keeps R h (ec200_net_get_cgreg h s)"
  by (simp add: ec200_net_get_cgreg_def keeps_get_reg)

lemmas keeps_api =
  keeps_get_creg keeps_get_cgreg
  keeps_read_raw keeps_read_exact keeps_wait_prefix keeps_wait_final keeps_poll keeps_write_raw
  keeps_send keeps_send_wait keeps_send_expect keeps_send_await_urc keeps_send_prompt
  keeps_check_at keeps_set_echo keeps_set_cmee keeps_get_imei keeps_get_fw keeps_get_info
  keeps_sim_get_status keeps_sim_enter_pin keeps_sim_get_imsi keeps_sim_get_iccid
  keeps_get_cereg keeps_get_signal keeps_get_signal_ext keeps_get_operator keeps_set_operator
  keeps_get_net_info keeps_get_spn keeps_set_attached keeps_is_attached keeps_wait_registered
  keeps_sms_set_format keeps_sms_send keeps_sms_write keeps_sms_send_stored keeps_sms_read
  keeps_sms_list keeps_sms_delete keeps_sms_delete_all keeps_sms_set_storage
  keeps_sms_get_storage keeps_sms_set_smsc keeps_sms_get_smsc keeps_sms_set_indication
  keeps_sms_get_indication keeps_data_set_pdp keeps_data_activate keeps_data_deactivate
  keeps_data_get_ip keeps_data_connect keeps_tcp_open keeps_tcp_close keeps_tcp_send
  keeps_tcp_recv keeps_tcp_get_state keeps_tcp_bytes_available keeps_tcp_dns_resolve
  keeps_tcp_ping keeps_ssl_set_seclevel keeps_ssl_configure keeps_ssl_socket_open
  keeps_ssl_socket_send keeps_ssl_socket_recv keeps_ssl_socket_close keeps_file_upload
  keeps_file_delete keeps_file_exists keeps_file_size keeps_file_storage keeps_http_set_context
  keeps_http_set_ssl_context keeps_http_set_url keeps_http_stop keeps_http_get keeps_http_post
  keeps_http_read keeps_mqtt_open keeps_mqtt_connect keeps_mqtt_disconnect keeps_mqtt_close
  keeps_mqtt_subscribe keeps_mqtt_unsubscribe keeps_mqtt_publish keeps_time_get
  keeps_time_get_network keeps_time_set keeps_time_auto keeps_time_ntp keeps_power_set_cfun
  keeps_power_get_cfun keeps_power_down keeps_power_set_sleep keeps_power_reset
  keeps_psm_disable keeps_psm_set keeps_psm_get keeps_edrx_disable keeps_edrx_set
  keeps_edrx_get keeps_edrx_get_dynamic keeps_gnss_start keeps_gnss_stop keeps_gnss_get_status
  keeps_gnss_set_nmea_output keeps_gnss_get_location

lemma at_call_keeps: "at_call h h' \<Longrightarrow> R h h'"
  by (induction rule: at_call.induct) (erule keeps_api [THEN keepsD])+

end

lemma at_call_setup: "at_call h h' \<Longrightarrow> same_setup h h'"
  by (rule cfgr.at_call_keeps)

lemma at_call_flag: "at_call h h' \<Longrightarrow> ppp_data_mode h' = ppp_data_mode h"
  by (rule pppr.at_call_keeps)

lemma at_call_wf: "at_call h h' \<Longrightarrow> handle_wf h \<Longrightarrow> handle_wf h'"
  using wfr.at_call_keeps by blast

section \<open>The remaining calls\<close>

text \<open>The invariant of a live handle.\<close>

definition handle_inv :: "'w ec200_handle \<Rightarrow> bool" where
  "handle_inv h \<longleftrightarrow> handle_wf h \<and> table_ok (urc_table h) \<and> initialised h"

lemma handle_inv_upd [simp]:
  "handle_inv (h\<lparr>ppp_data_mode := b\<rparr>) = handle_inv h"
  "handle_inv (h\<lparr>user_ctx := w\<rparr>) = handle_inv h"
  "handle_inv (h\<lparr>mqtt_msg_cb := cb\<rparr>) = handle_inv h"
  "handle_inv (h\<lparr>urc_handler := f\<rparr>) = handle_inv h"
  by (simp_all add: handle_inv_def handle_wf_def)

lemma inv_of_frames:
  assumes "handle_inv h" "same_setup h h'" "handle_wf h \<longrightarrow> handle_wf h'"
  shows "handle_inv h'"
  using assms by (simp add: handle_inv_def same_setup_def)

lemma handle_inv_keeps:
  assumes "handle_inv h" "keeps same_setup h m" "keeps (\<lambda>h h'. handle_wf h \<longrightarrow> handle_wf h') h m"
    and "m = Some (h', r)"
  shows "handle_inv h'"
  using assms(1) keepsD [OF assms(2,4)] keepsD [OF assms(3,4)] by (rule inv_of_frames)

lemma inv_expect: "handle_inv h \<Longrightarrow> ec200_at_send_expect h cmd p b t = Some (h', r) \<Longrightarrow> handle_inv h'"
  by (erule handle_inv_keeps [OF _ cfgr.keeps_send_expect wfr.keeps_send_expect])

lemma inv_plain: "handle_inv h \<Longrightarrow> send_plain h c t = Some (h', r) \<Longrightarrow> handle_inv h'"
  by (erule handle_inv_keeps [OF _ cfgr.keeps_plain wfr.keeps_plain])

lemma inv_write: "handle_inv h \<Longrightarrow> ec200_at_write_raw h d n = Some (h', r) \<Longrightarrow> handle_inv h'"
  by (erule handle_inv_keeps [OF _ cfgr.keeps_write_raw wfr.keeps_write_raw])

lemma inv_final: "handle_inv h \<Longrightarrow> ec200_at_wait_final h t = Some (h', r) \<Longrightarrow> handle_inv h'"
  by (erule handle_inv_keeps [OF _ cfgr.keeps_wait_final wfr.keeps_wait_final])

lemma inv_delay [simp]: "handle_inv (delay_by ms h) = handle_inv h"
  by (simp add: delay_by_def)

lemma inv_escape: "handle_inv h \<Longrightarrow> ec200_ppp_escape h = Some (h', st) \<Longrightarrow> handle_inv h'"
proof (cases "ppp_data_mode h")
  case False
  assume "handle_inv h" "ec200_ppp_escape h = Some (h', st)"
  then show ?thesis using False by (simp add: ec200_ppp_escape_def)
next
  case True
  assume h: "handle_inv h" and e: "ec200_ppp_escape h = Some (h', st)"
  let ?d = "delay_by EC200_PPP_ESCAPE_GUARD_MS"
  obtain h1 st1 where w: "ec200_at_write_raw (?d h) (Some ''+++'') 3 = Some (h1, st1)"
    using e True by (auto simp: ec200_ppp_escape_def bind_eq_Some_conv Let_def)
  have h1: "handle_inv h1" by (rule inv_write [OF _ w]) (simp add: h)
  show ?thesis
  proof (cases "st1 = EC200_OK")
    case False
    then show ?thesis using e True w h1 by (simp add: ec200_ppp_escape_def)
  next
    case OK: True
    then obtain h2 st2 where f: "ec200_at_wait_final (?d h1) EC200_AT_TIMEOUT_DEFAULT = Some (h2, st2)"
      using e True w by (auto simp: ec200_ppp_escape_def bind_eq_Some_conv Let_def)
    have "handle_inv h2" by (rule inv_final [OF _ f]) (simp add: h1)
    then show ?thesis using e True w OK f by (auto simp: ec200_ppp_escape_def split: if_splits)
  qed
qed

lemma inv_hangup: "handle_inv h \<Longrightarrow> ec200_ppp_hangup h = Some (h', st) \<Longrightarrow> handle_inv h'"
  using inv_plain by (auto simp: ec200_ppp_hangup_def split: if_splits)

lemma inv_ppp: "handle_inv h \<Longrightarrow> ppp_run c h = Some (h', st) \<Longrightarrow> handle_inv h'"
proof (cases c)
  case (Dial cid)
  assume "handle_inv h" "ppp_run c h = Some (h', st)"
  then show ?thesis
    using Dial by (auto simp: ec200_ppp_dial_def bind_eq_Some_conv split: if_splits dest: inv_expect)
next
  case Resume
  assume "handle_inv h" "ppp_run c h = Some (h', st)"
  then show ?thesis
    using Resume by (auto simp: ec200_ppp_resume_def bind_eq_Some_conv split: if_splits dest: inv_expect)
next
  case Disconnect
  assume "handle_inv h" "ppp_run c h = Some (h', st)"
  then show ?thesis
    using Disconnect
    by (auto simp: ec200_ppp_disconnect_def bind_eq_Some_conv split: if_splits dest: inv_escape inv_hangup)
qed (auto dest: inv_escape inv_hangup)

lemma inv_ok: "handle_inv h \<Longrightarrow> table_ok (urc_table h)"
  by (simp add: handle_inv_def)

lemma inv_table:
  "handle_inv h \<Longrightarrow> table_ok es \<Longrightarrow> handle_inv (h\<lparr>urc_table := es\<rparr>)"
  by (simp add: handle_inv_def handle_wf_def table_ok_def)

lemma inv_register: "handle_inv h \<Longrightarrow> ec200_at_register_urc h p f ctx = (h', st) \<Longrightarrow> handle_inv h'"
proof (cases "p = None \<or> p = Some [] \<or> f = None")
  case True
  assume "handle_inv h" "ec200_at_register_urc h p f ctx = (h', st)"
  then show ?thesis using True by (auto simp: ec200_at_register_urc_def)
next
  case False
  assume h: "handle_inv h" and r: "ec200_at_register_urc h p f ctx = (h', st)"
  obtain q g where q: "p = Some q" "q \<noteq> []" "f = Some g" using False by auto
  show ?thesis
    using h r q urcs.insert_Some [of "urc_table h" q "(Some g, ctx)"] inv_ok [OF h]
    by (auto simp: register_table intro: inv_table [OF h] split: option.splits)
qed

lemma inv_unregister: "handle_inv h \<Longrightarrow> ec200_at_unregister_urc h p = (h', st) \<Longrightarrow> handle_inv h'"
proof -
  assume h: "handle_inv h" and r: "ec200_at_unregister_urc h p = (h', st)"
  show ?thesis
  proof (cases p)
    case None
    then show ?thesis using h r by (simp add: ec200_at_unregister_urc_def)
  next
    case (Some q)
    show ?thesis
      using h r Some urcs.delete_Some [of "urc_table h" q] inv_ok [OF h]
      by (auto simp: unregister_table intro: inv_table [OF h] split: option.splits)
  qed
qed

lemma inv_message_cb: "handle_inv h \<Longrightarrow> handle_inv (ec200_mqtt_set_message_cb h cb)"
proof -
  assume "handle_inv h"
  then have h: "handle_inv (h\<lparr>mqtt_msg_cb := cb\<rparr>)" by simp
  show ?thesis
    using inv_register [OF h] inv_unregister [OF h]
    by (simp add: ec200_mqtt_set_message_cb_def Let_def) (metis prod.collapse)
qed

lemma api_call_inv: "api_call h h' \<Longrightarrow> handle_inv h \<Longrightarrow> handle_inv h'"
proof (induction rule: api_call.induct)
  case (api_at h h')
  then show ?case using at_call_setup at_call_wf inv_of_frames by blast
next
  case (api_urc_handler h f)
  then show ?case by (simp add: ec200_set_urc_handler_def)
qed (auto dest: inv_ppp inv_register inv_unregister inv_message_cb)

section \<open>Initialisation\<close>

lemma fresh_inv: "handle_inv (fresh_handle wr rd dl w)"
  by (simp add: handle_inv_def handle_wf_def fresh_handle_def size_defs table_ok_def)

lemma init_frames:
  assumes "ec200_init h0 (Some wr) (Some rd) (Some dl) w = Some (h, st)"
  shows "\<exists>h1. same_setup (fresh_handle wr rd dl w) h1 \<and> handle_wf h1 \<and> \<not> ppp_data_mode h1 \<and>
    (if st = EC200_OK then h = h1 else h = h1\<lparr>initialised := False\<rparr>)"
proof -
  let ?f = "fresh_handle wr rd dl w"
  have wf: "handle_wf ?f" using fresh_inv [of wr rd dl w] by (simp add: handle_inv_def)
  obtain h1 st1 where p: "probe_loop 3 ?f EC200_ERR_TIMEOUT = Some (h1, st1)"
    using assms by (auto simp: ec200_init_def bind_eq_Some_conv Let_def)
  have f1: "same_setup ?f h1" "handle_wf h1" "\<not> ppp_data_mode h1"
    using keepsD [OF cfgr.keeps_probe p] keepsD [OF wfr.keeps_probe p] keepsD [OF pppr.keeps_probe p] wf
    by (simp_all add: fresh_handle_def)
  show ?thesis
  proof (cases "st1 = EC200_OK")
    case False
    then show ?thesis using assms p f1 by (auto simp: ec200_init_def Let_def)
  next
    case True
    then obtain h2 st2 where e: "ec200_set_echo h1 False = Some (h2, st2)"
      using assms p by (auto simp: ec200_init_def bind_eq_Some_conv Let_def)
    have "same_setup ?f h2" "handle_wf h2" "\<not> ppp_data_mode h2"
      using keepsD [OF cfgr.keeps_set_echo e] keepsD [OF wfr.keeps_set_echo e]
        keepsD [OF pppr.keeps_set_echo e] f1 cfgr.R_trans by (blast | simp)+
    then show ?thesis using assms p True e by (auto simp: ec200_init_def Let_def split: if_splits)
  qed
qed

end
