(* ===== verification/Ec200_Init.thy ===== *)
theory Ec200_Init
  imports Ec200_Api
begin

text \<open>
  What holds of every handle an application can reach through the public interface, and what
  the three possible outcomes of \<^verbatim>\<open>ec200_init\<close> leave behind.
\<close>

section \<open>A run of the initialisation\<close>

lemma tape_init:
  assumes "\<forall>l\<in>set ls. clean_line l"
  shows "\<exists>h. ec200_init h0 (Some tape_write) (Some tape_read) (Some tape_delay)
               (crlf (''OK'' # ''OK'' # ls), []) = Some (h, EC200_OK) \<and> tape_ready ls h"
proof -
  let ?f = "fresh_handle tape_write tape_read tape_delay (crlf (''OK'' # ''OK'' # ls), [])"
  have r: "tape_ready (''OK'' # ''OK'' # ls) ?f"
    using tape_ready_handle [of "''OK'' # ''OK'' # ls"] by (simp only: tape_handle_def)
  obtain h1 where 1: "send_plain ?f ''AT'' EC200_AT_TIMEOUT_DEFAULT = Some (h1, EC200_OK)"
      "tape_ready (''OK'' # ls) h1"
    using tape_plain [OF r, of "''AT''" EC200_AT_TIMEOUT_DEFAULT] assms
    by (auto simp: clean_line_def size_defs simp del: crlf_simps)
  obtain h2 where 2: "send_plain h1 ''ATE0'' EC200_AT_TIMEOUT_DEFAULT = Some (h2, EC200_OK)"
      "tape_ready ls h2"
    using tape_plain [OF 1(2), of "''ATE0''"] assms by auto
  have "probe_loop 3 ?f EC200_ERR_TIMEOUT = Some (h1, EC200_OK)"
    by (simp add: numeral_3_eq_3 ec200_check_at_def 1 del: crlf_simps)
  then show ?thesis
    by (simp add: ec200_init_def Let_def ec200_set_echo_def 2 del: crlf_simps)
qed

section \<open>Properties\<close>

text \<open>
  C3. Every handle an application can reach is well formed: starting from a successful
  \<open>ec200_init\<close> and through any sequence of calls of the public interface (all the AT
  modules, the PPP control plane, registering and removing handlers) the receive, transmit and
  error buffers stay within their sizes with room for the terminator, the recorded error kind
  is one of the three, the handler table keeps its size with no prefix registered twice, and
  the handle stays initialised.
\<close>

theorem api_invariant:
  assumes "live_handle h"
  shows "handle_inv h"
  using assms
proof (induction rule: live_handle.induct)
  case (live_init h0 wr rd dl w h)
  then obtain wr' rd' dl' where "wr = Some wr'" "rd = Some rd'" "dl = Some dl'"
    by (auto simp: ec200_init_def split: if_splits)
  then show ?case using live_init init_frames [of h0 wr' rd' dl' w h EC200_OK]
      inv_of_frames [OF fresh_inv, of wr' rd' dl' w] by auto
next
  case (live_call h h')
  then show ?case using api_call_inv by blast
qed

theorem api_invariant_witness:
  "\<exists>h :: tape ec200_handle. live_handle h \<and> handle_inv h"
proof -
  obtain h where h: "ec200_init (tape_handle []) (Some tape_write) (Some tape_read)
      (Some tape_delay) (crlf [''OK'', ''OK''], []) = Some (h, EC200_OK)"
    using tape_init [of "[]" "tape_handle []"] by auto
  have "live_handle h" by (rule live_init [OF h])
  with api_invariant [OF this] show ?thesis by blast
qed

text \<open>
  C20. No AT operation reconfigures the library behind the application's back: whatever an
  AT call returns, the transport callbacks, the URC fallback, the MQTT callback and the handler
  table are the ones the application set, and the data mode of the PPP link is unchanged, so
  that only dial, resume, escape, hangup and disconnect move it.
\<close>

theorem at_calls_frame:
  assumes "at_call h h'"
  shows "same_setup h h' \<and> ec200_ppp_in_data_mode h' = ec200_ppp_in_data_mode h"
  using at_call_setup [OF assms] at_call_flag [OF assms]
  by (simp add: ec200_ppp_in_data_mode_def)

theorem at_calls_frame_witness:
  "\<exists>h h' :: tape ec200_handle. at_call h h' \<and> h \<noteq> h' \<and> same_setup h h' \<and>
     ec200_ppp_in_data_mode h' = ec200_ppp_in_data_mode h"
proof -
  let ?h = "tape_handle (crlf [''OK''])"
  obtain h' where h': "send_plain ?h ''AT'' EC200_AT_TIMEOUT_DEFAULT = Some (h', EC200_OK)"
      "tape_ready [] h'"
    using tape_plain [OF tape_ready_handle, of "''AT''" "[]" EC200_AT_TIMEOUT_DEFAULT]
    by (auto simp del: crlf_simps)
  have c: "at_call ?h h'" by (rule call_check_at [of _ _ EC200_OK]) (simp add: ec200_check_at_def h' del: crlf_simps)
  have "?h \<noteq> h'" using h'(2) by (auto simp: tape_ready_def tape_handle_def fresh_handle_def crlf_def)
  with c at_calls_frame [OF c] show ?thesis by blast
qed

text \<open>
  C19. After \<open>ec200_init\<close> on three callbacks the status decides: with OK the handle
  is initialised and well formed, with an empty handler table, in command mode and with no
  recorded handler of the application; with any other status the handle is not initialised, and
  each of the eleven transactions, waits, polls and raw transfers of the engine, with whatever
  arguments, is refused with NOT_READY and touches neither the handle nor the transport nor the
  caller's buffers.
\<close>

theorem init_outcome:
  assumes "ec200_init h0 (Some wr) (Some rd) (Some dl) w = Some (h, st)"
  shows "if st = EC200_OK
         then handle_inv h \<and> \<not> ec200_ppp_in_data_mode h \<and> used_prefixes (urc_table h) = [] \<and>
              urc_handler h = None \<and> mqtt_msg_cb h = None
         else \<not> initialised h \<and> (\<forall>cmd p buf data n got t u.
              ec200_at_send h cmd buf t = Some (h, EC200_ERR_NOT_READY, buf) \<and>
              ec200_at_send_wait h cmd p buf t = Some (h, EC200_ERR_NOT_READY, buf) \<and>
              ec200_at_send_expect h cmd p buf t = Some (h, EC200_ERR_NOT_READY, buf) \<and>
              ec200_at_send_await_urc h cmd p buf t u = Some (h, EC200_ERR_NOT_READY, buf) \<and>
              ec200_at_send_prompt h cmd t = Some (h, EC200_ERR_NOT_READY) \<and>
              ec200_at_wait_prefix h p buf t = Some (h, EC200_ERR_NOT_READY, buf) \<and>
              ec200_at_wait_final h t = Some (h, EC200_ERR_NOT_READY) \<and>
              ec200_at_poll_urc h t = Some (h, EC200_ERR_NOT_READY) \<and>
              ec200_at_write_raw h data n = Some (h, EC200_ERR_NOT_READY) \<and>
              ec200_at_read_raw h data n t got = Some (h, EC200_ERR_NOT_READY, data, got) \<and>
              ec200_at_read_exact h data n t got = Some (h, EC200_ERR_NOT_READY, data, got))"
proof -
  obtain h1 where f: "same_setup (fresh_handle wr rd dl w) h1" "handle_wf h1" "\<not> ppp_data_mode h1"
      "if st = EC200_OK then h = h1 else h = h1\<lparr>initialised := False\<rparr>"
    using init_frames [OF assms] by blast
  have "handle_inv h1" using inv_of_frames [OF fresh_inv f(1)] f(2) by blast
  moreover have "used_prefixes (urc_table h1) = []" "urc_handler h1 = None" "mqtt_msg_cb h1 = None"
    using f(1) by (simp_all add: same_setup_def fresh_handle_def size_defs numeral_eq_Suc free_urc_entry_def)
  ultimately show ?thesis
    using f(3,4) by (simp add: ec200_ppp_in_data_mode_def ec200_at_send_def ec200_at_send_wait_def
        ec200_at_send_expect_def ec200_at_send_await_urc_def ec200_at_send_prompt_def
        ec200_at_wait_prefix_def ec200_at_wait_final_def ec200_at_poll_urc_def ec200_at_write_raw_def
        ec200_at_read_raw_def ec200_at_read_exact_def handle_ready_def)
qed

theorem init_outcome_witness:
  "\<exists>h. ec200_init (tape_handle []) (Some tape_write) (Some tape_read) (Some tape_delay)
          (crlf [''OK'', ''OK''], []) = Some (h, EC200_OK) \<and>
       handle_inv h \<and> \<not> ec200_ppp_in_data_mode h \<and> used_prefixes (urc_table h) = []"
proof -
  obtain h where h: "ec200_init (tape_handle []) (Some tape_write) (Some tape_read)
      (Some tape_delay) (crlf [''OK'', ''OK''], []) = Some (h, EC200_OK)"
    using tape_init [of "[]" "tape_handle []"] by auto
  show ?thesis using init_outcome [OF h] h by (simp del: crlf_simps)
qed

end
