(* ===== verification/Ec200_Async.thy ===== *)
theory Ec200_Async
  imports Ec200_Transactions Ec200_Tcpip Ec200_Ssl Ec200_Mqtt
begin

text \<open>
  Commands whose outcome is a later result line: what \<open>spec_await\<close> makes of the usual dialogues,
  and from it what the calls that open and close connections return, and what the address lookup
  and the ping leave on the line. \<open>tape_calm\<close> is a tape with no error recorded since the last
  command.
\<close>

section \<open>Dialogues\<close>

text \<open>Lines that are neither blank nor terminal and do not have the prefix.\<close>

definition beside :: "string \<Rightarrow> string \<Rightarrow> bool" where
  "beside p l \<longleftrightarrow> body_only l \<and> \<not> prefix_hit (Some p) l"

lemma spec_receive_beside:
  "list_all (beside p) junk \<Longrightarrow> length junk < k \<Longrightarrow>
   spec_receive reg k (Some p) stop False buf (junk @ ls) =
     spec_receive reg (k - length junk) (Some p) stop False buf ls"
  by (rule spec_skip) (auto simp: list_all_iff beside_def)

lemma spec_wait_beside:
  "list_all (beside p) junk \<Longrightarrow> length junk < k \<Longrightarrow>
   spec_wait k (Some p) buf (junk @ ls) = spec_wait (k - length junk) (Some p) buf ls"
proof (induction junk arbitrary: k)
  case (Cons l junk)
  then show ?case by (cases k) (auto simp: beside_def body_only_def)
qed simp

lemma spec_wait_body:
  "list_all body_only junk \<Longrightarrow> length junk < k \<Longrightarrow>
   spec_wait k None buf (junk @ ls) = spec_wait (k - length junk) None buf ls"
proof (induction junk arbitrary: k)
  case (Cons l junk)
  then show ?case by (cases k) (auto simp: body_only_def prefix_hit_def)
qed simp

text \<open>
  A dialogue of an asynchronous command that delivers the line \<open>l\<close>: after the \<open>OK\<close> as the
  last line, or before it.
\<close>

definition dialogue :: "string \<Rightarrow> string \<Rightarrow> string list \<Rightarrow> bool" where
  "dialogue p l ls \<longleftrightarrow>
     (\<exists>junk later. list_all (beside p) junk \<and> length junk < 64 \<and> length later < 64 \<and>
        (list_all (beside p) later \<and> ls = junk @ ''OK'' # later @ [l] \<or>
         list_all body_only later \<and> ls = junk @ l # later @ [''OK'']))"

lemma line_term_OK: "line_term ''OK'' = TERM_OK"
  by (simp add: line_term_def)

lemma spec_await_dialogue:
  assumes "dialogue p l ls" "prefix_hit (Some p) l" "l \<noteq> []" "\<not> prefix_hit (Some p) ''OK''" "0 < sz"
  shows "spec_await reg 64 p (Some (sz, s)) (ls @ rest) = (EC200_OK, Some (sz, copy_trunc sz l), rest)"
    "await_settled reg 64 p (Some (sz, s)) (ls @ rest)"
proof -
  obtain junk later where j: "list_all (beside p) junk" "length junk < 64" "length later < 64"
      and ls: "list_all (beside p) later \<and> ls = junk @ ''OK'' # later @ [l] \<or>
        list_all body_only later \<and> ls = junk @ l # later @ [''OK'']"
    using assms(1) by (auto simp: dialogue_def)
  obtain k where k: "64 - length junk = Suc k" using j(2) by (metis Suc_diff_Suc)
  obtain m where m: "64 - length later = Suc m" using j(3) by (metis Suc_diff_Suc)
  have after: "spec_wait 64 (Some p) b (later @ l # rest) = (EC200_OK, copy_line l b, rest)"
    if "list_all (beside p) later" for b
    using spec_wait_beside [OF that j(3), of b "l # rest"] assms(2,3) by (simp add: m)
  have before: "spec_wait 64 None None (later @ ''OK'' # rest) = (EC200_OK, None, rest)"
    if "list_all body_only later"
    using spec_wait_body [OF that j(3), of None "''OK'' # rest"] by (simp add: m prefix_hit_def line_term_OK)
  have r: "spec_receive reg 64 (Some p) True False b (junk @ xs) =
      spec_receive reg (Suc k) (Some p) True False b xs" for b xs
    using spec_receive_beside [OF j(1,2), of reg True b xs] by (simp add: k)
  show "spec_await reg 64 p (Some (sz, s)) (ls @ rest) = (EC200_OK, Some (sz, copy_trunc sz l), rest)"
    "await_settled reg 64 p (Some (sz, s)) (ls @ rest)"
    using ls r after before assms(2-5)
    by (auto simp: spec_await_def await_settled_def clear_buf_def copy_line_def line_term_OK)
qed

section \<open>On a tape\<close>

definition tape_calm :: "string list \<Rightarrow> tape ec200_handle \<Rightarrow> bool" where
  "tape_calm ls h \<longleftrightarrow> tape_ready ls h \<and> fed (\<lambda>_. True) fst tape_read h ls"

lemma tape_calm_ready: "tape_calm ls h \<Longrightarrow> tape_ready ls h"
  by (simp add: tape_calm_def)

lemma tape_await:
  assumes "tape_ready (ls @ rest) h" "length cmd < 511" "\<forall>x\<in>set (ls @ rest). clean_line x"
    and "dialogue p l ls" "prefix_hit (Some p) l" "l \<noteq> []" "\<not> prefix_hit (Some p) ''OK''" "0 < sz"
  shows "\<exists>h'. ec200_at_send_await_urc h (Some cmd) (Some p) (Some (sz, s)) t t' =
      Some (h', EC200_OK, Some (sz, copy_trunc sz l)) \<and> tape_calm rest h'"
proof -
  obtain h1 where h1: "at_transmit h cmd = Some (h1, EC200_OK)" "fed (\<lambda>_. True) fst tape_read h1 (ls @ rest)"
    using tape_transmit [OF assms(1,2)] by blast
  have i: "initialised h" "initialised h1"
    using assms(1) keepsD [OF cfgr.keeps_transmit h1(1)] by (simp_all add: same_setup_def tape_ready_def)
  note d = spec_await_dialogue [OF assms(4-8)]
  obtain h' where run: "ec200_at_send_await_urc h (Some cmd) (Some p) (Some (sz, s)) t t' =
      Some (h', EC200_OK, Some (sz, copy_trunc sz l))"
      and left: "left_with (\<lambda>_. True) fst tape_read h' rest" "fed (\<lambda>_. True) fst tape_read h' rest"
    using await_lines [OF tps.byte_source_axioms h1(2) assms(3) i(2,1) h1(1), of p "Some (sz, s)" t t'] d
    by auto
  with tape_after [OF assms(1) cfgr.keeps_send_await_urc pppr.keeps_send_await_urc run left(1)]
  show ?thesis by (auto simp: tape_calm_def)
qed

lemma tape_wait_prefix:
  assumes "tape_calm (later @ l # rest) h" "\<forall>x\<in>set (later @ l # rest). clean_line x"
    and "list_all (beside p) later" "length later < 64" "prefix_hit (Some p) l" "l \<noteq> []"
  shows "\<exists>h'. ec200_at_wait_prefix h (Some p) (Some (sz, s)) t =
      Some (h', EC200_OK, copy_line l (Some (sz, s))) \<and> tape_calm rest h'"
proof -
  obtain m where m: "64 - length later = Suc m" using assms(4) by (metis Suc_diff_Suc)
  have w: "spec_wait 64 (Some p) (Some (sz, s)) (later @ l # rest) = (EC200_OK, copy_line l (Some (sz, s)), rest)"
    using spec_wait_beside [OF assms(3,4), of "Some (sz, s)" "l # rest"] assms(5,6) by (simp add: m)
  have f: "fed (\<lambda>_. True) fst tape_read h (later @ l # rest)" "initialised h" "tape_ready (later @ l # rest) h"
    using assms(1) by (simp_all add: tape_calm_def tape_ready_def)
  obtain h' where run: "ec200_at_wait_prefix h (Some p) (Some (sz, s)) t =
      Some (h', EC200_OK, copy_line l (Some (sz, s)))"
      and left: "left_with (\<lambda>_. True) fst tape_read h' rest" "fed (\<lambda>_. True) fst tape_read h' rest"
    using wait_lines [OF tps.byte_source_axioms f(1) assms(2) f(2), of p "Some (sz, s)" t] w by auto
  with tape_after [OF f(3) cfgr.keeps_wait_prefix pppr.keeps_wait_prefix run left(1)]
  show ?thesis by (auto simp: tape_calm_def)
qed

lemma tape_wait_none:
  assumes "tape_calm [] h"
  shows "\<exists>h'. ec200_at_wait_prefix h (Some p) buf t = Some (h', EC200_ERR_TIMEOUT, buf) \<and> tape_ready [] h'"
proof -
  have f: "fed (\<lambda>_. True) fst tape_read h []" "initialised h" "tape_ready [] h"
    using assms by (simp_all add: tape_calm_def tape_ready_def)
  obtain h' where run: "ec200_at_wait_prefix h (Some p) buf t = Some (h', EC200_ERR_TIMEOUT, buf)"
      and left: "left_with (\<lambda>_. True) fst tape_read h' []"
    using wait_lines [OF tps.byte_source_axioms f(1) _ f(2), of p buf t] by (auto simp: spec_numeral)
  with tape_after [OF f(3) cfgr.keeps_wait_prefix pppr.keeps_wait_prefix run left(1)] show ?thesis by blast
qed

section \<open>What a result line decides\<close>

text \<open>The status for a field of a result line: zero is success.\<close>

definition outcome :: "field list \<Rightarrow> nat \<Rightarrow> ec200_status" where
  "outcome fs k =
     (if k < length fs then
        (case fs ! k of FInt v \<Rightarrow> if v = 0 then EC200_OK else EC200_ERR_MODULE | FStr s \<Rightarrow> EC200_ERR_PARSE)
      else EC200_ERR_PARSE)"

text \<open>A result line with a name the client awaits, and the dialogue that delivers it.\<close>

definition delivers :: "string \<Rightarrow> field list \<Rightarrow> string list \<Rightarrow> bool" where
  "delivers pfx fs ls \<longleftrightarrow>
     dialogue (pfx @ '':'') (result_line pfx fs) ls \<and> length (result_line pfx fs) < 64 \<and>
     list_all field_ok fs \<and> CHR '':'' \<notin> set pfx \<and> pfx \<noteq> [] \<and> hd pfx = CHR ''+''"

lemma delivers_line:
  assumes "delivers pfx fs ls"
  shows "dialogue (pfx @ '':'') (result_line pfx fs) ls" "prefix_hit (Some (pfx @ '':'')) (result_line pfx fs)"
    "result_line pfx fs \<noteq> []" "\<not> prefix_hit (Some (pfx @ '':'')) ''OK''"
    "64 \<le> sz \<Longrightarrow> copy_trunc sz (result_line pfx fs) = result_line pfx fs"
    "(case ec200_at_parse_int_field (result_line pfx fs) k of None \<Rightarrow> EC200_ERR_PARSE
      | Some v \<Rightarrow> if v = 0 then EC200_OK else EC200_ERR_MODULE) = outcome fs k"
proof -
  show "prefix_hit (Some (pfx @ '':'')) (result_line pfx fs)"
    using strncmp_eq_take [of "result_line pfx fs" "pfx @ '':''"] by (simp add: result_line_def prefix_hit_def)
  show "\<not> prefix_hit (Some (pfx @ '':'')) ''OK''"
    using assms by (cases pfx) (auto simp: delivers_def prefix_hit_def)
  show "(case ec200_at_parse_int_field (result_line pfx fs) k of None \<Rightarrow> EC200_ERR_PARSE
      | Some v \<Rightarrow> if v = 0 then EC200_OK else EC200_ERR_MODULE) = outcome fs k"
    using parse_result_line [of fs pfx k] assms
    by (auto simp: delivers_def outcome_def split: field.splits)
qed (use assms in \<open>auto simp: delivers_def copy_trunc_fits result_line_def\<close>)

lemma tape_result:
  assumes "tape_ready (ls @ rest) h" "length cmd < 511" "\<forall>x\<in>set (ls @ rest). clean_line x"
    and "delivers pfx fs ls" "64 \<le> sz"
  shows "\<exists>h'. ec200_at_send_await_urc h (Some cmd) (Some (pfx @ '':'')) (char_buf sz) t t' =
      Some (h', EC200_OK, Some (sz, result_line pfx fs)) \<and> tape_calm rest h'"
  using tape_await [OF assms(1-3) delivers_line(1-4) [OF assms(4)], of sz "[]" t t'] assms(5)
    delivers_line(5) [OF assms(4,5)]
  by (auto simp: char_buf_def)

lemma tape_qmt:
  assumes "tape_ready (ls @ rest) h" "length cmd < 511" "\<forall>x\<in>set (ls @ rest). clean_line x"
    and "delivers pfx fs ls" "64 \<le> sz" "p = pfx @ '':''"
  shows "\<exists>h'. qmt_command h cmd p sz k = Some (h', outcome fs k) \<and> tape_ready rest h'"
  using tape_result [OF assms(1-5), of EC200_AT_TIMEOUT_DEFAULT EC200_AT_TIMEOUT_LONG]
    delivers_line(6) [OF assms(4), of k] assms(6)
  by (auto simp: qmt_command_def qmt_result_def buf_text_def dest: tape_calm_ready)

lemma snprintf_short: "0 < sz \<Longrightarrow> sz \<le> 511 \<Longrightarrow> length (snprintf sz s) < 511"
  by (simp add: snprintf_def min_less_iff_disj) arith

text \<open>The calls.\<close>

lemma opens_decided:
  assumes "tape_ready (ls @ rest) h" "\<forall>x\<in>set (ls @ rest). clean_line x"
    and "host \<noteq> []" "length host < 256" "conn < 12" "1 \<le> ctx" "ctx \<le> 16"
  shows "delivers ''+QIOPEN'' fs ls \<Longrightarrow> 0 \<le> sock \<Longrightarrow> sock \<le> 3 \<Longrightarrow>
      \<exists>h'. ec200_tcp_open h ctx conn sock (Some host) port mode = Some (h', outcome fs 1) \<and> tape_ready rest h'"
    and "delivers ''+QSSLOPEN'' fs ls \<Longrightarrow> ssl \<le> 5 \<Longrightarrow>
      \<exists>h'. ec200_ssl_socket_open h ctx ssl conn (Some host) port = Some (h', outcome fs 1) \<and> tape_ready rest h'"
proof -
  note res = tape_result [OF assms(1) _ assms(2), where sz = 64]
  have n: "length (snprintf (EC200_MAX_URL_LEN + 64) s) < 511" for s
    by (intro snprintf_short) (simp_all add: size_defs)
  show "\<exists>h'. ec200_tcp_open h ctx conn sock (Some host) port mode = Some (h', outcome fs 1) \<and> tape_ready rest h'"
    if d: "delivers ''+QIOPEN'' fs ls" and "0 \<le> sock" "sock \<le> 3"
  proof -
    obtain h' where "ec200_at_send_await_urc h (Some (snprintf (EC200_MAX_URL_LEN + 64)
          (''AT+QIOPEN='' @ show_nat ctx @ '','' @ show_nat conn @ '','' @
           quoted (sock_type_str ! nat sock) @ '','' @ quoted host @ '','' @
           show_nat port @ '',0,'' @ show_nat (cast_u32 mode))))
        (Some (''+QIOPEN'' @ '':'')) (char_buf 64) EC200_AT_TIMEOUT_DEFAULT EC200_AT_TIMEOUT_LONG =
        Some (h', EC200_OK, Some (64, result_line ''+QIOPEN'' fs))" "tape_calm rest h'"
      using res [OF n d] by blast
    then show ?thesis
      using assms(3-7) that delivers_line(6) [OF d, of 1]
      by (auto simp: ec200_tcp_open_def no_host_def buf_text_def size_defs EC200_SOCK_UDP_SERVICE_def
          dest: tape_calm_ready split: option.splits)
  qed
  show "\<exists>h'. ec200_ssl_socket_open h ctx ssl conn (Some host) port = Some (h', outcome fs 1) \<and> tape_ready rest h'"
    if d: "delivers ''+QSSLOPEN'' fs ls" and "ssl \<le> 5"
  proof -
    obtain h' where "ec200_at_send_await_urc h (Some (snprintf (EC200_MAX_URL_LEN + 64)
          (''AT+QSSLOPEN='' @ show_nat ctx @ '','' @ show_nat ssl @ '','' @
           show_nat conn @ '','' @ quoted host @ '','' @ show_nat port @ '',0'')))
        (Some (''+QSSLOPEN'' @ '':'')) (char_buf 64) EC200_AT_TIMEOUT_DEFAULT EC200_AT_TIMEOUT_LONG =
        Some (h', EC200_OK, Some (64, result_line ''+QSSLOPEN'' fs))" "tape_calm rest h'"
      using res [OF n d] by blast
    then show ?thesis
      using assms(3-7) that delivers_line(6) [OF d, of 1]
      by (auto simp: ec200_ssl_socket_open_def buf_text_def size_defs
          dest: tape_calm_ready split: option.splits)
  qed
qed

lemma mqtt_decided:
  assumes "tape_ready (ls @ rest) h" "\<forall>x\<in>set (ls @ rest). clean_line x"
  shows "delivers ''+QMTCONN'' fs ls \<Longrightarrow> mq_client_id c \<noteq> [] \<Longrightarrow>
      \<exists>h'. ec200_mqtt_connect h (Some c) = Some (h', outcome fs 1) \<and> tape_ready rest h'"
    and "delivers ''+QMTDISC'' fs ls \<Longrightarrow>
      \<exists>h'. ec200_mqtt_disconnect h n = Some (h', outcome fs 1) \<and> tape_ready rest h'"
    and "delivers ''+QMTCLOSE'' fs ls \<Longrightarrow>
      \<exists>h'. ec200_mqtt_close h n = Some (h', outcome fs 1) \<and> tape_ready rest h'"
    and "delivers ''+QMTSUB'' fs ls \<Longrightarrow> tpc \<noteq> [] \<Longrightarrow> length tpc < 128 \<Longrightarrow> 0 < m \<Longrightarrow>
      \<exists>h'. ec200_mqtt_subscribe h n m (Some tpc) qos = Some (h', outcome fs 2) \<and> tape_ready rest h'"
    and "delivers ''+QMTUNS'' fs ls \<Longrightarrow> tpc \<noteq> [] \<Longrightarrow> length tpc < 128 \<Longrightarrow> 0 < m \<Longrightarrow>
      \<exists>h'. ec200_mqtt_unsubscribe h n m (Some tpc) = Some (h', outcome fs 2) \<and> tape_ready rest h'"
proof -
  note qmt = tape_qmt [OF assms(1) snprintf_short assms(2)]
  show "delivers ''+QMTDISC'' fs ls \<Longrightarrow>
      \<exists>h'. ec200_mqtt_disconnect h n = Some (h', outcome fs 1) \<and> tape_ready rest h'"
    unfolding ec200_mqtt_disconnect_def by (rule qmt) simp_all
  show "delivers ''+QMTCLOSE'' fs ls \<Longrightarrow>
      \<exists>h'. ec200_mqtt_close h n = Some (h', outcome fs 1) \<and> tape_ready rest h'"
    unfolding ec200_mqtt_close_def by (rule qmt) simp_all
  assume c: "delivers ''+QMTCONN'' fs ls" "mq_client_id c \<noteq> []"
  have "\<exists>h'. qmt_command h (snprintf 256 s) ''+QMTCONN:'' 64 1 = Some (h', outcome fs 1) \<and> tape_ready rest h'" for s
    using c(1) by (intro qmt) simp_all
  then show "\<exists>h'. ec200_mqtt_connect h (Some c) = Some (h', outcome fs 1) \<and> tape_ready rest h'"
    using c(2) by (simp only: ec200_mqtt_connect_def option.simps if_False)
next
  note qmt = tape_qmt [OF assms(1) snprintf_short assms(2)]
  assume m: "tpc \<noteq> []" "length tpc < 128" "0 < m"
  have "\<exists>h'. qmt_command h (snprintf (EC200_MAX_TOPIC_LEN + 48) s) p 128 2 = Some (h', outcome fs 2) \<and>
      tape_ready rest h'" if "delivers pfx fs ls" "p = pfx @ '':''" for s p pfx
    using that by (intro qmt) (simp_all add: size_defs)
  note sub = this [of "''+QMTSUB''" "''+QMTSUB:''"] this [of "''+QMTUNS''" "''+QMTUNS:''"]
  show "\<exists>h'. ec200_mqtt_subscribe h n m (Some tpc) qos = Some (h', outcome fs 2) \<and> tape_ready rest h'"
    if "delivers ''+QMTSUB'' fs ls"
    using sub(1) that m by (simp add: ec200_mqtt_subscribe_def bad_topic_def size_defs)
  show "\<exists>h'. ec200_mqtt_unsubscribe h n m (Some tpc) = Some (h', outcome fs 2) \<and> tape_ready rest h'"
    if "delivers ''+QMTUNS'' fs ls"
    using sub(2) that m by (simp add: ec200_mqtt_unsubscribe_def bad_topic_def size_defs)
qed

lemma mqtt_open_decided:
  assumes "tape_ready (''OK'' # ls @ rest) h" "\<forall>x\<in>set (ls @ rest). clean_line x"
    and "delivers ''+QMTOPEN'' fs ls" "mq_host c \<noteq> []" "mq_use_tls c \<longrightarrow> mq_ssl_ctx_id c \<le> 5"
  shows "\<exists>h'. ec200_mqtt_open h (Some c) = Some (h', outcome fs 1) \<and> tape_ready rest h'"
proof -
  have n: "length (snprintf (EC200_MAX_URL_LEN + 32) s) < 511" for s
    by (intro snprintf_short) (simp_all add: size_defs)
  obtain h1 where "send_plain h (snprintf (EC200_MAX_URL_LEN + 32)
      (''AT+QMTCFG='' @ quoted ''ssl'' @ '','' @ show_nat (mq_tcp_connect_id c) @ '','' @
        show_nat (if mq_use_tls c then 1 else 0) @ '','' @ show_nat (mq_ssl_ctx_id c)))
      EC200_AT_TIMEOUT_DEFAULT = Some (h1, EC200_OK)" "tape_ready (ls @ rest) h1"
    using tape_plain [OF assms(1) n assms(2)] by blast
  then show ?thesis
    using tape_qmt [OF _ n assms(2,3), of h1 64 "''+QMTOPEN:''"] assms(4,5)
    by (auto simp: ec200_mqtt_open_def)
qed

section \<open>Address lookup\<close>

definition dns_header :: "int \<Rightarrow> int \<Rightarrow> int \<Rightarrow> string" where
  "dns_header err n ttl = result_line ''+QIURC'' [FStr ''dnsgip'', FInt err, FInt n, FInt ttl]"

definition dns_address :: "string \<Rightarrow> string" where
  "dns_address a = result_line ''+QIURC'' [FStr ''dnsgip'', FStr a]"

text \<open>An address as it is printed, short enough for the buffer of the call.\<close>

definition printed_addr :: "string \<Rightarrow> bool" where
  "printed_addr a \<longleftrightarrow> DQUOTE \<notin> set a \<and> length a < 100"

lemma dns_hits:
  "prefix_hit (Some dnsgip_prefix) (dns_header err n ttl)" "prefix_hit (Some dnsgip_prefix) (dns_address a)"
  "\<not> prefix_hit (Some dnsgip_prefix) ''OK''" "dns_header err n ttl \<noteq> []" "dns_address a \<noteq> []"
  by (simp_all add: prefix_hit_def dnsgip_prefix_def dns_header_def dns_address_def result_line_def quoted_def)

lemma dns_read:
  assumes "printed_addr a"
  shows "length (dns_address a) < 128" "dnsgip_addr (dns_address a) = Some a"
    "ec200_at_parse_int_field (dns_address a) 1 = None" "body_only (dns_address a)"
proof -
  show "length (dns_address a) < 128" using assms by (simp add: dns_address_def result_line_def quoted_def printed_addr_def)
  have "strchr (a @ [DQUOTE]) DQUOTE = Some [DQUOTE]"
    using assms by (intro strchr_upto) (simp add: printed_addr_def)
  then show "dnsgip_addr (dns_address a) = Some a"
    by (simp add: dnsgip_addr_def dns_address_def result_line_def quoted_def)
  show "ec200_at_parse_int_field (dns_address a) 1 = None"
    using assms parse_result_line [of "[FStr ''dnsgip'', FStr a]" "''+QIURC''" 1]
    by (simp add: dns_address_def printed_addr_def)
  show "body_only (dns_address a)"
    by (simp add: body_only_def line_term_def dns_address_def result_line_def)
qed

lemma dns_header_read:
  assumes "is_int err" "is_int n" "is_int ttl"
  shows "ec200_at_parse_int_field (dns_header err n ttl) 1 = Some err" "dnsgip_addr (dns_header err n ttl) = None"
proof -
  show "ec200_at_parse_int_field (dns_header err n ttl) 1 = Some err"
    using assms parse_result_line [of "[FStr ''dnsgip'', FInt err, FInt n, FInt ttl]" "''+QIURC''" 1]
    by (simp add: dns_header_def)
  have "strchr (CHR '','' # show_fields [FInt err, FInt n, FInt ttl]) DQUOTE = None"
    by (intro strchr_none) (simp add: show_int_plain)
  then show "dnsgip_addr (dns_header err n ttl) = None"
    by (simp add: dnsgip_addr_def dns_header_def result_line_def quoted_def)
qed

text \<open>A lookup whose first result line is \<open>l\<close>, up to the second one.\<close>

definition lookup_ok :: "string option \<Rightarrow> cbuf \<Rightarrow> nat \<Rightarrow> bool" where
  "lookup_ok host ip ctx \<longleftrightarrow>
     \<not> no_host host \<and> length (the host) < 256 \<and> \<not> no_buf ip \<and> 1 \<le> ctx \<and> ctx \<le> 16"

lemma dns_first:
  assumes "tape_ready (ls @ rest) h" "\<forall>x\<in>set (ls @ rest). clean_line x" "dialogue dnsgip_prefix l ls"
    and "prefix_hit (Some dnsgip_prefix) l" "l \<noteq> []" "length l < 128" "lookup_ok host ip ctx"
  shows "\<exists>h1. tape_calm rest h1 \<and> ec200_tcp_dns_resolve h ctx host ip t =
    (if (case ec200_at_parse_int_field l 1 of Some err \<Rightarrow> err \<noteq> 0 | None \<Rightarrow> False)
     then Some (h1, EC200_ERR_MODULE, ip)
     else do {
       (h, st, resp) \<leftarrow> ec200_at_wait_prefix h1 (Some dnsgip_prefix) (Some (128, l)) t;
       if st \<noteq> EC200_OK then Some (h, st, ip)
       else (case dnsgip_addr (buf_text resp) of
               None \<Rightarrow> Some (h, EC200_ERR_PARSE, ip)
             | Some a \<Rightarrow> Some (h, EC200_OK, copy_line a ip))
     })"
proof -
  let ?cmd = "snprintf (EC200_MAX_URL_LEN + 32) (''AT+QIDNSGIP='' @ show_nat ctx @ '','' @ quoted (the host))"
  have n: "length ?cmd < 511" by (intro snprintf_short) (simp_all add: size_defs)
  obtain h1 where "ec200_at_send_await_urc h (Some ?cmd) (Some dnsgip_prefix) (char_buf 128)
      EC200_AT_TIMEOUT_DEFAULT t = Some (h1, EC200_OK, Some (128, l))" "tape_calm rest h1"
    using tape_await [OF assms(1) n assms(2-5) dns_hits(3), where sz = 128 and s = "[]"
        and t = EC200_AT_TIMEOUT_DEFAULT and t' = t] assms(6)
    by (auto simp: char_buf_def copy_trunc_fits)
  then show ?thesis
    using assms(7)
    by (intro exI [of _ h1]) (simp add: ec200_tcp_dns_resolve_def lookup_ok_def buf_text_def size_defs)
qed

lemma dns_resolved:
  assumes "tape_ready (ls @ later @ dns_address a # rest) h"
    and "\<forall>x\<in>set (ls @ later @ dns_address a # rest). clean_line x"
    and "dialogue dnsgip_prefix (dns_header 0 n ttl) ls" "list_all (beside dnsgip_prefix) later" "length later < 64"
    and "is_int n" "is_int ttl" "length (dns_header 0 n ttl) < 128" "printed_addr a" "lookup_ok host ip ctx"
  shows "\<exists>h'. ec200_tcp_dns_resolve h ctx host ip t = Some (h', EC200_OK, copy_line a ip) \<and> tape_calm rest h'"
proof -
  have z: "is_int 0" by (simp add: is_int_def int_min_def int_max_def)
  obtain h1 where h1: "tape_calm (later @ dns_address a # rest) h1"
      "ec200_tcp_dns_resolve h ctx host ip t =
        (do {
          (h, st, resp) \<leftarrow> ec200_at_wait_prefix h1 (Some dnsgip_prefix) (Some (128, dns_header 0 n ttl)) t;
          if st \<noteq> EC200_OK then Some (h, st, ip)
          else (case dnsgip_addr (buf_text resp) of
                  None \<Rightarrow> Some (h, EC200_ERR_PARSE, ip)
                | Some a \<Rightarrow> Some (h, EC200_OK, copy_line a ip))
        })"
    using dns_first [OF assms(1-3) dns_hits(1,4) assms(8,10), of t] dns_header_read(1) [OF z assms(6,7)] by auto
  have "\<forall>x\<in>set (later @ dns_address a # rest). clean_line x" using assms(2) by simp
  then obtain h2 where h2: "ec200_at_wait_prefix h1 (Some dnsgip_prefix) (Some (128, dns_header 0 n ttl)) t =
      Some (h2, EC200_OK, Some (128, dns_address a))" "tape_calm rest h2"
    using tape_wait_prefix [OF h1(1) _ assms(4,5) dns_hits(2,5), of 128 "dns_header 0 n ttl" t] dns_read(1) [OF assms(9)]
    by (auto simp: copy_line_def copy_trunc_fits)
  show ?thesis
    using h1(2) h2 dns_read(2) [OF assms(9)] by (simp add: buf_text_def)
qed

lemma dns_misled:
  assumes "tape_ready (map dns_address as @ ''OK'' # later @ dns_header err n ttl # rest) h"
    and "\<forall>x\<in>set (map dns_address as @ ''OK'' # later @ dns_header err n ttl # rest). clean_line x"
    and "as \<noteq> []" "length as \<le> 64" "\<forall>a\<in>set as. printed_addr a"
    and "list_all (beside dnsgip_prefix) later" "length later < 64"
    and "is_int err" "is_int n" "is_int ttl" "length (dns_header err n ttl) < 128" "lookup_ok host ip ctx"
  shows "\<exists>h'. ec200_tcp_dns_resolve h ctx host ip t = Some (h', EC200_ERR_PARSE, ip) \<and> tape_calm rest h'"
proof -
  obtain a as' where as: "as = a # as'" using assms(3) by (cases as) auto
  let ?ls = "dns_address a # map dns_address as' @ [''OK'']"
  have "list_all body_only (map dns_address as')"
    using assms(5) dns_read(4) by (auto simp: as list_all_iff)
  then have d: "dialogue dnsgip_prefix (dns_address a) ?ls"
    unfolding dialogue_def using assms(4) as
    by (intro exI [of _ "[]"] exI [of _ "map dns_address as'"]) simp
  have a: "printed_addr a" using assms(5) by (simp add: as)
  obtain h1 where h1: "tape_calm (later @ dns_header err n ttl # rest) h1"
      "ec200_tcp_dns_resolve h ctx host ip t =
        (do {
          (h, st, resp) \<leftarrow> ec200_at_wait_prefix h1 (Some dnsgip_prefix) (Some (128, dns_address a)) t;
          if st \<noteq> EC200_OK then Some (h, st, ip)
          else (case dnsgip_addr (buf_text resp) of
                  None \<Rightarrow> Some (h, EC200_ERR_PARSE, ip)
                | Some a \<Rightarrow> Some (h, EC200_OK, copy_line a ip))
        })"
    using dns_first [OF _ _ d dns_hits(2,5) dns_read(1) [OF a] assms(12), of "later @ dns_header err n ttl # rest" h t]
      assms(1,2) dns_read(3) [OF a] by (auto simp: as)
  have "\<forall>x\<in>set (later @ dns_header err n ttl # rest). clean_line x" using assms(2) by simp
  then obtain h2 where h2: "ec200_at_wait_prefix h1 (Some dnsgip_prefix) (Some (128, dns_address a)) t =
      Some (h2, EC200_OK, Some (128, dns_header err n ttl))" "tape_calm rest h2"
    using tape_wait_prefix [OF h1(1) _ assms(6,7) dns_hits(1,4), of 128 "dns_address a" t] assms(11)
    by (auto simp: copy_line_def copy_trunc_fits)
  show ?thesis
    using h1(2) h2 dns_header_read(2) [OF assms(8-10)] by (simp add: buf_text_def)
qed

section \<open>Ping\<close>

text \<open>The seven numbers of a summary line.\<close>

definition ping_numbers :: "field list \<Rightarrow> int list option" where
  "ping_numbers fs =
     (if 7 \<le> length fs \<and> list_all (\<lambda>f. case f of FInt v \<Rightarrow> True | FStr s \<Rightarrow> False) (take 7 fs)
      then Some (map (\<lambda>f. case f of FInt v \<Rightarrow> v | FStr s \<Rightarrow> 0) (take 7 fs)) else None)"

definition ping_line :: "field list \<Rightarrow> string" where
  "ping_line fs = result_line ''+QPING'' fs"

lemma ping_fields_line:
  assumes "list_all field_ok fs" "length acc \<le> length fs"
    and "acc = map (\<lambda>f. case f of FInt v \<Rightarrow> v | FStr s \<Rightarrow> 0) (take (length acc) fs)"
  shows "ping_fields n (ping_line fs) acc =
    (if length acc + n \<le> length fs \<and> list_all (\<lambda>f. case f of FInt v \<Rightarrow> True | FStr s \<Rightarrow> False) (take n (drop (length acc) fs))
     then Some (acc @ map (\<lambda>f. case f of FInt v \<Rightarrow> v | FStr s \<Rightarrow> 0) (take n (drop (length acc) fs))) else None)"
  using assms(2,3)
proof (induction n arbitrary: acc)
  case (Suc n)
  note read = parse_result_line [OF assms(1), of "''+QPING''" "length acc"]
  show ?case
  proof (cases "length acc < length fs")
    case False
    then show ?thesis using read Suc.prems(1) by (simp add: ping_line_def)
  next
    case True
    then have dr: "drop (length acc) fs = fs ! length acc # drop (Suc (length acc)) fs"
      by (rule Cons_nth_drop_Suc [symmetric])
    show ?thesis
    proof (cases "fs ! length acc")
      case (FStr s)
      then show ?thesis using read True dr by (simp add: ping_line_def)
    next
      case (FInt v)
      have "acc @ [v] = map (\<lambda>f. case f of FInt v \<Rightarrow> v | FStr s \<Rightarrow> 0) (take (length (acc @ [v])) fs)"
        using Suc.prems(2) True FInt by (simp add: take_Suc_conv_app_nth)
      note ih = Suc.IH [OF _ this]
      show ?thesis
        using read True dr FInt ih by (simp add: ping_line_def)
    qed
  qed
qed simp

lemma ping_fields_numbers:
  "list_all field_ok fs \<Longrightarrow> ping_fields 7 (ping_line fs) [] = ping_numbers fs"
  using ping_fields_line [of fs "[]" 7] by (simp add: ping_numbers_def)

text \<open>A line of a ping: short enough for the buffer of the call.\<close>

definition ping_ok :: "field list \<Rightarrow> bool" where
  "ping_ok fs \<longleftrightarrow> list_all field_ok fs \<and> length (ping_line fs) < 128 \<and> clean_line (ping_line fs)"

definition ping_result_of :: "int list \<Rightarrow> ec200_status \<times> ec200_ping_result" where
  "ping_result_of f =
     (if f ! 0 \<noteq> 0 then (EC200_ERR_MODULE, ping_zero)
      else (EC200_OK, \<lparr>ping_sent = cast_u16 (f ! 1), ping_received = cast_u16 (f ! 2),
              ping_lost = cast_u16 (f ! 3), ping_min_rtt_ms = cast_u32 (f ! 4),
              ping_max_rtt_ms = cast_u32 (f ! 5), ping_avg_rtt_ms = cast_u32 (f ! 6)\<rparr>))"

lemma ping_hits:
  "prefix_hit (Some ''+QPING:'') (ping_line fs)" "ping_line fs \<noteq> []" "\<not> prefix_hit (Some ''+QPING:'') ''OK''"
  by (simp_all add: prefix_hit_def ping_line_def result_line_def)

text \<open>
  What a ping comes to: \<open>v\<close> is what the last of its lines says, \<open>rest\<close> the lines behind them.
\<close>

definition ping_ends ::
    "int list option \<Rightarrow> string list \<Rightarrow> (tape ec200_handle \<times> ec200_status \<times> ec200_ping_result) option \<Rightarrow> bool" where
  "ping_ends v rest m \<longleftrightarrow>
     (case v of
        Some f \<Rightarrow> \<exists>h'. m = Some (h', ping_result_of f) \<and> tape_ready rest h'
      | None \<Rightarrow> rest = [] \<longrightarrow> (\<exists>h'. m = Some (h', EC200_ERR_TIMEOUT, ping_zero)))"

text \<open>The loop: replies, each a line that is no summary, then the summary or nothing.\<close>

lemma ping_loop_replies:
  assumes "tape_calm (map ping_line fss @ rest) h" "\<forall>x\<in>set rest. clean_line x"
    and "list_all ping_ok (fs # fss)" "\<forall>f\<in>set (butlast (fs # fss)). ping_numbers f = None" "length fss < k"
  shows "ping_ends (ping_numbers (last (fs # fss))) rest (ping_loop k h (Some (128, ping_line fs)) t)"
  using assms
proof (induction fss arbitrary: h fs k)
  case Nil
  then obtain k' where k: "k = Suc k'" by (cases k) auto
  show ?case
  proof (cases "ping_numbers fs")
    case None
    have "\<exists>h'. ec200_at_wait_prefix h (Some ''+QPING:'') (Some (128, ping_line fs)) t =
        Some (h', EC200_ERR_TIMEOUT, Some (128, ping_line fs))" if "rest = []"
      using tape_wait_none [of h "''+QPING:''" "Some (128, ping_line fs)" t] Nil.prems(1) that by auto
    then show ?thesis
      using None Nil.prems k ping_fields_numbers [of fs] by (auto simp: ping_ends_def buf_text_def ping_ok_def)
  next
    case (Some v)
    then show ?thesis
      using Nil.prems k ping_fields_numbers [of fs] tape_calm_ready
      by (auto simp: ping_ends_def ping_result_of_def buf_text_def ping_ok_def)
  qed
next
  case (Cons g fss)
  then obtain k' where k: "k = Suc k'" by (cases k) auto
  have "\<forall>x\<in>set (map ping_line fss @ rest). clean_line x"
    using Cons.prems(2,3) by (auto simp: list_all_iff ping_ok_def)
  then obtain h1 where h1: "ec200_at_wait_prefix h (Some ''+QPING:'') (Some (128, ping_line fs)) t =
      Some (h1, EC200_OK, Some (128, ping_line g))" "tape_calm (map ping_line fss @ rest) h1"
    using tape_wait_prefix [of "[]" "ping_line g" "map ping_line fss @ rest" h "''+QPING:''" 128 "ping_line fs" t]
      Cons.prems(1,3) ping_hits by (auto simp: ping_ok_def copy_line_def copy_trunc_fits)
  have "ping_fields 7 (ping_line fs) [] = None"
    using ping_fields_numbers [of fs] Cons.prems(3,4) by (simp add: ping_ok_def)
  then have "ping_loop k h (Some (128, ping_line fs)) t = ping_loop k' h1 (Some (128, ping_line g)) t"
    using h1(1) by (simp add: k buf_text_def)
  then show ?case using Cons.IH [OF h1(2), of g k'] Cons.prems k by simp
qed

lemma ping_run:
  assumes "tape_ready (ls @ map ping_line fss @ rest) h" "\<forall>x\<in>set (ls @ rest). clean_line x"
    and "dialogue ''+QPING:'' (ping_line fs) ls" "list_all ping_ok (fs # fss)"
    and "\<forall>f\<in>set (butlast (fs # fss)). ping_numbers f = None" "length fss < 64"
    and "host \<noteq> []" "length host < 256" "1 \<le> ctx" "ctx \<le> 16" "1 \<le> cnt" "cnt \<le> 10"
  shows "\<exists>m. ec200_tcp_ping h ctx (Some host) cnt (Some r) t = map_option (\<lambda>(h', st, r). (h', st, Some r)) m \<and>
    ping_ends (ping_numbers (last (fs # fss))) rest m"
proof -
  let ?cmd = "snprintf (EC200_MAX_URL_LEN + 48) (''AT+QPING='' @ show_nat ctx @ '','' @ quoted host @ '',4,'' @ show_nat cnt)"
  have n: "length ?cmd < 511" by (intro snprintf_short) (simp_all add: size_defs)
  have clean: "\<forall>x\<in>set (ls @ map ping_line fss @ rest). clean_line x"
    using assms(2,4) by (auto simp: list_all_iff ping_ok_def)
  obtain h1 where h1: "ec200_at_send_await_urc h (Some ?cmd) (Some ''+QPING:'') (char_buf 128)
      EC200_AT_TIMEOUT_DEFAULT t = Some (h1, EC200_OK, Some (128, ping_line fs))" "tape_calm (map ping_line fss @ rest) h1"
    using tape_await [OF assms(1) n clean assms(3) ping_hits, where sz = 128 and s = "[]"
        and t = EC200_AT_TIMEOUT_DEFAULT and t' = t] assms(4)
    by (auto simp: char_buf_def copy_trunc_fits ping_ok_def)
  have "ping_ends (ping_numbers (last (fs # fss))) rest (ping_loop 64 h1 (Some (128, ping_line fs)) t)"
    using assms(2) by (intro ping_loop_replies [OF h1(2) _ assms(4-6)]) simp
  moreover have "ec200_tcp_ping h ctx (Some host) cnt (Some r) t =
      map_option (\<lambda>(h', st, r). (h', st, Some r)) (ping_loop 64 h1 (Some (128, ping_line fs)) t)"
    using h1(1) assms(7-12)
    by (auto simp: ec200_tcp_ping_def no_host_def size_defs EC200_AT_MAX_LINES_def map_option_case
        split: option.splits)
  ultimately show ?thesis by blast
qed

section \<open>Properties\<close>

text \<open>
  C9. A result line decides. The calls that open and close connections, sessions and subscriptions
  send their command, skip what does not concern them, and take the status from the result
  field of the awaited line, zero for success, whether that line comes after the \<open>OK\<close> or
  before it; what follows on the line stays for the next call. The other fields are not
  looked at: the line of another connection or client (the field \<open>k\<close>) decides as well.
\<close>

theorem async_result_decides:
  assumes "\<forall>x\<in>set (ls @ rest). clean_line x" and "tape_ready (ls @ rest) h" and "tape_ready (''OK'' # ls @ rest) g"
    and "host \<noteq> []" "length host < 256" "conn < 12" "1 \<le> ctx" "ctx \<le> 16" "0 \<le> sock" "sock \<le> 3" "ssl \<le> 5"
    and "mq_client_id c \<noteq> []" "mq_host c \<noteq> []" "mq_use_tls c \<longrightarrow> mq_ssl_ctx_id c \<le> 5"
    and "tpc \<noteq> []" "length tpc < 128" "0 < m"
    and "delivers pfx fs ls" and "fs = FInt k # fs'"
  shows
    "(pfx = ''+QIOPEN'' \<longrightarrow>
       (\<exists>h'. ec200_tcp_open h ctx conn sock (Some host) port mode = Some (h', outcome fs 1) \<and> tape_ready rest h')) \<and>
     (pfx = ''+QSSLOPEN'' \<longrightarrow>
       (\<exists>h'. ec200_ssl_socket_open h ctx ssl conn (Some host) port = Some (h', outcome fs 1) \<and> tape_ready rest h')) \<and>
     (pfx = ''+QMTOPEN'' \<longrightarrow>
       (\<exists>h'. ec200_mqtt_open g (Some c) = Some (h', outcome fs 1) \<and> tape_ready rest h')) \<and>
     (pfx = ''+QMTCONN'' \<longrightarrow>
       (\<exists>h'. ec200_mqtt_connect h (Some c) = Some (h', outcome fs 1) \<and> tape_ready rest h')) \<and>
     (pfx = ''+QMTDISC'' \<longrightarrow>
       (\<exists>h'. ec200_mqtt_disconnect h n = Some (h', outcome fs 1) \<and> tape_ready rest h')) \<and>
     (pfx = ''+QMTCLOSE'' \<longrightarrow>
       (\<exists>h'. ec200_mqtt_close h n = Some (h', outcome fs 1) \<and> tape_ready rest h')) \<and>
     (pfx = ''+QMTSUB'' \<longrightarrow>
       (\<exists>h'. ec200_mqtt_subscribe h n m (Some tpc) qos = Some (h', outcome fs 2) \<and> tape_ready rest h')) \<and>
     (pfx = ''+QMTUNS'' \<longrightarrow>
       (\<exists>h'. ec200_mqtt_unsubscribe h n m (Some tpc) = Some (h', outcome fs 2) \<and> tape_ready rest h'))"
proof (intro conjI impI)
  note opens = opens_decided [OF assms(2,1,4-8)]
  show "\<exists>h'. ec200_tcp_open h ctx conn sock (Some host) port mode = Some (h', outcome fs 1) \<and> tape_ready rest h'"
    if "pfx = ''+QIOPEN''" using opens(1) assms(9,10,18) that by blast
  show "\<exists>h'. ec200_ssl_socket_open h ctx ssl conn (Some host) port = Some (h', outcome fs 1) \<and> tape_ready rest h'"
    if "pfx = ''+QSSLOPEN''" using opens(2) assms(11,18) that by blast
  show "\<exists>h'. ec200_mqtt_open g (Some c) = Some (h', outcome fs 1) \<and> tape_ready rest h'"
    if "pfx = ''+QMTOPEN''" using mqtt_open_decided [OF assms(3,1)] assms(13,14,18) that by blast
qed (use mqtt_decided [OF assms(2,1)] assms(12,15-18) in \<open>blast+\<close>)

theorem async_result_decides_witness:
  "\<exists>h'. ec200_tcp_open (tape_handle (crlf [''OK'', ''RDY'', result_line ''+QIOPEN'' [FInt 7, FInt 0]]))
     1 2 0 (Some ''host'') 80 0 = Some (h', EC200_OK) \<and> fst (user_ctx h') = []"
proof -
  let ?l = "result_line ''+QIOPEN'' [FInt 7, FInt 0]"
  let ?ls = "[''OK'', ''RDY'', ?l]"
  have "length (show_int 7) \<le> 4" "length (show_int 0) \<le> 4"
    using short_int_fits [of 7] short_int_fits [of 0] by (simp_all add: short_int_def)
  then have l: "length ?l < 64" "clean_line ?l"
    by (simp_all add: clean_line_def result_line_def size_defs show_int_clean)
  have "dialogue ''+QIOPEN:'' ?l ?ls"
    unfolding dialogue_def
    by (intro exI [of _ "[]"] exI [of _ "[''RDY'']"])
      (simp add: beside_def body_only_def line_term_def prefix_hit_def)
  then have d: "delivers ''+QIOPEN'' [FInt 7, FInt 0] ?ls"
    using l by (simp add: delivers_def is_int_def int_min_def int_max_def)
  have clean: "\<forall>x\<in>set (?ls @ []). clean_line x" using l by (simp add: clean_line_def size_defs)
  have nil: "fst (user_ctx h') = []" if "tape_ready [] h'" for h'
    using that by (simp add: tape_ready_def)
  let ?c = "\<lparr>mq_host = ''h'', mq_port = 1, mq_client_id = ''i'', mq_username = [], mq_password = [], mq_keep_alive = 0,
    mq_clean_session = True, mq_tcp_connect_id = 0, mq_client_idx = 0, mq_use_tls = False, mq_ssl_ctx_id = 0\<rparr>"
  show ?thesis
    using async_result_decides [OF clean, where h = "tape_handle (crlf ?ls)" and g = "tape_handle (crlf (''OK'' # ?ls))" and
        host = "''host''" and conn = 2 and ctx = 1 and sock = 0 and ssl = 0 and c = ?c and tpc = "''t''" and m = 1 and
        pfx = "''+QIOPEN''" and fs = "[FInt 7, FInt 0]" and port = 80 and mode = 0] d
      tape_ready_handle [of ?ls] tape_ready_handle [of "''OK'' # ?ls"]
    by (auto simp: outcome_def simp del: crlf_simps dest: nil)
qed

text \<open>
  C30. A lookup takes one address and leaves the others. It succeeds with the first address behind
  the header; further addresses of a name stay unread, and then the next lookup takes such
  a leftover for its header and its own header for an address, and fails with a parse error
  whatever the module answered. After it the line is in step again only if its own name
  had no addresses.
\<close>

theorem dns_answers_left_behind:
  assumes "tape_ready (ls @ later @ map dns_address (a # as) @ ''OK'' # later' @ dns_header err' n' ttl' # rest) h"
    and "\<forall>x\<in>set (ls @ later @ map dns_address (a # as) @ ''OK'' # later' @ dns_header err' n' ttl' # rest). clean_line x"
    and "dialogue dnsgip_prefix (dns_header 0 n ttl) ls" "list_all (beside dnsgip_prefix) (later @ later')"
    and "length later < 64" "length later' < 64" "length as \<le> 64" "\<forall>b\<in>set (a # as). printed_addr b"
    and "list_all is_int [n, ttl, err', n', ttl']" "length (dns_header 0 n ttl) < 128" "length (dns_header err' n' ttl') < 128"
    and "lookup_ok host ip ctx" "lookup_ok host' ip' ctx'"
  shows "\<exists>h1. ec200_tcp_dns_resolve h ctx host ip t = Some (h1, EC200_OK, copy_line a ip) \<and>
    tape_ready (map dns_address as @ ''OK'' # later' @ dns_header err' n' ttl' # rest) h1 \<and>
    (as \<noteq> [] \<longrightarrow>
      (\<exists>h2. ec200_tcp_dns_resolve h1 ctx' host' ip' t' = Some (h2, EC200_ERR_PARSE, ip') \<and> tape_ready rest h2))"
proof -
  let ?more = "map dns_address as @ ''OK'' # later' @ dns_header err' n' ttl' # rest"
  obtain h1 where h1: "ec200_tcp_dns_resolve h ctx host ip t = Some (h1, EC200_OK, copy_line a ip)" "tape_calm ?more h1"
    using dns_resolved [of ls later a ?more h n ttl host ip ctx t] assms by auto
  have "\<exists>h2. ec200_tcp_dns_resolve h1 ctx' host' ip' t' = Some (h2, EC200_ERR_PARSE, ip') \<and> tape_ready rest h2" if "as \<noteq> []"
    using dns_misled [OF tape_calm_ready [OF h1(2)] _ that, where host = host' and ip = ip' and ctx = ctx' and t = t']
      assms tape_calm_ready by auto
  then show ?thesis using h1 tape_calm_ready by blast
qed

theorem dns_answers_left_behind_witness:
  "\<exists>h1 h2. ec200_tcp_dns_resolve (tape_handle (crlf [''OK'', dns_header 0 2 60, dns_address ''10.0.0.1'', dns_address ''10.0.0.2'',
        ''OK'', dns_header 565 0 0])) 1 (Some ''a.b'') (Some (16, [])) 300 = Some (h1, EC200_OK, Some (16, ''10.0.0.1'')) \<and>
     ec200_tcp_dns_resolve h1 1 (Some ''bad'') (Some (16, [])) 300 = Some (h2, EC200_ERR_PARSE, Some (16, []))"
proof -
  let ?ls = "[''OK'', dns_header 0 2 60]"
  have line: "clean_line (dns_header e n t)" "length (dns_header e n t) < 128"
    if "short_int e" "short_int n" "short_int t" for e n t
  proof -
    show "length (dns_header e n t) < 128"
      using that [THEN short_int_fits] by (simp add: dns_header_def result_line_def quoted_def)
    then show "clean_line (dns_header e n t)"
      by (simp add: clean_line_def dns_header_def result_line_def quoted_def size_defs show_int_clean)
  qed
  have "dialogue dnsgip_prefix (dns_header 0 2 60) ?ls"
    unfolding dialogue_def by (intro exI [of _ "[]"]) simp
  then show ?thesis
    using dns_answers_left_behind [of ?ls "[]" "''10.0.0.1''" "[''10.0.0.2'']" "[]" 565 0 0 "[]" "tape_handle (crlf (?ls @
        [dns_address ''10.0.0.1'', dns_address ''10.0.0.2'', ''OK'', dns_header 565 0 0]))" 2 60 "Some ''a.b''" "Some (16, [])" 1
        "Some ''bad''" "Some (16, [])" 1 300 300] line
      tape_ready_handle [of "?ls @ [dns_address ''10.0.0.1'', dns_address ''10.0.0.2'', ''OK'', dns_header 565 0 0]"]
    by (auto simp: printed_addr_def is_int_def int_min_def int_max_def lookup_ok_def no_host_def no_buf_def clean_line_def
        short_int_def dns_address_def result_line_def quoted_def size_defs copy_line_def copy_trunc_def simp del: crlf_simps)
qed

text \<open>
  C31. The outcome of a ping. Reply lines are skipped up to the first line whose first seven
  fields are numbers, the summary: its error code 0 gives OK with the six numbers behind it,
  any other code a module error with all counts zero, and the lines behind it stay unread.
  A line with the error code alone is no summary: when the module reports a failure that way and
  nothing follows, the call waits and ends with a timeout.
\<close>

theorem ping_outcome:
  assumes "tape_ready (ls @ map ping_line fss @ rest) h" "\<forall>x\<in>set (ls @ rest). clean_line x"
    and "dialogue ''+QPING:'' (ping_line fs) ls" "list_all ping_ok (fs # fss)"
    and "\<forall>f\<in>set (butlast (fs # fss)). ping_numbers f = None" "length fss < 64"
    and "host \<noteq> []" "length host < 256" "1 \<le> ctx" "ctx \<le> 16" "1 \<le> cnt" "cnt \<le> 10"
  shows "case ping_numbers (last (fs # fss)) of
      Some f \<Rightarrow> \<exists>h'. ec200_tcp_ping h ctx (Some host) cnt (Some r) t =
          Some (h', if f ! 0 = 0 then EC200_OK else EC200_ERR_MODULE, Some (snd (ping_result_of f))) \<and> tape_ready rest h'
    | None \<Rightarrow> rest = [] \<longrightarrow>
        (\<exists>h'. ec200_tcp_ping h ctx (Some host) cnt (Some r) t = Some (h', EC200_ERR_TIMEOUT, Some ping_zero))"
proof -
  obtain m where m: "ec200_tcp_ping h ctx (Some host) cnt (Some r) t = map_option (\<lambda>(h', st, r). (h', st, Some r)) m"
      "ping_ends (ping_numbers (last (fs # fss))) rest m"
    using ping_run [OF assms] by blast
  then show ?thesis
    by (auto simp: ping_ends_def ping_result_of_def split: option.splits if_splits)
qed

theorem ping_outcome_witness:
  "(\<exists>h'. ec200_tcp_ping (tape_handle (crlf [''OK'', ping_line [FInt 0, FStr ''10.0.0.1'', FInt 32, FInt 50, FInt 255],
        ping_line (map FInt [0, 1, 1, 0, 50, 50, 50])])) 1 (Some ''a.b'') 1 (Some ping_zero) 300 =
     Some (h', EC200_OK, Some \<lparr>ping_sent = 1, ping_received = 1, ping_lost = 0, ping_min_rtt_ms = 50,
       ping_max_rtt_ms = 50, ping_avg_rtt_ms = 50\<rparr>)) \<and>
   (\<exists>h'. ec200_tcp_ping (tape_handle (crlf [''OK'', ping_line [FInt 569]])) 1 (Some ''a.b'') 1 (Some ping_zero) 300 =
     Some (h', EC200_ERR_TIMEOUT, Some ping_zero))"
proof -
  let ?re = "[FInt 0, FStr ''10.0.0.1'', FInt 32, FInt 50, FInt 255]" and ?sum = "map FInt [0, 1, 1, 0, 50, 50, 50]"
  have int: "is_int v \<and> length (show_int v) \<le> 4" if "short_int v" for v using that by (rule short_int_fits)
  have ok: "ping_ok ?re" "ping_ok ?sum" "ping_ok [FInt 569]"
    using int [of 0] int [of 1] int [of 32] int [of 50] int [of 255] int [of 569]
    by (simp_all add: ping_ok_def ping_line_def result_line_def quoted_def clean_line_def size_defs show_int_clean short_int_def)
  have d: "dialogue ''+QPING:'' (ping_line fs) [''OK'', ping_line fs]" for fs
    unfolding dialogue_def by (intro exI [of _ "[]"]) simp
  have clean: "\<forall>x\<in>set ([''OK'', ping_line fs] @ []). clean_line x" if "ping_ok fs" for fs
    using that by (simp add: ping_ok_def clean_line_def size_defs)
  have nums: "ping_numbers ?re = None" "ping_numbers ?sum = Some [0, 1, 1, 0, 50, 50, 50]" "ping_numbers [FInt 569] = None"
    by (simp_all add: ping_numbers_def)
  have "\<exists>h'. ec200_tcp_ping (tape_handle (crlf [''OK'', ping_line ?re, ping_line ?sum])) 1 (Some ''a.b'') 1 (Some ping_zero) 300 =
      Some (h', EC200_OK, Some (snd (ping_result_of [0, 1, 1, 0, 50, 50, 50])))"
    using ping_outcome [of "[''OK'', ping_line ?re]" "[?sum]" "[]" "tape_handle (crlf [''OK'', ping_line ?re, ping_line ?sum])"
        ?re "''a.b''" 1 1 ping_zero 300] tape_ready_handle [of "[''OK'', ping_line ?re, ping_line ?sum]"] clean [OF ok(1)] d ok nums
    by (auto simp del: crlf_simps)
  moreover have "\<exists>h'. ec200_tcp_ping (tape_handle (crlf [''OK'', ping_line [FInt 569]])) 1 (Some ''a.b'') 1 (Some ping_zero) 300 =
      Some (h', EC200_ERR_TIMEOUT, Some ping_zero)"
    using ping_outcome [of "[''OK'', ping_line [FInt 569]]" "[]" "[]" "tape_handle (crlf [''OK'', ping_line [FInt 569]])"
        "[FInt 569]" "''a.b''" 1 1 ping_zero 300] tape_ready_handle [of "[''OK'', ping_line [FInt 569]]"] clean [OF ok(3)] d ok nums
    by (auto simp del: crlf_simps)
  moreover have "snd (ping_result_of [0, 1, 1, 0, 50, 50, 50]) = \<lparr>ping_sent = 1, ping_received = 1, ping_lost = 0,
      ping_min_rtt_ms = 50, ping_max_rtt_ms = 50, ping_avg_rtt_ms = 50\<rparr>"
    by (simp add: ping_result_of_def cast_u16_def cast_u32_def)
  ultimately show ?thesis by simp
qed

end
