(* ===== verification/Ec200_Session.thy ===== *)
theory Ec200_Session
  imports Ec200_Transactions
begin

text \<open>
  A session: commands sent one after the other while answers of the module arrive in between. The
  engine keeps no record of what it asked for, so a session is a queue of answers.
\<close>

text \<open>An answer: the body lines and the terminal line.\<close>

type_synonym answer = "string list \<times> string"

definition answer_lines :: "answer \<Rightarrow> string list" where
  "answer_lines a = fst a @ [snd a]"

datatype event = Arrive answer | Send string

text \<open>The arrival of lines behind those already on the tape.\<close>

definition arrive :: "answer \<Rightarrow> tape ec200_handle \<Rightarrow> tape ec200_handle" where
  "arrive a h = h\<lparr>user_ctx := (fst (user_ctx h) @ crlf (answer_lines a), snd (user_ctx h))\<rparr>"

text \<open>The session on the code, with the status and the response of every command.\<close>

fun run_session ::
    "nat \<Rightarrow> nat \<Rightarrow> tape ec200_handle \<Rightarrow> event list \<Rightarrow> (tape ec200_handle \<times> (ec200_status \<times> string) list) option" where
  "run_session sz t h [] = Some (h, [])"
| "run_session sz t h (Arrive a # evs) = run_session sz t (arrive a h) evs"
| "run_session sz t h (Send cmd # evs) = do {
     (h, st, resp) \<leftarrow> ec200_at_send h (Some cmd) (char_buf sz) t;
     (h, rs) \<leftarrow> run_session sz t h evs;
     Some (h, (st, buf_text resp) # rs)
   }"

text \<open>The session on the queue of answers: the results and the answers left.\<close>

definition answer_status :: "answer \<Rightarrow> ec200_status" where
  "answer_status a = (if snd a = ''OK'' then EC200_OK else line_error (snd a))"

fun queue_session :: "answer list \<Rightarrow> event list \<Rightarrow> (ec200_status \<times> string) list \<times> answer list" where
  "queue_session q [] = ([], q)"
| "queue_session q (Arrive a # evs) = queue_session (q @ [a]) evs"
| "queue_session [] (Send cmd # evs) =
     (case queue_session [] evs of (rs, q) \<Rightarrow> ((EC200_ERR_TIMEOUT, []) # rs, q))"
| "queue_session (a # q) (Send cmd # evs) =
     (case queue_session q evs of (rs, q) \<Rightarrow> ((answer_status a, join_lf (fst a)) # rs, q))"

text \<open>An answer that fits the limits of the engine and the buffer.\<close>

definition answer_ok :: "nat \<Rightarrow> answer \<Rightarrow> bool" where
  "answer_ok sz a \<longleftrightarrow>
     list_all body_only (fst a) \<and> line_term (snd a) \<noteq> TERM_NONE \<and> length (fst a) < 64 \<and>
     length (join_lf (fst a)) + 2 < sz \<and> list_all clean_line (answer_lines a)"

fun event_ok :: "nat \<Rightarrow> event \<Rightarrow> bool" where
  "event_ok sz (Arrive a) = answer_ok sz a"
| "event_ok sz (Send cmd) = (length cmd < 511)"

abbreviation queued :: "answer list \<Rightarrow> string list" where
  "queued q \<equiv> concat (map answer_lines q)"

lemma crlf_append: "crlf (xs @ ys) = crlf xs @ crlf ys"
  by (induction xs) (simp_all add: crlf_def)

lemma arrive_queue: "tape_ready (queued q) h \<Longrightarrow> tape_ready (queued (q @ [a])) (arrive a h)"
  by (simp add: tape_ready_def arrive_def crlf_append)

lemma clean_queue: "list_all (answer_ok sz) q \<Longrightarrow> \<forall>l\<in>set (queued q). clean_line l"
  by (auto simp: list_all_iff answer_ok_def)

text \<open>One command.\<close>

lemma send_silent:
  assumes "tape_ready [] h" "length cmd < 511" "0 < sz"
  shows "\<exists>h'. ec200_at_send h (Some cmd) (char_buf sz) t = Some (h', EC200_ERR_TIMEOUT, Some (sz, [])) \<and> tape_ready [] h'"
proof -
  obtain h1 where h1: "at_transmit h cmd = Some (h1, EC200_OK)" "fed (\<lambda>_. True) fst tape_read h1 []"
    using tape_transmit [OF assms(1,2)] by blast
  obtain h' where h': "receive_transaction h1 None False (char_buf sz) t = Some (h', EC200_ERR_TIMEOUT, Some (sz, []))"
      "left_with (\<lambda>_. True) fst tape_read h' []"
    using receive_lines [OF tps.byte_source_axioms h1(2), of None False "char_buf sz" t] assms(3)
    by (auto simp: spec_numeral clear_buf_def char_buf_def)
  have run: "ec200_at_send h (Some cmd) (char_buf sz) t = Some (h', EC200_ERR_TIMEOUT, Some (sz, []))"
    using h1(1) h'(1) assms(1) by (simp add: ec200_at_send_def handle_ready_def tape_ready_def)
  with tape_after [OF assms(1) cfgr.keeps_send pppr.keeps_send run h'(2)] show ?thesis by blast
qed

lemma send_answered:
  assumes "tape_ready (answer_lines a @ ls) h" "length cmd < 511" "answer_ok sz a" "\<forall>l\<in>set ls. clean_line l"
  shows "\<exists>h'. ec200_at_send h (Some cmd) (char_buf sz) t = Some (h', answer_status a, Some (sz, join_lf (fst a))) \<and>
    tape_ready ls h'"
proof -
  obtain h1 where h1: "at_transmit h cmd = Some (h1, EC200_OK)" "fed (\<lambda>_. True) fst tape_read h1 (answer_lines a @ ls)"
      "urc_table h1 = urc_table h"
    using tape_transmit [OF assms(1,2)] by blast
  have reg: "registered (urc_table h1) l = False" for l
    using assms(1) by (simp add: h1(3) tape_ready_def registered_def free_urc_entry_def)
  have body: "\<forall>l\<in>set (fst a). l \<noteq> [] \<and> body_only l" "\<forall>l\<in>set (answer_lines a @ ls). clean_line l" "2 < sz"
    using assms(3,4) by (auto simp: answer_ok_def list_all_iff body_only_def)
  then have "filter (\<lambda>l. l \<noteq> []) (fst a) = fst a" by (auto simp: filter_id_conv)
  then have "spec_receive (registered (urc_table h1)) 64 None False False (Some (sz, join_lf [])) (fst a @ snd a # ls) =
      (answer_status a, Some (sz, join_lf (fst a)), ls)"
    using spec_collect_blanks [of "fst a" "registered (urc_table h1)" "[]" "snd a" 64 sz False False ls] body reg assms(3)
    by (simp add: answer_ok_def answer_status_def)
  then obtain h' where h': "receive_transaction h1 None False (char_buf sz) t =
      Some (h', answer_status a, Some (sz, join_lf (fst a)))" "left_with (\<lambda>_. True) fst tape_read h' ls"
    using receive_lines [OF tps.byte_source_axioms h1(2) body(2), of None False "char_buf sz" t] body(3)
    by (auto simp: clear_buf_def char_buf_def answer_lines_def)
  have run: "ec200_at_send h (Some cmd) (char_buf sz) t = Some (h', answer_status a, Some (sz, join_lf (fst a)))"
    using h1(1) h'(1) assms(1) by (simp add: ec200_at_send_def handle_ready_def tape_ready_def)
  with tape_after [OF assms(1) cfgr.keeps_send pppr.keeps_send run h'(2)] show ?thesis by blast
qed

section \<open>Property\<close>

text \<open>
  C7. Commands and answers are paired by their order alone. For every session of commands and
  arriving answers the code returns the status and the response that the queue of answers gives:
  a command takes the oldest answer that has not been read, whichever command it was meant
  for, and times out when there is none. So as long as every answer arrives before the
  next command they match; one answer that comes after its command has timed out is given
  to the next command, and every later one is off by one.
\<close>

theorem session_is_queue:
  assumes "tape_ready (queued q) h" and "list_all (answer_ok sz) q" and "list_all (event_ok sz) evs" and "0 < sz"
  shows "\<exists>h'. run_session sz t h evs = Some (h', fst (queue_session q evs)) \<and>
    tape_ready (queued (snd (queue_session q evs))) h'"
  using assms(1-3)
proof (induction q evs arbitrary: h rule: queue_session.induct)
  case (2 q a evs)
  then show ?case using arrive_queue [of q h a] by simp
next
  case (3 cmd evs)
  then show ?case using send_silent [of h cmd sz t] assms(4) by (fastforce simp: buf_text_def split: prod.splits)
next
  case (4 a q cmd evs)
  then show ?case using send_answered [of a "queued q" h cmd sz t] clean_queue [of sz q]
    by (fastforce simp: buf_text_def split: prod.splits)
qed simp

theorem session_is_queue_witness:
  "\<exists>h'. run_session 64 300 (tape_handle []) [Send ''AT+CGACT=1,1'', Arrive ([], ''OK''), Send ''AT+CIMI'',
      Arrive ([''460110''], ''OK''), Send ''AT+CSQ''] =
    Some (h', [(EC200_ERR_TIMEOUT, []), (EC200_OK, []), (EC200_OK, ''460110'')])"
proof -
  have "tape_ready (queued []) (tape_handle [])" using tape_ready_handle [of "[]"] by simp
  from session_is_queue [OF this, of 64 "[Send ''AT+CGACT=1,1'', Arrive ([], ''OK''), Send ''AT+CIMI'',
      Arrive ([''460110''], ''OK''), Send ''AT+CSQ'']" 300]
  show ?thesis
    by (auto simp: answer_ok_def answer_lines_def answer_status_def body_only_def line_term_def clean_line_def
        size_defs simp del: run_session.simps)
qed

end
