(* ===== verification/Ec200_Sms_Codec.thy ===== *)
theory Ec200_Sms_Codec
  imports Ec200_Sms Ec200_Fields Ec200_Transactions
begin

text \<open>
  Short messages as the module prints them. \<open>sms_header\<close> and \<open>sms_lines\<close> write the
  \<^verbatim>\<open>+CMGL:\<close> answer of the reference manual for a list of messages; the parsers of
  \<^verbatim>\<open>src/ec200_sms.c\<close> are shown to read it back.
\<close>

section \<open>Printed messages\<close>

fun stat_text :: "ec200_sms_stat \<Rightarrow> string" where
  "stat_text EC200_SMS_STAT_REC_UNREAD = ''REC UNREAD''"
| "stat_text EC200_SMS_STAT_REC_READ = ''REC READ''"
| "stat_text EC200_SMS_STAT_STO_UNSENT = ''STO UNSENT''"
| "stat_text EC200_SMS_STAT_STO_SENT = ''STO SENT''"
| "stat_text EC200_SMS_STAT_ALL = ''ALL''"

text \<open>The optional name of the sender from the phone book.\<close>

definition alpha_text :: "string option \<Rightarrow> string" where
  "alpha_text a = (case a of None \<Rightarrow> [] | Some s \<Rightarrow> quoted s)"

definition sms_header :: "ec200_sms_message \<Rightarrow> string option \<Rightarrow> string" where
  "sms_header m a = ''+CMGL: '' @ show_int (sms_index m) @ '','' @ quoted (stat_text (sms_stat m)) @ '','' @
     quoted (sms_sender m) @ '','' @ alpha_text a @ '','' @ quoted (sms_timestamp m)"

definition sms_lines :: "(ec200_sms_message \<times> string option) list \<Rightarrow> string list" where
  "sms_lines es = concat (map (\<lambda>(m, a). [sms_header m a, sms_text m]) es)"

definition quotable :: "string \<Rightarrow> bool" where
  "quotable s \<longleftrightarrow> DQUOTE \<notin> set s \<and> LF \<notin> set s"

definition sms_printable :: "ec200_sms_message \<Rightarrow> string option \<Rightarrow> bool" where
  "sms_printable m a \<longleftrightarrow>
     is_int (sms_index m) \<and>
     quotable (sms_sender m) \<and> length (sms_sender m) < EC200_MAX_PHONE_NUM_LEN \<and>
     (case a of None \<Rightarrow> True | Some s \<Rightarrow> quotable s \<and> \<not> has_digit s) \<and>
     quotable (sms_timestamp m) \<and> has_digit (sms_timestamp m) \<and> length (sms_timestamp m) < 24 \<and>
     sms_text m \<noteq> [] \<and> LF \<notin> set (sms_text m) \<and> length (sms_text m) \<le> EC200_MAX_SMS_TEXT_LEN"

section \<open>Quoted fields\<close>

lemma extract_quoted_field:
  assumes "DQUOTE \<notin> set p" "DQUOTE \<notin> set s" "length s < n"
  shows "extract_quoted (p @ quoted s @ r) n = Some (s, r)"
proof -
  have "strchr (p @ quoted s @ r) DQUOTE = Some (DQUOTE # s @ DQUOTE # r)"
    using strchr_upto [OF assms(1), of "s @ DQUOTE # r"] by (simp add: quoted_def)
  moreover have "strchr (s @ DQUOTE # r) DQUOTE = Some (DQUOTE # r)"
    using assms(2) by (rule strchr_upto)
  ultimately show ?thesis using assms(3) by (simp add: extract_quoted_def copy_trunc_def)
qed

text \<open>A name is cut to its field, which is only looked at for its first character.\<close>

lemma extract_quoted_cut:
  assumes "DQUOTE \<notin> set p" "DQUOTE \<notin> set s" "1 < n" "\<not> has_digit s"
  shows "\<exists>f. extract_quoted (p @ quoted s @ r) n = Some (f, r) \<and> \<not> has_digit f"
proof -
  have "strchr (p @ quoted s @ r) DQUOTE = Some (DQUOTE # s @ DQUOTE # r)"
    using strchr_upto [OF assms(1), of "s @ DQUOTE # r"] by (simp add: quoted_def)
  moreover have "strchr (s @ DQUOTE # r) DQUOTE = Some (DQUOTE # r)"
    using assms(2) by (rule strchr_upto)
  moreover have "\<not> has_digit (copy_trunc n s)"
    using assms(3,4) by (cases s; cases "n - 1") (auto simp: copy_trunc_def has_digit_def)
  ultimately show ?thesis by (simp add: extract_quoted_def)
qed

lemma stat_text_ok [simp]: "stat_from_string (stat_text s) = s" "DQUOTE \<notin> set (stat_text s)"
    "length (stat_text s) < 16" "LF \<notin> set (stat_text s)"
  by (cases s; simp add: stat_from_string_def)+

lemma header_cursor_cmgl:
  "is_int i \<Longrightarrow> \<not> has_digit r \<Longrightarrow>
   header_cursor (''+CMGL: '' @ show_int i @ r) m = (r, m\<lparr>sms_index := i\<rparr>)"
proof -
  assume i: "is_int i" "\<not> has_digit r"
  have "strtol (CHR '' '' # show_int i @ r) = strtol (show_int i @ r)"
    by (simp add: strtol_def is_space_def)
  then show ?thesis using strtol_show_int [OF i] by (simp add: header_cursor_def)
qed

lemma parse_sms_header:
  assumes "sms_printable m a"
  shows "parse_cmgr_header (sms_header m a) empty_sms = m\<lparr>sms_text := []\<rparr>"
proof -
  let ?ts = "'','' @ quoted (sms_timestamp m)"
  let ?al = "'','' @ alpha_text a @ ?ts"
  let ?se = "'','' @ quoted (sms_sender m) @ ?al"
  let ?st = "'','' @ quoted (stat_text (sms_stat m)) @ ?se"
  have h: "sms_header m a = ''+CMGL: '' @ show_int (sms_index m) @ ?st"
    by (simp add: sms_header_def)
  have 1: "header_cursor (sms_header m a) empty_sms = (?st, empty_sms\<lparr>sms_index := sms_index m\<rparr>)"
    unfolding h using assms by (intro header_cursor_cmgl) (auto simp: sms_printable_def has_digit_def is_digit_def)
  have 2: "extract_quoted ?st 16 = Some (stat_text (sms_stat m), ?se)"
    by (rule extract_quoted_field) simp_all
  have 3: "extract_quoted ?se EC200_MAX_PHONE_NUM_LEN = Some (sms_sender m, ?al)"
    using assms by (intro extract_quoted_field) (simp_all add: sms_printable_def quotable_def)
  have ts: "extract_quoted (p @ ?ts) 24 = Some (sms_timestamp m, [])" if "DQUOTE \<notin> set p" for p
    using extract_quoted_field [of "p @ '',''" "sms_timestamp m" 24 "[]"] assms that
    by (simp add: sms_printable_def quotable_def)
  have 4: "(case extract_quoted ?al 24 of
         None \<Rightarrow> msg
       | Some (field, cursor) \<Rightarrow>
           if has_digit field then msg\<lparr>sms_timestamp := field\<rparr>
           else (case extract_quoted cursor 24 of
                   Some (s, _) \<Rightarrow> msg\<lparr>sms_timestamp := s\<rparr>
                 | None \<Rightarrow> msg)) = msg\<lparr>sms_timestamp := sms_timestamp m\<rparr>" for msg
  proof (cases a)
    case None
    then show ?thesis using ts [of "'',''"] assms by (simp add: alpha_text_def sms_printable_def)
  next
    case (Some n)
    obtain f where "extract_quoted ('','' @ quoted n @ ?ts) 24 = Some (f, ?ts)" "\<not> has_digit f"
      using extract_quoted_cut [of "'',''" n 24 ?ts] assms Some by (auto simp: sms_printable_def quotable_def)
    then show ?thesis using ts [of "[]"] Some by (simp add: alpha_text_def)
  qed
  show ?thesis
    unfolding parse_cmgr_header_def 1 prod.case 2 option.case 3 4
    by (cases m) (simp add: empty_sms_def)
qed

section \<open>Listing\<close>

lemma join_lf_Cons: "ls \<noteq> [] \<Longrightarrow> join_lf (l # ls) = l @ LF # join_lf ls"
  by (cases ls) simp_all

lemma show_int_no_LF: "LF \<notin> set (show_int i)"
  using show_int_set [of LF i] by (auto simp: is_digit_def)

lemma header_no_LF: "sms_printable m a \<Longrightarrow> LF \<notin> set (sms_header m a)"
  by (auto simp: sms_header_def sms_printable_def quotable_def quoted_def alpha_text_def show_int_no_LF
      split: option.splits)

lemma header_start: "strncmp_eq (sms_header m a @ r) ''+CMGL:'' 6" "sms_header m a \<noteq> []"
  by (simp_all add: sms_header_def)

lemma body_line_upto: "LF \<notin> set l \<Longrightarrow> body_line (l @ LF # r) = l" "LF \<notin> set l \<Longrightarrow> body_line l = l"
  by (auto simp: body_line_def takeWhile_append takeWhile_eq_all_conv)

lemma sms_list_end: "sms_list_loop [] msgs c k = Some (msgs, c)"
    "\<not> c < k \<Longrightarrow> sms_list_loop line msgs c k = Some (msgs, c)"
  by (subst sms_list_loop.simps; simp)+

lemma sms_list_step:
  assumes "sms_printable m a" "c < k" "c < length msgs"
  shows "sms_list_loop (sms_header m a @ LF # sms_text m) msgs c k = Some (msgs[c := m], Suc c)"
    "sms_list_loop (sms_header m a @ LF # sms_text m @ LF # r) msgs c k =
       sms_list_loop r (msgs[c := m]) (Suc c) k"
proof -
  have t: "LF \<notin> set (sms_text m)" "sms_body (sms_text m) = sms_text m"
    using assms(1) by (simp_all add: sms_printable_def sms_body_def)
  have m: "(m\<lparr>sms_text := []\<rparr>)\<lparr>sms_text := sms_text m\<rparr> = m" by (cases m) simp
  note hd = parse_sms_header [OF assms(1)] header_no_LF [OF assms(1)] header_start
  show "sms_list_loop (sms_header m a @ LF # sms_text m) msgs c k = Some (msgs[c := m], Suc c)"
    "sms_list_loop (sms_header m a @ LF # sms_text m @ LF # r) msgs c k =
       sms_list_loop r (msgs[c := m]) (Suc c) k"
    using assms(2,3) t m
    by (subst sms_list_loop.simps;
        simp add: hd body_line_upto strchr_upto strchr_none Let_def)+
qed

lemma sms_list_loop_lines:
  assumes "\<forall>(m, a)\<in>set es. sms_printable m a" "k \<le> length msgs" "c \<le> k"
  shows "sms_list_loop (join_lf (sms_lines es)) msgs c k =
    Some (take c msgs @ map fst (take (k - c) es) @ drop (min k (c + length es)) msgs,
          min k (c + length es))"
  using assms
proof (induction es arbitrary: msgs c)
  case Nil
  then show ?case by (simp add: sms_lines_def sms_list_end)
next
  case (Cons e es)
  obtain m a where e: "e = (m, a)" by force
  have p: "sms_printable m a" using Cons.prems(1) e by simp
  show ?case
  proof (cases "c < k")
    case False
    then show ?thesis using Cons.prems by (simp add: sms_list_end)
  next
    case c: True
    then have cl: "c < length msgs" using Cons.prems(2) by simp
    have tk: "take (Suc c) (msgs[c := m]) = take c msgs @ [m]" using cl by (rule take_list_update_append)
    obtain d where d: "k - c = Suc d" "k - Suc c = d" using c by (cases "k - c") auto
    have lines: "join_lf (sms_lines (e # es)) = sms_header m a @ LF # sms_text m @
        (if es = [] then [] else LF # join_lf (sms_lines es))"
      by (cases es) (auto simp: sms_lines_def e)
    show ?thesis
    proof (cases "es = []")
      case True
      then show ?thesis
        using sms_list_step(1) [OF p c cl] c cl d lines
        by (simp add: e upd_conv_take_nth_drop)
    next
      case False
      have "sms_list_loop (join_lf (sms_lines es)) (msgs[c := m]) (Suc c) k =
        Some (take (Suc c) (msgs[c := m]) @ map fst (take (k - Suc c) es) @
          drop (min k (Suc c + length es)) (msgs[c := m]), min k (Suc c + length es))"
        using Cons.prems c by (intro Cons.IH) auto
      then show ?thesis
        using sms_list_step(2) [OF p c cl, of "join_lf (sms_lines es)"] False c d lines
        by (simp add: e tk min_def Suc_diff_Suc)
    qed
  qed
qed

section \<open>Properties\<close>

lemma cmgl_command:
  assumes "0 \<le> i" "i \<le> 4"
  shows "snprintf 32 (''AT+CMGL='' @ quoted (stat_strings ! nat i)) = ''AT+CMGL='' @ quoted (stat_strings ! nat i)"
proof -
  have "nat i < 5" using assms by auto
  then have "nat i \<in> {0, 1, 2, 3, 4}" by auto
  then show ?thesis by (auto simp: snprintf_def quoted_def stat_strings_def)
qed

text \<open>What \<open>ec200_sms_list\<close> makes of an answer with blank lines in it.\<close>

lemma sms_list_answer:
  assumes "byte_source live pending rd" and "initialised h"
    and "at_transmit h (''AT+CMGL='' @ quoted (stat_strings ! nat i)) = Some (h1, EC200_OK)"
    and "fed live pending rd h1 (ls @ ''OK'' # rest)"
    and "\<forall>l\<in>set (ls @ ''OK'' # rest). clean_line l"
    and "\<forall>l\<in>set ls. l = [] \<or> body_only l \<and> \<not> registered (urc_table h1) l"
    and "length ls < 64" and "length (join_lf (filter (\<lambda>l. l \<noteq> []) ls)) + 2 < EC200_SMS_LIST_BUF_LEN"
    and "0 \<le> i" "i \<le> 4" and "0 < k"
    and "sms_list_loop (join_lf (filter (\<lambda>l. l \<noteq> []) ls)) msgs 0 k = Some (out, n)"
  shows "\<exists>h'. ec200_sms_list h i (Some msgs) k (Some c0) = Some (h', EC200_OK, Some out, Some n) \<and>
         left_with live pending rd h' rest"
proof -
  obtain h' where h': "ec200_at_send h (Some (''AT+CMGL='' @ quoted (stat_strings ! nat i)))
      (char_buf EC200_SMS_LIST_BUF_LEN) EC200_AT_TIMEOUT_LONG =
      Some (h', EC200_OK, Some (EC200_SMS_LIST_BUF_LEN, join_lf (filter (\<lambda>l. l \<noteq> []) ls)))"
    "left_with live pending rd h' rest"
    using send_lines [OF assms(1-8)] by (auto simp: char_buf_def)
  then show ?thesis
    using assms(9-12) cmgl_command [OF assms(9,10)]
    by (simp add: ec200_sms_list_def buf_text_def)
qed

text \<open>
  C26. Listing short messages is a round trip. The command is sent and the module answers with
  the header and the text of at most 31 messages in the printed form, with or without a
  phone-book name, and \<open>OK\<close>; the answer fits the response buffer. Sender, timestamp and
  text fit their fields, no quoted field contains a quote, the timestamp begins with a digit and
  a phone-book name does not (the parser would take it for the timestamp), and every text is one line that is not empty, is not a result line (\<open>OK\<close>, \<open>ERROR\<close>,
  \<open>+CMS ERROR:\<close>) and, like the headers, starts with no registered prefix. Then
  \<open>ec200_sms_list\<close> returns OK, stores exactly the first \<open>max_msgs\<close> of these messages
  (index, state, sender, timestamp, text) at the start of the caller's array, leaves the rest of
  the array alone and reports their number.
\<close>

theorem sms_list_roundtrip:
  assumes "byte_source live pending rd" and "initialised h"
    and "at_transmit h (''AT+CMGL='' @ quoted (stat_strings ! nat i)) = Some (h1, EC200_OK)"
    and "fed live pending rd h1 (sms_lines es @ ''OK'' # rest)"
    and "\<forall>l\<in>set (sms_lines es @ ''OK'' # rest). clean_line l"
    and "\<forall>l\<in>set (sms_lines es). body_only l \<and> \<not> registered (urc_table h1) l"
    and "\<forall>(m, a)\<in>set es. sms_printable m a"
    and "length (sms_lines es) < 64" and "length (join_lf (sms_lines es)) + 2 < EC200_SMS_LIST_BUF_LEN"
    and "0 \<le> i" "i \<le> 4" and "0 < k" "k \<le> length msgs"
  shows "\<exists>h'. ec200_sms_list h i (Some msgs) k (Some c0) =
           Some (h', EC200_OK,
             Some (map fst (take k es) @ drop (min k (length es)) msgs), Some (min k (length es))) \<and>
         left_with live pending rd h' rest"
proof -
  have f: "filter (\<lambda>l. l \<noteq> []) (sms_lines es) = sms_lines es"
    using assms(6) by (simp add: filter_id_conv body_only_def)
  have ls: "\<forall>l\<in>set (sms_lines es). l = [] \<or> body_only l \<and> \<not> registered (urc_table h1) l"
    using assms(6) by blast
  show ?thesis
    using sms_list_loop_lines [OF assms(7,13), of 0] assms(9)
    by (intro sms_list_answer [OF assms(1-5) ls assms(8) _ assms(10-12)]) (simp_all add: f)
qed

definition sms_sample :: ec200_sms_message where
  "sms_sample = \<lparr>sms_index = 3, sms_stat = EC200_SMS_STAT_REC_READ, sms_sender = ''+49170'',
     sms_timestamp = ''24/01/02,10:00:00+04'', sms_text = ''hello''\<rparr>"

lemma sms_sample_header:
  "sms_header sms_sample (Some ''Bob'') =
     ''+CMGL: 3,'' @ quoted ''REC READ'' @ '','' @ quoted ''+49170'' @ '','' @ quoted ''Bob'' @ '','' @
        quoted ''24/01/02,10:00:00+04''"
proof -
  have "show_int 3 = ''3''" by code_simp
  then show ?thesis by (simp add: sms_header_def sms_sample_def alpha_text_def)
qed

lemma sms_sample_lines:
  "sms_lines [(sms_sample, Some ''Bob'')] = [sms_header sms_sample (Some ''Bob''), ''hello'']"
  by (simp add: sms_lines_def sms_sample_def)

lemma sms_sample_printable: "sms_printable sms_sample (Some ''Bob'')"
  by (simp add: sms_printable_def sms_sample_def is_int_def int_max_def int_min_def quotable_def
      has_digit_def is_digit_def size_defs)

text \<open>A module that answers the listing of all messages with some lines.\<close>

lemma lb_lists:
  assumes "length (crlf (ls @ [''OK''])) \<le> LB_RX_SIZE"
  obtains h1 where
    "at_transmit (lb_handle (lb_answers (''AT+CMGL='' @ quoted ''ALL'') (ls @ [''OK''])))
       (''AT+CMGL='' @ quoted (stat_strings ! nat 4)) = Some (h1, EC200_OK)"
    "fed lb_live lb_rx lb_read h1 (ls @ ''OK'' # [])"
    "urc_table h1 = replicate EC200_MAX_URC_HANDLERS free_urc_entry"
  using lb_answers_fed [of "''AT+CMGL='' @ quoted ''ALL''" "ls @ [''OK'']"] assms
  by (auto simp: quoted_def stat_strings_def)

theorem sms_list_roundtrip_witness:
  "\<exists>h'. ec200_sms_list (lb_handle (lb_answers (''AT+CMGL='' @ quoted ''ALL'')
            (sms_lines [(sms_sample, Some ''Bob'')] @ [''OK'']))) 4 (Some [empty_sms, empty_sms]) 2 (Some 9) =
        Some (h', EC200_OK, Some [sms_sample, empty_sms], Some 1) \<and> lb_rx (user_ctx h') = []"
proof -
  let ?es = "[(sms_sample, Some ''Bob'')]"
  obtain h1 where h1: "at_transmit (lb_handle (lb_answers (''AT+CMGL='' @ quoted ''ALL'') (sms_lines ?es @ [''OK''])))
       (''AT+CMGL='' @ quoted (stat_strings ! nat 4)) = Some (h1, EC200_OK)"
    "fed lb_live lb_rx lb_read h1 (sms_lines ?es @ ''OK'' # [])"
    "urc_table h1 = replicate EC200_MAX_URC_HANDLERS free_urc_entry"
    by (rule lb_lists [of "sms_lines ?es"]) (simp add: sms_sample_lines sms_sample_header quoted_def LB_RX_SIZE_def)
  show ?thesis
    using sms_list_roundtrip [OF lbs.byte_source_axioms _ h1(1,2), of 2 "[empty_sms, empty_sms]" 9] h1(3)
      sms_sample_printable
    by (auto simp: clean_line_def size_defs body_only_def line_term_def left_with_def
        registered_def free_urc_entry_def sms_sample_lines sms_sample_header quoted_def)
qed

text \<open>
  A listed message whose text is empty is lost together with its successor's header: the
  blank line of its text never reaches the response, so the header of the next message is
  stored as its text, and the next message is not listed although the call reports OK.
\<close>

lemma sms_list_empty_text:
  assumes "byte_source live pending rd" and "initialised h"
    and "at_transmit h (''AT+CMGL='' @ quoted (stat_strings ! nat i)) = Some (h1, EC200_OK)"
    and "fed live pending rd h1 ([sms_header m a, [], sms_header m' a', sms_text m'] @ ''OK'' # rest)"
    and "\<forall>l\<in>set ([sms_header m a, [], sms_header m' a', sms_text m'] @ ''OK'' # rest). clean_line l"
    and "\<forall>l\<in>{sms_header m a, sms_header m' a', sms_text m'}. body_only l \<and> \<not> registered (urc_table h1) l"
    and "sms_printable m a" "sms_printable m' a'" and "\<not> strncmp_eq (sms_text m') ''+CMGL:'' 6"
    and "length (sms_header m a) + length (sms_header m' a') + length (sms_text m') + 4 < EC200_SMS_LIST_BUF_LEN"
    and "length (sms_header m' a') \<le> EC200_MAX_SMS_TEXT_LEN"
    and "0 \<le> i" "i \<le> 4" and "0 < k" and "msgs \<noteq> []"
  shows "\<exists>h'. ec200_sms_list h i (Some msgs) k (Some c0) =
           Some (h', EC200_OK, Some (m\<lparr>sms_text := sms_header m' a'\<rparr> # tl msgs), Some 1) \<and>
         left_with live pending rd h' rest"
proof -
  let ?ls = "[sms_header m a, [], sms_header m' a', sms_text m']"
  let ?hm = "sms_header m' a'" and ?t = "sms_text m'"
  have f: "filter (\<lambda>l. l \<noteq> []) ?ls = [sms_header m a, ?hm, ?t]"
    using assms(6) by (simp add: body_only_def)
  obtain x zs where msgs: "msgs = x # zs" using assms(15) by (cases msgs) auto
  have t: "LF \<notin> set ?t" "sms_body ?hm = ?hm" using assms(8,11) by (simp_all add: sms_printable_def sms_body_def)
  note hd = parse_sms_header [OF assms(7)] header_no_LF [OF assms(7)] header_no_LF [OF assms(8)] header_start
  have tail: "sms_list_loop ?t (y # zs) (Suc 0) k = Some (y # zs, 1)" for y
    using assms(9) t(1) by (subst sms_list_loop.simps) (simp add: strchr_none)
  have loop: "sms_list_loop (join_lf (filter (\<lambda>l. l \<noteq> []) ?ls)) msgs 0 k =
      Some (m\<lparr>sms_text := ?hm\<rparr> # tl msgs, 1)"
    unfolding f msgs using assms(14) t tail
    by (subst sms_list_loop.simps) (simp add: hd body_line_upto strchr_upto Let_def)
  show ?thesis
    using assms(6,10) by (intro sms_list_answer [OF assms(1-5) _ _ _ assms(12-14) loop]) (auto simp: body_only_def f)
qed

lemma sms_list_empty_text_sample:
  "\<exists>h'. ec200_sms_list (lb_handle (lb_answers (''AT+CMGL='' @ quoted ''ALL'')
            [sms_header sms_sample (Some ''Bob''), [], sms_header sms_sample (Some ''Bob''), ''hello'', ''OK'']))
          4 (Some [empty_sms, empty_sms]) 2 (Some 9) =
        Some (h', EC200_OK,
          Some [sms_sample\<lparr>sms_text := sms_header sms_sample (Some ''Bob'')\<rparr>, empty_sms], Some 1)"
proof -
  let ?hd = "sms_header sms_sample (Some ''Bob'')"
  let ?ls = "[?hd, [], ?hd, sms_text sms_sample]"
  have t: "sms_text sms_sample = ''hello''" by (simp add: sms_sample_def)
  obtain h1 where h1: "at_transmit (lb_handle (lb_answers (''AT+CMGL='' @ quoted ''ALL'') (?ls @ [''OK''])))
       (''AT+CMGL='' @ quoted (stat_strings ! nat 4)) = Some (h1, EC200_OK)"
    "fed lb_live lb_rx lb_read h1 (?ls @ ''OK'' # [])"
    "urc_table h1 = replicate EC200_MAX_URC_HANDLERS free_urc_entry"
    by (rule lb_lists [of ?ls]) (simp add: t sms_sample_header quoted_def LB_RX_SIZE_def)
  show ?thesis
    using sms_list_empty_text [OF lbs.byte_source_axioms _ h1(1,2) _ _ sms_sample_printable
        sms_sample_printable, of 2 "[empty_sms, empty_sms]" 9] h1(3)
    unfolding t
    by (auto simp: clean_line_def size_defs body_only_def line_term_def left_with_def
        registered_def free_urc_entry_def sms_sample_header quoted_def)
qed

section \<open>Notifications\<close>

lemma mem_names: "k < 3 \<Longrightarrow> mem_from_string (mem_strings ! k) = Some (mem_of k)"
  by (auto simp: mem_from_string_def mem_strings_def mem_of_def numeral_3_eq_3 less_Suc_eq)

text \<open>
  New-message notifications are read back: the line \<^verbatim>\<open>+CMTI: "<mem>",<index>\<close> with a
  storage name gives OK with exactly this storage and index, a negative index or an unknown
  storage is a parse error; each of the three names the library sends is recognised as its own
  storage; and whatever line is given, OK means that it starts with \<^verbatim>\<open>+CMTI:\<close> and that
  the index is not negative, while every other status leaves the index of the caller as it was.
\<close>

lemma sms_notification_roundtrip:
  assumes "is_int i" and "DQUOTE \<notin> set s" and "length s < 8"
  shows "ec200_sms_parse_notification (Some (result_line ''+CMTI'' [FStr s, FInt i])) (Some n) =
      (case mem_from_string s of
         None \<Rightarrow> (EC200_ERR_PARSE, Some n)
       | Some m \<Rightarrow> if i < 0 then (EC200_ERR_PARSE, Some (n\<lparr>ntf_mem := m\<rparr>))
                   else (EC200_OK, Some \<lparr>ntf_mem = m, ntf_index = i\<rparr>)) \<and>
    (k < 3 \<longrightarrow> mem_from_string (mem_strings ! k) = Some (mem_of k)) \<and>
    (case ec200_sms_parse_notification (Some line) (Some n) of
       (st, Some n') \<Rightarrow> if st = EC200_OK then take 6 line = ''+CMTI:'' \<and> 0 \<le> ntf_index n'
                        else ntf_index n' = ntf_index n
     | (st, None) \<Rightarrow> False)"
proof (intro conjI impI)
  let ?l = "result_line ''+CMTI'' [FStr s, FInt i]"
  have q: "extract_quoted ?l 8 = Some (s, '','' @ show_int i)"
    using extract_quoted_field [of "''+CMTI: ''" s 8 "'','' @ show_int i"] assms(2,3)
    by (simp add: result_line_def)
  have f: "ec200_at_parse_int_field ?l 1 = Some i"
    using parse_result_line [of "[FStr s, FInt i]" "''+CMTI''" 1] assms by simp
  have p: "strncmp_eq ?l ''+CMTI:'' 6" by (simp add: result_line_def)
  show "ec200_sms_parse_notification (Some ?l) (Some n) =
      (case mem_from_string s of
         None \<Rightarrow> (EC200_ERR_PARSE, Some n)
       | Some m \<Rightarrow> if i < 0 then (EC200_ERR_PARSE, Some (n\<lparr>ntf_mem := m\<rparr>))
                   else (EC200_OK, Some \<lparr>ntf_mem = m, ntf_index = i\<rparr>))"
    by (simp add: ec200_sms_parse_notification_def p q f [unfolded One_nat_def] split: option.split)
next
  assume "k < 3"
  then show "mem_from_string (mem_strings ! k) = Some (mem_of k)" by (rule mem_names)
next
  have pre: "strncmp_eq line ''+CMTI:'' 6 \<Longrightarrow> take 6 line = ''+CMTI:''"
    using strncmp_eq_take [of line "''+CMTI:''"] by (simp add: numeral_eq_Suc)
  show "case ec200_sms_parse_notification (Some line) (Some n) of
       (st, Some n') \<Rightarrow> if st = EC200_OK then take 6 line = ''+CMTI:'' \<and> 0 \<le> ntf_index n'
                        else ntf_index n' = ntf_index n
     | (st, None) \<Rightarrow> False"
    using pre by (auto simp: ec200_sms_parse_notification_def split: option.splits prod.splits)
qed

lemma sms_notification_sample:
  "ec200_sms_parse_notification (Some (result_line ''+CMTI'' [FStr ''ME'', FInt 23]))
     (Some \<lparr>ntf_mem = EC200_SMS_MEM_SM, ntf_index = 7\<rparr>) =
     (EC200_OK, Some \<lparr>ntf_mem = EC200_SMS_MEM_ME, ntf_index = 23\<rparr>)"
  using sms_notification_roundtrip [of 23 "''ME''" "\<lparr>ntf_mem = EC200_SMS_MEM_SM, ntf_index = 7\<rparr>" 1 "[]"]
  by (simp add: is_int_def int_max_def int_min_def mem_from_string_def mem_strings_def mem_of_def)

end
