(* ===== verification/Ec200_Field_Spec.thy ===== *)
theory Ec200_Field_Spec
  imports Ec200_Fields
begin

text \<open>
  A reference for \<^verbatim>\<open>ec200_at_parse_int_field\<close>: cut the value part of the line at its
  unquoted commas and read the integer of one of the pieces. The one-pass scanner of the code
  is shown to compute it on every line.
\<close>

section \<open>Cutting a line\<close>

text \<open>The fields, and whether the scan ends inside quotes is of no importance.\<close>

fun cut_fields :: "bool \<Rightarrow> string \<Rightarrow> string list" where
  "cut_fields inq [] = [[]]"
| "cut_fields inq (c # cs) =
     (if c = CHR '','' \<and> \<not> inq then [] # cut_fields False cs
      else case cut_fields (if c = DQUOTE then \<not> inq else inq) cs of
             f # fs \<Rightarrow> (c # f) # fs | [] \<Rightarrow> [[c]])"

lemma cut_not_Nil [simp]: "cut_fields inq s \<noteq> []"
  by (induction s arbitrary: inq) (auto split: list.splits)

definition int_field :: "string \<Rightarrow> nat \<Rightarrow> int option" where
  "int_field line i =
     (let fs = cut_fields False (skip_spaces (after_colon line))
      in if i < length fs then read_field (fs ! i) else None)"

text \<open>The scanner stops at a suffix whose first field is the wanted one.\<close>

lemma seek_cut:
  "i = 0 \<longrightarrow> \<not> inq \<Longrightarrow>
   (case seek_field i inq s of
      None \<Rightarrow> length (cut_fields inq s) \<le> i
    | Some p \<Rightarrow> i < length (cut_fields inq s) \<and> cut_fields False p = drop i (cut_fields inq s))"
proof (induction i inq s rule: seek_field.induct)
  case (3 k inq c p)
  then show ?case by (cases k) (auto split: list.splits option.splits)
qed simp_all

text \<open>A field ends at a comma or with the line.\<close>

definition after_field :: "string \<Rightarrow> bool" where
  "after_field r \<longleftrightarrow> r = [] \<or> hd r = CHR '',''"

lemma cut_first: "\<exists>r. s = hd (cut_fields inq s) @ r \<and> after_field r"
proof (induction s arbitrary: inq)
  case (Cons c s)
  let ?q = "if c = DQUOTE then \<not> inq else inq"
  obtain r where "s = hd (cut_fields ?q s) @ r" "after_field r" using Cons.IH by blast
  then show ?case by (auto simp: after_field_def split: list.splits)
qed (simp add: after_field_def)

section \<open>Reading one field\<close>

lemma after_field_plain: "after_field r \<Longrightarrow> \<not> has_digit r \<and> skip_spaces r = r"
  by (cases r) (auto simp: after_field_def has_digit_def is_digit_def skip_spaces_def)

lemma scan_digits_before: "\<not> has_digit r \<Longrightarrow> fst (scan_digits n (q @ r)) = fst (scan_digits n q)"
proof (induction q arbitrary: n)
  case Nil
  then show ?case by (cases r) (simp_all add: has_digit_def)
qed simp

lemma atoi_before:
  assumes "\<not> has_digit r" "g \<noteq> []" "hd g = CHR ''-'' \<or> is_digit (hd g)"
  shows "atoi (g @ r) = atoi g"
proof -
  have sp: "\<not> is_space (hd g)" using assms(3) digit_not_special(11) by (auto simp: is_space_def)
  have hd: "has_digit (q @ r) = has_digit q" for q using assms(1) by (cases q) (simp_all add: has_digit_def)
  have sc: "(case scan_digits 0 (q @ r) of (v, rest) \<Rightarrow> h v) = (case scan_digits 0 q of (v, rest) \<Rightarrow> h v)"
    for q and h :: "nat \<Rightarrow> int"
    using scan_digits_before [OF assms(1), of 0 q] by (auto split: prod.splits)
  have at: "atoi s = (let p = dropWhile is_space s; neg = (p \<noteq> [] \<and> hd p = CHR ''-'');
          q = (if p \<noteq> [] \<and> (hd p = CHR ''-'' \<or> hd p = CHR ''+'') then tl p else p)
      in if has_digit q then (case scan_digits 0 q of (v, rest) \<Rightarrow> clamp_int (if neg then - int v else int v)) else 0)"
    for s by (auto simp: atoi_def strtol_def Let_def split: prod.split)
  have dw: "dropWhile is_space (g @ x) = g @ x" for x using sp assms(2) by (cases g) auto
  show ?thesis
    using dw [of r] dw [of "[]"] assms(2) by (simp add: at hd sc Let_def)
qed

lemma read_before: "after_field r \<Longrightarrow> read_field (f @ r) = read_field f"
proof (cases "skip_spaces f = []")
  case True
  assume r: "after_field r"
  have "skip_spaces (f @ r) = skip_spaces r"
    using True by (simp add: skip_spaces_def dropWhile_append)
  then show ?thesis
    using True r after_field_plain [OF r]
    by (auto simp: read_field_def after_field_def is_digit_def)
next
  case False
  assume r: "after_field r"
  have s: "skip_spaces (f @ r) = skip_spaces f @ r"
    using False by (auto simp: skip_spaces_def dropWhile_append)
  show ?thesis
    using False s after_field_plain [OF r] atoi_before [of r "skip_spaces f"]
    by (simp add: read_field_def)
qed

section \<open>Properties\<close>

text \<open>
  C27. The one-pass integer-field scanner equals a reference on every line and every index: cut
  the text after the first colon at its unquoted commas and read the piece with that index,
  which fails if there are too few pieces or the piece does not start, after spaces, with a
  digit or a minus sign.
\<close>

theorem parse_int_field_reference:
  "ec200_at_parse_int_field line i = int_field line i"
proof -
  let ?s = "skip_spaces (after_colon line)"
  note c = seek_cut [of i False ?s]
  show ?thesis
  proof (cases "seek_field i False ?s")
    case None
    then show ?thesis using c by (simp add: parse_int_field_read int_field_def)
  next
    case (Some p)
    then have p: "i < length (cut_fields False ?s)" "cut_fields False p = drop i (cut_fields False ?s)"
      using c by simp_all
    obtain r where r: "p = hd (cut_fields False p) @ r" "after_field r" using cut_first by blast
    have "hd (cut_fields False p) = cut_fields False ?s ! i"
      using p by (simp add: hd_drop_conv_nth)
    then show ?thesis
      using Some p(1) read_before [OF r(2)] r(1) by (simp add: parse_int_field_read int_field_def Let_def)
  qed
qed

end
