(* ===== verification/Ec200_Connect.thy ===== *)
theory Ec200_Connect
  imports Ec200_Data Ec200_Transactions Ec200_Digits Ec200_Fields
begin

text \<open>
  Runs of \<^verbatim>\<open>ec200_data_connect\<close> against a module that answers the address query, the
  definition and the activation of the context.
\<close>

section \<open>Address lines\<close>

definition cgpaddr_line :: "nat \<Rightarrow> string \<Rightarrow> string" where
  "cgpaddr_line cid a = ''+CGPADDR: '' @ show_nat cid @ '','' @ a"

text \<open>An address as it is printed without quotes.\<close>

definition plain_addr :: "string \<Rightarrow> bool" where
  "plain_addr a \<longleftrightarrow> a \<noteq> [] \<and> length a < EC200_MAX_IP_ADDR_LEN \<and> set a \<inter> {DQUOTE, CR, LF, NUL} = {}"

lemma strchr_cgpaddr: "strchr (cgpaddr_line cid r) CHR '','' = Some (CHR '','' # r)"
proof -
  have "CHR '','' \<notin> set (''+CGPADDR: '' @ show_nat cid)"
    using show_nat_set [of "CHR '',''" cid] by (auto simp: is_digit_def)
  from strchr_upto [OF this, of r] show ?thesis by (simp add: cgpaddr_line_def)
qed

lemma parse_plain_addr:
  assumes "plain_addr a"
  shows "parse_pdp_addr (cgpaddr_line cid a) = Some a" "parse_pdp_addr (cgpaddr_line cid (quoted a)) = Some a"
proof -
  have a: "a \<noteq> []" "DQUOTE \<notin> set a" using assms by (simp_all add: plain_addr_def)
  have h: "hd a \<noteq> DQUOTE" "last a \<noteq> DQUOTE" "a \<noteq> []"
    using a hd_in_set [OF a(1)] last_in_set [OF a(1)] by metis+
  show "parse_pdp_addr (cgpaddr_line cid a) = Some a" "parse_pdp_addr (cgpaddr_line cid (quoted a)) = Some a"
    using h by (simp_all add: parse_pdp_addr_def strchr_cgpaddr quoted_def Let_def)
qed

section \<open>A query on a tape\<close>

lemma cgpaddr_fits:
  assumes "plain_addr a" "cid \<le> 16"
  shows "length (cgpaddr_line cid a) < 128" "clean_line (cgpaddr_line cid a)"
    "prefix_hit (Some ''+CGPADDR:'') (cgpaddr_line cid a)" "cgpaddr_line cid a \<noteq> []"
    "length (snprintf 32 (''AT+CGPADDR='' @ show_nat cid)) < 511"
proof -
  have "length (show_nat cid) \<le> 2" using assms(2) by (intro show_nat_length) simp_all
  then show "length (cgpaddr_line cid a) < 128"
    using assms(1) by (simp add: cgpaddr_line_def plain_addr_def size_defs)
  then show "clean_line (cgpaddr_line cid a)"
    using assms(1) by (auto simp: cgpaddr_line_def plain_addr_def clean_line_def size_defs
        dest!: show_nat_set simp: is_digit_def)
qed (simp_all add: cgpaddr_line_def prefix_hit_def snprintf_def)

lemma tape_get_ip:
  assumes "tape_ready (cgpaddr_line cid a # ''OK'' # ls) h" "\<forall>x\<in>set ls. clean_line x"
    and "plain_addr a" "1 \<le> cid" "cid \<le> 16"
  shows "\<exists>h'. ec200_data_get_ip h cid (Some (EC200_MAX_IP_ADDR_LEN, s)) =
           Some (h', EC200_OK, Some (EC200_MAX_IP_ADDR_LEN, a)) \<and> tape_ready ls h'"
proof -
  note f = cgpaddr_fits [OF assms(3,5)]
  obtain h' where "ec200_at_send_wait h (Some (snprintf 32 (''AT+CGPADDR='' @ show_nat cid)))
      (Some ''+CGPADDR:'') (char_buf 128) EC200_AT_TIMEOUT_DEFAULT =
      Some (h', EC200_OK, Some (128, cgpaddr_line cid a))" "tape_ready ls h'"
    using tape_query [OF assms(1) _ f(3,4,5,1)] f(2) assms(2) by auto
  then show ?thesis
    using assms(3-5) parse_plain_addr(1) [OF assms(3), of cid]
    by (auto simp: ec200_data_get_ip_def no_buf_def buf_text_def copy_line_def
        copy_trunc_fits plain_addr_def size_defs)
qed

lemma tape_set_pdp:
  assumes "tape_ready (''OK'' # ls) h" "\<forall>l\<in>set ls. clean_line l"
    and "1 \<le> pdp_cid c" "pdp_cid c \<le> 16" "0 \<le> pdp_type c" "pdp_type c \<le> 2" "pdp_username c = []"
  shows "\<exists>h'. ec200_data_set_pdp h (Some c) = Some (h', EC200_OK) \<and> tape_ready ls h'"
proof -
  let ?cmd = "snprintf 192 (''AT+CGDCONT='' @ show_nat (pdp_cid c) @ '','' @
             quoted (pdp_type_str ! nat (pdp_type c)) @ '','' @ quoted (pdp_apn c))"
  have "length ?cmd < 511" by (simp add: snprintf_def)
  with tape_plain [OF assms(1) this assms(2)] obtain h' where
    "send_plain h ?cmd EC200_AT_TIMEOUT_DEFAULT = Some (h', EC200_OK)" "tape_ready ls h'" by blast
  then show ?thesis using assms(3-7) by (simp add: ec200_data_set_pdp_def)
qed

lemma tape_activate:
  assumes "tape_ready (ans # ls) h" "\<forall>l\<in>set (ans # ls). clean_line l" "line_term ans \<noteq> TERM_NONE"
    and "1 \<le> cid" "cid \<le> 16"
  shows "\<exists>h'. ec200_data_activate h cid = Some (h', if ans = ''OK'' then EC200_OK else line_error ans) \<and>
    tape_ready ls h'"
proof -
  have "length (snprintf 32 (''AT+CGACT=1,'' @ show_nat cid)) < 511"
    by (simp add: snprintf_def min_less_iff_disj)
  then show ?thesis
    using tape_final [OF assms(1) _ assms(2,3)] assms(4,5) by (auto simp: ec200_data_activate_def)
qed

section \<open>Properties\<close>

text \<open>
  C32. The outcome of \<open>ec200_data_connect\<close> against a module that answers the address
  query with \<open>a0\<close> and, when that is 0.0.0.0, confirms the definition of the context, answers
  the activation with the terminal line \<open>ans\<close> and the second query with \<open>a1\<close>. A usable
  first address is taken at once and nothing else is sent; otherwise the call succeeds with
  \<open>a1\<close> even if the activation was refused, provided \<open>a1\<close> is usable; and if it is 0.0.0.0
  again, the status is that of the activation, so a confirmed activation makes the call report
  OK together with the address 0.0.0.0.
\<close>

theorem data_connect_outcome:
  assumes "tape_ready ([cgpaddr_line (pdp_cid c) a0, ''OK''] @
      (if a0 = ''0.0.0.0'' then [''OK'', ans, cgpaddr_line (pdp_cid c) a1, ''OK''] else []) @ rest) h"
    and "plain_addr a0" and "plain_addr a1" and "\<forall>l\<in>set (ans # rest). clean_line l"
    and "line_term ans \<noteq> TERM_NONE"
    and "1 \<le> pdp_cid c" "pdp_cid c \<le> 16" and "0 \<le> pdp_type c" "pdp_type c \<le> 2"
    and "pdp_username c = []"
  shows "\<exists>h'. ec200_data_connect h (Some c) =
      Some (h',
        if a0 \<noteq> ''0.0.0.0'' \<or> a1 \<noteq> ''0.0.0.0'' \<or> ans = ''OK'' then EC200_OK else line_error ans,
        Some (c\<lparr>pdp_ip_addr := if a0 = ''0.0.0.0'' then a1 else a0\<rparr>)) \<and>
    tape_ready rest h'"
proof -
  let ?N = EC200_MAX_IP_ADDR_LEN and ?zero = "''0.0.0.0''"
  have clean: "\<forall>x\<in>set ((if a0 = ?zero then [''OK'', ans, cgpaddr_line (pdp_cid c) a1, ''OK''] else []) @ rest).
      clean_line x"
    using assms(4) cgpaddr_fits(2) [OF assms(3,7)] by (auto simp: clean_line_def size_defs)
  have ready: "tape_ready (cgpaddr_line (pdp_cid c) a0 # ''OK'' #
      ((if a0 = ?zero then [''OK'', ans, cgpaddr_line (pdp_cid c) a1, ''OK''] else []) @ rest)) h"
    using assms(1) by simp
  obtain h1 where h1: "ec200_data_get_ip h (pdp_cid c) (Some (?N, pdp_ip_addr c)) = Some (h1, EC200_OK, Some (?N, a0))"
    "tape_ready ((if a0 = ?zero then [''OK'', ans, cgpaddr_line (pdp_cid c) a1, ''OK''] else []) @ rest) h1"
    using tape_get_ip [OF ready clean assms(2,6,7)] by blast
  show ?thesis
  proof (cases "a0 = ?zero")
    case False
    then show ?thesis
      using h1 by (simp add: ec200_data_connect_def ip_field_def set_ip_def buf_text_def)
  next
    case True
    let ?c = "c\<lparr>pdp_ip_addr := ?zero\<rparr>"
    let ?ls = "cgpaddr_line (pdp_cid c) a1 # ''OK'' # rest"
    have tail: "\<forall>l\<in>set (ans # ?ls). clean_line l" "tape_ready (''OK'' # ans # ?ls) h1"
      using clean h1(2) True by simp_all
    obtain h2 where h2: "ec200_data_set_pdp h1 (Some ?c) = Some (h2, EC200_OK)" "tape_ready (ans # ?ls) h2"
      using tape_set_pdp [OF tail(2,1), of ?c] assms(6-10) by auto
    obtain h3 where h3: "ec200_data_activate h2 (pdp_cid c) =
        Some (h3, if ans = ''OK'' then EC200_OK else line_error ans)" "tape_ready ?ls h3"
      using tape_activate [OF h2(2) tail(1) assms(5-7)] by blast
    obtain h4 where h4: "ec200_data_get_ip h3 (pdp_cid c) (Some (?N, ?zero)) = Some (h4, EC200_OK, Some (?N, a1))"
      "tape_ready rest h4"
      using tape_get_ip [OF h3(2) _ assms(3,6,7)] assms(4) by auto
    show ?thesis
      using h1(1) h2(1) h3(1) h4 True
      by (simp add: ec200_data_connect_def ip_field_def set_ip_def buf_text_def)
  qed
qed

theorem data_connect_outcome_witness:
  "\<exists>h' c. ec200_data_connect (tape_handle (crlf [cgpaddr_line 1 ''0.0.0.0'', ''OK'', ''OK'', ''OK'',
          cgpaddr_line 1 ''0.0.0.0'', ''OK'']))
      (Some \<lparr>pdp_cid = 1, pdp_type = 0, pdp_apn = ''net'', pdp_username = [], pdp_password = [],
             pdp_ip_addr = []\<rparr>) = Some (h', EC200_OK, Some c) \<and> pdp_ip_addr c = ''0.0.0.0''"
proof -
  let ?c = "\<lparr>pdp_cid = 1, pdp_type = 0, pdp_apn = ''net'', pdp_username = [], pdp_password = [],
             pdp_ip_addr = []\<rparr>"
  have "plain_addr ''0.0.0.0''" by (simp add: plain_addr_def size_defs)
  then show ?thesis
    using data_connect_outcome [of ?c "''0.0.0.0''" "''OK''" "''0.0.0.0''" "[]"]
      tape_ready_handle [of "[cgpaddr_line 1 ''0.0.0.0'', ''OK'', ''OK'', ''OK'', cgpaddr_line 1 ''0.0.0.0'', ''OK'']"]
    by (force simp: line_term_def clean_line_def size_defs simp del: crlf_simps)
qed

end
