(* ===== verification/Ec200_Queries.thy ===== *)
theory Ec200_Queries
  imports Ec200_Fields Ec200_Transactions Ec200_Network Ec200_Psm_Codec
begin

text \<open>
  What the queries of the network module and of the power-saving module make of the line of fields
  (\<open>result_line\<close>) a module answers with.
\<close>

section \<open>Scanning fields\<close>

lemma scan_int_field:
  assumes "is_int v" "\<not> has_digit r"
  shows "sscanf (show_int v @ r) (ScanD # ds) = SInt v # sscanf r ds"
  using assms by (simp add: strtol_show_int)

lemma scan_str_field:
  assumes "DQUOTE \<notin> set s" "s \<noteq> []" "length s \<le> w"
  shows "sscanf (quoted s @ r) (ScanLit DQUOTE # ScanSet w DQUOTE # ScanLit DQUOTE # ds) =
    SStr s # sscanf r ds"
proof -
  have "takeWhile (\<lambda>x. x \<noteq> DQUOTE) (s @ DQUOTE # r) = s"
    using assms(1) by (subst takeWhile_append2) auto
  then show ?thesis using assms(2,3) by (simp add: quoted_def scan_set_def)
qed

lemma skip_space_int: "dropWhile is_space (CHR '' '' # show_int v @ r) = show_int v @ r"
proof -
  obtain c xs where c: "show_int v = c # xs" by (cases "show_int v") auto
  have "\<not> is_space CHR ''-''" by (simp add: is_space_def)
  then have "\<not> is_space c" using c show_int_set [of c v] digit_not_special(11) by auto
  moreover have "is_space CHR '' ''" by (simp add: is_space_def)
  ultimately show ?thesis by (simp add: c)
qed

text \<open>Text that fits between quotes in a line, and into an array of \<open>w + 1\<close> characters.\<close>

definition field_text :: "nat \<Rightarrow> string \<Rightarrow> bool" where
  "field_text w s \<longleftrightarrow> s \<noteq> [] \<and> length s \<le> w \<and> set s \<inter> {DQUOTE, CR, LF, NUL} = {}"


section \<open>What the queries return\<close>

text \<open>
  \<open>reads l call v\<close>: when the module answers with the line \<open>l\<close> and OK, the call succeeds
  with \<open>v\<close> and leaves the lines behind them.
\<close>

definition reads :: "string \<Rightarrow> (tape ec200_handle \<Rightarrow> (tape ec200_handle \<times> ec200_status \<times> 'a option) option)
    \<Rightarrow> 'a \<Rightarrow> bool" where
  "reads l call v \<longleftrightarrow>
     (\<forall>h ls. tape_ready (l # ''OK'' # ls) h \<and> (\<forall>x\<in>set ls. clean_line x) \<longrightarrow>
        (\<exists>h'. call h = Some (h', EC200_OK, Some v) \<and> tape_ready ls h'))"

lemma readsI:
  assumes "clean_line l" "prefix_hit (Some p) l" "l \<noteq> []" "length cmd < 511" "length l < sz"
    and "\<And>h h'. ec200_at_send_wait h (Some cmd) (Some p) (char_buf sz) EC200_AT_TIMEOUT_DEFAULT =
           Some (h', EC200_OK, Some (sz, l)) \<Longrightarrow> call h = Some (h', EC200_OK, Some v)"
  shows "reads l call v"
  unfolding reads_def
proof (intro allI impI, elim conjE)
  fix h ls assume "tape_ready (l # ''OK'' # ls) h" "\<forall>x\<in>set ls. clean_line x"
  then show "\<exists>h'. call h = Some (h', EC200_OK, Some v) \<and> tape_ready ls h'"
    using tape_query [of l ls h p cmd sz EC200_AT_TIMEOUT_DEFAULT] assms by auto
qed

lemma reads_signal:
  assumes "short_int raw" "0 \<le> raw" "short_int ber" "0 \<le> ber" "ber < 256"
  shows "reads (result_line ''+CSQ'' [FInt raw, FInt ber]) (\<lambda>h. ec200_net_get_signal h (Some sq))
    \<lparr>sq_rssi = (if raw \<le> 31 then 2 * raw - 113 else 0), sq_ber = nat ber,
      sq_rsrp = EC200_SIGNAL_UNKNOWN, sq_sinr = EC200_SIGNAL_UNKNOWN\<rparr>"
proof (rule readsI [where p = "''+CSQ:''" and cmd = "''AT+CSQ''" and sz = 64])
  let ?l = "result_line ''+CSQ'' [FInt raw, FInt ber]"
  note f = short_int_fits [OF assms(1)] short_int_fits [OF assms(3)]
  show "length ?l < 64" using f by (simp add: result_line_def)
  then show "clean_line ?l" by (auto simp: clean_line_def result_line_def show_int_clean size_defs)
  have "sscanf (after_colon ?l) [ScanSp, ScanD, ScanLit CHR '','', ScanD] = [SInt raw, SInt ber]"
    using f scan_int_field [of ber "[]" "[]"]
    by (simp add: after_colon_result skip_space_int scan_int_field has_digit_def is_digit_def
        del: sscanf.simps(4) dropWhile.simps)
  then show "ec200_net_get_signal h (Some sq) = Some (h', EC200_OK,
      Some \<lparr>sq_rssi = (if raw \<le> 31 then 2 * raw - 113 else 0), sq_ber = nat ber,
      sq_rsrp = EC200_SIGNAL_UNKNOWN, sq_sinr = EC200_SIGNAL_UNKNOWN\<rparr>)"
    if "ec200_at_send_wait h (Some ''AT+CSQ'') (Some ''+CSQ:'') (char_buf 64) EC200_AT_TIMEOUT_DEFAULT =
           Some (h', EC200_OK, Some (64, ?l))" for h h'
    using that assms
    by (auto simp: ec200_net_get_signal_def buf_text_def scan_int_def cast_i16_def cast_u8_def)
qed (simp_all add: result_line_def prefix_hit_def)


lemma no_digit_sep: "\<not> has_digit (CHR '','' # r)" "\<not> has_digit []"
  by (simp_all add: has_digit_def is_digit_def)

lemma show_fields_int: "\<exists>r. show_fields (FInt v # fs) = show_int v @ r \<and> \<not> has_digit r"
  using show_fields_Cons [of "FInt v" fs] by simp

lemma reg_line:
  assumes "short_int n" "0 \<le> s" "s \<le> 5" "CHR '':'' \<notin> set pfx"
  shows "parse_reg_status (result_line pfx (FInt n # FInt s # extra)) = Some (reg_status_of s)"
    "parse_reg_status (result_line pfx [FInt s]) = Some (reg_status_of s)"
proof -
  have s: "show_int s = show_nat (nat s)" "is_int s"
    using assms(2,3) by (simp_all add: show_int_def is_int_def int_min_def int_max_def)
  have d: "has_digit (show_int s @ r)" for r by (simp add: s(1) has_digit_show)
  obtain r where r: "show_fields (FInt s # extra) = show_int s @ r" "\<not> has_digit r"
    using show_fields_int by blast
  have head: "skip_spaces (CHR '' '' # show_int v @ r) = show_int v @ r" for v r
    using show_int_set [of "hd (show_int v)" v] hd_in_set [of "show_int v"] digit_not_special(5)
    by (cases "show_int v") (auto simp: skip_spaces_def)
  have "strchr (show_int n @ CHR '','' # show_int s @ r) CHR '','' = Some (CHR '','' # show_int s @ r)"
    by (rule strchr_upto) (rule show_int_plain)
  then show "parse_reg_status (result_line pfx (FInt n # FInt s # extra)) = Some (reg_status_of s)"
    using r assms(3,4) d atoi_show_int [OF s(2) r(2)]
    by (simp add: parse_reg_status_def after_colon_result head)
  show "parse_reg_status (result_line pfx [FInt s]) = Some (reg_status_of s)"
    using assms(3,4) d [of "[]"] atoi_show_int [OF s(2), of "[]"] head [of s "[]"]
      strchr_none [OF show_int_plain(2) [of s]]
    by (simp add: parse_reg_status_def after_colon_result no_digit_sep)
qed

text \<open>
  The fields of an answer about registration: the status alone, or the reporting mode, the status
  and whatever follows (area, cell and access technology), in a line the query has room for.
\<close>

definition reg_fields :: "string \<Rightarrow> int \<Rightarrow> int \<Rightarrow> field list \<Rightarrow> bool" where
  "reg_fields pfx n s fs \<longleftrightarrow>
     (fs = [FInt s] \<or> (\<exists>extra. fs = FInt n # FInt s # extra)) \<and>
     length (result_line pfx fs) < 64 \<and> set (result_line pfx fs) \<inter> {CR, LF, NUL} = {}"

lemma reads_registration:
  assumes "short_int n" "0 \<le> s" "s \<le> 5" "CHR '':'' \<notin> set pfx" "reg_fields pfx n s fs" "length cmd < 511"
  shows "reads (result_line pfx fs) (\<lambda>h. get_reg h cmd (pfx @ '':'') (Some r)) (reg_status_of s)"
proof (rule readsI [where p = "pfx @ '':''" and cmd = cmd and sz = 64])
  let ?l = "result_line pfx fs"
  show len: "length ?l < 64" using assms(5) by (simp add: reg_fields_def)
  then show "clean_line ?l" using assms(5) by (auto simp: clean_line_def reg_fields_def size_defs)
  show "prefix_hit (Some (pfx @ '':'')) ?l" "?l \<noteq> []"
    using strncmp_eq_take [of ?l "pfx @ '':''"] by (simp_all add: result_line_def prefix_hit_def)
  have "parse_reg_status ?l = Some (reg_status_of s)"
    using reg_line [OF assms(1-4)] assms(5) by (auto simp: reg_fields_def)
  then show "get_reg h cmd (pfx @ '':'') (Some r) = Some (h', EC200_OK, Some (reg_status_of s))"
    if "ec200_at_send_wait h (Some cmd) (Some (pfx @ '':'')) (char_buf 64) EC200_AT_TIMEOUT_DEFAULT =
           Some (h', EC200_OK, Some (64, ?l))" for h h'
    using that by (simp add: get_reg_def buf_text_def)
qed (rule assms)

lemma scan_comma: "sscanf (CHR '','' # r) (ScanLit CHR '','' # ds) = sscanf r ds"
  by simp

lemma field_text_scan:
  "field_text w s \<Longrightarrow> sscanf (quoted s @ r) (ScanLit DQUOTE # ScanSet w DQUOTE # ScanLit DQUOTE # ds) =
    SStr s # sscanf r ds"
  by (rule scan_str_field) (auto simp: field_text_def)

lemma field_text_clean:
  assumes "field_text w s"
  shows "CR \<notin> set (quoted s)" "LF \<notin> set (quoted s)" "NUL \<notin> set (quoted s)" "length (quoted s) \<le> w + 2"
  using assms by (auto simp: field_text_def quoted_def)

text \<open>
  The answer to \<open>AT+COPS?\<close> has only a mode, or also a format and a name, or also an access
  technology; \<open>cops_value\<close> is what the caller gets.
\<close>

definition cops_value :: "field list \<Rightarrow> ec200_operator_info \<Rightarrow> bool" where
  "cops_value fs v \<longleftrightarrow>
     fs = [FInt (op_mode v)] \<and> op_format v = 0 \<and> op_name v = [] \<and> op_act v = EC200_ACT_UNKNOWN \<or>
     fs = [FInt (op_mode v), FInt (op_format v), FStr (op_name v)] \<and> op_act v = EC200_ACT_UNKNOWN \<or>
     fs = [FInt (op_mode v), FInt (op_format v), FStr (op_name v), FInt (op_act v)]"

lemma scan_operator:
  assumes "short_int m" "short_int f" "field_text 31 name" "short_int a"
  defines "ds \<equiv> [ScanD, ScanLit CHR '','', ScanD, ScanLit CHR '','', ScanLit DQUOTE, ScanSet 31 DQUOTE,
       ScanLit DQUOTE, ScanLit CHR '','', ScanD]"
  shows "sscanf (show_fields [FInt m]) ds = [SInt m]"
    "sscanf (show_fields [FInt m, FInt f, FStr name]) ds = [SInt m, SInt f, SStr name]"
    "sscanf (show_fields [FInt m, FInt f, FStr name, FInt a]) ds = [SInt m, SInt f, SStr name, SInt a]"
proof -
  note i = short_int_fits [OF assms(1)] short_int_fits [OF assms(2)] short_int_fits [OF assms(4)]
  show "sscanf (show_fields [FInt m]) ds = [SInt m]"
    using scan_int_field [of m "[]"] i by (simp add: ds_def no_digit_sep del: sscanf.simps(4))
  show "sscanf (show_fields [FInt m, FInt f, FStr name]) ds = [SInt m, SInt f, SStr name]"
    using i field_text_scan [OF assms(3), of "[]"]
    by (simp add: ds_def scan_int_field no_digit_sep scan_comma del: sscanf.simps(4,6))
  show "sscanf (show_fields [FInt m, FInt f, FStr name, FInt a]) ds = [SInt m, SInt f, SStr name, SInt a]"
    using i scan_int_field [of a "[]" "[]"]
    by (simp add: ds_def scan_int_field no_digit_sep field_text_scan [OF assms(3)] scan_comma del: sscanf.simps(3,4,6))
qed

lemma reads_operator:
  assumes "short_int (op_mode v)" "short_int (op_format v)" "short_int (op_act v)"
    and "field_text 31 (op_name v) \<or> fs = [FInt (op_mode v)]" and "cops_value fs v"
  shows "reads (result_line ''+COPS'' fs) (\<lambda>h. ec200_net_get_operator h (Some i)) v"
proof (rule readsI [where p = "''+COPS:''" and cmd = "''AT+COPS?''" and sz = 128])
  let ?l = "result_line ''+COPS'' fs"
  have v: "v = \<lparr>op_mode = op_mode v, op_format = op_format v, op_name = op_name v, op_act = op_act v\<rparr>" by simp
  have short: "fs = [FInt (op_mode v)] \<or> field_text 31 (op_name v) \<and>
      (fs = [FInt (op_mode v), FInt (op_format v), FStr (op_name v)] \<or>
       fs = [FInt (op_mode v), FInt (op_format v), FStr (op_name v), FInt (op_act v)])"
    using assms(4,5) by (auto simp: cops_value_def)
  note f = short_int_fits [OF assms(1)] short_int_fits [OF assms(2)] short_int_fits [OF assms(3)]
  note n = field_text_clean [of 31 "op_name v"]
  show "length ?l < 128" using f short n(4) by (auto simp: result_line_def)
  then show "clean_line ?l"
    using short n(1-3) by (auto simp: clean_line_def result_line_def show_int_clean size_defs)
  have ok: "list_all field_ok fs" using f short by (auto simp: field_text_def)
  have sk: "skip_spaces (after_colon ?l) = show_fields fs"
    using skip_show_fields [OF ok] by (simp add: after_colon_result skip_spaces_def)
  let ?vs = "sscanf (show_fields fs)
      [ScanD, ScanLit CHR '','', ScanD, ScanLit CHR '','', ScanLit DQUOTE, ScanSet 31 DQUOTE,
       ScanLit DQUOTE, ScanLit CHR '','', ScanD]"
  note scan = scan_operator [OF assms(1,2) _ assms(3)]
  have "?vs \<noteq> [] \<and> \<lparr>op_mode = scan_int ?vs 0 0, op_format = scan_int ?vs 1 0, op_name = scan_str ?vs 2 [],
      op_act = scan_int ?vs 3 EC200_ACT_UNKNOWN\<rparr> = v"
    using assms(5) unfolding cops_value_def
  proof (elim disjE conjE)
    assume "fs = [FInt (op_mode v)]"
      "op_format v = 0" "op_name v = []" "op_act v = EC200_ACT_UNKNOWN"
    moreover have "field_text 31 ''x''" by (simp add: field_text_def)
    ultimately show ?thesis
      using scan(1) by (simp add: scan_int_def scan_str_def del: show_fields.simps sscanf.simps)
  next
    assume fs: "fs = [FInt (op_mode v), FInt (op_format v), FStr (op_name v)]" and a: "op_act v = EC200_ACT_UNKNOWN"
    then show ?thesis
      using scan(2) short by (simp add: scan_int_def scan_str_def del: show_fields.simps sscanf.simps)
  next
    assume fs: "fs = [FInt (op_mode v), FInt (op_format v), FStr (op_name v), FInt (op_act v)]"
    then show ?thesis
      using scan(3) short by (simp add: scan_int_def scan_str_def del: show_fields.simps sscanf.simps)
  qed
  then show "ec200_net_get_operator h (Some i) = Some (h', EC200_OK, Some v)"
    if "ec200_at_send_wait h (Some ''AT+COPS?'') (Some ''+COPS:'') (char_buf 128) EC200_AT_TIMEOUT_DEFAULT =
           Some (h', EC200_OK, Some (128, ?l))" for h h'
    using that by (simp add: ec200_net_get_operator_def buf_text_def sk Let_def Suc_le_eq del: sscanf.simps)
qed (simp_all add: result_line_def prefix_hit_def)

lemma scan_three:
  assumes "\<forall>v\<in>set vs. short_int v" "vs \<noteq> []"
  shows "sscanf (show_fields (map FInt vs)) [ScanD, ScanLit CHR '','', ScanD, ScanLit CHR '','', ScanD] =
    map SInt (take 3 vs)"
proof -
  have one: "sscanf (show_fields (map FInt (v # vs))) (ScanD # ds) =
      SInt v # sscanf (if vs = [] then [] else CHR '','' # show_fields (map FInt vs)) ds"
    if "short_int v" for v vs ds
    using short_int_fits [OF that] scan_int_field [of v "[]" ds]
    by (cases vs) (simp_all add: scan_int_field no_digit_sep del: sscanf.simps(4))
  obtain a as where as: "vs = a # as" using assms(2) by (cases vs) auto
  show ?thesis
  proof (cases as)
    case Nil
    then show ?thesis using assms one [of a "[]"] by (simp add: as del: sscanf.simps(4))
  next
    case (Cons b bs)
    show ?thesis
    proof (cases bs)
      case Nil
      then show ?thesis
        using assms one [of a "[b]"] one [of b "[]"] by (simp add: as Cons del: sscanf.simps(4))
    next
      case (Cons c cs)
      then show ?thesis
        using assms one [of a "b # c # cs"] one [of b "c # cs"] one [of c cs]
        by (simp add: as \<open>as = b # bs\<close> del: sscanf.simps(4))
    qed
  qed
qed

lemma numbers_length: "\<forall>v\<in>set vs. short_int v \<Longrightarrow> length (show_fields (map FInt vs)) \<le> 5 * length vs"
proof (induction vs)
  case (Cons v vs)
  then show ?case using short_int_fits [of v] by (cases vs) auto
qed simp

lemma numbers_clean: "set (show_fields (map FInt vs)) \<inter> {CR, LF, NUL} = {}"
proof (induction vs)
  case (Cons v vs)
  then show ?case using show_int_clean [of v] by (cases vs) auto
qed simp

text \<open>
  The answer to \<open>AT+QCSQ\<close>: the system mode and one to four numbers, of which the third,
  fourth and fifth field may be missing.
\<close>

definition qcsq_line :: "string \<Rightarrow> int list \<Rightarrow> string" where
  "qcsq_line sys vs = ''+QCSQ: '' @ quoted sys @ CHR '','' # show_fields (map FInt vs)"

lemma reads_signal_ext:
  assumes "field_text 31 sys" "CHR '','' \<notin> set sys" "\<forall>v\<in>set vs. short_int v" "vs \<noteq> []" "length vs \<le> 4"
  shows "reads (qcsq_line sys vs) (\<lambda>h. ec200_net_get_signal_ext h (Some sq))
    \<lparr>sq_rssi = hd vs, sq_ber = 99,
      sq_rsrp = (if 2 \<le> length vs then vs ! 1 else EC200_SIGNAL_UNKNOWN),
      sq_sinr = (if 3 \<le> length vs then vs ! 2 else EC200_SIGNAL_UNKNOWN)\<rparr>"
proof (rule readsI [where p = "''+QCSQ:''" and cmd = "''AT+QCSQ''" and sz = 128])
  let ?l = "qcsq_line sys vs"
  note n = field_text_clean [OF assms(1)]
  show "length ?l < 128" using n(4) numbers_length [OF assms(3)] assms(5) by (simp add: qcsq_line_def)
  then show "clean_line ?l" using n numbers_clean [of vs] by (auto simp: clean_line_def qcsq_line_def size_defs)
  have comma: "strchr ?l CHR '','' = Some (CHR '','' # show_fields (map FInt vs))"
    using strchr_upto [of "CHR '',''" "''+QCSQ: '' @ quoted sys"] assms(2)
    by (simp add: qcsq_line_def quoted_def)
  have c: "cast_i16 v = v" if "v \<in> set vs" for v
    using assms(3) that by (auto simp: cast_i16_def short_int_def)
  show "ec200_net_get_signal_ext h (Some sq) = Some (h', EC200_OK,
      Some \<lparr>sq_rssi = hd vs, sq_ber = 99,
        sq_rsrp = (if 2 \<le> length vs then vs ! 1 else EC200_SIGNAL_UNKNOWN),
        sq_sinr = (if 3 \<le> length vs then vs ! 2 else EC200_SIGNAL_UNKNOWN)\<rparr>)"
    if "ec200_at_send_wait h (Some ''AT+QCSQ'') (Some ''+QCSQ:'') (char_buf 128) EC200_AT_TIMEOUT_DEFAULT =
           Some (h', EC200_OK, Some (128, ?l))" for h h'
    using that assms(4) comma scan_three [OF assms(3,4)] hd_conv_nth [OF assms(4)]
    by (simp add: ec200_net_get_signal_ext_def buf_text_def scan_int_def c Let_def Suc_le_eq del: sscanf.simps)
qed (simp_all add: qcsq_line_def prefix_hit_def)

lemma strtoul_show_nat: "n < 4294967296 \<Longrightarrow> strtoul (show_nat n) = Some (n, [])"
proof -
  assume n: "n < 4294967296"
  have d: "has_digit (show_nat n)" using has_digit_show [of n "[]"] by simp
  obtain c xs where c: "show_nat n = c # xs" by (cases "show_nat n") auto
  then have "is_digit c" using show_nat_set [of c n] by simp
  then show ?thesis
    using d n digit_not_special(1,2) [of c] dropWhile_space_digit [OF d] scan_show_nat [of "[]" n] c
    by (auto simp: strtoul_def cast_u32_small no_digit_sep)
qed

lemma reads_network_info:
  assumes "field_text 23 a" "field_text 15 oper" "field_text 23 band" "ch < 100000"
  shows "reads (result_line ''+QNWINFO'' [FStr a, FStr oper, FStr band, FInt (int ch)])
    (\<lambda>h. ec200_net_get_info h (Some i)) \<lparr>ni_act = a, ni_oper = oper, ni_band = band, ni_channel = ch\<rparr>"
proof (rule readsI [where p = "''+QNWINFO:''" and cmd = "''AT+QNWINFO''" and sz = 128])
  let ?l = "result_line ''+QNWINFO'' [FStr a, FStr oper, FStr band, FInt (int ch)]"
  note n = field_text_clean [OF assms(1)] field_text_clean [OF assms(2)] field_text_clean [OF assms(3)]
  have "length (show_nat ch) \<le> 5" using assms(4) by (intro show_nat_length) simp_all
  then show "length ?l < 128" using n(4,8,12) by (simp add: result_line_def show_int_nat)
  then show "clean_line ?l" using n by (auto simp: clean_line_def result_line_def show_int_clean size_defs)
  have "dropWhile is_space (after_colon ?l) = show_fields [FStr a, FStr oper, FStr band, FInt (int ch)]"
    by (simp add: after_colon_result quoted_def is_space_def)
  then have "sscanf (after_colon ?l)
      [ScanSp, ScanLit DQUOTE, ScanSet 23 DQUOTE, ScanLit DQUOTE, ScanLit CHR '','',
       ScanLit DQUOTE, ScanSet 15 DQUOTE, ScanLit DQUOTE, ScanLit CHR '','',
       ScanLit DQUOTE, ScanSet 23 DQUOTE, ScanLit DQUOTE, ScanLit CHR '','', ScanU] =
      [SStr a, SStr oper, SStr band, SInt (int ch)]"
    using strtoul_show_nat [of ch] assms(4)
    by (simp add: field_text_scan [OF assms(1)] field_text_scan [OF assms(2)] field_text_scan [OF assms(3)]
        scan_comma show_int_nat del: sscanf.simps(3,6))
  then show "ec200_net_get_info h (Some i) = Some (h', EC200_OK,
      Some \<lparr>ni_act = a, ni_oper = oper, ni_band = band, ni_channel = ch\<rparr>)"
    if "ec200_at_send_wait h (Some ''AT+QNWINFO'') (Some ''+QNWINFO:'') (char_buf 128) EC200_AT_TIMEOUT_DEFAULT =
           Some (h', EC200_OK, Some (128, ?l))" for h h'
    using that assms(4)
    by (simp add: ec200_net_get_info_def buf_text_def scan_int_def scan_str_def cast_u32_small del: sscanf.simps)
qed (simp_all add: result_line_def prefix_hit_def)

text \<open>
  The answer to \<open>AT+CPSMS?\<close>: the mode, two empty fields and the two timers; or the mode alone;
  or the mode and four empty fields.
\<close>

definition psm_line :: "int \<Rightarrow> string \<Rightarrow> string \<Rightarrow> string" where
  "psm_line mode tau act = ''+CPSMS: '' @ show_int mode @ '',,,'' @ quoted tau @ '','' @ quoted act"

definition psm_bare :: "int \<Rightarrow> bool \<Rightarrow> string" where
  "psm_bare mode seps = ''+CPSMS: '' @ show_int mode @ (if seps then '',,,,'' else [])"

lemma psm_mode:
  assumes "mode \<in> {0, 1}" "\<not> has_digit r" "after_colon l = CHR '' '' # show_int mode @ r"
  shows "ec200_at_parse_int_field l 0 = Some mode"
proof -
  have digits: "show_int 0 = ''0''" "show_int 1 = ''1''" by code_simp+
  have m: "is_int mode" "hd (show_int mode) \<noteq> CHR '' ''" "is_digit (hd (show_int mode))"
    using assms(1) digits by (auto simp: is_int_def int_min_def int_max_def is_digit_def)
  then have "skip_spaces (show_int mode @ r) = show_int mode @ r" by (intro skip_spaces_head) simp_all
  then show ?thesis
    using m atoi_show_int [OF m(1) assms(2)]
    by (simp add: parse_int_field_read assms(3) read_field_def skip_spaces_def)
qed

lemma copy_field_quoted:
  assumes "set s \<inter> {DQUOTE, CHR '',''} = {}" "length s < sz"
    and "skip_commas i (after_colon l) = Some (quoted s @ r)"
  shows "copy_field l i sz = s"
proof -
  have "takeWhile (\<lambda>c. c \<noteq> DQUOTE \<and> c \<noteq> CHR '','') (s @ DQUOTE # r) = s"
    using assms(1) by (subst takeWhile_append2) auto
  then show ?thesis using assms(2,3) by (simp add: copy_field_def quoted_def skip_spaces_def)
qed

lemma reads_psmI:
  assumes "clean_line l" "length l < 96" "prefix_hit (Some ''+CPSMS:'') l" "l \<noteq> []"
    and "ec200_at_parse_int_field l 0 = Some mode" "copy_field l 3 9 = tau" "copy_field l 4 9 = act"
  shows "reads l (\<lambda>h. ec200_psm_get h (Some c))
    \<lparr>psm_enabled = (mode \<noteq> 0), psm_periodic_tau = tau, psm_active_time = act\<rparr>"
  by (rule readsI [where p = "''+CPSMS:''" and cmd = "''AT+CPSMS?''" and sz = 96])
    (simp_all add: assms ec200_psm_get_def buf_text_def EC200_PSM_TIMER_STR_LEN_def)

lemma show_mode_length: "mode \<in> {0, 1} \<Longrightarrow> length (show_int mode) \<le> 4"
  using short_int_fits [of mode] by (auto simp: short_int_def)

lemma reads_psm:
  assumes "length tau = 8" "set tau \<subseteq> {CHR ''0'', CHR ''1''}" "length act = 8" "set act \<subseteq> {CHR ''0'', CHR ''1''}"
    and "mode \<in> {0, 1}"
  shows "reads (psm_line mode tau act) (\<lambda>h. ec200_psm_get h (Some c))
    \<lparr>psm_enabled = (mode \<noteq> 0), psm_periodic_tau = tau, psm_active_time = act\<rparr>"
proof (rule reads_psmI)
  let ?l = "psm_line mode tau act"
  show "length ?l < 96" using assms(1,3) show_mode_length [OF assms(5)] by (simp add: psm_line_def quoted_def)
  then show "clean_line ?l"
    using assms(2,4) by (auto simp: clean_line_def psm_line_def quoted_def show_int_clean size_defs)
  have ac: "after_colon ?l = CHR '' '' # show_int mode @ '',,,'' @ quoted tau @ '','' @ quoted act"
    by (simp add: after_colon_def psm_line_def)
  have "strchr (quoted tau @ CHR '','' # quoted act) CHR '','' = Some (CHR '','' # quoted act)"
    using assms(2) by (intro strchr_upto) (auto simp: quoted_def)
  then have commas: "skip_commas 3 (after_colon ?l) = Some (quoted tau @ CHR '','' # quoted act)"
    "skip_commas 4 (after_colon ?l) = Some (quoted act)"
    by (simp_all add: ac numeral_eq_Suc strchr_upto show_int_plain)
  show "copy_field ?l 3 9 = tau"
    using assms(1,2) commas(1) by (intro copy_field_quoted) auto
  show "copy_field ?l 4 9 = act"
    using assms(3,4) commas(2) by (intro copy_field_quoted [where r = "[]"]) auto
  show "ec200_at_parse_int_field ?l 0 = Some mode"
    by (rule psm_mode [OF assms(5) _ ac]) (simp add: no_digit_sep)
qed (simp_all add: psm_line_def prefix_hit_def)

lemma reads_psm_bare:
  assumes "mode \<in> {0, 1}"
  shows "reads (psm_bare mode seps) (\<lambda>h. ec200_psm_get h (Some c))
    \<lparr>psm_enabled = (mode \<noteq> 0), psm_periodic_tau = [], psm_active_time = []\<rparr>"
proof (rule reads_psmI)
  let ?l = "psm_bare mode seps"
  show "length ?l < 96" using show_mode_length [OF assms] by (simp add: psm_bare_def)
  then show "clean_line ?l" by (auto simp: clean_line_def psm_bare_def show_int_clean size_defs)
  have ac: "after_colon ?l = CHR '' '' # show_int mode @ (if seps then '',,,,'' else [])"
    by (simp add: after_colon_def psm_bare_def)
  have "skip_commas 3 (after_colon ?l) = (if seps then Some '','' else None)"
    "skip_commas 4 (after_colon ?l) = (if seps then Some [] else None)"
    using strchr_none [of "CHR '',''" "CHR '' '' # show_int mode"]
    by (simp_all add: ac numeral_eq_Suc strchr_upto show_int_plain)
  then show "copy_field ?l 3 9 = []" "copy_field ?l 4 9 = []"
    by (simp_all add: copy_field_def skip_spaces_def)
  show "ec200_at_parse_int_field ?l 0 = Some mode"
    by (rule psm_mode [OF assms _ ac]) (simp add: no_digit_sep)
qed (simp_all add: psm_bare_def prefix_hit_def)

text \<open>What the encoders write is eight of the characters 0 and 1.\<close>

lemma decoded_text:
  assumes "psm_decode t us = Some s"
  shows "length t = 8" "set t \<subseteq> {CHR ''0'', CHR ''1''}"
  using assms read_bits_iff [of 8 0 t] by (auto simp: psm_decode_def split: option.splits)

section \<open>Property\<close>

text \<open>
  C28. The queries give the caller what the module printed: when the answer is one of these lines
  and OK, the call succeeds with its values and leaves the lines behind them. Numbers have at
  most three digits; quoted text is not empty, has no quote and fits its field. \<open>+CSQ\<close>: a
  signal of at least 0 (to dBm up to 31, 0 above) and a bit error rate below 256.
  \<open>+QCSQ\<close>: the system mode and one to four numbers; a missing third or fourth field is
  unknown. \<open>+CREG\<close>, \<open>+CGREG\<close>, \<open>+CEREG\<close>: a status of 0 to 5 alone, or after the
  reporting mode and before any other fields (area, cell, technology), in fewer than 64
  characters. \<open>+COPS\<close>: mode; mode, format, name; or these and the technology.
  \<open>+QNWINFO\<close>: its four fields, the channel below 100000. \<open>+CPSMS\<close>: mode 0 or 1 with
  both timers as the encoders write them, which decode to the encoded durations, or with empty
  fields, or alone.
\<close>

theorem queries_read_back:
  assumes "short_int raw" "0 \<le> raw" "0 \<le> ber" "ber < 256"
    and "field_text 31 sys" "CHR '','' \<notin> set sys" "\<forall>v\<in>set vs. short_int v" "vs \<noteq> []" "length vs \<le> 4"
    and "short_int n" "0 \<le> s" "s \<le> 5"
    and "short_int (op_mode op)" "short_int (op_format op)" "short_int (op_act op)" "cops_value ofs op"
    and "field_text 31 (op_name op) \<or> ofs = [FInt (op_mode op)]"
    and "field_text 23 act" "field_text 15 oper" "field_text 23 band" "ch < 100000"
    and "ec200_psm_encode_tau t1 (Some (9, x)) = (EC200_OK, Some (9, tau))"
    and "ec200_psm_encode_active_time t2 (Some (9, y)) = (EC200_OK, Some (9, actv))" "mode \<in> {0, 1}"
  shows
    "reads (result_line ''+CSQ'' [FInt raw, FInt ber]) (\<lambda>h. ec200_net_get_signal h (Some sq))
       \<lparr>sq_rssi = (if raw \<le> 31 then 2 * raw - 113 else 0), sq_ber = nat ber,
        sq_rsrp = EC200_SIGNAL_UNKNOWN, sq_sinr = EC200_SIGNAL_UNKNOWN\<rparr> \<and>
     reads (qcsq_line sys vs) (\<lambda>h. ec200_net_get_signal_ext h (Some sq))
       \<lparr>sq_rssi = hd vs, sq_ber = 99,
        sq_rsrp = (if 2 \<le> length vs then vs ! 1 else EC200_SIGNAL_UNKNOWN),
        sq_sinr = (if 3 \<le> length vs then vs ! 2 else EC200_SIGNAL_UNKNOWN)\<rparr> \<and>
     (reg_fields ''+CREG'' n s fs \<longrightarrow>
       reads (result_line ''+CREG'' fs) (\<lambda>h. ec200_net_get_creg h (Some r)) (reg_status_of s)) \<and>
     (reg_fields ''+CGREG'' n s fs \<longrightarrow>
       reads (result_line ''+CGREG'' fs) (\<lambda>h. ec200_net_get_cgreg h (Some r)) (reg_status_of s)) \<and>
     (reg_fields ''+CEREG'' n s fs \<longrightarrow>
       reads (result_line ''+CEREG'' fs) (\<lambda>h. ec200_net_get_cereg h (Some r)) (reg_status_of s)) \<and>
     reads (result_line ''+COPS'' ofs) (\<lambda>h. ec200_net_get_operator h (Some i)) op \<and>
     reads (result_line ''+QNWINFO'' [FStr act, FStr oper, FStr band, FInt (int ch)])
       (\<lambda>h. ec200_net_get_info h (Some j))
       \<lparr>ni_act = act, ni_oper = oper, ni_band = band, ni_channel = ch\<rparr> \<and>
     reads (psm_line mode tau actv) (\<lambda>h. ec200_psm_get h (Some c))
       \<lparr>psm_enabled = (mode \<noteq> 0), psm_periodic_tau = tau, psm_active_time = actv\<rparr> \<and>
     reads (psm_bare mode seps) (\<lambda>h. ec200_psm_get h (Some c))
       \<lparr>psm_enabled = (mode \<noteq> 0), psm_periodic_tau = [], psm_active_time = []\<rparr> \<and>
     ec200_psm_decode_timer (Some tau) True (Some v) = (EC200_OK, Some t1) \<and>
     ec200_psm_decode_timer (Some actv) False (Some v) = (EC200_OK, Some t2)"
proof (intro conjI impI)
  have d: "psm_decode tau tau_units = Some t1" "psm_decode actv active_units = Some t2"
    using tau.encode_decode act.encode_decode assms(22,23)
    unfolding ec200_psm_encode_tau_def ec200_psm_encode_active_time_def by blast+
  show "ec200_psm_decode_timer (Some tau) True (Some v) = (EC200_OK, Some t1)"
    "ec200_psm_decode_timer (Some actv) False (Some v) = (EC200_OK, Some t2)"
    using d by (simp_all add: decode_timer_iff)
  show "reads (psm_line mode tau actv) (\<lambda>h. ec200_psm_get h (Some c))
       \<lparr>psm_enabled = (mode \<noteq> 0), psm_periodic_tau = tau, psm_active_time = actv\<rparr>"
    by (rule reads_psm [OF decoded_text [OF d(1)] decoded_text [OF d(2)] assms(24)])
  show "reads (psm_bare mode seps) (\<lambda>h. ec200_psm_get h (Some c))
       \<lparr>psm_enabled = (mode \<noteq> 0), psm_periodic_tau = [], psm_active_time = []\<rparr>"
    by (rule reads_psm_bare [OF assms(24)])
  show "reads (qcsq_line sys vs) (\<lambda>h. ec200_net_get_signal_ext h (Some sq))
       \<lparr>sq_rssi = hd vs, sq_ber = 99,
        sq_rsrp = (if 2 \<le> length vs then vs ! 1 else EC200_SIGNAL_UNKNOWN),
        sq_sinr = (if 3 \<le> length vs then vs ! 2 else EC200_SIGNAL_UNKNOWN)\<rparr>"
    by (rule reads_signal_ext [OF assms(5-9)])
  show "reads (result_line ''+COPS'' ofs) (\<lambda>h. ec200_net_get_operator h (Some i)) op"
    by (rule reads_operator [OF assms(13-15,17,16)])
  show "reads (result_line ''+QNWINFO'' [FStr act, FStr oper, FStr band, FInt (int ch)])
       (\<lambda>h. ec200_net_get_info h (Some j)) \<lparr>ni_act = act, ni_oper = oper, ni_band = band, ni_channel = ch\<rparr>"
    by (rule reads_network_info [OF assms(18-21)])
  have "short_int ber" using assms(3,4) by (simp add: short_int_def)
  with assms(1-4) show "reads (result_line ''+CSQ'' [FInt raw, FInt ber]) (\<lambda>h. ec200_net_get_signal h (Some sq))
       \<lparr>sq_rssi = (if raw \<le> 31 then 2 * raw - 113 else 0), sq_ber = nat ber,
        sq_rsrp = EC200_SIGNAL_UNKNOWN, sq_sinr = EC200_SIGNAL_UNKNOWN\<rparr>"
    by (intro reads_signal)
  note reg = reads_registration [OF assms(10-12)]
  show "reads (result_line ''+CREG'' fs) (\<lambda>h. ec200_net_get_creg h (Some r)) (reg_status_of s)"
    if "reg_fields ''+CREG'' n s fs"
    using reg [OF _ that, of "''AT+CREG?''" r] by (simp add: ec200_net_get_creg_def)
  show "reads (result_line ''+CGREG'' fs) (\<lambda>h. ec200_net_get_cgreg h (Some r)) (reg_status_of s)"
    if "reg_fields ''+CGREG'' n s fs"
    using reg [OF _ that, of "''AT+CGREG?''" r] by (simp add: ec200_net_get_cgreg_def)
  show "reads (result_line ''+CEREG'' fs) (\<lambda>h. ec200_net_get_cereg h (Some r)) (reg_status_of s)"
    if "reg_fields ''+CEREG'' n s fs"
    using reg [OF _ that, of "''AT+CEREG?''" r] by (simp add: ec200_net_get_cereg_def)
qed

lemma reads_step:
  assumes "reads l call v" "tape_ready (l # ''OK'' # ls) h" "\<forall>x\<in>set ls. clean_line x"
  obtains h' where "call h = Some (h', EC200_OK, Some v)" "tape_ready ls h'"
  using assms unfolding reads_def by blast

text \<open>
  A registered module with its area, cell and technology, then an operator without its technology,
  then the timers, one query after the other.
\<close>

theorem queries_read_back_witness:
  "\<forall>r i c. \<exists>h1 h2 h3.
   ec200_net_get_cereg (tape_handle (crlf [''+CEREG: 2,1,'' @ quoted ''D5F3'' @ '','' @ quoted ''01A2B303'' @ '',7'',
       ''OK'', ''+COPS: 0,0,'' @ quoted ''Net'', ''OK'', psm_line 1 ''00100010'' ''00000101'', ''OK''])) (Some r) =
     Some (h1, EC200_OK, Some EC200_REG_REGISTERED_HOME) \<and>
   ec200_net_get_operator h1 (Some i) =
     Some (h2, EC200_OK, Some \<lparr>op_mode = 0, op_format = 0, op_name = ''Net'', op_act = EC200_ACT_UNKNOWN\<rparr>) \<and>
   ec200_psm_get h2 (Some c) = Some (h3, EC200_OK,
     Some \<lparr>psm_enabled = True, psm_periodic_tau = ''00100010'', psm_active_time = ''00000101''\<rparr>)"
proof (intro allI)
  fix r :: ec200_reg_status and i :: ec200_operator_info and c :: ec200_psm_config
  let ?fs = "[FInt 2, FInt 1, FStr ''D5F3'', FStr ''01A2B303'', FInt 7]"
  let ?ofs = "[FInt 0, FInt 0, FStr ''Net'']"
  let ?op = "\<lparr>op_mode = 0, op_format = 0, op_name = ''Net'', op_act = EC200_ACT_UNKNOWN\<rparr>"
  let ?psm = "psm_line 1 ''00100010'' ''00000101''"
  have digits: "show_int 0 = ''0''" "show_int 1 = ''1''" "show_int 2 = ''2''" "show_int 7 = ''7''" by code_simp+
  have lines: "result_line ''+CEREG'' ?fs = ''+CEREG: 2,1,'' @ quoted ''D5F3'' @ '','' @ quoted ''01A2B303'' @ '',7''"
    "result_line ''+COPS'' ?ofs = ''+COPS: 0,0,'' @ quoted ''Net''"
    by (simp_all add: result_line_def digits)
  have "psm_write_bits 1 2 = ''00100010''" "psm_write_bits 0 5 = ''00000101''" by code_simp+
  then have e: "ec200_psm_encode_tau 7200 (Some (9, [])) = (EC200_OK, Some (9, ''00100010''))"
    "ec200_psm_encode_active_time 10 (Some (9, [])) = (EC200_OK, Some (9, ''00000101''))"
    by (simp_all add: ec200_psm_encode_tau_def ec200_psm_encode_active_time_def psm_encode_def
        tau_units_def active_units_def EC200_PSM_TIMER_STR_LEN_def PSM_MAX_MULTIPLIER_def)
  have f: "reg_fields ''+CEREG'' 2 1 ?fs"
    by (simp add: reg_fields_def result_line_def quoted_def digits)
  have "reads (result_line ''+CEREG'' ?fs) (\<lambda>h. ec200_net_get_cereg h (Some r)) (reg_status_of 1) \<and>
    reads (result_line ''+COPS'' ?ofs) (\<lambda>h. ec200_net_get_operator h (Some i)) ?op \<and>
    reads ?psm (\<lambda>h. ec200_psm_get h (Some c))
      \<lparr>psm_enabled = ((1 :: int) \<noteq> 0), psm_periodic_tau = ''00100010'', psm_active_time = ''00000101''\<rparr>"
    using queries_read_back [of 20 99 "''LTE''" "[-52, -81, 195, -10]" 2 1 ?op ?ofs "''LTE''" "''00101''"
        "''B3''" 1300 7200 "[]" "''00100010''" 10 "[]" "''00000101''" 1] e f
    by (simp add: short_int_def field_text_def cops_value_def EC200_ACT_UNKNOWN_def)
  then have reg: "reads (result_line ''+CEREG'' ?fs) (\<lambda>h. ec200_net_get_cereg h (Some r)) EC200_REG_REGISTERED_HOME"
    and ops: "reads (result_line ''+COPS'' ?ofs) (\<lambda>h. ec200_net_get_operator h (Some i)) ?op"
    and psm: "reads ?psm (\<lambda>h. ec200_psm_get h (Some c))
      \<lparr>psm_enabled = True, psm_periodic_tau = ''00100010'', psm_active_time = ''00000101''\<rparr>"
    by (simp_all add: reg_status_of_def)
  have clean: "\<forall>x\<in>set (result_line ''+COPS'' ?ofs # ''OK'' # [?psm, ''OK'']). clean_line x"
    "\<forall>x\<in>set [?psm, ''OK'']. clean_line x"
    by (auto simp: clean_line_def psm_line_def quoted_def digits lines size_defs)
  let ?h = "tape_handle (crlf (result_line ''+CEREG'' ?fs # ''OK'' # result_line ''+COPS'' ?ofs # ''OK'' # [?psm, ''OK'']))"
  obtain h1 where h1: "ec200_net_get_cereg ?h (Some r) = Some (h1, EC200_OK, Some EC200_REG_REGISTERED_HOME)"
      "tape_ready (result_line ''+COPS'' ?ofs # ''OK'' # [?psm, ''OK'']) h1"
    using reads_step [OF reg tape_ready_handle] clean by blast
  obtain h2 where h2: "ec200_net_get_operator h1 (Some i) = Some (h2, EC200_OK, Some ?op)" "tape_ready [?psm, ''OK''] h2"
    using reads_step [OF ops h1(2)] clean by blast
  obtain h3 where h3: "ec200_psm_get h2 (Some c) = Some (h3, EC200_OK,
      Some \<lparr>psm_enabled = True, psm_periodic_tau = ''00100010'', psm_active_time = ''00000101''\<rparr>)"
    using reads_step [OF psm h2(2)] by auto
  show "\<exists>h1 h2 h3.
   ec200_net_get_cereg (tape_handle (crlf [''+CEREG: 2,1,'' @ quoted ''D5F3'' @ '','' @ quoted ''01A2B303'' @ '',7'',
       ''OK'', ''+COPS: 0,0,'' @ quoted ''Net'', ''OK'', psm_line 1 ''00100010'' ''00000101'', ''OK''])) (Some r) =
     Some (h1, EC200_OK, Some EC200_REG_REGISTERED_HOME) \<and>
   ec200_net_get_operator h1 (Some i) =
     Some (h2, EC200_OK, Some \<lparr>op_mode = 0, op_format = 0, op_name = ''Net'', op_act = EC200_ACT_UNKNOWN\<rparr>) \<and>
   ec200_psm_get h2 (Some c) = Some (h3, EC200_OK,
     Some \<lparr>psm_enabled = True, psm_periodic_tau = ''00100010'', psm_active_time = ''00000101''\<rparr>)"
    using h1(1) h2(1) h3 unfolding lines by blast
qed

end
