(* ===== verification/Ec200_Registration.thy ===== *)
theory Ec200_Registration
  imports Ec200_Term Ec200_Transactions
begin

text \<open>
  Waiting for the network: the elapsed time of \<^verbatim>\<open>ec200_net_wait_registered\<close> is a 32-bit
  counter in steps of two seconds. For which timeouts the loop ends, and for which it cannot
  time out.
\<close>

section \<open>Timeouts that are reached\<close>

definition attached_state :: "ec200_reg_status option \<Rightarrow> bool" where
  "attached_state r \<longleftrightarrow> r = Some EC200_REG_REGISTERED_HOME \<or> r = Some EC200_REG_REGISTERED_ROAMING"

text \<open>The state in which the next query is made.\<close>

definition next_poll :: "'w ec200_handle \<Rightarrow> 'w ec200_handle" where
  "next_poll h = h\<lparr>user_ctx := h_delay_ms h 2000 (user_ctx h)\<rparr>"

lemma wait_loop_step:
  assumes "ec200_net_get_cereg h (Some EC200_REG_UNKNOWN) = Some (h1, st, reg)"
  shows "wait_registered_loop h e t =
    (if st = EC200_OK \<and> attached_state reg then Some (h1, EC200_OK)
     else if t \<le> e then Some (h1, EC200_ERR_TIMEOUT) else wait_registered_loop (next_poll h1) (e + 2000) t)"
  using assms by (subst wait_registered_loop.simps) (auto simp: attached_state_def next_poll_def)

context transport
begin

lemma returns_cereg: "good h \<Longrightarrow> returns good (ec200_net_get_cereg h s)"
  unfolding ec200_net_get_cereg_def get_reg_def by (intro returns_body)

lemma wait_loop_returns:
  "good h \<Longrightarrow> unat t \<le> 2 ^ 32 - 2000 \<Longrightarrow> wait_registered_loop h e t \<noteq> None"
proof (induction "2 ^ 32 - unat e" arbitrary: h e rule: less_induct)
  case less
  obtain h1 st reg where g: "ec200_net_get_cereg h (Some EC200_REG_UNKNOWN) = Some (h1, st, reg)"
    "good h1"
    using returns_cereg [OF less.prems(1), of "Some EC200_REG_UNKNOWN"] by (auto simp: returns_def)
  show ?case
  proof (cases "t \<le> e")
    case True
    then show ?thesis by (simp add: wait_loop_step [OF g(1)])
  next
    case False
    then have e: "unat e < unat t" by (simp add: word_less_nat_alt not_le)
    have "unat (e + 2000) = unat e + 2000"
      using e less.prems(2) by (subst unat_add_lem [THEN iffD1]) simp_all
    then show ?thesis
      using less.hyps [of "e + 2000" "next_poll h1"] e less.prems(2) g(2)
      by (simp add: wait_loop_step [OF g(1)] next_poll_def)
  qed
qed

end

section \<open>Timeouts that are never reached\<close>

lemma counter_aligned: "unat (e :: 32 word) mod 16 = 0 \<Longrightarrow> unat (e + 2000) mod 16 = 0"
proof -
  assume e: "unat e mod 16 = 0"
  have "unat (e + 2000) mod 16 = (unat e + 2000) mod 2 ^ 32 mod 16" by (simp add: unat_word_ariths)
  also have "\<dots> = (unat e + 2000) mod 16" by (rule mod_mod_cancel) simp
  also have "\<dots> = (unat e mod 16 + 2000 mod 16) mod 16" by (rule mod_add_eq [symmetric])
  finally show ?thesis using e by simp
qed

lemma wait_loop_hangs:
  assumes inv: "\<And>h. I h \<Longrightarrow> \<exists>h1 st reg. ec200_net_get_cereg h (Some EC200_REG_UNKNOWN) = Some (h1, st, reg) \<and>
      \<not> (st = EC200_OK \<and> attached_state reg) \<and> I (next_poll h1)"
    and run: "wait_registered_loop h e t = Some r"
  shows "I h \<longrightarrow> unat e mod 16 = 0 \<longrightarrow> unat t > 2 ^ 32 - 16 \<longrightarrow> False"
proof (rule wait_registered_loop.raw_induct
    [where P = "\<lambda>h e t x. I h \<longrightarrow> unat e mod 16 = 0 \<longrightarrow> unat t > 2 ^ 32 - 16 \<longrightarrow> False", OF _ run],
    intro impI)
  fix f h and e t :: "32 word" and x
  assume IH: "\<And>h e t y. f h e t = Some y \<Longrightarrow> I h \<longrightarrow> unat e mod 16 = 0 \<longrightarrow> unat t > 2 ^ 32 - 16 \<longrightarrow> False"
    and eq: "(case ec200_net_get_cereg h (Some EC200_REG_UNKNOWN) of
        None \<Rightarrow> None
      | Some (h, st, reg) \<Rightarrow>
          if st = EC200_OK \<and> (reg = Some EC200_REG_REGISTERED_HOME
                               \<or> reg = Some EC200_REG_REGISTERED_ROAMING)
          then Some (h, EC200_OK)
          else if t \<le> e then Some (h, EC200_ERR_TIMEOUT)
          else f (h\<lparr>user_ctx := h_delay_ms h 2000 (user_ctx h)\<rparr>) (e + 2000) t) = Some x"
    and h: "I h" "unat e mod 16 = 0" "unat t > 2 ^ 32 - 16"
  obtain h1 st reg where g: "ec200_net_get_cereg h (Some EC200_REG_UNKNOWN) = Some (h1, st, reg)"
      "\<not> (st = EC200_OK \<and> attached_state reg)" "I (next_poll h1)"
    using inv [OF h(1)] by blast
  obtain k where k: "unat e = 16 * k" using h(2) by (auto simp: mod_0_imp_dvd elim!: dvdE dest!: mod_0_imp_dvd)
  then have "k < 268435456" using unsigned_less [of e, where 'a = nat] by simp
  then have "unat e \<le> 2 ^ 32 - 16" using k by simp
  then have "\<not> t \<le> e" using h(3) by (simp add: word_le_nat_alt)
  then have "f (next_poll h1) (e + 2000) t = Some x"
    using eq g by (auto simp: attached_state_def next_poll_def)
  then show False
    using IH [of "next_poll h1" "e + 2000" t x] g(3) counter_aligned [OF h(2)] h(3) by simp
qed

section \<open>Properties\<close>

text \<open>A module that does not answer: every query times out.\<close>

definition silent :: "tape ec200_handle \<Rightarrow> bool" where
  "silent h \<longleftrightarrow> tape_ready [] h \<and> h_delay_ms h = tape_delay"

lemma silent_poll:
  assumes "silent h"
  shows "\<exists>h1. ec200_net_get_cereg h (Some r) = Some (h1, EC200_ERR_TIMEOUT, Some r) \<and> silent (next_poll h1)"
proof -
  have t: "tape_ready [] h" and d: "h_delay_ms h = tape_delay" using assms by (simp_all add: silent_def)
  obtain h1 where h1: "ec200_at_send_wait h (Some ''AT+CEREG?'') (Some ''+CEREG:'') (Some (64, []))
      EC200_AT_TIMEOUT_DEFAULT = Some (h1, EC200_ERR_TIMEOUT, Some (64, []))" "tape_ready [] h1"
    using tape_wait [OF t, where cmd = "''AT+CEREG?''" and st = EC200_ERR_TIMEOUT and out = "[]" and rest = "[]"
        and sz = 64 and s = "[]" and p = "''+CEREG:''" and t = EC200_AT_TIMEOUT_DEFAULT] by auto
  have "h_delay_ms h1 = tape_delay"
    using keepsD [OF cfgr.keeps_send_wait h1(1)] d by (simp add: same_setup_def)
  then have "silent (next_poll h1)"
    using h1(2) by (simp add: silent_def next_poll_def tape_delay_def tape_ready_def)
  then show ?thesis
    using h1(1) by (auto simp: ec200_net_get_cereg_def get_reg_def char_buf_def)
qed

text \<open>
  C33. Waiting for the network ends for the timeouts the 32-bit counter can reach. On a
  transport with finitely many bytes pending and for a timeout of at most 4294965296 ms the
  call returns, whatever the module answers. The elapsed time grows in steps of 2000 and wraps
  around, so it only takes multiples of 16: a timeout above 4294967280 ms, such as UINT32_MAX
  for waiting without a limit, is never reached, and on any module whose queries return and never
  report a registration (a property \<open>I\<close> of the handle that every unsuccessful query and the
  pause after it keep) the call does not return.
\<close>

theorem wait_registered_limit:
  shows "(transport rem rd wr \<and> connected rem rd wr h \<and> unat t \<le> 4294965296 \<longrightarrow>
            ec200_net_wait_registered h t \<noteq> None) \<and>
         (I h \<and> unat t > 4294967280 \<and>
            (\<forall>h. I h \<longrightarrow> (\<exists>h1 st reg. ec200_net_get_cereg h (Some EC200_REG_UNKNOWN) = Some (h1, st, reg) \<and>
               \<not> (st = EC200_OK \<and> attached_state reg) \<and> I (next_poll h1))) \<longrightarrow>
            ec200_net_wait_registered h t = None)"
proof (intro conjI impI)
  assume "transport rem rd wr \<and> connected rem rd wr h \<and> unat t \<le> 4294965296"
  then show "ec200_net_wait_registered h t \<noteq> None"
    using transport.wait_loop_returns [of rem rd wr h t 0] by (simp add: ec200_net_wait_registered_def)
next
  assume i: "I h \<and> unat t > 4294967280 \<and>
    (\<forall>h. I h \<longrightarrow> (\<exists>h1 st reg. ec200_net_get_cereg h (Some EC200_REG_UNKNOWN) = Some (h1, st, reg) \<and>
       \<not> (st = EC200_OK \<and> attached_state reg) \<and> I (next_poll h1)))"
  show "ec200_net_wait_registered h t = None"
  proof (cases "ec200_net_wait_registered h t")
    case (Some r)
    then show ?thesis
      using wait_loop_hangs [of I h 0 t r] i by (simp add: ec200_net_wait_registered_def)
  qed
qed

theorem wait_registered_limit_witness:
  "ec200_net_wait_registered (tape_handle []) 4294965296 \<noteq> None \<and>
   ec200_net_wait_registered (tape_handle []) 4294967295 = None"
proof -
  have s: "silent (tape_handle [])"
    using tape_ready_handle [of "[]"] by (simp add: silent_def) (simp add: tape_handle_def fresh_handle_def)
  have c: "connected (\<lambda>w :: tape. length (fst w)) tape_read tape_write (tape_handle [])"
    by (simp add: connected_def calm_def tape_handle_def fresh_handle_def free_urc_entry_def)
  have p: "\<exists>h1 st reg. ec200_net_get_cereg h (Some EC200_REG_UNKNOWN) = Some (h1, st, reg) \<and>
      \<not> (st = EC200_OK \<and> attached_state reg) \<and> silent (next_poll h1)" if "silent h" for h
    using silent_poll [OF that, of EC200_REG_UNKNOWN] by auto
  show ?thesis
    using wait_registered_limit [of "\<lambda>w :: tape. length (fst w)" tape_read tape_write "tape_handle []" 4294965296
        silent, THEN conjunct1]
      wait_registered_limit [of "\<lambda>w :: tape. length (fst w)" tape_read tape_write "tape_handle []" 4294967295
        silent, THEN conjunct2] tpf.transport_axioms c p s by simp
qed

end
