(* ===== verification/Ec200_Recv.thy ===== *)
theory Ec200_Recv
  imports Ec200_Transactions Ec200_Http_Body Ec200_Tcpip Ec200_Ssl
begin

text \<open>
  Receiving from a socket: a header line announces the length, that many raw bytes follow, and
  then the final line. The bytes are not lines, so the dialogue is stated on the byte stream.
\<close>

section \<open>A handle whose transport holds given bytes\<close>

definition holding ::
    "('w \<Rightarrow> bool) \<Rightarrow> ('w \<Rightarrow> char list) \<Rightarrow> 'w read_fn \<Rightarrow> 'w ec200_handle \<Rightarrow> char list \<Rightarrow> bool" where
  "holding live pending rd h bs \<longleftrightarrow> sourced live rd h \<and> rx_buf h = [] \<and> pending (user_ctx h) = bs"

context byte_source
begin

lemma line_held:
  assumes "holding live pending rd h (l @ CR # LF # bs)" and "clean_line l"
  shows "\<exists>h'. rx_line h b = Some (h', RX_OK l, b) \<and> holding live pending rd h' bs"
proof -
  have "LF \<notin> set (l @ [CR])" using assms(2) by (simp add: clean_line_def)
  then obtain w where "rx_line h b = Some (h\<lparr>user_ctx := w, rx_buf := [], rx_overlong := False\<rparr>,
      RX_OK (cstr (assembled [] (l @ [CR]))), b)" "live w" "pending w = bs"
    using line_some [of h "l @ [CR]" bs b] assms(1) by (auto simp: holding_def sourced_def size_defs)
  then show ?thesis
    using assms by (auto simp: assembled_clean holding_def sourced_def)
qed

lemma clean_Nil: "clean_line []"
  by (simp add: clean_line_def size_defs)

text \<open>Blank lines and then the header, where a command that stops at it stops.\<close>

lemma header_held:
  assumes "holding live pending rd h (crlf (replicate n []) @ hdr @ CR # LF # bs)" and "n < k"
    and "clean_line hdr" "hdr \<noteq> []" "prefix_hit (Some p) hdr"
  shows "\<exists>h'. receive_loop k h (Some p) True False buf b = Some (h', EC200_OK, copy_line hdr buf) \<and>
    holding live pending rd h' bs"
  using assms(1,2)
proof (induction n arbitrary: h k)
  case 0
  then obtain k' where "k = Suc k'" by (cases k) auto
  then show ?case
    using line_held [of h hdr bs b] 0 assms(3-5) by (auto simp: prefix_hit_def)
next
  case (Suc n)
  then obtain k' where k: "k = Suc k'" by (cases k) auto
  obtain h1 where h1: "rx_line h b = Some (h1, RX_OK [], b)"
    "holding live pending rd h1 (crlf (replicate n []) @ hdr @ CR # LF # bs)"
    using line_held [OF _ clean_Nil, of h _ b] Suc.prems(1) by auto
  then show ?case using Suc.IH [OF h1(2), of k'] Suc.prems(2) k by simp
qed

lemma exact_held:
  assumes "holding live pending rd h (data @ bs)" and "length data \<le> length buf" "length data < 65536"
  shows "\<exists>h'. ec200_at_read_exact h (Some buf) (length data) t (Some 0) =
      Some (h', EC200_OK, Some (data @ drop (length data) buf), Some (length data)) \<and>
    holding live pending rd h' bs"
proof (cases "data = []")
  case True
  then show ?thesis
    using assms(1) by (auto simp: ec200_at_read_exact_def handle_ready_def rx_take_buffered_def holding_def
        sourced_def read_exact_loop.simps)
next
  case False
  obtain w where w: "rd (length data) (poll_slice t) (user_ctx h) = (int (length data), data, w)" "live w"
    "pending w = bs"
    using read_some [of "user_ctx h" "length data" "poll_slice t"] assms(1) False
    by (auto simp: holding_def sourced_def)
  have "read_exact_loop h buf (length data) 0 t =
      Some (h\<lparr>user_ctx := w\<rparr>, EC200_OK, data @ drop (length data) buf, length data)"
    using w assms False
    by (subst read_exact_loop.simps, subst read_exact_loop.simps)
      (simp add: Let_def holding_def sourced_def cast_u16_small mem_store_def)
  then show ?thesis
    using assms(1) w by (auto simp: ec200_at_read_exact_def handle_ready_def rx_take_buffered_def holding_def
        sourced_def)
qed

lemma final_held:
  assumes "holding live pending rd h (crlf [[], ''OK''] @ bs)"
  shows "\<exists>h'. ec200_at_wait_final h t = Some (h', EC200_OK) \<and> holding live pending rd h' bs"
proof -
  have c: "clean_line ''OK''" by (simp add: clean_line_def size_defs)
  obtain h1 where h1: "rx_line h t = Some (h1, RX_OK [], t)" "holding live pending rd h1 (''OK'' @ CR # LF # bs)"
    using line_held [OF _ clean_Nil, of h _ t] assms by auto
  obtain h2 where "rx_line h1 t = Some (h2, RX_OK ''OK'', t)" "holding live pending rd h2 bs"
    using line_held [OF h1(2) c, of t] by auto
  then show ?thesis
    using h1 assms
    by (auto simp: ec200_at_wait_final_def handle_ready_def holding_def sourced_def EC200_AT_MAX_LINES_def
        numeral_eq_Suc is_terminal_def)
qed

end

section \<open>The two socket kinds\<close>

definition recv_prefix :: "bool \<Rightarrow> string" where
  "recv_prefix tls = (if tls then ''+QSSLRECV'' else ''+QIRD'')"

definition recv_command :: "bool \<Rightarrow> nat \<Rightarrow> nat \<Rightarrow> string" where
  "recv_command tls conn_id max_len =
     snprintf 32 ((if tls then ''AT+QSSLRECV='' else ''AT+QIRD='') @ show_nat conn_id @ '','' @ show_nat max_len)"

definition socket_recv ::
    "bool \<Rightarrow> 'w ec200_handle \<Rightarrow> nat \<Rightarrow> char list option \<Rightarrow> nat \<Rightarrow> nat option \<Rightarrow> nat
     \<Rightarrow> ('w ec200_handle \<times> ec200_status \<times> char list option \<times> nat option) option" where
  "socket_recv tls = (if tls then ec200_ssl_socket_recv else ec200_tcp_recv)"

text \<open>The answer of the module: blank lines, the header, the raw bytes, the final line.\<close>

definition recv_answer :: "bool \<Rightarrow> nat \<Rightarrow> char list \<Rightarrow> char list" where
  "recv_answer tls blanks data =
     crlf (replicate blanks []) @ result_line (recv_prefix tls) [FInt (int (length data))] @ [CR, LF] @
     data @ crlf [[], ''OK'']"

lemma recv_header:
  assumes "n < 65536"
  shows "clean_line (result_line (recv_prefix tls) [FInt (int n)])"
    "result_line (recv_prefix tls) [FInt (int n)] \<noteq> []"
    "prefix_hit (Some (recv_prefix tls @ '':'')) (result_line (recv_prefix tls) [FInt (int n)])"
    "length (result_line (recv_prefix tls) [FInt (int n)]) < 48"
    "ec200_at_parse_int_field (result_line (recv_prefix tls) [FInt (int n)]) 0 = Some (int n)"
proof -
  have len: "length (show_nat n) \<le> 5" using assms by (intro show_nat_length) simp_all
  then show "length (result_line (recv_prefix tls) [FInt (int n)]) < 48"
    by (simp add: result_line_def recv_prefix_def show_int_nat)
  then show "clean_line (result_line (recv_prefix tls) [FInt (int n)])"
    by (auto simp: clean_line_def result_line_def recv_prefix_def show_int_nat size_defs is_digit_def
        dest!: show_nat_set)
  show "ec200_at_parse_int_field (result_line (recv_prefix tls) [FInt (int n)]) 0 = Some (int n)"
    using parse_result_line [of "[FInt (int n)]" "recv_prefix tls" 0] assms
    by (simp add: recv_prefix_def is_int_def int_max_def int_min_def)
qed (simp_all add: result_line_def recv_prefix_def prefix_hit_def)

lemma tape_holding:
  assumes "length cmd < 511"
  shows "\<exists>h1. at_transmit (tape_handle bs) cmd = Some (h1, EC200_OK) \<and>
    holding (\<lambda>_. True) fst tape_read h1 bs"
proof -
  have "cast_u16 (1 + int (length cmd)) = Suc (length cmd)"
    using assms by (simp add: cast_u16_small)
  then show ?thesis
    using assms
    by (simp add: at_transmit_def ec200_at_write_raw_def handle_ready_def reset_error_state_def Let_def
        snprintf_def size_defs write_loop.simps tape_write_def tape_handle_def fresh_handle_def
        holding_def sourced_def)
qed

section \<open>Properties\<close>

text \<open>
  C13. Receiving from a TCP or a TLS socket is transparent: when the module answers the command
  with blank lines, a header that announces n bytes, n raw bytes of any value and the final line,
  the call returns OK with exactly these bytes at the start of the caller's array, the rest of
  the array untouched, the count n, and the transport right behind the final line. The bytes may
  look like line ends, final lines or headers.
\<close>

theorem socket_recv_exact:
  assumes "byte_source live pending rd" and "initialised h" and "conn_id < EC200_MAX_CONNECTIONS"
    and "at_transmit h (recv_command tls conn_id max_len) = Some (h1, EC200_OK)"
    and "holding live pending rd h1 (recv_answer tls blanks data @ rest)" and "blanks < 64"
    and "length data \<le> max_len" "max_len < 65536" "max_len \<le> length buf" "0 < max_len"
  shows "\<exists>h'. socket_recv tls h conn_id (Some buf) max_len (Some k) t =
      Some (h', EC200_OK, Some (data @ drop (length data) buf), Some (length data)) \<and>
    holding live pending rd h' rest"
proof -
  let ?hdr = "result_line (recv_prefix tls) [FInt (int (length data))]"
  note hdr = recv_header [of "length data" tls]
  have n: "length data < 65536" using assms(7,8) by simp
  let ?sz = "if tls then 48 else 64 :: nat" and ?bs = "crlf [[], ''OK''] @ rest"
  have pend: "holding live pending rd h1 (crlf (replicate blanks []) @ ?hdr @ CR # LF # data @ ?bs)"
    using assms(5) by (simp add: recv_answer_def)
  have copy: "copy_line ?hdr (Some (?sz, [])) = Some (?sz, ?hdr)"
    using hdr(4) [OF n] by (cases tls) (simp_all add: copy_line_def copy_trunc_fits)
  obtain h2 where "receive_transaction h1 (Some (recv_prefix tls @ '':'')) True (Some (?sz, [])) t =
      Some (h2, EC200_OK, Some (?sz, ?hdr))" and h2: "holding live pending rd h2 (data @ ?bs)"
    using byte_source.header_held [OF assms(1) pend assms(6) hdr(1-3) [OF n], of "Some (?sz, [])" t] copy
    by (auto simp: receive_transaction_def EC200_AT_MAX_LINES_def clear_buf_def)
  then have head: "ec200_at_send_expect h (Some (recv_command tls conn_id max_len))
      (Some (recv_prefix tls @ '':'')) (char_buf ?sz) t = Some (h2, EC200_OK, Some (?sz, ?hdr))"
    using assms(2,4) by (simp add: ec200_at_send_expect_def handle_ready_def char_buf_def)
  obtain h3 where h3: "ec200_at_read_exact h2 (Some buf) (length data) t (Some 0) =
      Some (h3, EC200_OK, Some (data @ drop (length data) buf), Some (length data))"
    "holding live pending rd h3 ?bs"
    using byte_source.exact_held [OF assms(1) h2, of buf t] assms(7,9) n by auto
  obtain h4 where h4: "ec200_at_wait_final h3 EC200_AT_TIMEOUT_DEFAULT = Some (h4, EC200_OK)"
    "holding live pending rd h4 rest"
    using byte_source.final_held [OF assms(1) h3(2)] by blast
  obtain h5 where h5: "ec200_at_wait_final h2 EC200_AT_TIMEOUT_DEFAULT = Some (h5, EC200_OK)"
    "holding live pending rd h5 rest" if "data = []"
    using byte_source.final_held [OF assms(1), of h2 rest EC200_AT_TIMEOUT_DEFAULT] h2
    by (cases "data = []") auto
  have "socket_recv tls h conn_id (Some buf) max_len (Some k) t =
      Some (if data = [] then h5 else h4, EC200_OK, Some (data @ drop (length data) buf), Some (length data))"
    using assms(3,7,10) head h3(1) h4(1) h5(1) hdr(5) [OF n] n
    by (auto simp: socket_recv_def ec200_tcp_recv_def ec200_ssl_socket_recv_def recv_command_def
        recv_prefix_def buf_text_def cast_u16_small)
  then show ?thesis using h4(2) h5(2) by (auto split: if_splits)
qed

theorem socket_recv_exact_witness:
  "\<exists>h' n. ec200_tcp_recv (tape_handle (recv_answer False 1 ([CR, LF] @ ''OK'' @ [CR, LF]) @ crlf [''+QIURC: 1'']))
        0 (Some (replicate 8 NUL)) 8 (Some 3) 1000 =
      Some (h', EC200_OK, Some ([CR, LF] @ ''OK'' @ [CR, LF, NUL, NUL]), Some n) \<and> n = 6 \<and>
    fst (user_ctx h') = crlf [''+QIURC: 1'']"
proof -
  let ?data = "[CR, LF] @ ''OK'' @ [CR, LF]" and ?rest = "crlf [''+QIURC: 1'']"
  let ?h = "tape_handle (recv_answer False 1 ?data @ ?rest)"
  have "length (recv_command False 0 8) < 511" by (simp add: recv_command_def snprintf_def)
  from tape_holding [OF this, of "recv_answer False 1 ?data @ ?rest"]
  obtain h1 where h1: "at_transmit ?h (recv_command False 0 8) = Some (h1, EC200_OK)"
    "holding (\<lambda>_. True) fst tape_read h1 (recv_answer False 1 ?data @ ?rest)" by blast
  have "initialised ?h" by (simp add: tape_handle_def fresh_handle_def)
  then have "\<exists>h'. socket_recv False ?h 0 (Some (replicate 8 NUL)) 8 (Some 3) 1000 =
      Some (h', EC200_OK, Some (?data @ drop (length ?data) (replicate 8 NUL)), Some (length ?data)) \<and>
    holding (\<lambda>_. True) fst tape_read h' ?rest"
    by (intro socket_recv_exact [OF tps.byte_source_axioms _ _ h1]) (simp_all add: size_defs)
  moreover have "drop (length ?data) (replicate 8 NUL) = [NUL, NUL]"
    by (simp add: numeral_eq_Suc)
  ultimately show ?thesis by (auto simp: socket_recv_def holding_def simp del: crlf_simps)
qed

end
