(* ===== verification/Ec200_Returns.thy ===== *)
theory Ec200_Returns
  imports Ec200_Registration Ec200_Api
begin

text \<open>
  Every call of the public interface returns on a transport that has finitely many bytes to
  deliver: the contract of \<open>Ec200_Term\<close> carried to all operations of the modules. Where the
  C code would leave defined behaviour (an index outside a table, a conversion of a float that does
  not fit) the argument is restricted accordingly.
\<close>

lemma sms_list_loop_returns: "c \<le> length ms \<Longrightarrow> k \<le> length ms \<Longrightarrow> sms_list_loop line ms c k \<noteq> None"
proof (induction "length line" arbitrary: line ms c rule: less_induct)
  case less
  have "sms_list_loop (tl nl) ms1 c1 k \<noteq> None"
    if "strchr x LF = Some nl" "length x \<le> length line" "c1 \<le> length ms1" "k \<le> length ms1" for nl x ms1 c1
    using less.hyps [OF _ that(3,4)] strchr_length [OF that(1)] that(2) by (cases nl) auto
  moreover have "length (tl nl) \<le> length line" if "strchr line LF = Some nl" for nl
    using strchr_length [OF that] by (cases nl) auto
  ultimately show ?case
    using less.prems by (auto simp: sms_list_loop.simps [of line ms c k] Let_def split: option.splits)
qed

section \<open>The operations\<close>

context transport
begin

lemmas returns_parts = returns_body returns_plain returns_let returns_sms_submit

lemma returns_core:
  "good h \<Longrightarrow> returns good (ec200_check_at h)"
  "good h \<Longrightarrow> returns good (ec200_set_echo h e2)"
  "good h \<Longrightarrow> returns good (ec200_set_cmee h m3)"
  "good h \<Longrightarrow> returns good (ec200_get_imei h b4)"
  "good h \<Longrightarrow> returns good (ec200_get_fw_version h b5)"
  "good h \<Longrightarrow> returns good (ec200_get_module_info h b6)"
  unfolding ec200_check_at_def ec200_set_echo_def ec200_set_cmee_def ec200_get_imei_def
    get_string_response_def ec200_get_fw_version_def ec200_get_module_info_def
  by (intro returns_parts; auto simp: size_defs cast_u16_bound)+

lemma returns_sim:
  "good h \<Longrightarrow> returns good (ec200_sim_get_status h s1)"
  "good h \<Longrightarrow> returns good (ec200_sim_enter_pin h p2)"
  "good h \<Longrightarrow> returns good (ec200_sim_get_imsi h b3)"
  "good h \<Longrightarrow> returns good (ec200_sim_get_iccid h b4)"
  unfolding ec200_sim_get_status_def ec200_sim_enter_pin_def ec200_sim_get_imsi_def
    ec200_sim_get_iccid_def
  by (intro returns_parts; auto simp: size_defs cast_u16_bound)+

lemma returns_net:
  "good h \<Longrightarrow> returns good (ec200_net_get_creg h s1)"
  "good h \<Longrightarrow> returns good (ec200_net_get_cgreg h s2)"
  "good h \<Longrightarrow> returns good (ec200_net_get_cereg h s3)"
  "good h \<Longrightarrow> returns good (ec200_net_get_signal h s4)"
  "good h \<Longrightarrow> returns good (ec200_net_get_operator h i5)"
  "good h \<Longrightarrow> returns good (ec200_net_set_operator h m6 f6 oper6 act6)"
  "good h \<Longrightarrow> returns good (ec200_net_get_info h i7)"
  "good h \<Longrightarrow> returns good (ec200_net_get_spn h n8)"
  "good h \<Longrightarrow> returns good (ec200_net_set_attached h a9)"
  "good h \<Longrightarrow> returns good (ec200_net_is_attached h a10)"
  unfolding ec200_net_get_creg_def get_reg_def ec200_net_get_cgreg_def ec200_net_get_cereg_def
    ec200_net_get_signal_def ec200_net_get_operator_def ec200_net_set_operator_def
    ec200_net_get_info_def ec200_net_get_spn_def ec200_net_set_attached_def
    ec200_net_is_attached_def
  by (intro returns_parts; auto simp: size_defs cast_u16_bound)+

lemma returns_net_ext:
  "good h \<Longrightarrow> returns good (ec200_net_get_signal_ext h s1)"
  unfolding ec200_net_get_signal_ext_def
  by (intro returns_parts returns_net(4); auto simp: size_defs cast_u16_bound)+

lemma returns_sms:
  "good h \<Longrightarrow> returns good (ec200_sms_set_format h f1)"
  "good h \<Longrightarrow> returns good (ec200_sms_send h n2 t2)"
  "good h \<Longrightarrow> returns good (ec200_sms_write h n3 t3 v3)"
  "good h \<Longrightarrow> returns good (ec200_sms_send_stored h i4 v4)"
  "good h \<Longrightarrow> returns good (ec200_sms_read h i5 m5)"
  "good h \<Longrightarrow> returns good (ec200_sms_delete h i6)"
  "good h \<Longrightarrow> returns good (ec200_sms_delete_all h f7)"
  "good h \<Longrightarrow> returns good (ec200_sms_set_storage h a8 b8 c8 u8)"
  "good h \<Longrightarrow> returns good (ec200_sms_get_storage h u9)"
  "good h \<Longrightarrow> returns good (ec200_sms_set_smsc h n10)"
  "good h \<Longrightarrow> returns good (ec200_sms_get_smsc h b11)"
  "good h \<Longrightarrow> returns good (ec200_sms_set_indication h c12)"
  "good h \<Longrightarrow> returns good (ec200_sms_get_indication h c13)"
  unfolding ec200_sms_set_format_def ec200_sms_send_def ec200_sms_write_def ec200_sms_send_stored_def
    ec200_sms_read_def ec200_sms_delete_def ec200_sms_delete_all_def ec200_sms_set_storage_def
    ec200_sms_get_storage_def ec200_sms_set_smsc_def ec200_sms_get_smsc_def
    ec200_sms_set_indication_def ec200_sms_get_indication_def
  by (intro returns_parts; auto simp: size_defs cast_u16_bound)+

lemma returns_data:
  "good h \<Longrightarrow> (\<And>x. c1 = Some x \<Longrightarrow> 0 \<le> pdp_type x) \<Longrightarrow> returns good (ec200_data_set_pdp h c1)"
  "good h \<Longrightarrow> returns good (ec200_data_activate h c2)"
  "good h \<Longrightarrow> returns good (ec200_data_deactivate h c3)"
  "good h \<Longrightarrow> returns good (ec200_data_get_ip h c4 b4)"
  unfolding ec200_data_set_pdp_def ec200_data_activate_def ec200_data_deactivate_def
    ec200_data_get_ip_def
  by (intro returns_parts; auto simp: size_defs cast_u16_bound)+

lemma returns_tcp:
  "good h \<Longrightarrow> 0 \<le> t1 \<Longrightarrow> returns good (ec200_tcp_open h c1 i1 t1 host1 p1 a1)"
  "good h \<Longrightarrow> returns good (ec200_tcp_close h i2)"
  "good h \<Longrightarrow> returns good (ec200_tcp_send h i3 d3 l3)"
  "good h \<Longrightarrow> returns good (ec200_tcp_recv h i4 b4 m4 n4 t4)"
  "good h \<Longrightarrow> returns good (ec200_tcp_get_state h i5 s5)"
  "good h \<Longrightarrow> returns good (ec200_tcp_bytes_available h i6 n6)"
  "good h \<Longrightarrow> returns good (ec200_tcp_dns_resolve h c7 host7 ip7 t7)"
  unfolding ec200_tcp_open_def ec200_tcp_close_def ec200_tcp_send_def ec200_tcp_recv_def
    ec200_tcp_get_state_def ec200_tcp_bytes_available_def ec200_tcp_dns_resolve_def
  by (intro returns_parts; auto simp: size_defs cast_u16_bound)+

lemma returns_ssl:
  "good h \<Longrightarrow> returns good (ec200_ssl_set_seclevel h c1 l1)"
  "good h \<Longrightarrow> returns good (ec200_ssl_socket_open h p2 c2 i2 host2 port2)"
  "good h \<Longrightarrow> returns good (ec200_ssl_socket_send h i3 d3 l3)"
  "good h \<Longrightarrow> returns good (ec200_ssl_socket_recv h i4 b4 m4 n4 t4)"
  "good h \<Longrightarrow> returns good (ec200_ssl_socket_close h i5)"
  unfolding ec200_ssl_set_seclevel_def ec200_ssl_socket_open_def ec200_ssl_socket_send_def
    ec200_ssl_socket_recv_def ec200_ssl_socket_close_def
  by (intro returns_parts; auto simp: size_defs cast_u16_bound)+

lemma returns_file:
  "good h \<Longrightarrow> returns good (ec200_file_upload h n1 d1 l1 c1)"
  "good h \<Longrightarrow> returns good (ec200_file_delete h n2)"
  "good h \<Longrightarrow> returns good (ec200_file_exists h n3 e3)"
  "good h \<Longrightarrow> returns good (ec200_file_size h n4 s4)"
  "good h \<Longrightarrow> returns good (ec200_file_storage_info h s5)"
  unfolding ec200_file_upload_def ec200_file_delete_def ec200_file_exists_def qflst_size_def
    ec200_file_size_def ec200_file_storage_info_def
  by (intro returns_parts; auto simp: size_defs cast_u16_bound)+

lemma returns_http:
  "good h \<Longrightarrow> returns good (ec200_http_set_context h c1)"
  "good h \<Longrightarrow> returns good (ec200_http_set_ssl_context h c2)"
  "good h \<Longrightarrow> returns good (ec200_http_set_url h u3)"
  "good h \<Longrightarrow> returns good (ec200_http_stop h)"
  "good h \<Longrightarrow> returns good (ec200_http_get h t5 r5)"
  "good h \<Longrightarrow> returns good (ec200_http_post h b6 l6 c6 t6 r6)"
  unfolding ec200_http_set_context_def ec200_http_set_ssl_context_def ec200_http_set_url_def
    ec200_http_stop_def ec200_http_get_def ec200_http_post_def
  by (intro returns_parts; auto simp: size_defs cast_u16_bound)+

lemma returns_mqtt:
  "good h \<Longrightarrow> returns good (ec200_mqtt_open h c1)"
  "good h \<Longrightarrow> returns good (ec200_mqtt_connect h c2)"
  "good h \<Longrightarrow> returns good (ec200_mqtt_disconnect h i3)"
  "good h \<Longrightarrow> returns good (ec200_mqtt_close h i4)"
  "good h \<Longrightarrow> returns good (ec200_mqtt_subscribe h i5 m5 t5 q5)"
  "good h \<Longrightarrow> returns good (ec200_mqtt_unsubscribe h i6 m6 t6)"
  "good h \<Longrightarrow> returns good (ec200_mqtt_publish h i7 m7 q7 r7 t7 d7 l7)"
  unfolding ec200_mqtt_open_def qmt_command_def ec200_mqtt_connect_def ec200_mqtt_disconnect_def
    ec200_mqtt_close_def ec200_mqtt_subscribe_def ec200_mqtt_unsubscribe_def
    ec200_mqtt_publish_def
  by (intro returns_parts; auto simp: size_defs cast_u16_bound)+

lemma returns_time:
  "good h \<Longrightarrow> returns good (ec200_time_get h d1)"
  "good h \<Longrightarrow> returns good (ec200_time_get_network h d2)"
  "good h \<Longrightarrow> returns good (ec200_time_set h d3)"
  "good h \<Longrightarrow> returns good (ec200_time_set_auto_update h e4)"
  "good h \<Longrightarrow> returns good (ec200_time_sync_ntp h c5 s5 p5 t5)"
  unfolding ec200_time_get_def query_timestamp_def ec200_time_get_network_def ec200_time_set_def
    ec200_time_set_auto_update_def ec200_time_sync_ntp_def
  by (intro returns_parts; auto simp: size_defs cast_u16_bound)+

lemma returns_power:
  "good h \<Longrightarrow> returns good (ec200_power_set_cfun h l1 r1)"
  "good h \<Longrightarrow> returns good (ec200_power_get_cfun h l2)"
  "good h \<Longrightarrow> returns good (ec200_power_down h n3)"
  "good h \<Longrightarrow> returns good (ec200_power_set_sleep h e4)"
  "good h \<Longrightarrow> returns good (ec200_psm_disable h)"
  "good h \<Longrightarrow> returns good (ec200_psm_get h c6)"
  "good h \<Longrightarrow> returns good (ec200_edrx_disable h a7)"
  "good h \<Longrightarrow> returns good (ec200_edrx_get h c8)"
  "good h \<Longrightarrow> returns good (ec200_edrx_get_dynamic h c9)"
  unfolding ec200_power_set_cfun_def ec200_power_get_cfun_def ec200_power_down_def
    ec200_power_set_sleep_def ec200_psm_disable_def ec200_psm_get_def ec200_edrx_disable_def
    ec200_edrx_get_def ec200_edrx_get_dynamic_def
  by (intro returns_parts; auto simp: size_defs cast_u16_bound)+

lemma returns_power_set:
  "good h \<Longrightarrow> returns good (ec200_power_reset h)"
  "good h \<Longrightarrow> returns good (ec200_psm_set h c2)"
  "good h \<Longrightarrow> returns good (ec200_edrx_set h c3)"
  unfolding ec200_power_reset_def ec200_psm_set_def ec200_edrx_set_def
  by (intro returns_parts returns_power(1,5,7); auto simp: size_defs cast_u16_bound)+

lemma returns_gnss:
  "good h \<Longrightarrow> returns good (ec200_gnss_start h)"
  "good h \<Longrightarrow> returns good (ec200_gnss_stop h)"
  "good h \<Longrightarrow> returns good (ec200_gnss_get_status h e3)"
  "good h \<Longrightarrow> returns good (ec200_gnss_set_nmea_output h n4)"
  unfolding ec200_gnss_start_def ec200_gnss_stop_def ec200_gnss_get_status_def
    ec200_gnss_set_nmea_output_def
  by (intro returns_parts; auto simp: size_defs cast_u16_bound)+

lemma returns_net_wait_registered:
  "good h \<Longrightarrow> unat t \<le> 4294965296 \<Longrightarrow> returns good (ec200_net_wait_registered h t)"
  by (rule good_returns [OF _ cfgr.keeps_wait_registered])
    (use wait_loop_returns [of h t 0] in \<open>auto simp: ec200_net_wait_registered_def\<close>)

lemma returns_sms_list:
  assumes "good h" "0 \<le> s" "\<And>ms. m = Some ms \<Longrightarrow> k \<le> length ms"
  shows "returns good (ec200_sms_list h s m k c)"
proof -
  have "sms_list_loop x (the m) 0 k \<noteq> None" if "m \<noteq> None" for x
    using that assms(3) by (intro sms_list_loop_returns) auto
  then show ?thesis
    unfolding ec200_sms_list_def using assms(1,2)
    by (intro returns_body) (auto simp del: not_None_eq)
qed

lemma returns_and_then:
  "returns good m \<Longrightarrow> (\<And>h. good h \<Longrightarrow> returns good (k h)) \<Longrightarrow> returns good (and_then m k)"
  unfolding and_then_def by (intro returns_body)

lemma returns_ssl_configure: "good h \<Longrightarrow> returns good (ec200_ssl_configure h c)"
proof -
  have n: "good h \<Longrightarrow> returns good (cfg_num h ctx key v)" for h ctx key v
    unfolding cfg_num_def by (intro returns_plain)
  have f: "good h \<Longrightarrow> returns good (cfg_file_opt h ctx key v)" for h ctx key v
    unfolding cfg_file_opt_def cfg_file_def by (intro returns_body returns_plain)
  have s: "good h \<Longrightarrow> returns good (cfg_ciphersuite h ctx v)" for h ctx v
    unfolding cfg_ciphersuite_def by (intro returns_plain)
  show "good h \<Longrightarrow> returns good (ec200_ssl_configure h c)"
    unfolding ec200_ssl_configure_def
    by (intro returns_option returns_if returns_Some returns_and_then n f s returns_let)
qed

lemma returns_gnss_get_location:
  "good h \<Longrightarrow> (\<And>v. fo_tenths fo v \<noteq> None) \<Longrightarrow> returns good (ec200_gnss_get_location fo h loc)"
  unfolding ec200_gnss_get_location_def gps_location_def
  by (intro returns_body returns_let) (auto simp del: not_None_eq split: option.splits intro: returns_Some)

lemma returns_ppp:
  "good h \<Longrightarrow> returns good (ec200_ppp_dial h cid)" "good h \<Longrightarrow> returns good (ec200_ppp_resume h)"
  "good h \<Longrightarrow> returns good (ec200_ppp_hangup h)" "good h \<Longrightarrow> returns good (ec200_ppp_escape h)"
  "good h \<Longrightarrow> returns good (ec200_ppp_disconnect h)"
proof -
  show "good h \<Longrightarrow> returns good (ec200_ppp_dial h cid)" "good h \<Longrightarrow> returns good (ec200_ppp_resume h)" for h
    unfolding ec200_ppp_dial_def ec200_ppp_resume_def by (intro returns_body; simp)+
  show hang: "good h \<Longrightarrow> returns good (ec200_ppp_hangup h)" for h
    unfolding ec200_ppp_hangup_def by (intro returns_body returns_plain)
  show esc: "good h \<Longrightarrow> returns good (ec200_ppp_escape h)" for h
    unfolding ec200_ppp_escape_def delay_by_def by (intro returns_body returns_let) simp_all
  show "good h \<Longrightarrow> returns good (ec200_ppp_disconnect h)"
    unfolding ec200_ppp_disconnect_def by (intro returns_if returns_seq [OF esc] hang returns_Some)
qed

lemmas returns_api =
  returns_at_ops returns_core returns_sim returns_net returns_net_ext returns_net_wait_registered returns_sms
  returns_sms_list returns_data returns_data_connect returns_tcp returns_ping returns_ssl returns_ssl_configure
  returns_file returns_http returns_http_read returns_mqtt returns_time returns_power returns_power_set
  returns_gnss returns_gnss_get_location returns_ppp

end

section \<open>Property\<close>

text \<open>
  C5. No call of the library can hang on its own: on a transport that at any moment has only
  finitely many bytes to deliver, and with handlers that bring no new input, initialisation and
  every call of every module end with a status, whatever the bytes are. The arguments are those for
  which the C code is defined: a message array of at least the count that is passed, socket and
  context types that are not negative, floats that can be converted, and for the registration wait
  a timeout that leaves room for its last step of two seconds.
\<close>

theorem api_calls_return:
  assumes "transport rem rd wr" and "connected rem rd wr h" and "pdp_type pdp \<ge> 0" and "typ \<ge> 0" and "st \<ge> 0"
    and "\<forall>xs. ms = Some xs \<longrightarrow> k \<le> length xs" and "unat t \<le> 4294965296" and "\<forall>v. fo_tenths fo v \<noteq> None"
  shows "ec200_init h0 (Some wr) (Some rd) (Some dl) w \<noteq> None \<and>
    ec200_net_wait_registered h t \<noteq> None \<and> ec200_sms_list h st ms k c \<noteq> None \<and>
    ec200_gnss_get_location fo h loc \<noteq> None \<and>
    ec200_data_set_pdp h (Some pdp) \<noteq> None \<and>
    ec200_data_connect h (Some pdp) \<noteq> None \<and>
    ec200_tcp_open h c1 i1 typ host1 p1 a1 \<noteq> None \<and>
    ec200_tcp_ping h cx target cnt pres tping \<noteq> None \<and> ec200_http_read h buf m t2 \<noteq> None \<and>
    ec200_ssl_configure h sc \<noteq> None \<and> ec200_check_at h \<noteq> None \<and>
    ec200_set_echo h e1 \<noteq> None \<and> ec200_set_cmee h m1 \<noteq> None \<and>
    ec200_get_imei h b1 \<noteq> None \<and> ec200_get_fw_version h b2 \<noteq> None \<and>
    ec200_get_module_info h b3 \<noteq> None \<and> ec200_sim_get_status h s1 \<noteq> None \<and>
    ec200_sim_enter_pin h p2 \<noteq> None \<and> ec200_sim_get_imsi h b4 \<noteq> None \<and>
    ec200_sim_get_iccid h b5 \<noteq> None \<and> ec200_net_get_creg h s2 \<noteq> None \<and>
    ec200_net_get_cgreg h s3 \<noteq> None \<and> ec200_net_get_cereg h s4 \<noteq> None \<and>
    ec200_net_get_signal h s5 \<noteq> None \<and> ec200_net_get_operator h i2 \<noteq> None \<and>
    ec200_net_set_operator h m2 f1 oper1 act1 \<noteq> None \<and>
    ec200_net_get_info h i3 \<noteq> None \<and> ec200_net_get_spn h n1 \<noteq> None \<and>
    ec200_net_set_attached h a2 \<noteq> None \<and> ec200_net_is_attached h a3 \<noteq> None \<and>
    ec200_net_get_signal_ext h s6 \<noteq> None \<and> ec200_sms_set_format h f2 \<noteq> None \<and>
    ec200_sms_send h n2 t3 \<noteq> None \<and> ec200_sms_write h n3 t4 v1 \<noteq> None \<and>
    ec200_sms_send_stored h i4 v2 \<noteq> None \<and> ec200_sms_read h i5 m3 \<noteq> None \<and>
    ec200_sms_delete h i6 \<noteq> None \<and> ec200_sms_delete_all h f3 \<noteq> None \<and>
    ec200_sms_set_storage h a4 b6 c2 u1 \<noteq> None \<and>
    ec200_sms_get_storage h u2 \<noteq> None \<and> ec200_sms_set_smsc h n4 \<noteq> None \<and>
    ec200_sms_get_smsc h b7 \<noteq> None \<and> ec200_sms_set_indication h c3 \<noteq> None \<and>
    ec200_sms_get_indication h c4 \<noteq> None \<and> ec200_data_activate h c5 \<noteq> None \<and>
    ec200_data_deactivate h c6 \<noteq> None \<and> ec200_data_get_ip h c7 b8 \<noteq> None \<and>
    ec200_tcp_close h i7 \<noteq> None \<and> ec200_tcp_send h i8 d1 l1 \<noteq> None \<and>
    ec200_tcp_recv h i9 b9 m4 n5 t5 \<noteq> None \<and>
    ec200_tcp_get_state h i10 s7 \<noteq> None \<and>
    ec200_tcp_bytes_available h i11 n6 \<noteq> None \<and>
    ec200_tcp_dns_resolve h c8 host2 ip1 t6 \<noteq> None \<and>
    ec200_ssl_set_seclevel h c9 l2 \<noteq> None \<and>
    ec200_ssl_socket_open h p3 c10 i12 host3 port1 \<noteq> None \<and>
    ec200_ssl_socket_send h i13 d2 l3 \<noteq> None \<and>
    ec200_ssl_socket_recv h i14 b10 m5 n7 t7 \<noteq> None \<and>
    ec200_ssl_socket_close h i15 \<noteq> None \<and>
    ec200_file_upload h n8 d3 l4 c11 \<noteq> None \<and> ec200_file_delete h n9 \<noteq> None \<and>
    ec200_file_exists h n10 e2 \<noteq> None \<and> ec200_file_size h n11 s8 \<noteq> None \<and>
    ec200_file_storage_info h s9 \<noteq> None \<and> ec200_http_set_context h c12 \<noteq> None \<and>
    ec200_http_set_ssl_context h c13 \<noteq> None \<and> ec200_http_set_url h u3 \<noteq> None \<and>
    ec200_http_stop h \<noteq> None \<and> ec200_http_get h t8 r1 \<noteq> None \<and>
    ec200_http_post h b11 l5 c14 t9 r2 \<noteq> None \<and> ec200_mqtt_open h c15 \<noteq> None \<and>
    ec200_mqtt_connect h c16 \<noteq> None \<and> ec200_mqtt_disconnect h i16 \<noteq> None \<and>
    ec200_mqtt_close h i17 \<noteq> None \<and> ec200_mqtt_subscribe h i18 m6 t10 q1 \<noteq> None \<and>
    ec200_mqtt_unsubscribe h i19 m7 t11 \<noteq> None \<and>
    ec200_mqtt_publish h i20 m8 q2 r3 t12 d4 l6 \<noteq> None \<and>
    ec200_time_get h d5 \<noteq> None \<and> ec200_time_get_network h d6 \<noteq> None \<and>
    ec200_time_set h d7 \<noteq> None \<and> ec200_time_set_auto_update h e3 \<noteq> None \<and>
    ec200_time_sync_ntp h c17 s10 p4 t13 \<noteq> None \<and>
    ec200_power_set_cfun h l7 r4 \<noteq> None \<and> ec200_power_get_cfun h l8 \<noteq> None \<and>
    ec200_power_down h n12 \<noteq> None \<and> ec200_power_set_sleep h e4 \<noteq> None \<and>
    ec200_psm_disable h \<noteq> None \<and> ec200_psm_get h c18 \<noteq> None \<and>
    ec200_edrx_disable h a5 \<noteq> None \<and> ec200_edrx_get h c19 \<noteq> None \<and>
    ec200_edrx_get_dynamic h c20 \<noteq> None \<and> ec200_power_reset h \<noteq> None \<and>
    ec200_psm_set h c21 \<noteq> None \<and> ec200_edrx_set h c22 \<noteq> None \<and>
    ec200_gnss_start h \<noteq> None \<and> ec200_gnss_stop h \<noteq> None \<and>
    ec200_gnss_get_status h e5 \<noteq> None \<and>
    ec200_gnss_set_nmea_output h n13 \<noteq> None \<and> ec200_ppp_dial h cid \<noteq> None \<and>
    ec200_ppp_resume h \<noteq> None \<and> ec200_ppp_hangup h \<noteq> None \<and>
    ec200_ppp_escape h \<noteq> None \<and> ec200_ppp_disconnect h \<noteq> None"
proof -
  have "\<exists>h' st. ec200_init h0 (Some wr) (Some rd) (Some dl) w = Some (h', st)"
    by (rule transport.returns_init [OF assms(1) refl])
  then have init: "ec200_init h0 (Some wr) (Some rd) (Some dl) w \<noteq> None" by auto
  have "\<And>xs. ms = Some xs \<Longrightarrow> k \<le> length xs" "\<And>v. fo_tenths fo v \<noteq> None"
      "\<And>x. Some pdp = Some x \<Longrightarrow> 0 \<le> pdp_type x"
    using assms(3,6,8) by simp_all
  then show ?thesis
    using assms
    by (intro conjI init returns_not_None [where P = "connected rem rd wr"] transport.returns_api [OF assms(1)])
qed

theorem api_calls_return_witness:
  "ec200_tcp_open (lb_handle lb_reset) 1 0 0 (Some ''a'') 80 0 \<noteq> None \<and>
   ec200_net_wait_registered (lb_handle lb_reset) 60000 \<noteq> None"
proof -
  have "connected (\<lambda>lb. length (lb_rx lb)) lb_read lb_write (lb_handle lb_reset)"
    by (simp add: connected_def calm_def free_urc_entry_def)
  then show ?thesis
    using api_calls_return [OF lbf.transport_axioms, of "lb_handle lb_reset"
        "\<lparr>pdp_cid = 1, pdp_type = 0, pdp_apn = [], pdp_username = [], pdp_password = [],
          pdp_ip_addr = []\<rparr>" 0 0 None 0 60000
        "\<lparr>fo_scan = strtol, fo_zero = 0, fo_tenths = \<lambda>v. Some (nat v)\<rparr>"]
    by (simp del: not_None_eq)
qed

end
