(* ===== verification/Ec200_Examples.thy ===== *)
theory Ec200_Examples
  imports Ec200_Http Ec200_Data Ec200_Network Ec200_Sms Ec200_Gnss
begin

text \<open>
  The two example applications, \<^verbatim>\<open>examples/wrapper_template.c\<close> and
  \<^verbatim>\<open>examples/esp_idf/main/ec200_demo_main.c\<close>: callers of the library that run a
  bring-up sequence and print what they find. The outside world of their handle is the console
  together with the rest of the platform; the drivers of ESP-IDF are parameters. An automatic
  variable the program has not written yet holds an arbitrary value, a component of
  \<open>junk\<close>. A store outside an array and a failed \<^verbatim>\<open>ESP_ERROR_CHECK\<close> are outcomes of
  their own.
\<close>

section \<open>Console and outcomes\<close>

definition EC200_MAX_IMEI_LEN :: nat where "EC200_MAX_IMEI_LEN = 16"
definition EC200_MAX_IMSI_LEN :: nat where "EC200_MAX_IMSI_LEN = 16"

record 'e app =
  app_console :: string
  app_env :: 'e

definition app_print :: "string \<Rightarrow> ('e, 'z) app_scheme \<Rightarrow> ('e, 'z) app_scheme" where
  "app_print s w = w\<lparr>app_console := app_console w @ s\<rparr>"

definition say ::
    "string \<Rightarrow> ('e, 'z) app_scheme ec200_handle \<Rightarrow> ('e, 'z) app_scheme ec200_handle" where
  "say s h = h\<lparr>user_ctx := app_print s (user_ctx h)\<rparr>"

definition pad_right :: "nat \<Rightarrow> string \<Rightarrow> string" where
  "pad_right n s = s @ replicate (n - length s) CHR '' ''"

datatype 'a run = Go 'a | OutOfBounds | Aborted

definition store_at :: "char list \<Rightarrow> nat \<Rightarrow> char \<Rightarrow> char list option" where
  "store_at a i c = (if i < length a then Some (a[i := c]) else None)"

definition status_text :: "ec200_status \<Rightarrow> string" where
  "status_text st = the (ec200_status_str (status_code st))"

text \<open>The UTF-8 bytes of the dash in two messages.\<close>

definition em_dash :: string where
  "em_dash = [CHR 0xE2, CHR 0x80, CHR 0x94]"

section \<open>Callbacks of the template\<close>

text \<open>The stubs as they are shipped: output to the console, no input, a delay without effect.\<close>

definition my_uart_write :: "'e app write_fn" where
  "my_uart_write data w = (int (length data), app_print data w)"

definition my_uart_read :: "'e app read_fn" where
  "my_uart_read len timeout_ms w = (0, [], w)"

definition my_delay_ms :: "'e app delay_fn" where
  "my_delay_ms ms w = w"

definition my_urc_handler :: "string \<Rightarrow> 'e app \<Rightarrow> 'e app" where
  "my_urc_handler urc w = app_print (''[URC] '' @ urc @ [LF]) w"

section \<open>The template's application\<close>

text \<open>The automatic variables of \<^verbatim>\<open>main\<close> that are not initialised.\<close>

record 'f junk =
  j_text :: string
  j_sim :: ec200_sim_status
  j_signal :: ec200_signal_quality
  j_http :: ec200_http_response
  j_body :: "char list"
  j_location :: "'f ec200_gnss_location"

text \<open>The zero-initialised static handle before \<open>ec200_init\<close>.\<close>

definition static_handle ::
    "'w write_fn \<Rightarrow> 'w read_fn \<Rightarrow> 'w delay_fn \<Rightarrow> 'w \<Rightarrow> 'w ec200_handle" where
  "static_handle wr rd dl w =
     (fresh_handle wr rd dl w)\<lparr>initialised := False, last_cme_error := 0, last_cms_error := 0\<rparr>"

definition wrapper_identify ::
    "'f junk \<Rightarrow> 'e app ec200_handle \<Rightarrow> ('e app ec200_handle) option" where
  "wrapper_identify j h = do {
     (h, st, imei) \<leftarrow> ec200_get_imei h (Some (EC200_MAX_IMEI_LEN, j_text j));
     let h = (if st = EC200_OK then say (''IMEI: '' @ buf_text imei @ [LF]) h else h);
     (h, st, fw) \<leftarrow> ec200_get_fw_version h (Some (EC200_MAX_FW_VER_LEN, j_text j));
     Some (if st = EC200_OK then say (''FW : '' @ buf_text fw @ [LF]) h else h)
   }"

definition wrapper_sim ::
    "'f junk \<Rightarrow> 'e app ec200_handle \<Rightarrow> ('e app ec200_handle) option" where
  "wrapper_sim j h = do {
     (h, st, sim) \<leftarrow> ec200_sim_get_status h (Some (j_sim j));
     if st = EC200_OK \<and> sim = Some EC200_SIM_READY then do {
       (h, _, imsi) \<leftarrow> ec200_sim_get_imsi h (Some (EC200_MAX_IMSI_LEN, j_text j));
       Some (say (''IMSI: '' @ buf_text imsi @ [LF]) h)
     }
     else Some h
   }"

text \<open>The signal report ignores the status and prints the variable in any case.\<close>

definition wrapper_signal ::
    "'f junk \<Rightarrow> 'e app ec200_handle \<Rightarrow> ('e app ec200_handle) option" where
  "wrapper_signal j h = do {
     (h, _, sq) \<leftarrow> ec200_net_get_signal h (Some (j_signal j));
     Some (say (''RSSI: '' @ show_int (sq_rssi (the sq)) @ '' dBm'' @ [LF]) h)
   }"

definition wrapper_pdp :: ec200_pdp_context where
  "wrapper_pdp = \<lparr>pdp_cid = 1, pdp_type = 0, pdp_apn = ''internet'', pdp_username = [],
     pdp_password = [], pdp_ip_addr = []\<rparr>"

definition wrapper_connect ::
    "'e app ec200_handle \<Rightarrow> ('e app ec200_handle) option" where
  "wrapper_connect h = do {
     (h, st, pdp) \<leftarrow> ec200_data_connect h (Some wrapper_pdp);
     Some (if st = EC200_OK then say (''IP: '' @ pdp_ip_addr (the pdp) @ [LF]) h else h)
   }"

text \<open>\<open>uint8_t body[512]\<close> is passed with one byte kept back for the terminator.\<close>

definition wrapper_fetch ::
    "'f junk \<Rightarrow> 'e app ec200_handle \<Rightarrow> ('e app ec200_handle) run option" where
  "wrapper_fetch j h = do {
     (h, _) \<leftarrow> ec200_http_set_context h (pdp_cid wrapper_pdp);
     (h, _) \<leftarrow> ec200_http_set_url h (Some ''http://httpbin.org/get'');
     (h, st, resp) \<leftarrow> ec200_http_get h 30000 (Some (j_http j));
     if st = EC200_OK then do {
       let h = say (''HTTP '' @ show_nat (http_status_code (the resp)) @ '', body '' @
                 show_nat (http_content_length (the resp)) @ '' bytes'' @ [LF]) h;
       (h, st, body, body_len) \<leftarrow>
         ec200_http_read h (Some (take (512 - 1) (j_body j))) (Some 0) 10000;
       if st = EC200_OK then
         (case store_at (the body @ drop (512 - 1) (j_body j)) (the body_len) NUL of
            None \<Rightarrow> Some OutOfBounds
          | Some b \<Rightarrow> Some (Go (say (''Body: '' @ cstr b @ [LF]) h)))
       else Some (Go h)
     }
     else Some (Go h)
   }"

definition wrapper_position ::
    "'f float_ops \<Rightarrow> ('f \<Rightarrow> nat \<Rightarrow> string) \<Rightarrow> 'e app delay_fn \<Rightarrow> 'f junk
     \<Rightarrow> 'e app ec200_handle \<Rightarrow> ('e app ec200_handle) option" where
  "wrapper_position fo show_float delay j h = do {
     (h, _) \<leftarrow> ec200_gnss_start h;
     let h = h\<lparr>user_ctx := delay 5000 (user_ctx h)\<rparr>;
     (h, st, loc) \<leftarrow> ec200_gnss_get_location fo h (Some (j_location j));
     let h = (if st = EC200_OK \<and> loc_fix_valid (the loc)
              then say (''Location: '' @ show_float (loc_latitude (the loc)) 6 @ '', '' @
                     show_float (loc_longitude (the loc)) 6 @ ''  Alt: '' @
                     show_float (loc_altitude (the loc)) 1 @ '' m'' @ [LF]) h
              else h);
     (h, _) \<leftarrow> ec200_gnss_stop h;
     Some h
   }"

text \<open>The value \<^verbatim>\<open>main\<close> returns comes with the final handle.\<close>

definition wrapper_main ::
    "'f float_ops \<Rightarrow> ('f \<Rightarrow> nat \<Rightarrow> string) \<Rightarrow> 'f junk \<Rightarrow> 'e app write_fn \<Rightarrow> 'e app read_fn
     \<Rightarrow> 'e app delay_fn \<Rightarrow> 'e app \<Rightarrow> ('e app ec200_handle \<times> int) run option" where
  "wrapper_main fo show_float j wr rd dl w = do {
     (h, st) \<leftarrow> ec200_init (static_handle wr rd dl w) (Some wr) (Some rd) (Some dl) w;
     if st \<noteq> EC200_OK
     then Some (Go (say (''ec200_init failed: '' @ status_text st @ [LF]) h, -1))
     else do {
       let h = ec200_set_urc_handler h (Some my_urc_handler);
       (h, _) \<leftarrow> ec200_set_cmee h 2;
       h \<leftarrow> wrapper_identify j h;
       h \<leftarrow> wrapper_sim j h;
       let h = say (''Waiting for network registration...'' @ [LF]) h;
       (h, st) \<leftarrow> ec200_net_wait_registered h 60000;
       if st \<noteq> EC200_OK then Some (Go (say (''Registration timed out.'' @ [LF]) h, -1))
       else do {
         let h = say (''Registered!'' @ [LF]) h;
         h \<leftarrow> wrapper_signal j h;
         h \<leftarrow> wrapper_connect h;
         r \<leftarrow> wrapper_fetch j h;
         case r of
           Go h \<Rightarrow> do {
             (h, _) \<leftarrow> ec200_http_stop h;
             (h, _) \<leftarrow> ec200_sms_set_format h 1;
             (h, _) \<leftarrow> ec200_sms_send h (Some ''+1234567890'') (Some ''Hello from EC200!'');
             h \<leftarrow> wrapper_position fo show_float dl j h;
             Some (Go (h, 0))
           }
         | OutOfBounds \<Rightarrow> Some OutOfBounds
         | Aborted \<Rightarrow> Some Aborted
       }
     }
   }"

section \<open>The ESP-IDF board\<close>

text \<open>
  The drivers the two ESP-IDF programs call, none of which is part of the repository: each takes the
  values the program passes and the state of the platform. The remaining fields of the
  configuration structures are constants.
\<close>

record 'e esp_idf =
  idf_gpio_config :: "nat \<Rightarrow> 'e \<Rightarrow> int \<times> 'e"
  idf_gpio_set_level :: "nat \<Rightarrow> nat \<Rightarrow> 'e \<Rightarrow> 'e"
  idf_uart_driver_install :: "nat \<Rightarrow> 'e \<Rightarrow> int \<times> 'e"
  idf_uart_param_config :: "nat \<Rightarrow> 'e \<Rightarrow> int \<times> 'e"
  idf_uart_set_pin :: "nat \<Rightarrow> nat \<Rightarrow> 'e \<Rightarrow> int \<times> 'e"
  idf_uart_write_bytes :: "char list \<Rightarrow> 'e \<Rightarrow> int \<times> 'e"
  idf_uart_read_bytes :: "nat \<Rightarrow> nat \<Rightarrow> 'e \<Rightarrow> int \<times> char list \<times> 'e"
  idf_task_delay :: "nat \<Rightarrow> 'e \<Rightarrow> 'e"
  idf_ms_to_ticks :: "nat \<Rightarrow> nat"

definition MODEM_UART_TX_PIN :: nat where "MODEM_UART_TX_PIN = 8"
definition MODEM_UART_RX_PIN :: nat where "MODEM_UART_RX_PIN = 19"
definition MODEM_UART_BAUD :: nat where "MODEM_UART_BAUD = 115200"
definition MODEM_RX_BUF_BYTES :: nat where "MODEM_RX_BUF_BYTES = 4096"
definition MODEM_PWRKEY_GPIO :: nat where "MODEM_PWRKEY_GPIO = 9"
definition MODEM_RESET_GPIO :: nat where "MODEM_RESET_GPIO = 10"
definition MODEM_PWRKEY_PULSE_MS :: nat where "MODEM_PWRKEY_PULSE_MS = 750"
definition MODEM_BOOT_WAIT_MS :: nat where "MODEM_BOOT_WAIT_MS = 15000"

definition modem_write :: "'e esp_idf \<Rightarrow> ('e, 'z) app_scheme write_fn" where
  "modem_write idf data w =
     (case idf_uart_write_bytes idf data (app_env w) of (n, e) \<Rightarrow> (n, w\<lparr>app_env := e\<rparr>))"

definition modem_read :: "'e esp_idf \<Rightarrow> ('e, 'z) app_scheme read_fn" where
  "modem_read idf len timeout_ms w =
     (case idf_uart_read_bytes idf len (idf_ms_to_ticks idf timeout_ms) (app_env w) of
        (n, d, e) \<Rightarrow> (n, d, w\<lparr>app_env := e\<rparr>))"

definition modem_delay :: "'e esp_idf \<Rightarrow> ('e, 'z) app_scheme delay_fn" where
  "modem_delay idf ms w =
     w\<lparr>app_env := idf_task_delay idf (idf_ms_to_ticks idf ms) (app_env w)\<rparr>"

definition demo_urc_handler :: "string \<Rightarrow> 'e app \<Rightarrow> 'e app" where
  "demo_urc_handler urc w = app_print (''[URC] '' @ urc @ [LF]) w"

definition set_level ::
    "'e esp_idf \<Rightarrow> nat \<Rightarrow> nat \<Rightarrow> ('e, 'z) app_scheme \<Rightarrow> ('e, 'z) app_scheme" where
  "set_level idf pin v w = w\<lparr>app_env := idf_gpio_set_level idf pin v (app_env w)\<rparr>"

text \<open>\<open>ESP_ERROR_CHECK\<close>: any result but \<open>ESP_OK\<close> aborts the program.\<close>

definition esp_check ::
    "('e \<Rightarrow> int \<times> 'e) \<Rightarrow> ('e, 'z) app_scheme \<Rightarrow> (('e, 'z) app_scheme) option" where
  "esp_check f w =
     (case f (app_env w) of (rc, e) \<Rightarrow> if rc = 0 then Some (w\<lparr>app_env := e\<rparr>) else None)"

definition modem_power_on :: "'e esp_idf \<Rightarrow> 'e app \<Rightarrow> ('e app) option" where
  "modem_power_on idf w = do {
     w \<leftarrow> esp_check (idf_gpio_config idf (2 ^ MODEM_PWRKEY_GPIO + 2 ^ MODEM_RESET_GPIO)) w;
     let w = set_level idf MODEM_RESET_GPIO 0 w;
     let w = set_level idf MODEM_PWRKEY_GPIO 0 w;
     let w = modem_delay idf 100 w;
     let w = app_print (''Pulsing PWRKEY ('' @ show_nat MODEM_PWRKEY_PULSE_MS @ '' ms)...'' @ [LF]) w;
     let w = set_level idf MODEM_PWRKEY_GPIO 1 w;
     let w = modem_delay idf MODEM_PWRKEY_PULSE_MS w;
     Some (set_level idf MODEM_PWRKEY_GPIO 0 w)
   }"

section \<open>The demonstration\<close>

definition report :: "string \<Rightarrow> ec200_status \<Rightarrow> 'e app ec200_handle \<Rightarrow> 'e app ec200_handle" where
  "report step st h =
     say (pad_right 24 step @ '' '' @ status_text st @
          (if st = EC200_ERR_CME
           then '' (+CME ERROR: '' @ show_int (ec200_at_last_cme_error h) @ '')''
           else if st = EC200_ERR_CMS
           then '' (+CMS ERROR: '' @ show_int (ec200_at_last_cms_error h) @ '')''
           else []) @ [LF]) h"

definition demo_uart_setup :: "'e esp_idf \<Rightarrow> 'e app \<Rightarrow> ('e app) option" where
  "demo_uart_setup idf w = do {
     w \<leftarrow> esp_check (idf_uart_driver_install idf MODEM_RX_BUF_BYTES) w;
     w \<leftarrow> esp_check (idf_uart_param_config idf MODEM_UART_BAUD) w;
     esp_check (idf_uart_set_pin idf MODEM_UART_TX_PIN MODEM_UART_RX_PIN) w
   }"

text \<open>The boot loop probes until the module answers or \<open>waited\<close> reaches the limit.\<close>

function boot_loop ::
    "'e esp_idf \<Rightarrow> nat \<Rightarrow> 'e app ec200_handle \<Rightarrow> ec200_status
     \<Rightarrow> ('e app ec200_handle \<times> ec200_status) option" where
  "boot_loop idf waited h st =
     (if waited < MODEM_BOOT_WAIT_MS then do {
        (h, st) \<leftarrow> ec200_init h (Some (modem_write idf)) (Some (modem_read idf))
                     (Some (modem_delay idf)) (user_ctx h);
        if st = EC200_OK
        then Some (say (''  module answered after ~'' @ show_nat (waited div 1000) @ '' s'' @ [LF]) h,
                   st)
        else boot_loop idf (waited + 1000)
               (h\<lparr>user_ctx := modem_delay idf 1000 (user_ctx h)\<rparr>) st
      }
      else Some (h, st))"
  by pat_completeness auto
termination by (relation "measure (\<lambda>(idf, waited, h, st). MODEM_BOOT_WAIT_MS - waited)") auto

declare boot_loop.simps [simp del]

definition demo_identify ::
    "'e app ec200_handle \<Rightarrow> ('e app ec200_handle) option" where
  "demo_identify h = do {
     (h, st) \<leftarrow> ec200_set_cmee h 2;
     let h = report ''cmee=2'' st h;
     (h, st, imei) \<leftarrow> ec200_get_imei h (char_buf EC200_MAX_IMEI_LEN);
     let h = report ''imei'' st h;
     let h = (if st = EC200_OK then say (''  IMEI: '' @ buf_text imei @ [LF]) h else h);
     (h, st, fw) \<leftarrow> ec200_get_fw_version h (char_buf EC200_MAX_FW_VER_LEN);
     let h = report ''firmware'' st h;
     Some (if st = EC200_OK then say (''  FW: '' @ buf_text fw @ [LF]) h else h)
   }"

text \<open>\<open>static uint8_t body[1025]\<close>, passed with one byte kept back.\<close>

definition demo_body :: "char list" where
  "demo_body = replicate 1025 NUL"

definition demo_fetch ::
    "'f junk \<Rightarrow> 'e app ec200_handle \<Rightarrow> ('e app ec200_handle) run option" where
  "demo_fetch j h = do {
     (h, st) \<leftarrow> ec200_http_set_context h 1;
     let h = report ''http ctx'' st h;
     (h, st) \<leftarrow> ec200_http_set_url h (Some ''http://example.com/'');
     let h = report ''http url'' st h;
     (h, st, hr) \<leftarrow> ec200_http_get h 30000 (Some (j_http j));
     let h = report ''http get'' st h;
     if st = EC200_OK then do {
       let h = say (''  HTTP '' @ show_nat (http_status_code (the hr)) @ '', content length '' @
                 show_nat (http_content_length (the hr)) @ [LF]) h;
       (h, st, body, got) \<leftarrow>
         ec200_http_read h (Some (take (1025 - 1) demo_body)) (Some 0) 15000;
       let h = report ''http read'' st h;
       case store_at (the body @ drop (1025 - 1) demo_body) (the got) NUL of
         None \<Rightarrow> Some OutOfBounds
       | Some b \<Rightarrow>
           Some (Go (say (''  body ('' @ show_nat (the got) @ '' bytes): '' @ take 120 (cstr b) @
             ''...'' @ [LF]) h))
     }
     else Some (Go h)
   }"

definition demo_pdp :: ec200_pdp_context where
  "demo_pdp = \<lparr>pdp_cid = 1, pdp_type = 0, pdp_apn = [], pdp_username = [], pdp_password = [],
     pdp_ip_addr = []\<rparr>"

text \<open>What the demonstration does once the SIM is ready.\<close>

definition demo_online ::
    "'f junk \<Rightarrow> ec200_operator_info \<Rightarrow> 'e app ec200_handle \<Rightarrow> ('e app ec200_handle) run option"
    where
  "demo_online j op0 h = do {
     let h = say (''Waiting for network registration (60 s max)...'' @ [LF]) h;
     (h, st) \<leftarrow> ec200_net_wait_registered h 60000;
     let h = report ''register'' st h;
     (h, sst, sq) \<leftarrow> ec200_net_get_signal_ext h (Some (j_signal j));
     let h = (if sst = EC200_OK
              then say (''  RSSI '' @ show_int (sq_rssi (the sq)) @ '' dBm, RSRP '' @
                     show_int (sq_rsrp (the sq)) @ '' dBm'' @ [LF]) h
              else h);
     if st \<noteq> EC200_OK then Some (Go h)
     else do {
       (h, ost, op) \<leftarrow> ec200_net_get_operator h (Some op0);
       let h = (if ost = EC200_OK
                then say (''  Operator: '' @ quoted (op_name (the op)) @ '' (AcT '' @
                       show_int (op_act (the op)) @ '')'' @ [LF]) h
                else h);
       (h, st, pdp) \<leftarrow> ec200_data_connect h (Some demo_pdp);
       let h = report ''pdp connect'' st h;
       if st \<noteq> EC200_OK then Some (Go h)
       else demo_fetch j (say (''  IP: '' @ pdp_ip_addr (the pdp) @ [LF]) h)
     }
   }"

text \<open>
  \<^verbatim>\<open>app_main\<close> up to its poll loop. The flag tells whether it got there; otherwise it
  halted because the module did not answer.
\<close>

definition sim_number :: "ec200_sim_status \<Rightarrow> int" where
  "sim_number s = (case s of EC200_SIM_READY \<Rightarrow> 0 | EC200_SIM_PIN_REQUIRED \<Rightarrow> 1
     | EC200_SIM_PUK_REQUIRED \<Rightarrow> 2 | EC200_SIM_PIN2_REQUIRED \<Rightarrow> 3 | EC200_SIM_PUK2_REQUIRED \<Rightarrow> 4
     | EC200_SIM_NOT_INSERTED \<Rightarrow> 5 | EC200_SIM_UNKNOWN \<Rightarrow> 255)"

definition demo_main ::
    "'e esp_idf \<Rightarrow> 'f junk \<Rightarrow> ec200_operator_info \<Rightarrow> 'e app
     \<Rightarrow> ('e app ec200_handle \<times> bool) run option" where
  "demo_main idf j op0 w =
     (case demo_uart_setup idf w of
        None \<Rightarrow> Some Aborted
      | Some w \<Rightarrow>
          (let w = app_print ([LF] @ ''EC200 demo (library v1.1.0) '' @ em_dash @
                     '' isolated_dcu_esp32'' @ [LF, LF]) w in
           case modem_power_on idf w of
             None \<Rightarrow> Some Aborted
           | Some w \<Rightarrow> do {
               let w = app_print (''Waiting for the module to boot (max '' @
                         show_nat (MODEM_BOOT_WAIT_MS div 1000) @ '' s)...'' @ [LF]) w;
               (h, st) \<leftarrow> boot_loop idf 0
                 (static_handle (modem_write idf) (modem_read idf) (modem_delay idf) w)
                 EC200_ERR_TIMEOUT;
               let h = report ''init'' st h;
               if st \<noteq> EC200_OK
               then Some (Go (say (''Modem not responding '' @ em_dash @
                      '' check 12V supply, SIM, wiring. Halting.'' @ [LF]) h, False))
               else do {
                 let h = ec200_set_urc_handler h (Some demo_urc_handler);
                 h \<leftarrow> demo_identify h;
                 (h, st, sim) \<leftarrow> ec200_sim_get_status h (Some EC200_SIM_UNKNOWN);
                 let h = report ''sim status'' st h;
                 let h = say (''  SIM state: '' @ show_int (sim_number (the sim)) @ [LF]) h;
                 r \<leftarrow> (if sim = Some EC200_SIM_READY then demo_online j op0 h else Some (Go h));
                 case r of
                   Go h \<Rightarrow> Some (Go (say ([LF] @ ''Entering URC poll loop.'' @ [LF]) h, True))
                 | OutOfBounds \<Rightarrow> Some OutOfBounds
                 | Aborted \<Rightarrow> Some Aborted
               }
             }))"

text \<open>\<open>n\<close> rounds of the endless loop that ends \<^verbatim>\<open>app_main\<close>.\<close>

fun demo_poll ::
    "'e esp_idf \<Rightarrow> nat \<Rightarrow> 'e app ec200_handle \<Rightarrow> ('e app ec200_handle) option" where
  "demo_poll idf 0 h = Some h"
| "demo_poll idf (Suc n) h = do {
     (h, _) \<leftarrow> ec200_at_poll_urc h 100;
     demo_poll idf n (h\<lparr>user_ctx := modem_delay idf 10 (user_ctx h)\<rparr>)
   }"

end
