(* ===== verification/Ec200_Harness.thy ===== *)
theory Ec200_Harness
  imports Ec200_Examples Ec200_Sim Ec200_File Ec200_Tcpip Ec200_Mqtt Ec200_Power Ec200_Time Ec200_Ssl Ec200_Ppp
begin

text \<open>
  The on-target test harness, \<^verbatim>\<open>examples/esp_idf/main/ec200_test_harness.c\<close>: its
  counters, output and board access, and the tests of identification, error reporting, SIM,
  network, data contexts, sockets, HTTP and MQTT. The static variables of the program are part
  of the outside world of its handle. Every test is a function of the handle that follows the
  C function call by call; \<open>ck_call\<close> and \<open>ck_out\<close> are the expression
  \<open>ck_st (desc, call, want)\<close> for a call without and with an out-parameter. The value of
  an automatic variable that is read before it is written comes from \<open>locals\<close>.
\<close>

section \<open>The state of the harness\<close>

record 'e rig = "'e app" +
  g_pass :: nat
  g_fail :: nat
  g_skip :: nat
  s_got_msg :: bool
  s_msg_topic :: string
  g_sms_dest :: string
  g_sms_dest_is_self :: bool
  g_sms_dest_resolved :: bool

type_synonym 'e bench = "'e rig ec200_handle"

definition set_world :: "('w \<Rightarrow> 'w) \<Rightarrow> 'w ec200_handle \<Rightarrow> 'w ec200_handle" where
  "set_world f h = h\<lparr>user_ctx := f (user_ctx h)\<rparr>"

text \<open>What the automatic variables of a function hold before they are written, by name.\<close>

record 'f locals =
  l_text :: "string \<Rightarrow> string"
  l_bytes :: "string \<Rightarrow> char list"
  l_nat :: "string \<Rightarrow> nat"
  l_sim :: ec200_sim_status
  l_reg :: ec200_reg_status
  l_signal :: ec200_signal_quality
  l_operator :: ec200_operator_info
  l_socket :: ec200_socket
  l_http :: ec200_http_response
  l_messages :: "string \<Rightarrow> ec200_sms_message list"
  l_message :: "string \<Rightarrow> ec200_sms_message"
  l_storage :: "string \<Rightarrow> ec200_sms_storage"
  l_cnmi :: ec200_sms_cnmi
  l_note :: ec200_sms_notification
  l_psm :: "string \<Rightarrow> ec200_psm_config"
  l_edrx :: "string \<Rightarrow> ec200_edrx_config"
  l_edrx_dynamic :: ec200_edrx_dynamic
  l_location :: "'f ec200_gnss_location"
  l_info :: ec200_network_info
  l_ping :: ec200_ping_result
  l_datetime :: ec200_datetime
  l_files :: ec200_file_storage
  l_cfun :: int

section \<open>Test results\<close>

definition ck :: "string \<Rightarrow> bool \<Rightarrow> 'e bench \<Rightarrow> 'e bench" where
  "ck desc ok h =
     (let h = say (''  ['' @ (if ok then ''PASS'' else ''FAIL'') @ ''] '' @ desc @ [LF]) h in
      if ok then set_world (\<lambda>w. w\<lparr>g_pass := g_pass w + 1\<rparr>) h
      else set_world (\<lambda>w. w\<lparr>g_fail := g_fail w + 1\<rparr>) h)"

definition ck_st :: "string \<Rightarrow> ec200_status \<Rightarrow> ec200_status \<Rightarrow> 'e bench \<Rightarrow> 'e bench" where
  "ck_st desc got want h =
     (let ok = (got = want);
          h = say (''  ['' @ (if ok then ''PASS'' else ''FAIL'') @ ''] '' @ desc @ '' (got '' @
                status_text got) h;
          h = (if got = EC200_ERR_CME then say ('':'' @ show_int (ec200_at_last_cme_error h)) h
               else h);
          h = (if got = EC200_ERR_CMS then say ('':'' @ show_int (ec200_at_last_cms_error h)) h
               else h);
          h = (if got = EC200_ERR_CME \<or> got = EC200_ERR_CMS
               then say ('' '' @ quoted (ec200_at_last_error_text h)) h else h);
          h = say ('')'' @ [LF]) h
      in if ok then set_world (\<lambda>w. w\<lparr>g_pass := g_pass w + 1\<rparr>) h
         else set_world (\<lambda>w. w\<lparr>g_fail := g_fail w + 1\<rparr>) h)"

definition ck_call ::
    "string \<Rightarrow> ('e bench \<times> ec200_status) option \<Rightarrow> ec200_status \<Rightarrow> ('e bench) option" where
  "ck_call desc call want = do {
     (h, st) \<leftarrow> call;
     Some (ck_st desc st want h)
   }"

definition ck_out ::
    "string \<Rightarrow> ('e bench \<times> ec200_status \<times> 'a) option \<Rightarrow> ec200_status \<Rightarrow> ('e bench \<times> 'a) option"
    where
  "ck_out desc call want = do {
     (h, st, out) \<leftarrow> call;
     Some (ck_st desc st want h, out)
   }"

definition skip :: "string \<Rightarrow> string \<Rightarrow> 'e bench \<Rightarrow> 'e bench" where
  "skip desc why h =
     set_world (\<lambda>w. w\<lparr>g_skip := g_skip w + 1\<rparr>)
       (say (''  [SKIP] '' @ desc @ '' ('' @ why @ '')'' @ [LF]) h)"

definition banner :: "string \<Rightarrow> 'e bench \<Rightarrow> 'e bench" where
  "banner md h = say ([LF] @ ''==== '' @ md @ '' ===='' @ [LF]) h"

text \<open>A line of detail below a result.\<close>

definition detail :: "string \<Rightarrow> 'e bench \<Rightarrow> 'e bench" where
  "detail s h = say (''        '' @ s @ [LF]) h"

section \<open>Board access\<close>

definition tx :: "'e esp_idf \<Rightarrow> 'e rig write_fn" where
  "tx idf d w =
     (case idf_uart_write_bytes idf d (app_env w) of (n, e) \<Rightarrow> (n, w\<lparr>app_env := e\<rparr>))"

definition rx :: "'e esp_idf \<Rightarrow> 'e rig read_fn" where
  "rx idf n tmo w =
     (case idf_uart_read_bytes idf n (idf_ms_to_ticks idf tmo) (app_env w) of
        (r, d, e) \<Rightarrow> (r, d, w\<lparr>app_env := e\<rparr>))"

definition dly :: "'e esp_idf \<Rightarrow> 'e rig delay_fn" where
  "dly idf ms w = w\<lparr>app_env := idf_task_delay idf (idf_ms_to_ticks idf ms) (app_env w)\<rparr>"

definition gpio_init :: "'e esp_idf \<Rightarrow> 'e rig \<Rightarrow> 'e rig" where
  "gpio_init idf w =
     (let w = w\<lparr>app_env := snd (idf_gpio_config idf (2 ^ 9 + 2 ^ 10) (app_env w))\<rparr>;
          w = set_level idf 10 0 w
      in set_level idf 9 0 w)"

definition pwrkey_pulse :: "'e esp_idf \<Rightarrow> 'e rig \<Rightarrow> 'e rig" where
  "pwrkey_pulse idf w =
     (let w = set_level idf 9 1 w; w = dly idf 750 w in set_level idf 9 0 w)"

text \<open>\<open>vTaskDelay (pdMS_TO_TICKS (ms))\<close> inside a test.\<close>

definition pause :: "'e esp_idf \<Rightarrow> nat \<Rightarrow> 'e bench \<Rightarrow> 'e bench" where
  "pause idf ms = set_world (dly idf ms)"

section \<open>Core and error reporting\<close>

text \<open>\<open>static char big[700]\<close>, filled with one letter and terminated.\<close>

definition big_command :: string where
  "big_command = replicate 699 CHR ''A''"

definition test_core :: "'f locals \<Rightarrow> 'e bench \<Rightarrow> ('e bench) option" where
  "test_core j h = do {
     let h = banner ''CORE / AT'' h;
     let buf = Some (64, l_text j ''buf'');
     h \<leftarrow> ck_call ''check_at'' (ec200_check_at h) EC200_OK;
     (h, buf) \<leftarrow> ck_out ''get_imei'' (ec200_get_imei h buf) EC200_OK;
     let h = detail (''IMEI='' @ buf_text buf) h;
     (h, buf) \<leftarrow> ck_out ''get_fw_version'' (ec200_get_fw_version h buf) EC200_OK;
     (h, buf) \<leftarrow> ck_out ''get_module_info'' (ec200_get_module_info h buf) EC200_OK;
     h \<leftarrow> ck_call ''set_cmee(2)'' (ec200_set_cmee h 2) EC200_OK;
     (h, _) \<leftarrow> ck_out ''imei NULL buf'' (ec200_get_imei h None) EC200_ERR_PARAM;
     h \<leftarrow> ck_call ''cmee bad mode'' (ec200_set_cmee h 9) EC200_ERR_PARAM;
     (h, buf) \<leftarrow> ck_out ''imei tiny buf -> OVERFLOW''
                   (ec200_get_imei h (Some (4, buf_text buf))) EC200_ERR_OVERFLOW;
     let h = ck ''status_str all codes''
               (ec200_status_str 0 \<noteq> None \<and> ec200_status_str (-123) \<noteq> None) h;
     (h, _) \<leftarrow> ck_out ''oversized cmd -> OVERFLOW'' (ec200_at_send h (Some big_command) None 1000)
                 EC200_ERR_OVERFLOW;
     ck_call ''engine alive after overflow'' (ec200_check_at h) EC200_OK
   }"

definition test_error_reporting :: "'f locals \<Rightarrow> 'e bench \<Rightarrow> ('e bench) option" where
  "test_error_reporting j h = do {
     let h = banner ''ERROR REPORTING'' h;
     h \<leftarrow> ck_call ''set_cmee(1) numeric'' (ec200_set_cmee h 1) EC200_OK;
     (h, s, sz) \<leftarrow> ec200_file_size h (Some ''no_such_file.pem'') (Some (l_nat j ''sz''));
     let code = ec200_at_last_cme_error h;
     let txt = ec200_at_last_error_text h;
     let h = detail (''CMEE=1 -> '' @ status_text s @ '' code='' @ show_int code @ '' text='' @
               quoted txt) h;
     let h = ck ''CMEE=1 gives a numeric code'' (s = EC200_ERR_CME \<and> code \<ge> 0) h;
     h \<leftarrow> ck_call ''set_cmee(2) verbose'' (ec200_set_cmee h 2) EC200_OK;
     (h, s, sz) \<leftarrow> ec200_file_size h (Some ''no_such_file.pem'') sz;
     let code = ec200_at_last_cme_error h;
     let txt = ec200_at_last_error_text h;
     let h = detail (''CMEE=2 -> '' @ status_text s @ '' code='' @ show_int code @ '' text='' @
               quoted txt) h;
     let h = ck ''CMEE=2 still classified as CME'' (s = EC200_ERR_CME) h;
     let h = ck ''CMEE=2 verbose text retained'' (txt \<noteq> []) h;
     Some (ck ''CMEE=2 reports -1, not a fake code 0''
             (code = -1 \<or> (txt \<noteq> [] \<and> is_digit (hd txt))) h)
   }"

section \<open>SIM and network\<close>

definition test_sim :: "'f locals \<Rightarrow> 'e bench \<Rightarrow> ('e bench) option" where
  "test_sim j h = do {
     let h = banner ''SIM'' h;
     let buf = Some (32, l_text j ''buf'');
     (h, sim) \<leftarrow> ck_out ''sim_get_status'' (ec200_sim_get_status h (Some (l_sim j))) EC200_OK;
     let h = detail (''SIM state='' @ show_int (sim_number (the sim)) @ '' (0=READY)'') h;
     (h, buf) \<leftarrow> ck_out ''sim_get_imsi'' (ec200_sim_get_imsi h buf) EC200_OK;
     let h = detail (''IMSI='' @ buf_text buf) h;
     (h, buf) \<leftarrow> ck_out ''sim_get_iccid'' (ec200_sim_get_iccid h buf) EC200_OK;
     let h = detail (''ICCID='' @ buf_text buf) h;
     (h, _) \<leftarrow> ck_out ''status NULL'' (ec200_sim_get_status h None) EC200_ERR_PARAM;
     h \<leftarrow> ck_call ''enter_pin NULL'' (ec200_sim_enter_pin h None) EC200_ERR_PARAM;
     h \<leftarrow> ck_call ''enter_pin too long'' (ec200_sim_enter_pin h (Some ''123456789'')) EC200_ERR_PARAM;
     (h, _) \<leftarrow> ck_out ''imsi tiny buf -> OVERFLOW''
                 (ec200_sim_get_imsi h (Some (3, buf_text buf))) EC200_ERR_OVERFLOW;
     Some h
   }"

definition reg_number :: "ec200_reg_status \<Rightarrow> int" where
  "reg_number r = (case r of EC200_REG_NOT_REGISTERED \<Rightarrow> 0 | EC200_REG_REGISTERED_HOME \<Rightarrow> 1
     | EC200_REG_SEARCHING \<Rightarrow> 2 | EC200_REG_DENIED \<Rightarrow> 3 | EC200_REG_UNKNOWN \<Rightarrow> 4
     | EC200_REG_REGISTERED_ROAMING \<Rightarrow> 5)"

definition test_network :: "'f locals \<Rightarrow> 'e bench \<Rightarrow> ('e bench) option" where
  "test_network j h = do {
     let h = banner ''NETWORK'' h;
     (h, rs) \<leftarrow> ck_out ''get_creg'' (ec200_net_get_creg h (Some (l_reg j))) EC200_OK;
     (h, rs) \<leftarrow> ck_out ''get_cgreg'' (ec200_net_get_cgreg h rs) EC200_OK;
     (h, rs) \<leftarrow> ck_out ''get_cereg'' (ec200_net_get_cereg h rs) EC200_OK;
     let h = detail (''cereg='' @ show_int (reg_number (the rs))) h;
     (h, sq) \<leftarrow> ck_out ''get_signal(CSQ)'' (ec200_net_get_signal h (Some (l_signal j))) EC200_OK;
     (h, sq) \<leftarrow> ck_out ''get_signal_ext(QCSQ)'' (ec200_net_get_signal_ext h sq) EC200_OK;
     let h = detail (''RSSI='' @ show_int (sq_rssi (the sq)) @ '' RSRP='' @
               show_int (sq_rsrp (the sq)) @ '' SINR='' @ show_int (sq_sinr (the sq))) h;
     (h, op) \<leftarrow> ck_out ''get_operator'' (ec200_net_get_operator h (Some (l_operator j))) EC200_OK;
     let h = detail (''oper='' @ quoted (op_name (the op)) @ '' act='' @
               show_int (op_act (the op))) h;
     (h, _) \<leftarrow> ck_out ''creg NULL'' (ec200_net_get_creg h None) EC200_ERR_PARAM;
     (h, _) \<leftarrow> ck_out ''signal NULL'' (ec200_net_get_signal h None) EC200_ERR_PARAM;
     ck_call ''wait_registered (already)'' (ec200_net_wait_registered h 5000) EC200_OK
   }"

section \<open>Data contexts and sockets\<close>

definition harness_pdp :: ec200_pdp_context where
  "harness_pdp = \<lparr>pdp_cid = 1, pdp_type = 0, pdp_apn = snprintf 64 ''internet'', pdp_username = [],
     pdp_password = [], pdp_ip_addr = []\<rparr>"

definition big_pdp :: ec200_pdp_context where
  "big_pdp = \<lparr>pdp_cid = 2, pdp_type = 0, pdp_apn = replicate 63 CHR ''X'', pdp_username = [],
     pdp_password = [], pdp_ip_addr = []\<rparr>"

definition test_data :: "'f locals \<Rightarrow> 'e bench \<Rightarrow> ('e bench) option" where
  "test_data j h = do {
     let h = banner ''DATA / PDP'' h;
     (h, pdp) \<leftarrow> ck_out ''data_connect'' (ec200_data_connect h (Some harness_pdp)) EC200_OK;
     let h = detail (''IP='' @ pdp_ip_addr (the pdp)) h;
     (h, ip) \<leftarrow> ck_out ''data_get_ip''
                 (ec200_data_get_ip h 1 (Some (EC200_MAX_IP_ADDR_LEN, l_text j ''ip''))) EC200_OK;
     h \<leftarrow> ck_call ''set_pdp NULL'' (ec200_data_set_pdp h None) EC200_ERR_PARAM;
     h \<leftarrow> ck_call ''bad cid 0'' (ec200_data_activate h 0) EC200_ERR_PARAM;
     h \<leftarrow> ck_call ''bad cid 17'' (ec200_data_activate h 17) EC200_ERR_PARAM;
     (h, _) \<leftarrow> ck_out ''get_ip bad cid'' (ec200_data_get_ip h 99 ip) EC200_ERR_PARAM;
     (h, s) \<leftarrow> ec200_data_set_pdp h (Some big_pdp);
     let h = ck ''oversized APN handled (no crash)''
               (s = EC200_OK \<or> s = EC200_ERR_CME \<or> s = EC200_ERR_MODULE) h;
     ck_call ''engine alive after big APN'' (ec200_check_at h) EC200_OK
   }"

definition TCP_HOST :: string where "TCP_HOST = ''tcpbin.com''"
definition TCP_PORT :: nat where "TCP_PORT = 4242"
definition EC200_ACCESS_BUFFER :: int where "EC200_ACCESS_BUFFER = 0"

definition tcp_binary :: "char list" where
  "tcp_binary = [CHR 0x00, CR, LF, CHR 0x1A, CHR 0xFF, CHR ''Z'', LF]"

text \<open>The terminator behind the echoed bytes, at most in the last byte of the array.\<close>

definition show_echo :: "char list \<Rightarrow> nat \<Rightarrow> 'e bench \<Rightarrow> ('e bench \<times> char list) run option" where
  "show_echo rbuf got h =
     (if got = 0 then Some (Go (h, rbuf))
      else case store_at rbuf (if got < 128 then got else 128 - 1) NUL of
             None \<Rightarrow> Some OutOfBounds
           | Some b \<Rightarrow> Some (Go (detail (''echo('' @ show_nat got @ '')='' @ take 20 (cstr b)) h, b)))"

text \<open>The rest of the test, with the buffer and the count the first reception left.\<close>

definition test_tcp_rest ::
    "'e esp_idf \<Rightarrow> char list \<Rightarrow> nat option \<Rightarrow> 'e bench \<Rightarrow> ('e bench) option" where
  "test_tcp_rest idf rbuf got h = do {
     h \<leftarrow> ck_call ''tcp_send binary+ctrl (transmit ok)''
            (ec200_tcp_send h 0 (Some tcp_binary) (length tcp_binary)) EC200_OK;
     let h = pause idf 1000 h;
     (h, _, _, got) \<leftarrow> ec200_tcp_recv h 0 (Some rbuf) 128 got 3000;
     let h = detail (''binary echo returned '' @ show_nat (the got) @ '' bytes (best-effort)'') h;
     h \<leftarrow> ck_call ''tcp_close'' (ec200_tcp_close h 0) EC200_OK;
     h \<leftarrow> ck_call ''open bad conn_id''
            (ec200_tcp_open h 1 99 EC200_SOCK_TCP (Some TCP_HOST) TCP_PORT EC200_ACCESS_BUFFER)
            EC200_ERR_PARAM;
     h \<leftarrow> ck_call ''open NULL host''
            (ec200_tcp_open h 1 0 EC200_SOCK_TCP None TCP_PORT EC200_ACCESS_BUFFER)
            EC200_ERR_PARAM;
     h \<leftarrow> ck_call ''send NULL data'' (ec200_tcp_send h 0 None 4) EC200_ERR_PARAM;
     (h, _) \<leftarrow> ck_out ''recv NULL buf'' (ec200_tcp_recv h 0 None 10 got 100) EC200_ERR_PARAM;
     Some h
   }"

definition test_tcp :: "'e esp_idf \<Rightarrow> 'f locals \<Rightarrow> 'e bench \<Rightarrow> ('e bench) run option" where
  "test_tcp idf j h = do {
     let h = banner ''TCP/IP'' h;
     h \<leftarrow> ck_call ''tcp_open echo''
            (ec200_tcp_open h 1 0 EC200_SOCK_TCP (Some TCP_HOST) TCP_PORT EC200_ACCESS_BUFFER)
            EC200_OK;
     (h, sk) \<leftarrow> ck_out ''tcp_get_state'' (ec200_tcp_get_state h 0 (Some (l_socket j))) EC200_OK;
     let h = detail (''connected='' @ show_nat (if sock_connected (the sk) then 1 else 0) @
               '' host='' @ sock_remote_host (the sk)) h;
     h \<leftarrow> ck_call ''tcp_send'' (ec200_tcp_send h 0 (Some (''hello'' @ [LF])) 6) EC200_OK;
     let h = pause idf 1500 h;
     (h, avail) \<leftarrow> ck_out ''tcp_bytes_available'' (ec200_tcp_bytes_available h 0 (Some 0)) EC200_OK;
     let h = detail (''bytes available='' @ show_nat (the avail)) h;
     (h, rs, rbuf, got) \<leftarrow> ec200_tcp_recv h 0 (Some (l_bytes j ''rbuf'')) 128 (Some 0) 5000;
     let h = ck ''tcp_recv got echo'' (rs = EC200_OK \<and> the got \<ge> 6) h;
     r \<leftarrow> show_echo (the rbuf) (the got) h;
     case r of
       Go (h, rbuf) \<Rightarrow> map_option Go (test_tcp_rest idf rbuf got h)
     | OutOfBounds \<Rightarrow> Some OutOfBounds
     | Aborted \<Rightarrow> Some Aborted
   }"

section \<open>HTTP\<close>

definition harness_body :: "char list" where
  "harness_body = replicate 1025 NUL"

definition long_url :: string where
  "long_url = ''http://'' @ replicate (EC200_MAX_URL_LEN + 64 - 8) CHR ''a''"

definition test_http :: "'f locals \<Rightarrow> 'e bench \<Rightarrow> ('e bench) option" where
  "test_http j h = do {
     let h = banner ''HTTP'' h;
     h \<leftarrow> ck_call ''set_context'' (ec200_http_set_context h 1) EC200_OK;
     h \<leftarrow> ck_call ''set_url'' (ec200_http_set_url h (Some ''http://httpbin.org/get'')) EC200_OK;
     (h, r) \<leftarrow> ck_out ''http_get'' (ec200_http_get h 30000 (Some (l_http j))) EC200_OK;
     let h = detail (''status='' @ show_nat (http_status_code (the r)) @ '' len='' @
               show_nat (http_content_length (the r))) h;
     (h, rs, _, got) \<leftarrow> ec200_http_read h (Some (take (1025 - 1) harness_body)) (Some 0) 15000;
     let h = ck ''http_read body'' ((rs = EC200_OK \<or> rs = EC200_ERR_OVERFLOW) \<and> the got > 0) h;
     (h, _) \<leftarrow> ec200_http_stop h;
     h \<leftarrow> ck_call ''set_url post'' (ec200_http_set_url h (Some ''http://httpbin.org/post'')) EC200_OK;
     (h, ps, r) \<leftarrow> ec200_http_post h (Some ''field=value'') 11 0 30000 r;
     let h = ck_st ''http_post'' ps EC200_OK h;
     let h = (if ps = EC200_OK
              then detail (''post status='' @ show_nat (http_status_code (the r))) h else h);
     h \<leftarrow> ck_call ''set_url NULL'' (ec200_http_set_url h None) EC200_ERR_PARAM;
     h \<leftarrow> ck_call ''set_context bad'' (ec200_http_set_context h 0) EC200_ERR_PARAM;
     (h, _) \<leftarrow> ck_out ''get NULL resp'' (ec200_http_get h 1000 None) EC200_ERR_PARAM;
     h \<leftarrow> ck_call ''oversized URL -> PARAM'' (ec200_http_set_url h (Some long_url)) EC200_ERR_PARAM;
     ck_call ''http_stop'' (ec200_http_stop h) EC200_OK
   }"

section \<open>MQTT\<close>

definition MQTT_HOST :: string where "MQTT_HOST = ''test.mosquitto.org''"

definition mqtt_cb :: "'e rig mqtt_msg_fn" where
  "mqtt_cb msg w =
     (let w = w\<lparr>s_msg_topic := snprintf EC200_MAX_TOPIC_LEN (msg_topic msg)\<rparr>;
          w = w\<lparr>s_got_msg := True\<rparr>
      in app_print (''        [URC] MQTT msg topic='' @ quoted (msg_topic msg) @ '' len='' @
           show_nat (msg_payload_len msg) @ [LF]) w)"

text \<open>The platform's random numbers; the identifier ends in the number with six digits.\<close>

definition random_id :: "('e \<Rightarrow> nat \<times> 'e) \<Rightarrow> string \<Rightarrow> 'e bench \<Rightarrow> string \<times> 'e bench" where
  "random_id esp_random base h =
     (case esp_random (app_env (user_ctx h)) of
        (r, e) \<Rightarrow> (snprintf 64 (base @ pad_left 6 CHR ''0'' (show_nat (r mod 1000000))),
                   set_world (\<lambda>w. w\<lparr>app_env := e\<rparr>) h))"

definition harness_mqtt_config :: "nat \<Rightarrow> string \<Rightarrow> bool \<Rightarrow> nat \<Rightarrow> ec200_mqtt_config" where
  "harness_mqtt_config port client_id tls ctx_id =
     \<lparr>mq_host = snprintf EC200_MAX_URL_LEN MQTT_HOST, mq_port = port, mq_client_id = client_id,
      mq_username = [], mq_password = [], mq_keep_alive = 0, mq_clean_session = False,
      mq_tcp_connect_id = 0, mq_client_idx = 0, mq_use_tls = tls, mq_ssl_ctx_id = ctx_id\<rparr>"

definition clear_got_msg :: "'e bench \<Rightarrow> 'e bench" where
  "clear_got_msg = set_world (\<lambda>w. w\<lparr>s_got_msg := False\<rparr>)"

text \<open>\<open>for (i = 0; i < n && !s_got_msg; i++) ec200_at_poll_urc (&m, 100)\<close>\<close>

fun poll_for_msg :: "nat \<Rightarrow> 'e bench \<Rightarrow> ('e bench) option" where
  "poll_for_msg 0 h = Some h"
| "poll_for_msg (Suc n) h =
     (if s_got_msg (user_ctx h) then Some h
      else do {
        (h, _) \<leftarrow> ec200_at_poll_urc h 100;
        poll_for_msg n h
      })"

fun poll_times :: "nat \<Rightarrow> 'e bench \<Rightarrow> ('e bench) option" where
  "poll_times 0 h = Some h"
| "poll_times (Suc n) h = do {
     (h, _) \<leftarrow> ec200_at_poll_urc h 100;
     poll_times n h
   }"

definition mqtt_binary :: "char list" where
  "mqtt_binary = [CHR ''A'', CHR 0x1A, CHR ''B'', CHR 0x00, CHR ''C'']"

text \<open>The probe for command injection through a topic with a line break.\<close>

definition probe_injection :: "'e bench \<Rightarrow> ('e bench) option" where
  "probe_injection h = do {
     (h, inj) \<leftarrow> ec200_mqtt_publish h 0 4 0 False (Some (''ec200hw/t'' @ [CR, LF] @ ''AT+CFUN=0''))
                  (Some ''x'') 1;
     let h = detail (''injection publish -> '' @ status_text inj) h;
     h \<leftarrow> poll_times 5 h;
     (h, _) \<leftarrow> ec200_check_at h;
     (h, cs, lvl) \<leftarrow> ec200_power_get_cfun h (Some 0);
     (h, _, rr) \<leftarrow> ec200_net_get_cereg h (Some EC200_REG_UNKNOWN);
     let h = detail (''after injection: cfun='' @ status_text cs @ ''/'' @ show_int (the lvl) @
               '' reg='' @ show_int (reg_number (the rr))) h;
     Some (ck ''no CFUN=0 injection (RF still full & registered)''
             (cs = EC200_OK \<and> the lvl = 1 \<and>
              (the rr = EC200_REG_REGISTERED_HOME \<or> the rr = EC200_REG_REGISTERED_ROAMING)) h)
   }"

definition test_mqtt ::
    "'e esp_idf \<Rightarrow> ('e \<Rightarrow> nat \<times> 'e) \<Rightarrow> 'e bench \<Rightarrow> ('e bench) option" where
  "test_mqtt idf esp_random h = do {
     let h = banner ''MQTT'' h;
     let (client_id, h) = random_id esp_random ''ec200hw'' h;
     let cfg = harness_mqtt_config 1883 client_id False 0;
     let h = ec200_mqtt_set_message_cb h (Some mqtt_cb);
     h \<leftarrow> ck_call ''mqtt_open'' (ec200_mqtt_open h (Some cfg)) EC200_OK;
     h \<leftarrow> ck_call ''mqtt_connect'' (ec200_mqtt_connect h (Some cfg)) EC200_OK;
     h \<leftarrow> ck_call ''mqtt_subscribe'' (ec200_mqtt_subscribe h 0 1 (Some ''ec200hw/test'') 1) EC200_OK;
     let h = clear_got_msg h;
     h \<leftarrow> ck_call ''mqtt_publish''
            (ec200_mqtt_publish h 0 2 1 False (Some ''ec200hw/test'') (Some ''hello'') 5) EC200_OK;
     h \<leftarrow> poll_for_msg 50 h;
     let h = ck ''mqtt receive loopback'' (s_got_msg (user_ctx h)) h;
     h \<leftarrow> ck_call ''mqtt_publish binary 0x1A''
            (ec200_mqtt_publish h 0 3 1 False (Some ''ec200hw/test'') (Some mqtt_binary)
               (length mqtt_binary)) EC200_OK;
     h \<leftarrow> probe_injection h;
     h \<leftarrow> ck_call ''open NULL cfg'' (ec200_mqtt_open h None) EC200_ERR_PARAM;
     h \<leftarrow> ck_call ''sub NULL topic'' (ec200_mqtt_subscribe h 0 1 None 0) EC200_ERR_PARAM;
     h \<leftarrow> ck_call ''pub msg_id 0 QoS1''
            (ec200_mqtt_publish h 0 0 1 False (Some ''t'') (Some ''x'') 1) EC200_ERR_PARAM;
     h \<leftarrow> ck_call ''mqtt_disconnect'' (ec200_mqtt_disconnect h 0) EC200_OK;
     (h, cs) \<leftarrow> ec200_mqtt_close h 0;
     let h = ck ''mqtt_close after disconnect (OK or TIMEOUT: already closed)''
               (cs = EC200_OK \<or> cs = EC200_ERR_TIMEOUT) h;
     let h = detail (''close-after-disconnect -> '' @ status_text cs) h;
     let h = ec200_mqtt_set_message_cb h None;
     Some (pause idf 10000 h)
   }"

end
