(* ===== verification/Ec200_Harness_Sms.thy ===== *)
theory Ec200_Harness_Sms
  imports Ec200_Harness
begin

text \<open>
  The tests of short messages and of power saving of the on-target harness, with the
  destination number it resolves once per run.
\<close>

section \<open>The destination of the tests that transmit\<close>

text \<open>
  \<open>memcpy\<close> of \<open>n\<close> bytes to the start of an array; \<open>None\<close> when they do not fit.
\<close>

definition mem_copy :: "char list \<Rightarrow> char list \<Rightarrow> nat \<Rightarrow> char list option" where
  "mem_copy a src n = (if n \<le> length a then Some (take n src @ drop n a) else None)"

text \<open>
  The text between two quotes that \<open>strchr\<close> found goes to \<^verbatim>\<open>self_num\<close> when it is
  shorter than the array; \<open>None\<close> is a store outside it.
\<close>

definition copy_between :: "char list \<Rightarrow> string \<Rightarrow> string \<Rightarrow> char list option" where
  "copy_between self_num q q' =
     (let n = length q - length q' - 1 in
      if n < EC200_MAX_PHONE_NUM_LEN then mem_copy self_num (tl q) n else Some self_num)"

text \<open>The second quoted field of a \<open>+CNUM:\<close> line, the first of a \<open>+CPBR:\<close> line.\<close>

definition cnum_number :: "char list \<Rightarrow> string \<Rightarrow> char list option" where
  "cnum_number self_num cnum =
     (case strchr cnum DQUOTE of None \<Rightarrow> Some self_num
      | Some q1 \<Rightarrow> (case strchr (tl q1) DQUOTE of None \<Rightarrow> Some self_num
      | Some q2 \<Rightarrow> (case strchr (tl q2) DQUOTE of None \<Rightarrow> Some self_num
      | Some q3 \<Rightarrow> (case strchr (tl q3) DQUOTE of None \<Rightarrow> Some self_num
      | Some q4 \<Rightarrow> copy_between self_num q3 q4))))"

definition cpbr_number :: "char list \<Rightarrow> string \<Rightarrow> char list option" where
  "cpbr_number self_num pbr =
     (case strchr pbr DQUOTE of None \<Rightarrow> Some self_num
      | Some a1 \<Rightarrow> (case strchr (tl a1) DQUOTE of None \<Rightarrow> Some self_num
      | Some a2 \<Rightarrow> copy_between self_num a1 a2))"

text \<open>The array \<^verbatim>\<open>self_num\<close>, which starts as zeros, after the two queries.\<close>

definition own_number :: "'f locals \<Rightarrow> 'e bench \<Rightarrow> ('e bench \<times> char list) run option" where
  "own_number j h = do {
     let self_num = replicate EC200_MAX_PHONE_NUM_LEN NUL;
     (h, st, cnum) \<leftarrow> ec200_at_send_wait h (Some ''AT+CNUM'') (Some ''+CNUM:'')
                        (Some (96, l_text j ''cnum'')) 3000;
     case (if st = EC200_OK then cnum_number self_num (buf_text cnum) else Some self_num) of
       None \<Rightarrow> Some OutOfBounds
     | Some self_num \<Rightarrow>
         if self_num ! 0 \<noteq> NUL then Some (Go (h, self_num))
         else do {
           (h, st, _) \<leftarrow> ec200_at_send h (Some (''AT+CPBS='' @ quoted ''ON'')) None 3000;
           if st \<noteq> EC200_OK then Some (Go (h, self_num))
           else do {
             (h, st, pbr) \<leftarrow> ec200_at_send_wait h (Some ''AT+CPBR=1'') (Some ''+CPBR:'')
                               (Some (96, l_text j ''pbr'')) 3000;
             case (if st = EC200_OK then cpbr_number self_num (buf_text pbr) else Some self_num) of
               None \<Rightarrow> Some OutOfBounds
             | Some self_num \<Rightarrow> Some (Go (h, self_num))
           }
         }
   }"

definition dest_of :: "'e rig \<Rightarrow> string option" where
  "dest_of w = (if g_sms_dest w \<noteq> [] then Some (g_sms_dest w) else None)"

text \<open>
  \<open>dest\<close> is the text of the macro \<open>SMS_DEST\<close>. Printing \<^verbatim>\<open>self_num\<close> as a string
  without a terminator in the array would read outside it.
\<close>

definition sms_dest ::
    "string \<Rightarrow> 'f locals \<Rightarrow> 'e bench \<Rightarrow> ('e bench \<times> string option) run option" where
  "sms_dest dest j h =
     (if g_sms_dest_resolved (user_ctx h) then Some (Go (h, dest_of (user_ctx h)))
      else do {
        let h = set_world (\<lambda>w. w\<lparr>g_sms_dest_resolved := True\<rparr>) h;
        r \<leftarrow> own_number j h;
        case r of
          Go (h, self_num) \<Rightarrow>
            if NUL \<notin> set self_num then Some OutOfBounds
            else do {
              let self_num = cstr self_num;
              let h = detail (''own number = '' @ quoted self_num @ '' (empty = not provisioned)'') h;
              let h = set_world
                (\<lambda>w. if dest \<noteq> []
                     then w\<lparr>g_sms_dest := snprintf EC200_MAX_PHONE_NUM_LEN dest,
                            g_sms_dest_is_self := False\<rparr>
                     else if self_num \<noteq> []
                     then w\<lparr>g_sms_dest := snprintf EC200_MAX_PHONE_NUM_LEN self_num,
                            g_sms_dest_is_self := True\<rparr>
                     else w) h;
              Some (Go (h, dest_of (user_ctx h)))
            }
        | OutOfBounds \<Rightarrow> Some OutOfBounds
        | Aborted \<Rightarrow> Some Aborted
      })"

section \<open>Sending, listing and reading\<close>

text \<open>
  The loop that waits for the message to come back: at most \<open>n\<close> rounds while the inbox
  has not grown.
\<close>

fun await_loopback ::
    "'e esp_idf \<Rightarrow> nat \<Rightarrow> nat \<Rightarrow> ec200_sms_message list option \<Rightarrow> nat \<Rightarrow> 'e bench
     \<Rightarrow> ('e bench \<times> nat) option" where
  "await_loopback idf 0 before tmp after h = Some (h, after)"
| "await_loopback idf (Suc n) before tmp after h =
     (if after > before then Some (h, after)
      else do {
        let h = pause idf 3000 h;
        (h, _) \<leftarrow> ec200_at_poll_urc h 100;
        (h, _, tmp, cnt) \<leftarrow> ec200_sms_list h 4 tmp 8 (Some after);
        await_loopback idf n before tmp (the cnt) h
      })"

definition sms_live :: "'e esp_idf \<Rightarrow> 'f locals \<Rightarrow> string \<Rightarrow> 'e bench \<Rightarrow> ('e bench) option" where
  "sms_live idf j dest h = do {
     (h, _, tmp, before) \<leftarrow> ec200_sms_list h 4 (Some (l_messages j ''tmp'')) 8 (Some 0);
     h \<leftarrow> ck_call ''sms_send'' (ec200_sms_send h (Some dest) (Some ''EC200 harness test'')) EC200_OK;
     if g_sms_dest_is_self (user_ctx h) then do {
       (h, after) \<leftarrow> await_loopback idf 20 (the before) tmp 0 h;
       let h = detail (''inbox '' @ show_nat (the before) @ '' -> '' @ show_nat after) h;
       Some (ck ''sms loopback delivered to self'' (after > the before) h)
     }
     else Some h
   }"

definition long_text :: string where
  "long_text = replicate (EC200_MAX_SMS_TEXT_LEN + 8 - 1) CHR ''T''"

definition ctrl_z_text :: string where
  "ctrl_z_text = [CHR ''a'', CHR 0x1A, CHR ''b'']"

definition sms_bad_path :: "'e bench \<Rightarrow> ('e bench) option" where
  "sms_bad_path h = do {
     h \<leftarrow> ck_call ''send NULL num'' (ec200_sms_send h None (Some ''x'')) EC200_ERR_PARAM;
     h \<leftarrow> ck_call ''send empty num'' (ec200_sms_send h (Some []) (Some ''x'')) EC200_ERR_PARAM;
     h \<leftarrow> ck_call ''send oversized text'' (ec200_sms_send h (Some ''+10000000000'') (Some long_text))
            EC200_ERR_PARAM;
     h \<leftarrow> ck_call ''send Ctrl-Z injection''
            (ec200_sms_send h (Some ''+10000000000'') (Some ctrl_z_text)) EC200_ERR_PARAM;
     ck_call ''delete_all bad flag'' (ec200_sms_delete_all h 9) EC200_ERR_PARAM
   }"

text \<open>The rest of the test: the list, its first message, and the refused arguments.\<close>

definition sms_inbox :: "'f locals \<Rightarrow> 'e bench \<Rightarrow> ('e bench) run option" where
  "sms_inbox j h = do {
     (h, st, msgs, cnt) \<leftarrow> ec200_sms_list h 4 (Some (l_messages j ''msgs'')) 4 (Some 0);
     let h = ck_st ''sms_list ALL'' st EC200_OK h;
     let h = detail (''inbox count='' @ show_nat (the cnt)) h;
     if the cnt > 0
     then (case the msgs of
             [] \<Rightarrow> Some OutOfBounds
           | first # _ \<Rightarrow> do {
               (h, _) \<leftarrow> ck_out ''sms_read[0]''
                           (ec200_sms_read h (sms_index first) (Some (l_message j ''one''))) EC200_OK;
               map_option Go (sms_bad_path h)
             })
     else map_option Go (sms_bad_path (skip ''sms_read'' ''empty inbox'' h))
   }"

definition test_sms ::
    "'e esp_idf \<Rightarrow> string \<Rightarrow> 'f locals \<Rightarrow> 'e bench \<Rightarrow> ('e bench) run option" where
  "test_sms idf sdest j h = do {
     let h = banner ''SMS'' h;
     h \<leftarrow> ck_call ''set_format(text)'' (ec200_sms_set_format h 1) EC200_OK;
     r \<leftarrow> sms_dest sdest j h;
     case r of
       Go (h, dest) \<Rightarrow> do {
         h \<leftarrow> (case dest of
                 Some d \<Rightarrow> sms_live idf j d h
               | None \<Rightarrow> Some (skip ''sms_send'' ''SMS_DEST empty and CNUM gave no own number'' h));
         sms_inbox j h
       }
     | OutOfBounds \<Rightarrow> Some OutOfBounds
     | Aborted \<Rightarrow> Some Aborted
   }"

section \<open>Storage, service centre, drafts, indications\<close>

definition show_usage :: "ec200_sms_mem_usage \<Rightarrow> string" where
  "show_usage u = show_nat (mem_used u) @ ''/'' @ show_nat (mem_total u)"

definition sms_storage_tests :: "'f locals \<Rightarrow> 'e bench \<Rightarrow> ('e bench) option" where
  "sms_storage_tests j h = do {
     (h, usage) \<leftarrow> ck_out ''sms_get_storage''
                    (ec200_sms_get_storage h (Some (l_storage j ''usage''))) EC200_OK;
     let u = the usage;
     let h = detail (''read/del '' @ show_usage (st_read_delete u) @ ''  write/send '' @
               show_usage (st_write_send u) @ ''  recv '' @ show_usage (st_receive u)) h;
     let h = ck ''storage totals are non-zero'' (mem_total (st_read_delete u) > 0) h;
     (h, _) \<leftarrow> ck_out ''sms_set_storage ME/ME/ME''
                 (ec200_sms_set_storage h 1 1 1 (Some (l_storage j ''after_set''))) EC200_OK;
     (h, _) \<leftarrow> ck_out ''sms_set_storage discard usage'' (ec200_sms_set_storage h 1 1 1 None) EC200_OK;
     (h, _) \<leftarrow> ck_out ''set_storage rejects MT as write store'' (ec200_sms_set_storage h 1 2 1 None)
                 EC200_ERR_PARAM;
     (h, _) \<leftarrow> ck_out ''get_storage NULL'' (ec200_sms_get_storage h None) EC200_ERR_PARAM;
     Some h
   }"

definition sms_smsc_tests :: "'e bench \<Rightarrow> ('e bench) option" where
  "sms_smsc_tests h = do {
     (h, smsc) \<leftarrow> ck_out ''sms_get_smsc'' (ec200_sms_get_smsc h (Some (EC200_MAX_PHONE_NUM_LEN, [])))
                   EC200_OK;
     let h = ck ''smsc is non-empty'' (buf_text smsc \<noteq> []) h;
     h \<leftarrow> (if buf_text smsc \<noteq> []
           then ck_call ''sms_set_smsc round-trip'' (ec200_sms_set_smsc h (Some (buf_text smsc))) EC200_OK
           else Some (skip ''sms_set_smsc'' ''no SMSC provisioned to write back'' h));
     h \<leftarrow> ck_call ''set_smsc NULL'' (ec200_sms_set_smsc h None) EC200_ERR_PARAM;
     h \<leftarrow> ck_call ''set_smsc empty'' (ec200_sms_set_smsc h (Some [])) EC200_ERR_PARAM;
     (h, _) \<leftarrow> ck_out ''get_smsc NULL'' (ec200_sms_get_smsc h None) EC200_ERR_PARAM;
     Some h
   }"

definition sms_draft_tests :: "'f locals \<Rightarrow> string \<Rightarrow> 'e bench \<Rightarrow> ('e bench) option" where
  "sms_draft_tests j dest h = do {
     (h, wst, index) \<leftarrow> ec200_sms_write h (Some dest) (Some ''EC200 harness stored draft'') (Some (-1));
     let h = ck_st ''sms_write (stored, not yet sent)'' wst EC200_OK h;
     if wst \<noteq> EC200_OK
     then Some (skip ''stored-draft read/send/delete'' ''sms_write failed'' h)
     else do {
       let i = the index;
       let h = detail (''stored at index='' @ show_int i) h;
       let h = ck ''sms_write reported an index'' (i \<ge> 0) h;
       if i < 0 then Some h
       else do {
         (h, drafted) \<leftarrow> ck_out ''read back the stored draft''
                          (ec200_sms_read h i (Some (l_message j ''drafted''))) EC200_OK;
         let h = ck ''draft kept its body'' (strstr (sms_text (the drafted)) ''stored draft'' \<noteq> None) h;
         (h, mr) \<leftarrow> ck_out ''sms_send_stored (CMSS transmits)''
                     (ec200_sms_send_stored h i (Some (-1))) EC200_OK;
         let h = detail (''message reference='' @ show_int (the mr)) h;
         let h = ck ''CMSS reported a message reference'' (the mr \<ge> 0) h;
         ck_call ''delete the sent draft'' (ec200_sms_delete h i) EC200_OK
       }
     }
   }"

definition harness_cnmi :: "nat \<Rightarrow> ec200_sms_cnmi" where
  "harness_cnmi mode = \<lparr>cnmi_mode = mode, cnmi_mt = 1, cnmi_bm = 0, cnmi_ds = 0, cnmi_bfr = 0\<rparr>"

definition sms_cnmi_tests :: "'f locals \<Rightarrow> 'e bench \<Rightarrow> ('e bench) option" where
  "sms_cnmi_tests j h = do {
     let want = harness_cnmi 2;
     h \<leftarrow> ck_call ''sms_set_indication 2,1,0,0,0'' (ec200_sms_set_indication h (Some want)) EC200_OK;
     (h, got) \<leftarrow> ck_out ''sms_get_indication'' (ec200_sms_get_indication h (Some (l_cnmi j))) EC200_OK;
     let g = the got;
     let h = detail (''cnmi='' @ show_nat (cnmi_mode g) @ '','' @ show_nat (cnmi_mt g) @ '','' @
               show_nat (cnmi_bm g) @ '','' @ show_nat (cnmi_ds g) @ '','' @ show_nat (cnmi_bfr g)) h;
     let h = ck ''cnmi mode round-tripped'' (cnmi_mode g = cnmi_mode want) h;
     let h = ck ''cnmi mt round-tripped'' (cnmi_mt g = cnmi_mt want) h;
     h \<leftarrow> ck_call ''set_indication NULL'' (ec200_sms_set_indication h None) EC200_ERR_PARAM;
     h \<leftarrow> ck_call ''set_indication out of range''
            (ec200_sms_set_indication h (Some (harness_cnmi 9))) EC200_ERR_PARAM;
     (h, _) \<leftarrow> ck_out ''get_indication NULL'' (ec200_sms_get_indication h None) EC200_ERR_PARAM;
     Some h
   }"

definition sms_notification_tests :: "'f locals \<Rightarrow> 'e bench \<Rightarrow> 'e bench" where
  "sms_notification_tests j h =
     (let (st, note) = ec200_sms_parse_notification (Some (''+CMTI: '' @ quoted ''ME'' @ '',3''))
                         (Some (l_note j));
          h = ck_st ''parse +CMTI'' st EC200_OK h;
          h = ck ''parsed CMTI index'' (ntf_index (the note) = 3) h;
          h = ck ''parsed CMTI storage'' (ntf_mem (the note) = EC200_SMS_MEM_ME) h;
          (st, note) = ec200_sms_parse_notification (Some ''+CMGS: 3'') note;
          h = ck_st ''parse non-CMTI line'' st EC200_ERR_PARSE h;
          (st, note) = ec200_sms_parse_notification None note
      in ck_st ''parse CMTI NULL'' st EC200_ERR_PARAM h)"

definition sms_extras_rest ::
    "'f locals \<Rightarrow> string option \<Rightarrow> 'e bench \<Rightarrow> ('e bench) option" where
  "sms_extras_rest j dest h = do {
     h \<leftarrow> (case dest of
             Some d \<Rightarrow> sms_draft_tests j d h
           | None \<Rightarrow> Some (skip ''sms_write / sms_send_stored''
                      ''SMS_DEST empty and CNUM gave no own number'' h));
     (h, _) \<leftarrow> ck_out ''write rejects Ctrl-Z''
                 (ec200_sms_write h (Some ''+10000000000'') (Some ctrl_z_text) None) EC200_ERR_PARAM;
     (h, _) \<leftarrow> ck_out ''send_stored bad index'' (ec200_sms_send_stored h (-1) None) EC200_ERR_PARAM;
     h \<leftarrow> sms_cnmi_tests j h;
     Some (sms_notification_tests j h)
   }"

definition test_sms_extras ::
    "string \<Rightarrow> 'f locals \<Rightarrow> 'e bench \<Rightarrow> ('e bench) run option" where
  "test_sms_extras sdest j h = do {
     let h = banner ''SMS EXTRAS (CPMS / CSCA / CMGW / CMSS / CNMI)'' h;
     h \<leftarrow> sms_storage_tests j h;
     h \<leftarrow> sms_smsc_tests h;
     r \<leftarrow> sms_dest sdest j h;
     case r of
       Go (h, dest) \<Rightarrow> map_option Go (sms_extras_rest j dest h)
     | OutOfBounds \<Rightarrow> Some OutOfBounds
     | Aborted \<Rightarrow> Some Aborted
   }"

section \<open>Power saving\<close>

text \<open>
  The timer strings: encoded without the module, and handed to the tests that follow as
  \<open>tau\<close> and \<open>act\<close>.
\<close>

definition psm_codec_tests :: "'f locals \<Rightarrow> 'e bench \<Rightarrow> 'e bench \<times> string \<times> string" where
  "psm_codec_tests j h =
     (let (st, tau) = ec200_psm_encode_tau 3600 (Some (EC200_PSM_TIMER_STR_LEN, l_text j ''tau''));
          h = ck_st ''encode TAU 1 hour'' st EC200_OK h;
          h = ck ''TAU 1 hour encodes to 00100001'' (buf_text tau = ''00100001'') h;
          (st, act) = ec200_psm_encode_active_time 2 (Some (EC200_PSM_TIMER_STR_LEN, l_text j ''act''));
          h = ck_st ''encode active time 2 s'' st EC200_OK h;
          h = ck ''active 2 s encodes to 00000001'' (buf_text act = ''00000001'') h;
          (st, tau) = ec200_psm_encode_tau 3660 tau;
          h = ck_st ''encode refuses 3660 s'' st EC200_ERR_PARAM h;
          (st, tau) = ec200_psm_encode_tau 3600 tau;
          h = ck_st ''encode TAU 1 hour (again)'' st EC200_OK h;
          (st, secs) = ec200_psm_decode_timer (Some (buf_text tau)) True (Some 0);
          h = ck_st ''decode TAU string'' st EC200_OK h;
          h = ck ''TAU decodes back to 3600 s'' (secs = Some 3600) h;
          (st, secs) = ec200_psm_decode_timer (Some ''0010'') True secs;
          h = ck_st ''decode rejects short string'' st EC200_ERR_PARSE h
      in (h, buf_text tau, buf_text act))"

definition show_flag :: "bool \<Rightarrow> string" where
  "show_flag b = show_nat (if b then 1 else 0)"

definition show_psm :: "string \<Rightarrow> ec200_psm_config \<Rightarrow> string" where
  "show_psm title p = title @ '' enabled='' @ show_flag (psm_enabled p) @ '' tau='' @
     quoted (psm_periodic_tau p) @ '' active='' @ quoted (psm_active_time p)"

text \<open>The timers are written to the module, read back, and decoded to seconds.\<close>

definition psm_module_tests ::
    "'f locals \<Rightarrow> string \<Rightarrow> string \<Rightarrow> 'e bench \<Rightarrow> ('e bench) option" where
  "psm_module_tests j tau act h = do {
     (h, before) \<leftarrow> ck_out ''psm_get (initial)'' (ec200_psm_get h (Some (l_psm j ''psm_before''))) EC200_OK;
     let h = detail (show_psm ''psm'' (the before)) h;
     let want = \<lparr>psm_enabled = True, psm_periodic_tau = snprintf EC200_PSM_TIMER_STR_LEN tau,
                 psm_active_time = snprintf EC200_PSM_TIMER_STR_LEN act\<rparr>;
     h \<leftarrow> ck_call ''psm_set (1 h TAU, 2 s active)'' (ec200_psm_set h (Some want)) EC200_OK;
     (h, after) \<leftarrow> ck_out ''psm_get after set'' (ec200_psm_get h (Some (l_psm j ''psm_after''))) EC200_OK;
     let p = the after;
     let h = detail (show_psm ''psm now'' p) h;
     let h = ck ''psm reports enabled after set'' (psm_enabled p) h;
     let h = ck ''psm TAU round-tripped'' (psm_periodic_tau p = tau) h;
     let h = ck ''psm active time round-tripped'' (psm_active_time p = act) h;
     let (st, tau_secs) = ec200_psm_decode_timer (Some (psm_periodic_tau p)) True (Some 0);
     let h = ck_st ''decode reported TAU'' st EC200_OK h;
     let (st, act_secs) = ec200_psm_decode_timer (Some (psm_active_time p)) False (Some 0);
     let h = ck_st ''decode reported active time'' st EC200_OK h;
     let h = detail (''module reports TAU='' @ show_nat (the tau_secs) @ ''s active='' @
               show_nat (the act_secs) @ ''s'') h;
     let h = ck ''reported TAU is 3600 s'' (tau_secs = Some 3600) h;
     let h = ck ''reported active time is 2 s'' (act_secs = Some 2) h;
     h \<leftarrow> ck_call ''psm_disable'' (ec200_psm_disable h) EC200_OK;
     (h, after) \<leftarrow> ck_out ''psm_get after disable'' (ec200_psm_get h after) EC200_OK;
     let h = ck ''psm reports disabled'' (\<not> psm_enabled (the after)) h;
     h \<leftarrow> ck_call ''psm_set NULL'' (ec200_psm_set h None) EC200_ERR_PARAM;
     (h, _) \<leftarrow> ck_out ''psm_get NULL'' (ec200_psm_get h None) EC200_ERR_PARAM;
     ck_call ''psm_set short timer''
       (ec200_psm_set h (Some \<lparr>psm_enabled = True, psm_periodic_tau = ''0010'',
          psm_active_time = ''00000001''\<rparr>)) EC200_ERR_PARAM
   }"

text \<open>A raw reply is shown when the query succeeds.\<close>

definition show_raw ::
    "string \<Rightarrow> string \<Rightarrow> string \<Rightarrow> cbuf \<Rightarrow> 'e bench \<Rightarrow> ('e bench \<times> cbuf) option" where
  "show_raw title cmd prefix raw h = do {
     (h, st, raw) \<leftarrow> ec200_at_send_wait h (Some cmd) (Some prefix) raw 3000;
     Some (if st = EC200_OK then detail (title @ ''['' @ buf_text raw @ '']'') h else h, raw)
   }"

definition raw_replies :: "'f locals \<Rightarrow> 'e bench \<Rightarrow> ('e bench) option" where
  "raw_replies j h = do {
     (h, raw) \<leftarrow> show_raw ''RAW CPSMS?   '' ''AT+CPSMS?'' ''+CPSMS:'' (Some (128, l_text j ''raw'')) h;
     (h, raw) \<leftarrow> show_raw ''RAW CEDRXS?  '' ''AT+CEDRXS?'' ''+CEDRXS:'' raw h;
     (h, raw) \<leftarrow> show_raw ''RAW CEDRXRDP '' ''AT+CEDRXRDP'' ''+CEDRXRDP:'' raw h;
     Some h
   }"

definition show_edrx :: "string \<Rightarrow> ec200_edrx_config \<Rightarrow> string" where
  "show_edrx title e = title @ '' enabled='' @ show_flag (edrx_enabled e) @ '' act='' @
     show_int (edrx_act_type e) @ '' requested='' @ quoted (edrx_requested e)"

definition edrx_tests :: "'f locals \<Rightarrow> 'e bench \<Rightarrow> ('e bench) option" where
  "edrx_tests j h = do {
     (h, before) \<leftarrow> ck_out ''edrx_get (initial)'' (ec200_edrx_get h (Some (l_edrx j ''edrx_before'')))
                     EC200_OK;
     let h = detail (show_edrx ''edrx'' (the before)) h;
     h \<leftarrow> ck_call ''edrx_set (Cat-M1, 0101)''
            (ec200_edrx_set h (Some \<lparr>edrx_enabled = True, edrx_act_type = 4, edrx_requested = ''0101''\<rparr>))
            EC200_OK;
     (h, after) \<leftarrow> ck_out ''edrx_get after set'' (ec200_edrx_get h (Some (l_edrx j ''edrx_after'')))
                    EC200_OK;
     let e = the after;
     let h = detail (show_edrx ''edrx now'' e) h;
     let h = ck ''edrx reports enabled after set'' (edrx_enabled e) h;
     let h = ck ''edrx act-type round-tripped'' (edrx_act_type e = 4) h;
     let h = ck ''edrx requested value round-tripped'' (edrx_requested e = ''0101'') h;
     (h, dyn) \<leftarrow> ck_out ''edrx_get_dynamic'' (ec200_edrx_get_dynamic h (Some (l_edrx_dynamic j))) EC200_OK;
     let d = the dyn;
     let h = detail (''edrx dynamic act='' @ show_int (edyn_act_type d) @ '' requested='' @
               quoted (edyn_requested d) @ '' granted='' @ quoted (edyn_granted d) @ '' ptw='' @
               quoted (edyn_paging_time_window d)) h;
     h \<leftarrow> ck_call ''edrx_disable'' (ec200_edrx_disable h 4) EC200_OK;
     (h, after) \<leftarrow> ck_out ''edrx_get after disable'' (ec200_edrx_get h after) EC200_OK;
     let h = ck ''edrx reports disabled'' (\<not> edrx_enabled (the after)) h;
     h \<leftarrow> ck_call ''edrx_set NULL'' (ec200_edrx_set h None) EC200_ERR_PARAM;
     (h, _) \<leftarrow> ck_out ''edrx_get NULL'' (ec200_edrx_get h None) EC200_ERR_PARAM;
     (h, _) \<leftarrow> ck_out ''edrx_get_dynamic NULL'' (ec200_edrx_get_dynamic h None) EC200_ERR_PARAM;
     h \<leftarrow> ck_call ''edrx_disable bad act'' (ec200_edrx_disable h 9) EC200_ERR_PARAM;
     ck_call ''edrx_set short value''
       (ec200_edrx_set h (Some \<lparr>edrx_enabled = True, edrx_act_type = 2, edrx_requested = ''01''\<rparr>))
       EC200_ERR_PARAM
   }"

definition test_lowpower :: "'f locals \<Rightarrow> 'e bench \<Rightarrow> ('e bench) option" where
  "test_lowpower j h = do {
     let h = banner ''LOW POWER (CPSMS / CEDRXS)'' h;
     let (h, tau, act) = psm_codec_tests j h;
     h \<leftarrow> psm_module_tests j tau act h;
     h \<leftarrow> raw_replies j h;
     edrx_tests j h
   }"

end
