(* ===== verification/Ec200_Harness_Main.thy ===== *)
theory Ec200_Harness_Main
  imports Ec200_Harness_Sms
begin

text \<open>
  The remaining tests of the on-target harness (GNSS, diagnostics, clock, files and TLS, PPP,
  power) and \<^verbatim>\<open>run_all\<close>, which brings the module up and runs them in order.
  The certificates of \<^verbatim>\<open>test_certs.h\<close> are a parameter.
\<close>

section \<open>GNSS and the pause between subsystems\<close>

definition test_gnss :: "'f float_ops \<Rightarrow> 'f locals \<Rightarrow> 'e bench \<Rightarrow> ('e bench) option" where
  "test_gnss fo j h = do {
     let h = banner ''GNSS (no antenna)'' h;
     h \<leftarrow> ck_call ''gnss_start'' (ec200_gnss_start h) EC200_OK;
     (h, en) \<leftarrow> ck_out ''gnss_get_status'' (ec200_gnss_get_status h (Some False)) EC200_OK;
     let h = detail (''gnss enabled='' @ show_flag (the en)) h;
     (h, s, _) \<leftarrow> ec200_gnss_get_location fo h (Some (l_location j));
     let h = ck ''get_location no-fix (CME/CMS) or OK''
               (s = EC200_ERR_CME \<or> s = EC200_ERR_CMS \<or> s = EC200_OK) h;
     let h = detail (''get_location -> '' @ status_text s) h;
     h \<leftarrow> ck_call ''set_nmea_output'' (ec200_gnss_set_nmea_output h 1) EC200_OK;
     (h, _) \<leftarrow> ck_out ''gnss_get_status NULL'' (ec200_gnss_get_status h None) EC200_ERR_PARAM;
     ck_call ''gnss_stop'' (ec200_gnss_stop h) EC200_OK
   }"

text \<open>The three connections from \<open>c\<close> on are closed, plain and TLS.\<close>

fun close_sockets :: "nat \<Rightarrow> nat \<Rightarrow> 'e bench \<Rightarrow> ('e bench) option" where
  "close_sockets 0 c h = Some h"
| "close_sockets (Suc n) c h = do {
     (h, _) \<leftarrow> ec200_tcp_close h c;
     (h, _) \<leftarrow> ec200_ssl_socket_close h c;
     close_sockets n (c + 1) h
   }"

definition settle :: "'e esp_idf \<Rightarrow> 'e bench \<Rightarrow> ('e bench) option" where
  "settle idf h = do {
     (h, _) \<leftarrow> ec200_http_stop h;
     h \<leftarrow> close_sockets 3 0 h;
     (h, _) \<leftarrow> ec200_check_at (pause idf 3000 h);
     Some h
   }"

section \<open>Diagnostics and clock\<close>

definition netdiag_queries :: "'f locals \<Rightarrow> 'e bench \<Rightarrow> ('e bench) option" where
  "netdiag_queries j h = do {
     let h = banner ''NETWORK DIAGNOSTICS'' h;
     (h, s, ni) \<leftarrow> ec200_net_get_info h (Some (l_info j));
     let h = ck_st ''net_get_info (QNWINFO)'' s EC200_OK h;
     let h = (if s = EC200_OK
              then detail (''act='' @ quoted (ni_act (the ni)) @ '' oper='' @ quoted (ni_oper (the ni)) @
                     '' band='' @ quoted (ni_band (the ni)) @ '' ch='' @ show_nat (ni_channel (the ni))) h
              else h);
     (h, s, spn) \<leftarrow> ec200_net_get_spn h (Some (40, l_text j ''spn''));
     let h = ck_st ''net_get_spn (QSPN)'' s EC200_OK h;
     let h = (if s = EC200_OK then detail (''SPN='' @ quoted (buf_text spn)) h else h);
     (h, att) \<leftarrow> ck_out ''net_is_attached'' (ec200_net_is_attached h (Some False)) EC200_OK;
     let h = ck ''packet domain attached'' (the att) h;
     (h, _) \<leftarrow> ck_out ''get_info NULL'' (ec200_net_get_info h None) EC200_ERR_PARAM;
     (h, _) \<leftarrow> ck_out ''get_spn NULL'' (ec200_net_get_spn h None) EC200_ERR_PARAM;
     Some h
   }"

definition test_netdiag :: "'f locals \<Rightarrow> 'e bench \<Rightarrow> ('e bench) option" where
  "test_netdiag j h = do {
     h \<leftarrow> netdiag_queries j h;
     let h = banner ''DNS / PING'' h;
     (h, s, ip) \<leftarrow> ec200_tcp_dns_resolve h 1 (Some ''example.com'') (Some (48, l_text j ''ip'')) 30000;
     let h = ck_st ''dns_resolve example.com'' s EC200_OK h;
     let h = (if s = EC200_OK then detail (''resolved -> '' @ buf_text ip) h else h);
     (h, s, ip) \<leftarrow> ec200_tcp_dns_resolve h 1 (Some ''no-such-host.invalid'') ip 30000;
     let h = ck ''dns_resolve invalid host fails'' (s \<noteq> EC200_OK) h;
     let h = detail (''invalid host -> '' @ status_text s) h;
     (h, s, pr) \<leftarrow> ec200_tcp_ping h 1 (Some ''8.8.8.8'') 3 (Some (l_ping j)) 30000;
     let h = ck_st ''ping 8.8.8.8'' s EC200_OK h;
     let p = the pr;
     let h = (if s = EC200_OK
              then detail (''sent='' @ show_nat (ping_sent p) @ '' recv='' @ show_nat (ping_received p) @
                     '' lost='' @ show_nat (ping_lost p) @ '' rtt min/avg/max='' @
                     show_nat (ping_min_rtt_ms p) @ ''/'' @ show_nat (ping_avg_rtt_ms p) @ ''/'' @
                     show_nat (ping_max_rtt_ms p) @ '' ms'') h
              else h);
     (h, _) \<leftarrow> ck_out ''ping bad count'' (ec200_tcp_ping h 1 (Some ''8.8.8.8'') 0 pr 1000)
                 EC200_ERR_PARAM;
     Some h
   }"

definition show_clock :: "ec200_datetime \<Rightarrow> string" where
  "show_clock dt = pad_left 4 CHR ''0'' (show_nat (dt_year dt)) @ ''-'' @ show_02u (dt_month dt) @
     ''-'' @ show_02u (dt_day dt) @ '' '' @ show_02u (dt_hour dt) @ '':'' @ show_02u (dt_minute dt) @
     '':'' @ show_02u (dt_second dt)"

definition clock_after_ntp ::
    "ec200_status \<Rightarrow> ec200_datetime option \<Rightarrow> 'e bench \<Rightarrow> ('e bench \<times> ec200_datetime option) option"
    where
  "clock_after_ntp s dt h =
     (if s \<noteq> EC200_OK then Some (h, dt)
      else do {
        (h, st, dt) \<leftarrow> ec200_time_get h dt;
        if st \<noteq> EC200_OK then Some (h, dt)
        else Some (ck ''clock year is plausible after NTP'' (dt_year (the dt) \<ge> 2024)
                     (detail (''after NTP  '' @ show_clock (the dt)) h), dt)
      })"

definition test_clock :: "'f locals \<Rightarrow> 'e bench \<Rightarrow> ('e bench) option" where
  "test_clock j h = do {
     let h = banner ''CLOCK / NTP'' h;
     h \<leftarrow> ck_call ''time_set_auto_update'' (ec200_time_set_auto_update h True) EC200_OK;
     (h, s, dt) \<leftarrow> ec200_time_get h (Some (l_datetime j));
     let h = ck_st ''time_get (CCLK)'' s EC200_OK h;
     let h = (if s = EC200_OK
              then detail (''module clock '' @ show_clock (the dt) @ '' tz='' @
                     show_int (dt_tz_quarters (the dt))) h
              else h);
     (h, s) \<leftarrow> ec200_time_sync_ntp h 1 (Some ''pool.ntp.org'') 0 60000;
     let h = ck ''time_sync_ntp (OK, module error, or unreachable)''
               (s = EC200_OK \<or> s = EC200_ERR_MODULE \<or> s = EC200_ERR_TIMEOUT) h;
     let h = detail (''NTP -> '' @ status_text s) h;
     (h, dt) \<leftarrow> clock_after_ntp s dt h;
     (h, s, dt) \<leftarrow> ec200_time_get_network h dt;
     let h = ck ''time_get_network (QLTS) OK or not-yet-available''
               (s = EC200_OK \<or> s = EC200_ERR_PARSE \<or> s = EC200_ERR_CME) h;
     let h = detail (''QLTS -> '' @ status_text s) h;
     (h, _) \<leftarrow> ck_out ''time_get NULL'' (ec200_time_get h None) EC200_ERR_PARAM;
     ck_call ''ntp bad ctx'' (ec200_time_sync_ntp h 0 (Some ''x'') 0 1000) EC200_ERR_PARAM
   }"

section \<open>Files and TLS\<close>

record certs =
  MOSQUITTO_CA_PEM :: string
  ISRG_ROOT_X1_PEM :: string
  AMAZON_ROOT_CA1_PEM :: string

definition file_uploads :: "certs \<Rightarrow> 'e bench \<Rightarrow> ('e bench) option" where
  "file_uploads pem h = do {
     (h, _) \<leftarrow> ec200_file_delete h (Some ''mosq_ca.pem'');
     (h, _) \<leftarrow> ec200_file_delete h (Some ''isrg_ca.pem'');
     (h, crc) \<leftarrow> ck_out ''upload mosquitto CA''
       (ec200_file_upload h (Some ''mosq_ca.pem'') (Some (MOSQUITTO_CA_PEM pem))
          (length (MOSQUITTO_CA_PEM pem)) (Some 0)) EC200_OK;
     let h = detail (''crc=0x'' @ show_04X (the crc)) h;
     (h, _) \<leftarrow> ck_out ''upload ISRG root CA''
       (ec200_file_upload h (Some ''isrg_ca.pem'') (Some (ISRG_ROOT_X1_PEM pem))
          (length (ISRG_ROOT_X1_PEM pem)) None) EC200_OK;
     (h, _) \<leftarrow> ec200_file_delete h (Some ''amzn_ca.pem'');
     (h, _) \<leftarrow> ck_out ''upload Amazon root CA''
       (ec200_file_upload h (Some ''amzn_ca.pem'') (Some (AMAZON_ROOT_CA1_PEM pem))
          (length (AMAZON_ROOT_CA1_PEM pem)) None) EC200_OK;
     Some h
   }"

definition file_tests :: "certs \<Rightarrow> 'f locals \<Rightarrow> 'e bench \<Rightarrow> ('e bench) option" where
  "file_tests pem j h = do {
     let h = banner ''FILESYSTEM (UFS)'' h;
     (h, s, fs) \<leftarrow> ec200_file_storage_info h (Some (l_files j));
     let h = ck_st ''file_storage'' s EC200_OK h;
     let h = (if s = EC200_OK
              then detail (''UFS free='' @ show_nat (fs_free_bytes (the fs)) @ '' total='' @
                     show_nat (fs_total_bytes (the fs))) h
              else h);
     h \<leftarrow> file_uploads pem h;
     (h, ex) \<leftarrow> ck_out ''file_exists(uploaded)'' (ec200_file_exists h (Some ''mosq_ca.pem'') (Some False))
                 EC200_OK;
     let h = ck ''file exists == true'' (the ex) h;
     (h, s, sz) \<leftarrow> ec200_file_size h (Some ''mosq_ca.pem'') (Some 0);
     let h = ck_st ''file_size'' s EC200_OK h;
     let h = ck ''size matches upload'' (the sz = length (MOSQUITTO_CA_PEM pem)) h;
     let h = detail (''size='' @ show_nat (the sz) @ '' (expected '' @
               show_nat (length (MOSQUITTO_CA_PEM pem)) @ '')'') h;
     (h, ex) \<leftarrow> ck_out ''file_exists(absent)'' (ec200_file_exists h (Some ''no_such_file.bin'') ex)
                 EC200_OK;
     let h = ck ''absent file exists == false'' (\<not> the ex) h;
     (h, _) \<leftarrow> ck_out ''upload NULL name'' (ec200_file_upload h None (Some ''x'') 1 None) EC200_ERR_PARAM;
     Some h
   }"

definition harness_ssl :: "nat \<Rightarrow> int \<Rightarrow> int \<Rightarrow> string \<Rightarrow> bool \<Rightarrow> ec200_ssl_config" where
  "harness_ssl ctx version level ca sni =
     \<lparr>ssl_ctx_id = ctx, ssl_version = version, ssl_ciphersuite = 0xFFFF, ssl_seclevel = level,
      ssl_cacert = ca, ssl_clientcert = [], ssl_clientkey = [],
      ssl_ignore_localtime = True, ssl_enable_sni = sni\<rparr>"

definition ssl_tests :: "'e bench \<Rightarrow> ('e bench) option" where
  "ssl_tests h = do {
     let h = banner ''SSL CONTEXTS'' h;
     let sc = harness_ssl 2 3 1 (snprintf EC200_MAX_FILENAME_LEN ''amzn_ca.pem'') True;
     h \<leftarrow> ck_call ''ssl_configure ctx2 (server auth, Amazon CA)'' (ec200_ssl_configure h (Some sc)) EC200_OK;
     let sc3 = sc\<lparr>ssl_ctx_id := 3, ssl_cacert := snprintf EC200_MAX_FILENAME_LEN ''mosq_ca.pem''\<rparr>;
     h \<leftarrow> ck_call ''ssl_configure ctx3 (mosquitto CA)'' (ec200_ssl_configure h (Some sc3)) EC200_OK;
     let sc4 = harness_ssl 4 4 0 [] False;
     h \<leftarrow> ck_call ''ssl_configure ctx4 (no auth)'' (ec200_ssl_configure h (Some sc4)) EC200_OK;
     ck_call ''ssl bad ctx id'' (ec200_ssl_set_seclevel h 9 0) EC200_ERR_PARAM
   }"

definition test_file_and_ssl :: "certs \<Rightarrow> 'f locals \<Rightarrow> 'e bench \<Rightarrow> ('e bench) option" where
  "test_file_and_ssl pem j h = do {
     h \<leftarrow> file_tests pem j h;
     ssl_tests h
   }"

text \<open>The HTTPS response is read into all but the last byte of the array and terminated.\<close>

definition https_body :: "'e bench \<Rightarrow> ('e bench) run option" where
  "https_body h = do {
     (h, s, body, got) \<leftarrow> ec200_http_read h (Some (take (1025 - 1) harness_body)) (Some 0) 20000;
     let n = the got;
     let h = ck ''https body read'' ((s = EC200_OK \<or> s = EC200_ERR_OVERFLOW) \<and> n > 0) h;
     case store_at (the body @ drop (1025 - 1) harness_body) (if n < 1025 then n else 1025 - 1) NUL of
       None \<Rightarrow> Some OutOfBounds
     | Some b \<Rightarrow>
         Some (Go (detail (''body('' @ show_nat n @ ''): '' @ take 60 (cstr b) @ ''...'') h))
   }"

definition https_post :: "ec200_http_response option \<Rightarrow> 'e bench \<Rightarrow> ('e bench) option" where
  "https_post r h = do {
     (h, _) \<leftarrow> ec200_http_stop h;
     h \<leftarrow> ck_call ''http_set_ssl_context(2) again'' (ec200_http_set_ssl_context h 2) EC200_OK;
     h \<leftarrow> ck_call ''set https post url'' (ec200_http_set_url h (Some ''https://httpbin.org/post'')) EC200_OK;
     (h, s, r) \<leftarrow> ec200_http_post h (Some ''tls=yes'') 7 0 60000 r;
     let h = ck_st ''https POST'' s EC200_OK h;
     let h = (if s = EC200_OK
              then detail (''HTTPS post status='' @ show_nat (http_status_code (the r))) h else h);
     (h, _) \<leftarrow> ec200_http_stop h;
     Some h
   }"

definition test_https :: "'f locals \<Rightarrow> 'e bench \<Rightarrow> ('e bench) run option" where
  "test_https j h = do {
     let h = banner ''HTTPS'' h;
     (h, _) \<leftarrow> ec200_http_stop h;
     h \<leftarrow> ck_call ''http_set_context'' (ec200_http_set_context h 1) EC200_OK;
     h \<leftarrow> ck_call ''http_set_ssl_context(2)'' (ec200_http_set_ssl_context h 2) EC200_OK;
     h \<leftarrow> ck_call ''set https url'' (ec200_http_set_url h (Some ''https://httpbin.org/get'')) EC200_OK;
     (h, s, r) \<leftarrow> ec200_http_get h 60000 (Some (l_http j));
     let h = ck_st ''https GET (server-auth TLS)'' s EC200_OK h;
     b \<leftarrow> (if s = EC200_OK
           then https_body (detail (''HTTPS status='' @ show_nat (http_status_code (the r)) @ '' len='' @
                  show_nat (http_content_length (the r))) h)
           else Some (Go h));
     case b of
       Go h \<Rightarrow> map_option Go (https_post r h)
     | OutOfBounds \<Rightarrow> Some OutOfBounds
     | Aborted \<Rightarrow> Some Aborted
   }"

definition mqtts_session ::
    "'f locals \<Rightarrow> ec200_mqtt_config \<Rightarrow> 'e bench \<Rightarrow> ('e bench) option" where
  "mqtts_session j cfg h = do {
     (h, s) \<leftarrow> ec200_mqtt_connect h (Some cfg);
     let h = ck_st ''mqtts_connect'' s EC200_OK h;
     h \<leftarrow> (if s = EC200_OK then Some h
           else do {
             (h, st, q) \<leftarrow> ec200_at_send_wait h (Some ''AT+QMTCONN?'') (Some ''+QMTCONN:'')
                             (Some (128, [])) 3000;
             Some (if st = EC200_OK then detail (''QMTCONN? -> '' @ buf_text q) h else h)
           });
     h \<leftarrow> ck_call ''mqtts_subscribe'' (ec200_mqtt_subscribe h 0 1 (Some ''ec200tls/test'') 1) EC200_OK;
     let h = clear_got_msg h;
     h \<leftarrow> ck_call ''mqtts_publish''
            (ec200_mqtt_publish h 0 2 1 False (Some ''ec200tls/test'') (Some ''secure'') 6) EC200_OK;
     h \<leftarrow> poll_for_msg 60 h;
     let h = ck ''mqtts receive loopback over TLS'' (s_got_msg (user_ctx h)) h;
     h \<leftarrow> ck_call ''mqtts_disconnect'' (ec200_mqtt_disconnect h 0) EC200_OK;
     (h, cc) \<leftarrow> ec200_mqtt_close h 0;
     let h = ck ''mqtts_close (OK or TIMEOUT: disconnect already closed)''
               (cc = EC200_OK \<or> cc = EC200_ERR_TIMEOUT) h;
     Some (ec200_mqtt_set_message_cb h None)
   }"

definition test_mqtts ::
    "('e \<Rightarrow> nat \<times> 'e) \<Rightarrow> 'f locals \<Rightarrow> 'e bench \<Rightarrow> ('e bench) option" where
  "test_mqtts esp_random j h = do {
     let h = banner ''MQTTS (test.mosquitto.org:8883)'' h;
     let (client_id, h) = random_id esp_random ''ec200tls'' h;
     let cfg = harness_mqtt_config 8883 client_id True 3;
     let h = ec200_mqtt_set_message_cb h (Some mqtt_cb);
     (h, s) \<leftarrow> ec200_mqtt_open h (Some cfg);
     let h = ck_st ''mqtts_open (TLS)'' s EC200_OK h;
     if s \<noteq> EC200_OK
     then Some (ec200_mqtt_set_message_cb (skip ''mqtts session'' ''open failed'' h) None)
     else mqtts_session j cfg h
   }"

section \<open>A TLS socket\<close>

definition tls_request :: string where
  "tls_request = ''GET /get HTTP/1.1'' @ [CR, LF] @ ''Host: httpbin.org'' @ [CR, LF] @
     ''Connection: close'' @ [CR, LF, CR, LF]"

text \<open>
  Up to \<open>n\<close> receptions into all but the last byte of \<open>buf\<close>, each terminated behind
  the received bytes, until the response is recognised.
\<close>

fun tls_exchange ::
    "'e esp_idf \<Rightarrow> nat \<Rightarrow> char list \<Rightarrow> nat \<Rightarrow> 'e bench \<Rightarrow> ('e bench \<times> bool) run option" where
  "tls_exchange idf 0 buf got h = Some (Go (h, False))"
| "tls_exchange idf (Suc n) buf got h = do {
     let h = pause idf 500 h;
     (h, st, b, g) \<leftarrow> ec200_ssl_socket_recv h 1 (Some buf) (256 - 1) (Some got) 5000;
     let buf = the b;
     let got = the g;
     if st = EC200_OK \<and> got > 0
     then (case store_at buf got NUL of
             None \<Rightarrow> Some OutOfBounds
           | Some buf \<Rightarrow>
               let saw_http = (strstr (cstr buf) ''HTTP/1.'' \<noteq> None);
                   h = detail (''recv '' @ show_nat got @ '' bytes: '' @ take 40 (cstr buf)) h
               in if saw_http then Some (Go (h, True)) else tls_exchange idf n buf got h)
     else tls_exchange idf n buf got h
   }"

text \<open>A certificate authority that cannot verify the host must be refused.\<close>

definition tls_wrong_ca :: "'e bench \<Rightarrow> ('e bench) option" where
  "tls_wrong_ca h = do {
     (h, s) \<leftarrow> ec200_ssl_socket_open h 1 3 2 (Some ''httpbin.org'') 443;
     let h = ck ''cert verification rejects wrong CA'' (s \<noteq> EC200_OK) h;
     let h = detail (''wrong-CA open -> '' @ status_text s) h;
     if s = EC200_OK then do {
       (h, _) \<leftarrow> ec200_ssl_socket_close h 2;
       Some h
     }
     else Some h
   }"

definition tls_close :: "'e bench \<Rightarrow> bool \<Rightarrow> ('e bench) option" where
  "tls_close h saw_http = do {
     let h = ck ''tls socket got HTTP response'' saw_http h;
     h \<leftarrow> ck_call ''ssl_socket_close'' (ec200_ssl_socket_close h 1) EC200_OK;
     tls_wrong_ca h
   }"

definition test_tls_socket ::
    "'e esp_idf \<Rightarrow> 'f locals \<Rightarrow> 'e bench \<Rightarrow> ('e bench) run option" where
  "test_tls_socket idf j h = do {
     let h = banner ''TLS SOCKET'' h;
     (h, s) \<leftarrow> ec200_ssl_socket_open h 1 2 1 (Some ''httpbin.org'') 443;
     let h = ck_st ''ssl_socket_open httpbin.org:443'' s EC200_OK h;
     if s \<noteq> EC200_OK
     then map_option Go (tls_wrong_ca (skip ''tls socket exchange'' ''open failed'' h))
     else do {
       h \<leftarrow> ck_call ''ssl_socket_send''
              (ec200_ssl_socket_send h 1 (Some tls_request) (length tls_request)) EC200_OK;
       r \<leftarrow> tls_exchange idf 20 (l_bytes j ''buf'') 0 h;
       case r of
         Go (h, saw_http) \<Rightarrow> map_option Go (tls_close h saw_http)
       | OutOfBounds \<Rightarrow> Some OutOfBounds
       | Aborted \<Rightarrow> Some Aborted
     }
   }"

section \<open>PPP\<close>

definition ppp_resume_cycle :: "'e bench \<Rightarrow> ('e bench) option" where
  "ppp_resume_cycle h = do {
     (h, rs) \<leftarrow> ec200_ppp_resume h;
     let h = detail (''resume -> '' @ status_text rs) h;
     if rs = EC200_OK then do {
       let h = ck ''in data mode after resume'' (ec200_ppp_in_data_mode h) h;
       ck_call ''ppp_disconnect (escape + ATH)'' (ec200_ppp_disconnect h) EC200_OK
     }
     else Some (skip ''ppp resume cycle'' ''call ended before ATO'' h)
   }"

definition ppp_data_cycle :: "'e bench \<Rightarrow> ('e bench) option" where
  "ppp_data_cycle h = do {
     let h = ck ''in data mode after dial'' (ec200_ppp_in_data_mode h) h;
     h \<leftarrow> ck_call ''AT refused in data mode (BUSY)'' (ec200_check_at h) EC200_ERR_BUSY;
     (h, es) \<leftarrow> ec200_ppp_escape h;
     let h = detail (''escape -> '' @ status_text es) h;
     let h = ck ''escape leaves data mode (no wedge)'' (\<not> ec200_ppp_in_data_mode h) h;
     h \<leftarrow> ck_call ''AT works again after escape'' (ec200_check_at h) EC200_OK;
     h \<leftarrow> (if es = EC200_OK then ppp_resume_cycle h
           else ck_call ''ppp_hangup after carrier loss'' (ec200_ppp_hangup h) EC200_OK);
     Some (ck ''cmd mode at end of PPP'' (\<not> ec200_ppp_in_data_mode h) h)
   }"

definition dial_line :: "string \<Rightarrow> ec200_status \<Rightarrow> 'e bench \<Rightarrow> 'e bench" where
  "dial_line title s h =
     detail (title @ '' -> '' @ status_text s @ '' ('' @ ec200_at_last_error_text h @ '')'') h"

definition test_ppp :: "'e esp_idf \<Rightarrow> 'e bench \<Rightarrow> ('e bench) option" where
  "test_ppp idf h = do {
     let h = banner ''PPP CONTROL PLANE'' h;
     let h = ck ''not in data mode initially'' (\<not> ec200_ppp_in_data_mode h) h;
     h \<leftarrow> ck_call ''escape in cmd mode refused'' (ec200_ppp_escape h) EC200_ERR_PARAM;
     h \<leftarrow> ck_call ''dial bad cid'' (ec200_ppp_dial h 0) EC200_ERR_PARAM;
     (h, s) \<leftarrow> ec200_ppp_dial h 1;
     let h = dial_line ''dial'' s h;
     (h, s) \<leftarrow> (if s = EC200_OK then Some (h, s)
                else do {
                  let h = detail ''retrying with PDP context deactivated'' h;
                  (h, _) \<leftarrow> ec200_data_deactivate h 1;
                  (h, s) \<leftarrow> ec200_ppp_dial (pause idf 2000 h) 1;
                  Some (dial_line ''dial#2'' s h, s)
                });
     h \<leftarrow> (if s = EC200_OK then ppp_data_cycle h
           else Some (skip ''ppp data-mode cycle'' ''dial did not CONNECT'' h));
     (h, _) \<leftarrow> ec200_data_activate h 1;
     Some h
   }"

section \<open>Power\<close>

text \<open>At most \<open>n\<close> probes, one second apart, until the module answers.\<close>

fun await_back ::
    "'e esp_idf \<Rightarrow> nat \<Rightarrow> ec200_status \<Rightarrow> 'e bench \<Rightarrow> ('e bench \<times> ec200_status) option" where
  "await_back idf 0 back h = Some (h, back)"
| "await_back idf (Suc n) back h =
     (if back = EC200_OK then Some (h, back)
      else do {
        (h, back) \<leftarrow> ec200_check_at (pause idf 1000 h);
        await_back idf n back h
      })"

text \<open>\<open>n\<close> attempts are left, the first of them is number \<open>attempt\<close>.\<close>

fun pulse_attempts ::
    "'e esp_idf \<Rightarrow> nat \<Rightarrow> nat \<Rightarrow> ec200_status \<Rightarrow> 'e bench \<Rightarrow> ('e bench \<times> ec200_status) option" where
  "pulse_attempts idf 0 attempt back h = Some (h, back)"
| "pulse_attempts idf (Suc n) attempt back h =
     (if back = EC200_OK then Some (h, back)
      else do {
        let h = say (''  -> PWRKEY pulse, attempt '' @ show_nat attempt @ [LF]) h;
        (h, back) \<leftarrow> await_back idf 30 back (set_world (pwrkey_pulse idf) h);
        pulse_attempts idf n (attempt + 1) back h
      })"

definition power_recover :: "'e esp_idf \<Rightarrow> 'e bench \<Rightarrow> ('e bench) option" where
  "power_recover idf h = do {
     (h, back) \<leftarrow> pulse_attempts idf 3 1 EC200_ERR_TIMEOUT h;
     let h = ck_st ''modem recovered after PWRKEY'' back EC200_OK h;
     if back = EC200_OK then do {
       (h, _) \<leftarrow> ec200_set_echo h False;
       ck_call ''usable after recovery'' (ec200_check_at h) EC200_OK
     }
     else Some h
   }"

definition power_cfun :: "'e esp_idf \<Rightarrow> 'f locals \<Rightarrow> 'e bench \<Rightarrow> ('e bench) option" where
  "power_cfun idf j h = do {
     (h, lvl) \<leftarrow> ck_out ''get_cfun'' (ec200_power_get_cfun h (Some (l_cfun j))) EC200_OK;
     let h = detail (''cfun='' @ show_int (the lvl)) h;
     (h, _) \<leftarrow> ck_out ''get_cfun NULL'' (ec200_power_get_cfun h None) EC200_ERR_PARAM;
     h \<leftarrow> ck_call ''set RF off(4)'' (ec200_power_set_cfun h 4 False) EC200_OK;
     let h = pause idf 500 h;
     (h, lvl) \<leftarrow> ck_out ''get_cfun after RF off'' (ec200_power_get_cfun h lvl) EC200_OK;
     let h = detail (''cfun now='' @ show_int (the lvl) @ '' (expect 4)'') h;
     ck_call ''restore full(1)'' (ec200_power_set_cfun h 1 False) EC200_OK
   }"

definition test_power :: "'e esp_idf \<Rightarrow> 'f locals \<Rightarrow> 'e bench \<Rightarrow> ('e bench) option" where
  "test_power idf j h = do {
     let h = banner ''POWER (destructive, last)'' h;
     h \<leftarrow> power_cfun idf j h;
     h \<leftarrow> ck_call ''set_sleep on'' (ec200_power_set_sleep h True) EC200_OK;
     h \<leftarrow> ck_call ''set_sleep off'' (ec200_power_set_sleep h False) EC200_OK;
     let h = say (''  -> powering modem OFF (QPOWD)'' @ [LF]) h;
     h \<leftarrow> ck_call ''power_down'' (ec200_power_down h True) EC200_OK;
     (h, st) \<leftarrow> ec200_check_at (pause idf 8000 h);
     let h = ck ''modem is really off (AT no longer answers)'' (st \<noteq> EC200_OK) h;
     let h = say (''  -> waiting for shutdown to complete'' @ [LF]) h;
     power_recover idf (pause idf 15000 h)
   }"

section \<open>The whole run\<close>

text \<open>Tests in sequence; a step that does not come to its end ends the run.\<close>

fun run_steps :: "('h \<Rightarrow> 'h run option) list \<Rightarrow> 'h \<Rightarrow> 'h run option" where
  "run_steps [] h = Some (Go h)"
| "run_steps (t # ts) h = do {
     r \<leftarrow> t h;
     case r of
       Go h \<Rightarrow> run_steps ts h
     | OutOfBounds \<Rightarrow> Some OutOfBounds
     | Aborted \<Rightarrow> Some Aborted
   }"

definition plain_step :: "('h \<Rightarrow> 'h option) \<Rightarrow> 'h \<Rightarrow> 'h run option" where
  "plain_step t h = map_option Go (t h)"

definition harness_steps ::
    "'e esp_idf \<Rightarrow> ('e \<Rightarrow> nat \<times> 'e) \<Rightarrow> 'f float_ops \<Rightarrow> certs \<Rightarrow> string \<Rightarrow> (string \<Rightarrow> 'f locals)
     \<Rightarrow> ('e bench \<Rightarrow> 'e bench run option) list" where
  "harness_steps idf esp_random fo pem dest j =
     [plain_step (test_core (j ''test_core'')),
      plain_step (test_error_reporting (j ''test_error_reporting'')),
      plain_step (test_sim (j ''test_sim'')),
      plain_step (test_network (j ''test_network'')),
      plain_step (test_data (j ''test_data'')),
      test_tcp idf (j ''test_tcp''),
      plain_step (settle idf),
      plain_step (test_netdiag (j ''test_netdiag'')),
      plain_step (settle idf),
      plain_step (test_file_and_ssl pem (j ''test_file_and_ssl'')),
      plain_step (settle idf),
      plain_step (test_mqtts esp_random (j ''test_mqtts'')),
      plain_step (settle idf),
      test_tls_socket idf (j ''test_tls_socket''),
      plain_step (settle idf),
      test_https (j ''test_https''),
      plain_step (settle idf),
      plain_step (test_http (j ''test_http'')),
      plain_step (settle idf),
      plain_step (test_mqtt idf esp_random),
      test_sms idf dest (j ''test_sms''),
      test_sms_extras dest (j ''test_sms_extras''),
      plain_step (test_lowpower (j ''test_lowpower'')),
      plain_step (settle idf),
      plain_step (test_clock (j ''test_clock'')),
      plain_step (test_gnss fo (j ''test_gnss'')),
      plain_step (test_ppp idf),
      plain_step (test_power idf (j ''test_power''))]"

definition summary :: "'e bench \<Rightarrow> 'e bench" where
  "summary h =
     (let w = user_ctx h in
      say (''########## '' @ (if g_fail w = 0 then ''ALL PASS'' else ''HAS FAILURES'') @
           '' ##########'' @ [LF])
        (say ([LF] @ ''########## SUMMARY: '' @ show_nat (g_pass w) @ '' passed, '' @
           show_nat (g_fail w) @ '' failed, '' @ show_nat (g_skip w) @ '' skipped ##########'' @ [LF]) h))"

definition harness_uart :: "'e esp_idf \<Rightarrow> 'e rig \<Rightarrow> ('e rig) option" where
  "harness_uart idf w = do {
     w \<leftarrow> esp_check (idf_uart_driver_install idf 4096) w;
     w \<leftarrow> esp_check (idf_uart_param_config idf 115200) w;
     esp_check (idf_uart_set_pin idf 8 19) w
   }"

definition harness_init :: "'e esp_idf \<Rightarrow> 'e bench \<Rightarrow> ('e bench \<times> ec200_status) option" where
  "harness_init idf h =
     ec200_init h (Some (tx idf)) (Some (rx idf)) (Some (dly idf)) (user_ctx h)"

text \<open>The boot loop after the power key was pulsed, with the rounds that are left.\<close>

fun harness_boot ::
    "'e esp_idf \<Rightarrow> nat \<Rightarrow> ec200_status \<Rightarrow> 'e bench \<Rightarrow> ('e bench \<times> ec200_status) option" where
  "harness_boot idf 0 st h = Some (h, st)"
| "harness_boot idf (Suc n) st h = do {
     (h, st) \<leftarrow> harness_init idf h;
     if st = EC200_OK then Some (h, st)
     else harness_boot idf n st (pause idf 1000 h)
   }"

definition bring_up :: "'e esp_idf \<Rightarrow> 'e bench \<Rightarrow> ('e bench \<times> ec200_status) option" where
  "bring_up idf h = do {
     (h, st) \<leftarrow> harness_init idf h;
     if st = EC200_OK then Some (h, st)
     else do {
       let h = say (''no response; pulsing PWRKEY to power on...'' @ [LF]) h;
       harness_boot idf 15 st (set_world (pwrkey_pulse idf) h)
     }
   }"

text \<open>The flag tells whether the tests ran; otherwise the harness halted.\<close>

definition run_all ::
    "'e esp_idf \<Rightarrow> ('e \<Rightarrow> nat \<times> 'e) \<Rightarrow> 'f float_ops \<Rightarrow> certs \<Rightarrow> string \<Rightarrow> (string \<Rightarrow> 'f locals)
     \<Rightarrow> 'e rig \<Rightarrow> ('e bench \<times> bool) run option" where
  "run_all idf esp_random fo pem dest j w =
     (case harness_uart idf w of
        None \<Rightarrow> Some Aborted
      | Some w \<Rightarrow> do {
          let w = app_print ([LF] @ ''########## EC200 API TEST HARNESS (lib v1.1.0) ##########'' @ [LF]) w;
          let w = gpio_init idf w;
          (h, st) \<leftarrow> bring_up idf (static_handle (tx idf) (rx idf) (dly idf) w);
          if st \<noteq> EC200_OK
          then Some (Go (say (''FATAL: modem not responding ('' @ status_text st @ ''). Halting.'' @ [LF]) h,
                 False))
          else do {
            let h = say (''modem up.'' @ [LF]) h;
            let h = say (''waiting for registration...'' @ [LF]) h;
            (h, _) \<leftarrow> ec200_net_wait_registered h 60000;
            r \<leftarrow> run_steps (harness_steps idf esp_random fo pem dest j) h;
            case r of
              Go h \<Rightarrow> Some (Go (summary h, True))
            | OutOfBounds \<Rightarrow> Some OutOfBounds
            | Aborted \<Rightarrow> Some Aborted
          }
        })"

text \<open>The static variables at the start of the program.\<close>

definition power_on_rig :: "'e \<Rightarrow> 'e rig" where
  "power_on_rig e =
     \<lparr>app_console = [], app_env = e, g_pass = 0, g_fail = 0, g_skip = 0, s_got_msg = False,
      s_msg_topic = [], g_sms_dest = [], g_sms_dest_is_self = False, g_sms_dest_resolved = False\<rparr>"

end
