(* ===== verification/Ec200_Harness_Score.thy ===== *)
theory Ec200_Harness_Score
  imports Ec200_Harness_Main Ec200_Api Ec200_Psm_Codec
begin

text \<open>
  Which cases of the on-target harness pass whatever the module answers: the cases that hand a
  bad argument to the library, or use a pure function of it. \<open>standing idf c k h\<close> says that
  \<open>h\<close> is the harness' handle, that every case named in \<open>k\<close> is reported as passed on the
  console and counted (and, if \<open>c\<close>, that the handle is in command mode). It is a frame of the
  AT engine, so every call of the library keeps it, and each test adds its own cases.
\<close>

section \<open>The cases by name\<close>

definition core_cases :: "string list" where
  "core_cases = [''imei NULL buf'', ''cmee bad mode'', ''status_str all codes'',
    ''oversized cmd -> OVERFLOW'']"

definition sim_cases :: "string list" where
  "sim_cases = [''status NULL'', ''enter_pin NULL'', ''enter_pin too long'']"

definition network_cases :: "string list" where
  "network_cases = [''creg NULL'', ''signal NULL'']"

definition data_cases :: "string list" where
  "data_cases = [''set_pdp NULL'', ''bad cid 0'', ''bad cid 17'', ''get_ip bad cid'']"

definition tcp_cases :: "string list" where
  "tcp_cases = [''open bad conn_id'', ''open NULL host'', ''send NULL data'', ''recv NULL buf'']"

definition http_cases :: "string list" where
  "http_cases = [''set_url NULL'', ''set_context bad'', ''get NULL resp'', ''oversized URL -> PARAM'']"

definition mqtt_cases :: "string list" where
  "mqtt_cases = [''open NULL cfg'', ''sub NULL topic'', ''pub msg_id 0 QoS1'']"

definition sms_cases :: "string list" where
  "sms_cases = [''send NULL num'', ''send empty num'', ''send oversized text'', ''send Ctrl-Z injection'',
    ''delete_all bad flag'']"

definition storage_cases :: "string list" where
  "storage_cases = [''set_storage rejects MT as write store'', ''get_storage NULL'']"

definition smsc_cases :: "string list" where
  "smsc_cases = [''set_smsc NULL'', ''set_smsc empty'', ''get_smsc NULL'']"

definition draft_cases :: "string list" where
  "draft_cases = [''write rejects Ctrl-Z'', ''send_stored bad index'']"

definition cnmi_cases :: "string list" where
  "cnmi_cases = [''set_indication NULL'', ''set_indication out of range'', ''get_indication NULL'']"

definition notification_cases :: "string list" where
  "notification_cases = [''parse +CMTI'', ''parsed CMTI index'', ''parsed CMTI storage'', ''parse non-CMTI line'',
    ''parse CMTI NULL'']"

definition psm_codec_cases :: "string list" where
  "psm_codec_cases = [''encode TAU 1 hour'', ''TAU 1 hour encodes to 00100001'', ''encode active time 2 s'',
    ''active 2 s encodes to 00000001'', ''encode refuses 3660 s'',
    ''encode TAU 1 hour (again)'', ''decode TAU string'', ''TAU decodes back to 3600 s'',
    ''decode rejects short string'']"

definition psm_cases :: "string list" where
  "psm_cases = [''psm_set NULL'', ''psm_get NULL'', ''psm_set short timer'']"

definition edrx_cases :: "string list" where
  "edrx_cases = [''edrx_set NULL'', ''edrx_get NULL'', ''edrx_get_dynamic NULL'', ''edrx_disable bad act'',
    ''edrx_set short value'']"

definition gnss_cases :: "string list" where
  "gnss_cases = [''gnss_get_status NULL'']"

definition netdiag_cases :: "string list" where
  "netdiag_cases = [''get_info NULL'', ''get_spn NULL'']"

definition ping_cases :: "string list" where
  "ping_cases = [''ping bad count'']"

definition clock_cases :: "string list" where
  "clock_cases = [''time_get NULL'', ''ntp bad ctx'']"

definition file_cases :: "string list" where
  "file_cases = [''upload NULL name'']"

definition ssl_cases :: "string list" where
  "ssl_cases = [''ssl bad ctx id'']"

definition ppp_cases :: "string list" where
  "ppp_cases = [''not in data mode initially'', ''escape in cmd mode refused'', ''dial bad cid'']"

definition power_cases :: "string list" where
  "power_cases = [''get_cfun NULL'']"

text \<open>All of them, in the order of the run.\<close>

definition static_cases :: "string list" where
  "static_cases =
     core_cases @ sim_cases @ network_cases @ data_cases @ tcp_cases @ netdiag_cases @ ping_cases @ file_cases @
     ssl_cases @ http_cases @ mqtt_cases @ sms_cases @ storage_cases @ smsc_cases @ draft_cases @ cnmi_cases @
     notification_cases @ psm_codec_cases @ psm_cases @ edrx_cases @ clock_cases @ gnss_cases @ ppp_cases @
     power_cases"

lemmas case_lists =
  core_cases_def sim_cases_def network_cases_def data_cases_def tcp_cases_def http_cases_def
  mqtt_cases_def sms_cases_def storage_cases_def smsc_cases_def draft_cases_def cnmi_cases_def
  notification_cases_def psm_codec_cases_def psm_cases_def edrx_cases_def gnss_cases_def netdiag_cases_def
  ping_cases_def clock_cases_def file_cases_def ssl_cases_def ppp_cases_def power_cases_def

section \<open>The standing of a run\<close>

text \<open>The console has a line that reports the case as passed.\<close>

definition passed :: "string \<Rightarrow> 'e rig \<Rightarrow> bool" where
  "passed d w \<longleftrightarrow> (\<exists>a b. app_console w = a @ ''  [PASS] '' @ d @ b)"

definition scored :: "string list \<Rightarrow> 'e rig \<Rightarrow> bool" where
  "scored k w \<longleftrightarrow> length k \<le> g_pass w \<and> (\<forall>d\<in>set k. passed d w)"

definition standing :: "'e esp_idf \<Rightarrow> bool \<Rightarrow> string list \<Rightarrow> 'e bench \<Rightarrow> bool" where
  "standing idf c k h \<longleftrightarrow>
     h_write h = tx idf \<and> h_read h = rx idf \<and> h_delay_ms h = dly idf \<and> urc_handler h = None \<and>
     (mqtt_msg_cb h = None \<or> mqtt_msg_cb h = Some mqtt_cb) \<and>
     (\<forall>e \<in> set (urc_table h). \<forall>g. ue_fn e \<noteq> Some (UserUrc g)) \<and> initialised h \<and>
     (c \<longrightarrow> \<not> ppp_data_mode h) \<and> scored k (user_ctx h)"

text \<open>The console only grows and the number of passed cases does not change.\<close>

definition grows :: "'e rig \<Rightarrow> 'e rig \<Rightarrow> bool" where
  "grows w w' \<longleftrightarrow> g_pass w' = g_pass w \<and> (\<exists>s. app_console w' = app_console w @ s)"

lemma growsI: "g_pass w' = g_pass w \<Longrightarrow> app_console w' = app_console w \<Longrightarrow> grows w w'"
  by (simp add: grows_def)

lemma grows_print: "grows w (app_print s w)"
  by (simp add: grows_def app_print_def)

lemma passed_grows: "passed d w \<Longrightarrow> grows w w' \<Longrightarrow> passed d w'"
  unfolding passed_def grows_def by (metis append.assoc)

lemma scored_grows: "scored k w \<Longrightarrow> grows w w' \<Longrightarrow> scored k w'"
  by (auto simp: scored_def passed_grows) (simp add: grows_def)

lemma standing_callbacks:
  "tx idf d w = (n, w') \<Longrightarrow> grows w w'"
  "rx idf m tmo w = (n, d, w') \<Longrightarrow> grows w w'"
  "grows w (dly idf ms w)"
  "grows w (mqtt_cb msg w)"
  "grows w (pwrkey_pulse idf w)"
  by (auto simp: tx_def rx_def dly_def mqtt_cb_def app_print_def pwrkey_pulse_def set_level_def Let_def grows_def
      split: prod.splits)

lemma scored_callbacks:
  "tx idf d w = (n, w') \<Longrightarrow> scored k w \<Longrightarrow> scored k w'"
  "rx idf m tmo w = (n, d, w') \<Longrightarrow> scored k w \<Longrightarrow> scored k w'"
  "scored k w \<Longrightarrow> scored k (dly idf ms w)"
  "scored k w \<Longrightarrow> scored k (mqtt_cb msg w)"
  using scored_grows standing_callbacks by metis+

interpretation benchr: at_frame "\<lambda>h h'. standing idf c k h \<longrightarrow> standing idf c k h'" for idf c k
  by unfold_locales (auto simp: standing_def intro!: transpI intro: scored_callbacks)

definition covers :: "string list \<Rightarrow> string list \<Rightarrow> bool" where
  "covers k' k \<longleftrightarrow> length k' \<le> length k \<and> set k' \<subseteq> set k"

lemma covers_refl [simp]: "covers k k"
  by (simp add: covers_def)

text \<open>Comparing the cases a test states with those it went through.\<close>

declare case_lists [simp]

lemma standing_weaken: "standing idf c k h \<Longrightarrow> (c' \<longrightarrow> c) \<Longrightarrow> covers k' k \<Longrightarrow> standing idf c' k' h"
  by (auto simp: standing_def covers_def scored_def)

text \<open>What the harness itself does to its handle.\<close>

lemma standing_world:
  "standing idf c k h \<Longrightarrow> grows (user_ctx h) (f (user_ctx h)) \<Longrightarrow> standing idf c k (set_world f h)"
  by (auto simp: standing_def set_world_def intro: scored_grows)

lemma standing_say [simp]: "standing idf c k h \<Longrightarrow> standing idf c k (say s h)"
  by (auto simp: standing_def say_def intro: scored_grows grows_print)

lemma standing_quiet [simp]:
  "standing idf c k h \<Longrightarrow> standing idf c k (detail s h)"
  "standing idf c k h \<Longrightarrow> standing idf c k (banner s h)"
  "standing idf c k h \<Longrightarrow> standing idf c k (skip s r h)"
  "standing idf c k h \<Longrightarrow> standing idf c k (pause idf' ms h)"
  "standing idf c k h \<Longrightarrow> standing idf c k (clear_got_msg h)"
  "standing idf c k h \<Longrightarrow> standing idf c k (dial_line s st h)"
  "standing idf c k h \<Longrightarrow> standing idf c k (set_world (pwrkey_pulse idf') h)"
  by (simp_all add: detail_def banner_def skip_def pause_def clear_got_msg_def dial_line_def standing_world
      standing_callbacks growsI)

text \<open>A line on the console that begins with the mark of a passed case.\<close>

lemma passed_say: "passed d (user_ctx (say (''  [PASS] '' @ d @ s) h))"
  by (auto simp: passed_def say_def app_print_def)

lemma standing_scores:
  assumes "standing idf c k h" "passed d (user_ctx h)"
  shows "standing idf c (k @ [d]) (set_world (\<lambda>w. w\<lparr>g_pass := Suc (g_pass w)\<rparr>) h)"
  using assms by (auto simp: standing_def set_world_def scored_def passed_def)

lemma passed_say_more: "passed d (user_ctx h) \<Longrightarrow> passed d (user_ctx (say s h))"
  using passed_grows [OF _ grows_print] by (simp add: say_def)

lemma standing_result:
  "standing idf c k h \<Longrightarrow> standing idf c k (ck d ok h)"
  "standing idf c k h \<Longrightarrow> standing idf c k (ck_st d got want h)"
  "standing idf c k h \<Longrightarrow> standing idf c (k @ [d]) (ck d True h)"
  "standing idf c k h \<Longrightarrow> standing idf c (k @ [d]) (ck_st d want want h)"
proof -
  have down: "standing idf c k (set_world (\<lambda>w. w\<lparr>g_fail := Suc (g_fail w)\<rparr>) x)"
    "standing idf c k (set_world (\<lambda>w. w\<lparr>g_pass := Suc (g_pass w)\<rparr>) x)"
    if "standing idf c k x" for x
    using that by (auto simp: standing_def set_world_def scored_def passed_def)
  note * = down standing_scores
  note shown = passed_say [simplified] passed_say_more
  assume h: "standing idf c k h"
  show "standing idf c k (ck d ok h)" "standing idf c (k @ [d]) (ck d True h)"
    using h by (auto simp: ck_def Let_def intro!: * intro: shown)
  show "standing idf c k (ck_st d got want h)" "standing idf c (k @ [d]) (ck_st d want want h)"
    using h by (auto simp: ck_st_def Let_def intro!: * intro: shown)
qed

lemma standing_message_cb:
  assumes "standing idf c k h" and "cb = None \<or> cb = Some mqtt_cb"
  shows "standing idf c k (ec200_mqtt_set_message_cb h cb)"
proof -
  have upd: "e = x \<or> e \<in> set t" if "e \<in> set (t[i := x])" for e x :: "'a rig ec200_urc_entry" and t i
    using that set_update_subset_insert [of t i x] by auto
  show ?thesis
    using assms
    by (auto simp: standing_def ec200_mqtt_set_message_cb_def ec200_at_register_urc_def
        ec200_at_unregister_urc_def free_urc_entry_def Let_def split: option.splits dest!: upd)
qed

section \<open>Stepping through a test\<close>

definition ends :: "('a \<Rightarrow> bool) \<Rightarrow> 'a option \<Rightarrow> bool" where
  "ends P m \<longleftrightarrow> (\<forall>r. m = Some r \<longrightarrow> P r)"

lemma ends_None: "ends P None"
  by (simp add: ends_def)

text \<open>
  Elimination rules: the standing of the current handle moves along the code. A call of the
  library leaves the obligation that it keeps the standing.
\<close>

lemma step_ck: "standing idf c k h \<Longrightarrow> (\<And>h'. standing idf c k h' \<Longrightarrow> ends P (f h')) \<Longrightarrow> ends P (Let (ck d ok h) f)"
  by (simp add: standing_result)

lemma step_ck_True:
  "standing idf c k h \<Longrightarrow> (\<And>h'. standing idf c (k @ [d]) h' \<Longrightarrow> ends P (f h')) \<Longrightarrow> ends P (Let (ck d True h) f)"
  by (simp add: standing_result)

lemma step_ck_st:
  "standing idf c k h \<Longrightarrow> (\<And>h'. standing idf c k h' \<Longrightarrow> ends P (f h')) \<Longrightarrow> ends P (Let (ck_st d st st' h) f)"
  by (simp add: standing_result)

lemma step_static:
  "standing idf c k h \<Longrightarrow> (\<And>h'. standing idf c (k @ [d]) h' \<Longrightarrow> ends P (f h')) \<Longrightarrow>
   ends P (Option.bind (Some (ck_st d st st h)) f)"
  by (simp add: standing_result)

lemma step_static_out:
  "standing idf c k h \<Longrightarrow> (\<And>h'. standing idf c (k @ [d]) h' \<Longrightarrow> ends P (f h' x)) \<Longrightarrow>
   ends P (Option.bind (Some (ck_st d st st h, x)) (\<lambda>(h', x). f h' x))"
  by (simp add: standing_result)

lemma step_let_handle:
  "standing idf c k h \<Longrightarrow> (standing idf c k h \<Longrightarrow> standing idf c k v) \<Longrightarrow>
   (\<And>h'. standing idf c k h' \<Longrightarrow> ends P (f h')) \<Longrightarrow> ends P (Let v f)"
  by simp

lemma step_let: "standing idf c k h \<Longrightarrow> (\<And>x. standing idf c k h \<Longrightarrow> ends P (f x)) \<Longrightarrow> ends P (Let v f)"
  by simp

lemma step_random:
  "standing idf c k h \<Longrightarrow> (\<And>h' s. standing idf c k h' \<Longrightarrow> ends P (f s h')) \<Longrightarrow>
   ends P (Let (random_id r b h) (\<lambda>(s, h'). f s h'))"
  by (cases "r (app_env (user_ctx h))") (simp add: random_id_def standing_world growsI)

lemma step_prod:
  "standing idf c k h \<Longrightarrow> (\<And>x y. standing idf c k h \<Longrightarrow> ends P (f x y)) \<Longrightarrow> ends P (case_prod f p)"
  by (cases p) simp

lemma step_if:
  "standing idf c k h \<Longrightarrow> (b \<Longrightarrow> standing idf c k h \<Longrightarrow> ends P m) \<Longrightarrow>
   (\<not> b \<Longrightarrow> standing idf c k h \<Longrightarrow> ends P m') \<Longrightarrow> ends P (if b then m else m')"
  by simp

lemma step_option:
  "standing idf c k h \<Longrightarrow> (standing idf c k h \<Longrightarrow> ends P m) \<Longrightarrow>
   (\<And>y. standing idf c k h \<Longrightarrow> ends P (f y)) \<Longrightarrow> ends P (case_option m f x)"
  by (cases x) simp_all

text \<open>The calls.\<close>

abbreviation kept :: "'e esp_idf \<Rightarrow> bool \<Rightarrow> string list \<Rightarrow> 'e bench \<Rightarrow> ('e bench \<times> 'a) option \<Rightarrow> bool" where
  "kept idf c k h m \<equiv> keeps (\<lambda>h h'. standing idf c k h \<longrightarrow> standing idf c k h') h m"

lemma step_ck_call:
  "standing idf c k h \<Longrightarrow> kept idf c k h m \<Longrightarrow> (\<And>h'. standing idf c k h' \<Longrightarrow> ends P (f h')) \<Longrightarrow>
   ends P (Option.bind (ck_call d m want) f)"
  by (cases m) (auto simp: ck_call_def keeps_def standing_result ends_None)

lemma step_ck_out:
  "standing idf c k h \<Longrightarrow> kept idf c k h m \<Longrightarrow> (\<And>h' x. standing idf c k h' \<Longrightarrow> ends P (f h' x)) \<Longrightarrow>
   ends P (Option.bind (ck_out d m want) (\<lambda>(h', x). f h' x))"
  by (cases m) (auto simp: ck_out_def keeps_def standing_result ends_None)

lemma step_call:
  "standing idf c k h \<Longrightarrow> kept idf c k h m \<Longrightarrow> (\<And>h' x. standing idf c k h' \<Longrightarrow> ends P (f h' x)) \<Longrightarrow>
   ends P (Option.bind m (\<lambda>(h', x). f h' x))"
  by (cases m) (auto simp: keeps_def ends_def)

lemma step_bench:
  "standing idf c k h \<Longrightarrow> (standing idf c k h \<Longrightarrow> ends (standing idf c k) m) \<Longrightarrow>
   (\<And>h'. standing idf c k h' \<Longrightarrow> ends P (f h')) \<Longrightarrow> ends P (Option.bind m f)"
  by (cases m) (auto simp: ends_def)

text \<open>The last expression.\<close>

lemma last_Some:
  "standing idf c k h \<Longrightarrow> (standing idf c k h \<Longrightarrow> standing idf c k v) \<Longrightarrow> covers k' k \<Longrightarrow>
   ends (standing idf c k') (Some v)"
  by (auto simp: ends_def intro: standing_weaken)

lemma last_static: "standing idf c k h \<Longrightarrow> covers k' (k @ [d]) \<Longrightarrow> ends (standing idf c k') (Some (ck_st d st st h))"
  by (auto simp: ends_def intro: standing_weaken [OF standing_result(4)])

lemma last_ck_call:
  "standing idf c k h \<Longrightarrow> kept idf c k h m \<Longrightarrow> covers k' k \<Longrightarrow> ends (standing idf c k') (ck_call d m want)"
  by (cases m) (auto simp: ck_call_def keeps_def ends_def intro: standing_weaken [OF standing_result(2)])

lemma last_sub: "ends (standing idf c k1) m \<Longrightarrow> covers k' k1 \<Longrightarrow> ends (standing idf c k') m"
  by (auto simp: ends_def intro: standing_weaken)

lemma step_sub:
  "ends Q m \<Longrightarrow> (\<And>h'. Q h' \<Longrightarrow> ends P (f h')) \<Longrightarrow> ends P (Option.bind m f)"
  by (cases m) (auto simp: ends_def)

text \<open>Parts of a test that hand back a value with the handle keep the standing.\<close>

definition stands :: "'e esp_idf \<Rightarrow> bool \<Rightarrow> string list \<Rightarrow> 'e bench \<times> 'a \<Rightarrow> bool" where
  "stands idf c k = (\<lambda>(h, x). standing idf c k h)"

lemma kept_ends: "(standing idf c k h \<Longrightarrow> ends (stands idf c k) m) \<Longrightarrow> kept idf c k h m"
  by (auto simp: keeps_def ends_def stands_def)

lemma last_pair:
  "standing idf c k h \<Longrightarrow> (standing idf c k h \<Longrightarrow> standing idf c k v) \<Longrightarrow> ends (stands idf c k) (Some (v, x))"
  by (simp add: ends_def stands_def)

lemma last_kept: "standing idf c k h \<Longrightarrow> kept idf c k h m \<Longrightarrow> ends (stands idf c k) m"
  by (auto simp: keeps_def ends_def stands_def)

lemmas steps =
  step_ck_True step_ck step_ck_st step_random step_let_handle step_static step_static_out step_ck_call step_ck_out
  last_static last_Some last_ck_call step_if step_option step_call step_bench step_prod step_let

lemma ck_Some:
  "ck_call d (Some (h, st)) want = Some (ck_st d st want h)"
  "ck_out d (Some (h, st, x)) want = Some (ck_st d st want h, x)"
  by (simp_all add: ck_call_def ck_out_def)

section \<open>Cases that need no answer\<close>

lemma core_static:
  "ec200_get_imei h None = Some (h, EC200_ERR_PARAM, None)"
  "ec200_set_cmee h 9 = Some (h, EC200_ERR_PARAM)"
  "ec200_sim_get_status h None = Some (h, EC200_ERR_PARAM, None)"
  "ec200_sim_enter_pin h None = Some (h, EC200_ERR_PARAM)"
  "ec200_sim_enter_pin h (Some ''123456789'') = Some (h, EC200_ERR_PARAM)"
  "ec200_net_get_creg h None = Some (h, EC200_ERR_PARAM, None)"
  "ec200_net_get_signal h None = Some (h, EC200_ERR_PARAM, None)"
  "ec200_data_set_pdp h None = Some (h, EC200_ERR_PARAM)"
  "ec200_data_activate h 0 = Some (h, EC200_ERR_PARAM)"
  "ec200_data_activate h 17 = Some (h, EC200_ERR_PARAM)"
  "ec200_data_get_ip h 99 ip = Some (h, EC200_ERR_PARAM, ip)"
  "ec200_tcp_open h 1 99 EC200_SOCK_TCP host p EC200_ACCESS_BUFFER = Some (h, EC200_ERR_PARAM)"
  "ec200_tcp_open h 1 0 EC200_SOCK_TCP None p EC200_ACCESS_BUFFER = Some (h, EC200_ERR_PARAM)"
  "ec200_tcp_send h 0 None n = Some (h, EC200_ERR_PARAM)"
  "ec200_tcp_recv h 0 None n g tmo = Some (h, EC200_ERR_PARAM, None, g)"
  "ec200_http_set_url h None = Some (h, EC200_ERR_PARAM)"
  "ec200_http_set_url h (Some long_url) = Some (h, EC200_ERR_PARAM)"
  "ec200_http_set_context h 0 = Some (h, EC200_ERR_PARAM)"
  "ec200_http_get h tmo None = Some (h, EC200_ERR_PARAM, None)"
  "ec200_mqtt_open h None = Some (h, EC200_ERR_PARAM)"
  "ec200_mqtt_subscribe h 0 1 None q = Some (h, EC200_ERR_PARAM)"
  "ec200_mqtt_publish h 0 0 1 r (Some ''t'') pl n = Some (h, EC200_ERR_PARAM)"
  "(ec200_status_str 0 \<noteq> None \<and> ec200_status_str (-123) \<noteq> None) = True"
  by (simp_all add: ec200_get_imei_def no_buf_def ec200_set_cmee_def ec200_sim_get_status_def
      ec200_sim_enter_pin_def ec200_net_get_creg_def get_reg_def ec200_net_get_signal_def
      ec200_data_set_pdp_def ec200_data_activate_def ec200_data_get_ip_def ec200_tcp_open_def
      ec200_tcp_send_def ec200_tcp_recv_def ec200_http_set_url_def ec200_http_set_context_def
      ec200_http_get_def ec200_mqtt_open_def ec200_mqtt_subscribe_def ec200_mqtt_publish_def bad_topic_def
      long_url_def size_defs EC200_SOCK_TCP_def EC200_SOCK_UDP_SERVICE_def EC200_ACCESS_BUFFER_def
      no_host_def ec200_status_str_def)

lemma oversized_send:
  assumes "standing idf True k h"
  obtains h' where "ec200_at_send h (Some big_command) None t = Some (h', EC200_ERR_OVERFLOW, None)"
    and "standing idf True k h'"
proof -
  obtain h' where "ec200_at_send h (Some big_command) None t = Some (h', EC200_ERR_OVERFLOW, None)"
    using assms
    by (auto simp: standing_def ec200_at_send_def handle_ready_def at_transmit_def Let_def big_command_def
        size_defs)
  with assms benchr.keeps_send [THEN keepsD, OF this] show ?thesis using that by blast
qed

lemma step_oversized:
  "standing idf True k h \<Longrightarrow> (\<And>h' x. standing idf True (k @ [d]) h' \<Longrightarrow> ends P (f h' x)) \<Longrightarrow>
   ends P (Option.bind (ck_out d (ec200_at_send h (Some big_command) None t) EC200_ERR_OVERFLOW) (\<lambda>(h', x). f h' x))"
  by (erule oversized_send [of idf k h t]) (simp add: ck_Some standing_result)

section \<open>The tests\<close>

lemma test_core_standing:
  "standing idf True k h \<Longrightarrow> ends (standing idf True (k @ core_cases)) (test_core j h)"
  unfolding test_core_def core_static ck_Some
  by (elim step_oversized steps) (rule benchr.keeps_api | simp)+

lemma test_error_standing:
  "standing idf c k h \<Longrightarrow> ends (standing idf c k) (test_error_reporting j h)"
  unfolding test_error_reporting_def ck_Some
  by (elim steps) (rule benchr.keeps_api standing_result | simp)+

lemma test_sim_standing:
  "standing idf c k h \<Longrightarrow> ends (standing idf c (k @ sim_cases)) (test_sim j h)"
  unfolding test_sim_def core_static ck_Some
  by (elim steps) (rule benchr.keeps_api | simp)+

lemma test_network_standing:
  "standing idf c k h \<Longrightarrow> ends (standing idf c (k @ network_cases)) (test_network j h)"
  unfolding test_network_def core_static ck_Some
  by (elim steps) (rule benchr.keeps_api | simp)+

lemma test_data_standing:
  "standing idf c k h \<Longrightarrow> ends (standing idf c (k @ data_cases)) (test_data j h)"
  unfolding test_data_def core_static ck_Some
  by (elim steps) (rule benchr.keeps_api | simp)+

lemma tcp_rest_standing:
  "standing idf c k h \<Longrightarrow> ends (standing idf c (k @ tcp_cases)) (test_tcp_rest idf' b g h)"
  unfolding test_tcp_rest_def core_static ck_Some
  by (elim steps) (rule benchr.keeps_api | simp)+

lemma test_http_standing:
  "standing idf c k h \<Longrightarrow> ends (standing idf c (k @ http_cases)) (test_http j h)"
  unfolding test_http_def core_static ck_Some
  by (elim steps) (rule benchr.keeps_api | simp)+

lemma poll_standing:
  "standing idf c k h \<Longrightarrow> ends (standing idf c k) (poll_for_msg n h)"
  "standing idf c k h \<Longrightarrow> ends (standing idf c k) (poll_times n h)"
proof (induction n arbitrary: h)
  case 0
  {
    case 1
    then show ?case by (simp add: ends_def)
  next
    case 2
    then show ?case by (simp add: ends_def)
  }
next
  case (Suc n)
  {
    case 1
    then show ?case
      unfolding poll_for_msg.simps by (elim steps) (rule benchr.keeps_poll | erule Suc.IH | simp)+
  next
    case 2
    then show ?case
      unfolding poll_times.simps by (elim steps) (rule benchr.keeps_poll | erule Suc.IH | simp)+
  }
qed

lemma probe_injection_standing:
  "standing idf c k h \<Longrightarrow> ends (standing idf c k) (probe_injection h)"
  unfolding probe_injection_def
  by (elim steps) (rule benchr.keeps_api standing_result | erule poll_standing | simp)+

lemma test_mqtt_standing:
  "standing idf c k h \<Longrightarrow> ends (standing idf c (k @ mqtt_cases)) (test_mqtt idf' r h)"
  unfolding test_mqtt_def core_static ck_Some
  by (elim steps)
    (rule benchr.keeps_api | erule poll_standing probe_injection_standing standing_message_cb | simp)+

lemma close_sockets_standing: "standing idf c k h \<Longrightarrow> ends (standing idf c k) (close_sockets n i h)"
proof (induction n arbitrary: i h)
  case 0
  then show ?case by (simp add: ends_def)
next
  case (Suc n)
  from Suc.prems show ?case
    unfolding close_sockets.simps by (elim steps) (rule benchr.keeps_api | erule Suc.IH | simp)+
qed

lemma pause_kept: "kept idf c k h (ec200_check_at (pause idf' ms h))"
  using benchr.keeps_check_at [of idf c k "pause idf' ms h"] by (simp add: keeps_def)

lemma settle_standing: "standing idf c k h \<Longrightarrow> ends (standing idf c k) (settle idf' h)"
  unfolding settle_def
  by (elim steps) (rule benchr.keeps_api pause_kept | erule close_sockets_standing | simp)+

section \<open>Short messages and power saving\<close>

text \<open>The outcome of a test that may also end in a store outside an array.\<close>

definition goes :: "('a \<Rightarrow> bool) \<Rightarrow> 'a run \<Rightarrow> bool" where
  "goes P r = (case r of Go x \<Rightarrow> P x | _ \<Rightarrow> True)"

lemma ends_go: "ends P m \<Longrightarrow> ends (goes P) (map_option Go m)"
  by (cases m) (simp_all add: ends_def goes_def)

lemma last_out: "standing idf c k h \<Longrightarrow> ends (goes P) (Some OutOfBounds)"
  by (simp add: ends_def goes_def)

lemma last_hand:
  "standing idf c k h \<Longrightarrow> (standing idf c k h \<Longrightarrow> standing idf c k v) \<Longrightarrow>
   ends (goes (stands idf c k)) (Some (Go (v, x)))"
  by (simp add: ends_def goes_def stands_def)

lemma step_run_pair:
  "standing idf c k h \<Longrightarrow> (standing idf c k h \<Longrightarrow> ends (goes (stands idf c k)) m) \<Longrightarrow>
   (\<And>h' x. standing idf c k h' \<Longrightarrow> ends (goes P) (f h' x)) \<Longrightarrow>
   ends (goes P) (Option.bind m (\<lambda>r. case r of Go (h', x) \<Rightarrow> f h' x | OutOfBounds \<Rightarrow> Some OutOfBounds | Aborted \<Rightarrow> Some Aborted))"
  by (cases m; cases "the m") (auto simp: ends_def goes_def stands_def)

lemma own_number_standing: "standing idf c k h \<Longrightarrow> ends (goes (stands idf c k)) (own_number j h)"
  unfolding own_number_def
  by (elim last_out last_hand steps) (rule benchr.keeps_api | simp)+

lemma sms_dest_standing: "standing idf c k h \<Longrightarrow> ends (goes (stands idf c k)) (sms_dest dest j h)"
  unfolding sms_dest_def
  by (elim step_run_pair last_out last_hand steps)
    (erule own_number_standing | rule standing_world growsI | simp)+

lemma sms_static:
  "ec200_sms_send h None (Some ''x'') = Some (h, EC200_ERR_PARAM)"
  "ec200_sms_send h (Some []) (Some ''x'') = Some (h, EC200_ERR_PARAM)"
  "ec200_sms_send h (Some ''+10000000000'') (Some long_text) = Some (h, EC200_ERR_PARAM)"
  "ec200_sms_send h (Some ''+10000000000'') (Some ctrl_z_text) = Some (h, EC200_ERR_PARAM)"
  "ec200_sms_delete_all h 9 = Some (h, EC200_ERR_PARAM)"
  "ec200_sms_set_storage h 1 2 1 None = Some (h, EC200_ERR_PARAM, None)"
  "ec200_sms_get_storage h None = Some (h, EC200_ERR_PARAM, None)"
  "ec200_sms_set_smsc h None = Some (h, EC200_ERR_PARAM)"
  "ec200_sms_set_smsc h (Some []) = Some (h, EC200_ERR_PARAM)"
  "ec200_sms_get_smsc h None = Some (h, EC200_ERR_PARAM, None)"
  "ec200_sms_write h (Some ''+10000000000'') (Some ctrl_z_text) None = Some (h, EC200_ERR_PARAM, None)"
  "ec200_sms_send_stored h (-1) None = Some (h, EC200_ERR_PARAM, None)"
  "ec200_sms_set_indication h None = Some (h, EC200_ERR_PARAM)"
  "ec200_sms_set_indication h (Some (harness_cnmi 9)) = Some (h, EC200_ERR_PARAM)"
  "ec200_sms_get_indication h None = Some (h, EC200_ERR_PARAM, None)"
  by (simp_all add: ec200_sms_send_def ec200_sms_write_def sms_submit_def ec200_sms_delete_all_def
      ec200_sms_set_storage_def ec200_sms_get_storage_def ec200_sms_set_smsc_def ec200_sms_get_smsc_def
      ec200_sms_send_stored_def ec200_sms_set_indication_def ec200_sms_get_indication_def mem_arg_ok_def
      long_text_def ctrl_z_text_def harness_cnmi_def no_buf_def SMS_CTRL_Z_def
      size_defs)

lemma await_loopback_kept: "kept idf c k h (await_loopback idf' n before tmp after h)"
proof (induction n arbitrary: tmp after h)
  case 0
  then show ?case by (simp add: keeps_def)
next
  case (Suc n)
  show ?case
    unfolding await_loopback.simps
    by (rule kept_ends, elim last_pair steps) (rule benchr.keeps_api Suc.IH last_kept | simp)+
qed

lemma sms_live_standing: "standing idf c k h \<Longrightarrow> ends (standing idf c k) (sms_live idf' j dest h)"
  unfolding sms_live_def
  by (elim steps) (rule benchr.keeps_api await_loopback_kept standing_result | simp)+

lemma sms_bad_path_standing: "standing idf c k h \<Longrightarrow> ends (standing idf c (k @ sms_cases)) (sms_bad_path h)"
  unfolding sms_bad_path_def sms_static ck_Some by (elim steps) simp

lemma step_list:
  "standing idf c k h \<Longrightarrow> (\<And>y ys. standing idf c k h \<Longrightarrow> ends (goes P) (f y ys)) \<Longrightarrow>
   ends (goes P) (case x of [] \<Rightarrow> Some OutOfBounds | y # ys \<Rightarrow> f y ys)"
  by (cases x) (simp_all add: ends_def goes_def)

lemma last_bad_path:
  "standing idf c k h \<Longrightarrow> (standing idf c k h \<Longrightarrow> standing idf c k v) \<Longrightarrow>
   ends (goes (standing idf c (k @ sms_cases))) (map_option Go (sms_bad_path v))"
  by (blast intro: ends_go sms_bad_path_standing)

lemma sms_inbox_standing: "standing idf c k h \<Longrightarrow> ends (goes (standing idf c (k @ sms_cases))) (sms_inbox j h)"
  unfolding sms_inbox_def
  by (elim last_bad_path step_list steps)
    (rule benchr.keeps_api | (elim last_bad_path steps; (rule benchr.keeps_api)?) | simp)+

lemma test_sms_standing:
  "standing idf c k h \<Longrightarrow> ends (goes (standing idf c (k @ sms_cases))) (test_sms idf' dest j h)"
  unfolding test_sms_def
  by (elim step_run_pair steps)
    (rule benchr.keeps_api | erule sms_dest_standing sms_inbox_standing sms_live_standing | simp)+

lemma sms_storage_standing: "standing idf c k h \<Longrightarrow> ends (standing idf c (k @ storage_cases)) (sms_storage_tests j h)"
  unfolding sms_storage_tests_def sms_static ck_Some
  by (elim steps) (rule benchr.keeps_api | simp)+

lemma sms_smsc_standing: "standing idf c k h \<Longrightarrow> ends (standing idf c (k @ smsc_cases)) (sms_smsc_tests h)"
  unfolding sms_smsc_tests_def sms_static ck_Some
  by (elim steps) (rule benchr.keeps_api | simp)+

lemma sms_draft_standing: "standing idf c k h \<Longrightarrow> ends (standing idf c k) (sms_draft_tests j d h)"
  unfolding sms_draft_tests_def by (elim steps) (rule benchr.keeps_api | simp)+

lemma sms_cnmi_standing: "standing idf c k h \<Longrightarrow> ends (standing idf c (k @ cnmi_cases)) (sms_cnmi_tests j h)"
  unfolding sms_cnmi_tests_def sms_static ck_Some
  by (elim steps) (rule benchr.keeps_api | simp)+

lemma notification_static:
  "ec200_sms_parse_notification (Some (''+CMTI: '' @ quoted ''ME'' @ '',3'')) (Some n) =
     (EC200_OK, Some \<lparr>ntf_mem = EC200_SMS_MEM_ME, ntf_index = 3\<rparr>)"
  "fst (ec200_sms_parse_notification (Some ''+CMGS: 3'') (Some n)) = EC200_ERR_PARSE"
  "fst (ec200_sms_parse_notification None x) = EC200_ERR_PARAM"
  by code_simp+

lemma notification_standing:
  "standing idf c k h \<Longrightarrow> standing idf c (k @ notification_cases) (sms_notification_tests j h)"
proof -
  have n: "k @ notification_cases = ((((k @ [''parse +CMTI'']) @ [''parsed CMTI index'']) @
      [''parsed CMTI storage'']) @ [''parse non-CMTI line'']) @ [''parse CMTI NULL'']"
    by (simp add: notification_cases_def)
  show "standing idf c k h \<Longrightarrow> standing idf c (k @ notification_cases) (sms_notification_tests j h)"
    unfolding n sms_notification_tests_def Let_def case_prod_beta notification_static fst_conv snd_conv
    by (simp add: standing_result notification_static del: append_assoc append.simps)
qed

lemma last_notification:
  "standing idf c k h \<Longrightarrow> covers k' (k @ notification_cases) \<Longrightarrow>
   ends (standing idf c k') (Some (sms_notification_tests j h))"
  by (auto simp: ends_def intro: standing_weaken [OF notification_standing])

lemma sms_extras_rest_standing:
  "standing idf c k h \<Longrightarrow>
   ends (standing idf c (k @ draft_cases @ cnmi_cases @ notification_cases)) (sms_extras_rest j dest h)"
  unfolding sms_extras_rest_def sms_static ck_Some
  by (elim step_sub [OF sms_cnmi_standing] last_notification steps)
    (erule sms_draft_standing | simp add: draft_cases_def)+

lemma test_sms_extras_standing:
  "standing idf c k h \<Longrightarrow>
   ends (goes (standing idf c (k @ storage_cases @ smsc_cases @ draft_cases @ cnmi_cases @ notification_cases)))
     (test_sms_extras dest j h)"
  unfolding test_sms_extras_def
  by (elim step_sub [OF sms_storage_standing] step_sub [OF sms_smsc_standing] step_run_pair steps)
    (erule sms_dest_standing | rule ends_go last_sub [OF sms_extras_rest_standing] | assumption | simp)+

lemma psm_static:
  "ec200_psm_encode_tau 3600 (Some (9, s)) = (EC200_OK, Some (9, ''00100001''))"
  "ec200_psm_encode_active_time 2 (Some (9, s)) = (EC200_OK, Some (9, ''00000001''))"
  "ec200_psm_encode_tau 3660 (Some (9, s)) = (EC200_ERR_PARAM, Some (9, s))"
  "ec200_psm_decode_timer (Some ''00100001'') True (Some n) = (EC200_OK, Some 3600)"
  "fst (ec200_psm_decode_timer (Some ''0010'') True (Some n)) = EC200_ERR_PARSE"
proof -
  have b: "psm_write_bits 1 1 = ''00100001''" "psm_write_bits 0 1 = ''00000001''" by code_simp+
  then show "ec200_psm_encode_tau 3600 (Some (9, s)) = (EC200_OK, Some (9, ''00100001''))"
    "ec200_psm_encode_active_time 2 (Some (9, s)) = (EC200_OK, Some (9, ''00000001''))"
    "ec200_psm_encode_tau 3660 (Some (9, s)) = (EC200_ERR_PARAM, Some (9, s))"
    by (simp_all add: ec200_psm_encode_tau_def ec200_psm_encode_active_time_def psm_encode_def tau_units_def
        active_units_def EC200_PSM_TIMER_STR_LEN_def PSM_MAX_MULTIPLIER_def)
  show "ec200_psm_decode_timer (Some ''00100001'') True (Some n) = (EC200_OK, Some 3600)"
    using tau.decode_unit [of 1 3600 1] b
    by (simp add: ec200_psm_decode_timer_def tau_units_def)
  have "psm_decode ''0010'' units = None" for units
    using read_bits_iff [of 8 0 "''0010''"] by (simp add: psm_decode_def)
  then show "fst (ec200_psm_decode_timer (Some ''0010'') True (Some n)) = EC200_ERR_PARSE"
    by (simp add: ec200_psm_decode_timer_def)
qed

lemma power_static:
  "ec200_psm_set h None = Some (h, EC200_ERR_PARAM)"
  "ec200_psm_get h None = Some (h, EC200_ERR_PARAM, None)"
  "ec200_psm_set h (Some \<lparr>psm_enabled = True, psm_periodic_tau = ''0010'', psm_active_time = ''00000001''\<rparr>) =
     Some (h, EC200_ERR_PARAM)"
  "ec200_edrx_set h None = Some (h, EC200_ERR_PARAM)"
  "ec200_edrx_get h None = Some (h, EC200_ERR_PARAM, None)"
  "ec200_edrx_get_dynamic h None = Some (h, EC200_ERR_PARAM, None)"
  "ec200_edrx_disable h 9 = Some (h, EC200_ERR_PARAM)"
  "ec200_edrx_set h (Some \<lparr>edrx_enabled = True, edrx_act_type = 2, edrx_requested = ''01''\<rparr>) =
     Some (h, EC200_ERR_PARAM)"
  "ec200_power_get_cfun h None = Some (h, EC200_ERR_PARAM, None)"
  by (simp_all add: ec200_psm_set_def ec200_psm_get_def ec200_edrx_set_def ec200_edrx_get_def
      ec200_edrx_get_dynamic_def ec200_edrx_disable_def edrx_act_valid_def ec200_power_get_cfun_def
      EC200_PSM_TIMER_STR_LEN_def EC200_EDRX_VALUE_STR_LEN_def)

lemma psm_codec_standing:
  assumes "standing idf c k h"
  obtains h' where "psm_codec_tests j h = (h', ''00100001'', ''00000001'')" "standing idf c (k @ psm_codec_cases) h'"
proof -
  have n: "k @ psm_codec_cases = ((((((((k @ [''encode TAU 1 hour'']) @ [''TAU 1 hour encodes to 00100001'']) @
      [''encode active time 2 s'']) @ [''active 2 s encodes to 00000001'']) @ [''encode refuses 3660 s'']) @
      [''encode TAU 1 hour (again)'']) @ [''decode TAU string'']) @ [''TAU decodes back to 3600 s'']) @
      [''decode rejects short string'']"
    by (simp add: psm_codec_cases_def)
  have "standing idf c (k @ psm_codec_cases) (fst (psm_codec_tests j h))"
    unfolding n using assms
    by (simp add: psm_codec_tests_def Let_def case_prod_beta psm_static standing_result
        EC200_PSM_TIMER_STR_LEN_def buf_text_def del: append_assoc append.simps)
  moreover have "snd (psm_codec_tests j h) = (''00100001'', ''00000001'')"
    by (simp add: psm_codec_tests_def Let_def case_prod_beta psm_static EC200_PSM_TIMER_STR_LEN_def buf_text_def)
  ultimately show ?thesis using that by (cases "psm_codec_tests j h") auto
qed

lemma psm_module_standing:
  "standing idf c k h \<Longrightarrow> ends (standing idf c (k @ psm_cases)) (psm_module_tests j tau act h)"
  unfolding psm_module_tests_def power_static ck_Some
  by (elim steps) (rule benchr.keeps_api | simp)+

lemma show_raw_kept: "kept idf c k h (show_raw t cmd p raw h)"
  unfolding show_raw_def by (rule kept_ends, elim last_pair steps) (rule benchr.keeps_api | simp)+

lemma raw_replies_standing: "standing idf c k h \<Longrightarrow> ends (standing idf c k) (raw_replies j h)"
  unfolding raw_replies_def by (elim steps) (rule show_raw_kept | simp)+

lemma edrx_standing: "standing idf c k h \<Longrightarrow> ends (standing idf c (k @ edrx_cases)) (edrx_tests j h)"
  unfolding edrx_tests_def power_static ck_Some
  by (elim steps) (rule benchr.keeps_api | simp)+

lemma step_psm_codec:
  "standing idf c k h \<Longrightarrow> (\<And>h' s t. standing idf c (k @ psm_codec_cases) h' \<Longrightarrow> ends P (f h' s t)) \<Longrightarrow>
   ends P (Let (psm_codec_tests j h) (\<lambda>(h', s, t). f h' s t))"
  by (erule psm_codec_standing [where j = j]) simp

lemma test_lowpower_standing:
  "standing idf c k h \<Longrightarrow> ends (standing idf c (k @ psm_codec_cases @ psm_cases @ edrx_cases)) (test_lowpower j h)"
  unfolding test_lowpower_def
  by (elim step_psm_codec step_sub [OF psm_module_standing] steps)
    (erule raw_replies_standing last_sub [OF edrx_standing] | simp)+

section \<open>The remaining tests\<close>

lemma main_static:
  "ec200_gnss_get_status h None = Some (h, EC200_ERR_PARAM, None)"
  "ec200_net_get_info h None = Some (h, EC200_ERR_PARAM, None)"
  "ec200_net_get_spn h None = Some (h, EC200_ERR_PARAM, None)"
  "ec200_tcp_ping h 1 (Some ''8.8.8.8'') 0 pr tmo = Some (h, EC200_ERR_PARAM, pr)"
  "ec200_time_get h None = Some (h, EC200_ERR_PARAM, None)"
  "ec200_time_sync_ntp h 0 (Some ''x'') p tmo = Some (h, EC200_ERR_PARAM)"
  "ec200_file_upload h None (Some ''x'') 1 None = Some (h, EC200_ERR_PARAM, None)"
  "ec200_ssl_set_seclevel h 9 l = Some (h, EC200_ERR_PARAM)"
  "ec200_ppp_dial h 0 = Some (h, EC200_ERR_PARAM)"
  by (simp_all add: ec200_gnss_get_status_def ec200_net_get_info_def ec200_net_get_spn_def no_buf_def
      ec200_tcp_ping_def ec200_time_get_def query_timestamp_def ec200_time_sync_ntp_def ec200_file_upload_def
      bad_name_def ec200_ssl_set_seclevel_def ec200_ppp_dial_def)

lemma test_gnss_standing: "standing idf c k h \<Longrightarrow> ends (standing idf c (k @ gnss_cases)) (test_gnss fo j h)"
  unfolding test_gnss_def main_static ck_Some
  by (elim steps) (rule benchr.keeps_api | simp)+

lemma netdiag_queries_standing: "standing idf c k h \<Longrightarrow> ends (standing idf c (k @ netdiag_cases)) (netdiag_queries j h)"
  unfolding netdiag_queries_def main_static ck_Some
  by (elim steps) (rule benchr.keeps_api standing_result | simp)+

lemma test_netdiag_standing: "standing idf c k h \<Longrightarrow> ends (standing idf c (k @ netdiag_cases @ ping_cases)) (test_netdiag j h)"
  unfolding test_netdiag_def main_static ck_Some
  by (elim step_sub [OF netdiag_queries_standing] steps) (rule benchr.keeps_api | simp)+

lemma clock_after_ntp_kept: "kept idf c k h (clock_after_ntp s dt h)"
  unfolding clock_after_ntp_def
  by (rule kept_ends, elim last_pair steps) (rule benchr.keeps_api standing_result | simp)+

lemma test_clock_standing: "standing idf c k h \<Longrightarrow> ends (standing idf c (k @ clock_cases)) (test_clock j h)"
  unfolding test_clock_def main_static ck_Some
  by (elim steps) (rule benchr.keeps_api clock_after_ntp_kept | simp)+

lemma file_uploads_standing: "standing idf c k h \<Longrightarrow> ends (standing idf c k) (file_uploads pem h)"
  unfolding file_uploads_def by (elim steps) (rule benchr.keeps_api | simp)+

lemma file_tests_standing: "standing idf c k h \<Longrightarrow> ends (standing idf c (k @ file_cases)) (file_tests pem j h)"
  unfolding file_tests_def main_static ck_Some
  by (elim steps) (rule benchr.keeps_api | erule file_uploads_standing | simp)+

lemma ssl_tests_standing: "standing idf c k h \<Longrightarrow> ends (standing idf c (k @ ssl_cases)) (ssl_tests h)"
  unfolding ssl_tests_def main_static ck_Some
  by (elim steps) (rule benchr.keeps_api | simp)+

lemma test_file_and_ssl_standing:
  "standing idf c k h \<Longrightarrow> ends (standing idf c (k @ file_cases @ ssl_cases)) (test_file_and_ssl pem j h)"
  unfolding test_file_and_ssl_def
  by (elim step_sub [OF file_tests_standing]) (erule last_sub [OF ssl_tests_standing], simp)

lemma mqtts_session_standing: "standing idf c k h \<Longrightarrow> ends (standing idf c k) (mqtts_session j cfg h)"
  unfolding mqtts_session_def
  by (elim steps) (rule benchr.keeps_api | erule poll_standing standing_message_cb | simp)+

lemma test_mqtts_standing: "standing idf c k h \<Longrightarrow> ends (standing idf c k) (test_mqtts r j h)"
  unfolding test_mqtts_def
  by (elim steps)
    (rule benchr.keeps_api | erule mqtts_session_standing standing_message_cb | simp add: standing_message_cb)+

text \<open>The tests with checked stores.\<close>

lemma step_run:
  "ends (goes Q) m \<Longrightarrow> (\<And>x. Q x \<Longrightarrow> ends (goes P) (f x)) \<Longrightarrow>
   ends (goes P) (Option.bind m (\<lambda>r. case r of Go x \<Rightarrow> f x | OutOfBounds \<Rightarrow> Some OutOfBounds | Aborted \<Rightarrow> Some Aborted))"
  by (cases m; cases "the m") (simp_all add: ends_def goes_def)

lemma step_store:
  "standing idf c k h \<Longrightarrow> (\<And>b. standing idf c k h \<Longrightarrow> ends (goes P) (f b)) \<Longrightarrow>
   ends (goes P) (case x of None \<Rightarrow> Some OutOfBounds | Some b \<Rightarrow> f b)"
  by (cases x) (simp_all add: ends_def goes_def)

lemma last_Go:
  "standing idf c k h \<Longrightarrow> (standing idf c k h \<Longrightarrow> P v) \<Longrightarrow> ends (goes P) (Some (Go v))"
  by (simp add: ends_def goes_def)

lemma show_echo_standing: "standing idf c k h \<Longrightarrow> ends (goes (stands idf c k)) (show_echo b n h)"
  by (auto simp: show_echo_def ends_def goes_def stands_def split: option.splits)

lemma test_tcp_standing: "standing idf c k h \<Longrightarrow> ends (goes (standing idf c (k @ tcp_cases))) (test_tcp idf' j h)"
  unfolding test_tcp_def
  by (elim step_run_pair steps)
    (rule benchr.keeps_api ends_go | erule show_echo_standing tcp_rest_standing | simp)+

lemma https_body_standing: "standing idf c k h \<Longrightarrow> ends (goes (standing idf c k)) (https_body h)"
  unfolding https_body_def
  by (elim step_store last_Go steps) (rule benchr.keeps_api | simp)+

lemma https_post_standing: "standing idf c k h \<Longrightarrow> ends (standing idf c k) (https_post r h)"
  unfolding https_post_def by (elim steps) (rule benchr.keeps_api | simp)+

lemma test_https_standing: "standing idf c k h \<Longrightarrow> ends (goes (standing idf c k)) (test_https j h)"
proof -
  have "ends (goes (standing idf c k)) (if b then https_body (detail s h) else Some (Go h))"
    if "standing idf c k h" for b s and h :: "'a bench"
    using that https_body_standing [of idf c k "detail s h"] by (simp add: ends_def goes_def)
  then show "standing idf c k h \<Longrightarrow> ends (goes (standing idf c k)) (test_https j h)"
    unfolding test_https_def
    by (elim steps) (rule benchr.keeps_api step_run ends_go https_post_standing | assumption | simp)+
qed

lemma tls_exchange_standing:
  "standing idf c k h \<Longrightarrow> ends (goes (stands idf c k)) (tls_exchange idf' n buf got h)"
proof (induction n arbitrary: buf got h)
  case 0
  then show ?case by (simp add: ends_def goes_def stands_def)
next
  case (Suc n)
  from Suc.prems show ?case
    unfolding tls_exchange.simps
    by (elim step_store last_Go steps) (rule benchr.keeps_api Suc.IH | simp add: stands_def)+
qed

lemma tls_wrong_ca_standing: "standing idf c k h \<Longrightarrow> ends (standing idf c k) (tls_wrong_ca h)"
  unfolding tls_wrong_ca_def by (elim steps) (rule benchr.keeps_api | simp)+

lemma tls_close_standing: "standing idf c k h \<Longrightarrow> ends (standing idf c k) (tls_close h b)"
  unfolding tls_close_def by (elim steps) (rule benchr.keeps_api | erule tls_wrong_ca_standing | simp)+

lemma test_tls_socket_standing:
  "standing idf c k h \<Longrightarrow> ends (goes (standing idf c k)) (test_tls_socket idf' j h)"
  unfolding test_tls_socket_def
  by (elim step_run [OF tls_exchange_standing] steps)
    (rule benchr.keeps_api | auto simp: stands_def intro!: ends_go tls_wrong_ca_standing tls_close_standing)+

section \<open>PPP and power\<close>

lemma standing_mode [simp]: "standing idf False k (h\<lparr>ppp_data_mode := b\<rparr>) = standing idf False k h"
  by (simp add: standing_def)

lemma standing_delay_by [simp]: "standing idf c k h \<Longrightarrow> standing idf c k (delay_by ms h)"
  by (auto simp: standing_def delay_by_def intro: scored_callbacks)

lemma ppp_kept:
  "kept idf False k h (ec200_ppp_dial h cid)"
  "kept idf False k h (ec200_ppp_escape h)"
  "kept idf False k h (ec200_ppp_resume h)"
  "kept idf False k h (ec200_ppp_hangup h)"
proof -
  show "kept idf False k h (ec200_ppp_dial h cid)"
    unfolding ec200_ppp_dial_def
    by (rule kept_ends, elim last_pair steps) (rule benchr.keeps_api | simp)+
  show "kept idf False k h (ec200_ppp_escape h)"
    unfolding ec200_ppp_escape_def
    by (rule kept_ends, elim last_pair steps) (rule benchr.keeps_api | simp)+
  show "kept idf False k h (ec200_ppp_resume h)"
    unfolding ec200_ppp_resume_def
    by (rule kept_ends, elim last_pair steps) (rule benchr.keeps_api | simp)+
  show "kept idf False k h (ec200_ppp_hangup h)"
    unfolding ec200_ppp_hangup_def
    by (rule kept_ends, elim last_pair last_kept steps) (rule benchr.keeps_api benchr.keeps_plain | simp)+
qed

lemma ppp_disconnect_kept: "kept idf False k h (ec200_ppp_disconnect h)"
  unfolding ec200_ppp_disconnect_def
  by (intro keeps_if benchr.keeps_seq [OF ppp_kept(2)] ppp_kept benchr.keeps_same)

lemma ppp_resume_standing: "standing idf False k h \<Longrightarrow> ends (standing idf False k) (ppp_resume_cycle h)"
  unfolding ppp_resume_cycle_def
  by (elim steps) (rule ppp_kept ppp_disconnect_kept standing_result | simp)+

lemma ppp_data_standing: "standing idf False k h \<Longrightarrow> ends (standing idf False k) (ppp_data_cycle h)"
  unfolding ppp_data_cycle_def
  by (elim steps) (rule ppp_kept benchr.keeps_api standing_result | erule ppp_resume_standing | simp)+

lemma step_calm:
  "standing idf True k h \<Longrightarrow> (\<And>h'. standing idf True (k @ [d]) h' \<Longrightarrow> ends P (f h')) \<Longrightarrow>
   ends P (Let (ck d (\<not> ec200_ppp_in_data_mode h) h) f)"
  by (simp add: standing_result(3) ec200_ppp_in_data_mode_def standing_def [of idf True k])

lemma step_escape:
  "standing idf True k h \<Longrightarrow> (\<And>h'. standing idf True (k @ [d]) h' \<Longrightarrow> ends P (f h')) \<Longrightarrow>
   ends P (Option.bind (ck_call d (ec200_ppp_escape h) EC200_ERR_PARAM) f)"
  by (simp add: ec200_ppp_escape_def standing_result(4) ck_Some standing_def [of idf True k])

lemma pause_dial_kept: "kept idf False k h (ec200_ppp_dial (pause idf' ms h) cid)"
  using ppp_kept(1) [of idf k "pause idf' ms h"] by (simp add: keeps_def)

lemma step_dial:
  "standing idf True k h \<Longrightarrow> (\<And>h' x. standing idf False k h' \<Longrightarrow> ends P (f h' x)) \<Longrightarrow>
   ends P (Option.bind (ec200_ppp_dial h 1) (\<lambda>(h', x). f h' x))"
  by (rule step_call [OF standing_weaken [where k' = k] ppp_kept(1)]) auto

lemma test_ppp_standing: "standing idf True k h \<Longrightarrow> ends (standing idf False (k @ ppp_cases)) (test_ppp idf' h)"
  unfolding test_ppp_def main_static ck_Some
  by (elim step_calm step_escape step_dial steps)
    (rule ppp_kept benchr.keeps_api pause_dial_kept kept_ends | erule ppp_data_standing | elim last_pair steps | simp)+

lemma await_back_kept: "kept idf c k h (await_back idf' n st h)"
proof (induction n arbitrary: st h)
  case 0
  then show ?case by (simp add: keeps_def)
next
  case (Suc n)
  show ?case
    unfolding await_back.simps
    by (intro keeps_if benchr.keeps_seq [OF pause_kept] Suc.IH benchr.keeps_same)
qed

lemma pulse_attempts_kept: "kept idf c k h (pulse_attempts idf' n a st h)"
proof (induction n arbitrary: a st h)
  case 0
  then show ?case by (simp add: keeps_def)
next
  case (Suc n)
  have p: "kept idf c k h (await_back idf' 30 st (set_world (pwrkey_pulse idf') (say s h)))" for s
    using await_back_kept [of idf c k "set_world (pwrkey_pulse idf') (say s h)"] by (simp add: keeps_def)
  show ?case
    unfolding pulse_attempts.simps Let_def
    by (intro keeps_if benchr.keeps_seq [OF p] Suc.IH benchr.keeps_same)
qed

lemma power_cfun_standing: "standing idf c k h \<Longrightarrow> ends (standing idf c (k @ power_cases)) (power_cfun idf' j h)"
  unfolding power_cfun_def power_static ck_Some
  by (elim steps) (rule benchr.keeps_api | simp)+

lemma power_recover_standing: "standing idf c k h \<Longrightarrow> ends (standing idf c k) (power_recover idf' h)"
  unfolding power_recover_def
  by (elim steps) (rule benchr.keeps_api pulse_attempts_kept | simp)+

lemma test_power_standing: "standing idf c k h \<Longrightarrow> ends (standing idf c (k @ power_cases)) (test_power idf' j h)"
  unfolding test_power_def
  by (elim step_sub [OF power_cfun_standing] steps)
    (rule benchr.keeps_api pause_kept power_recover_standing | simp)+

section \<open>The whole run\<close>

lemma step_test:
  "ends (goes Q) (t h) \<Longrightarrow> (\<And>h'. Q h' \<Longrightarrow> ends (goes P) (run_steps ts h')) \<Longrightarrow>
   ends (goes P) (run_steps (t # ts) h)"
  unfolding run_steps.simps by (rule step_run)

lemma step_plain:
  "ends Q (t h) \<Longrightarrow> (\<And>h'. Q h' \<Longrightarrow> ends (goes P) (run_steps ts h')) \<Longrightarrow>
   ends (goes P) (run_steps (plain_step t # ts) h)"
  by (rule step_test [where Q = Q]) (simp_all add: plain_step_def ends_go)

lemma run_end: "standing idf c k h \<Longrightarrow> covers k' k \<Longrightarrow> ends (goes (standing idf c k')) (run_steps [] h)"
  by (auto simp: ends_def goes_def intro: standing_weaken)

lemmas test_steps =
  test_core_standing [THEN step_plain] test_error_standing [THEN step_plain] test_sim_standing [THEN step_plain]
  test_network_standing [THEN step_plain] test_data_standing [THEN step_plain] test_tcp_standing [THEN step_test]
  settle_standing [THEN step_plain] test_netdiag_standing [THEN step_plain]
  test_file_and_ssl_standing [THEN step_plain] test_mqtts_standing [THEN step_plain]
  test_tls_socket_standing [THEN step_test] test_https_standing [THEN step_test]
  test_http_standing [THEN step_plain] test_mqtt_standing [THEN step_plain] test_sms_standing [THEN step_test]
  test_sms_extras_standing [THEN step_test] test_lowpower_standing [THEN step_plain]
  test_clock_standing [THEN step_plain] test_gnss_standing [THEN step_plain] test_ppp_standing [THEN step_plain]
  test_power_standing [THEN step_plain]

lemma harness_steps_standing:
  "standing idf True k h \<Longrightarrow>
   ends (goes (standing idf False (k @ static_cases))) (run_steps (harness_steps idf r fo pem dest j) h)"
  unfolding harness_steps_def by (elim test_steps run_end) (simp add: static_cases_def)

text \<open>The handle the bring-up leaves when the module answers.\<close>

lemma init_standing:
  assumes "harness_init idf h = Some (h', EC200_OK)"
  shows "standing idf True [] h'"
proof -
  let ?f = "fresh_handle (tx idf) (rx idf) (dly idf) (user_ctx h)"
  have f: "standing idf True [] ?f"
    by (auto simp: standing_def fresh_handle_def free_urc_entry_def scored_def)
  obtain h1 where p: "probe_loop 3 ?f EC200_ERR_TIMEOUT = Some (h1, EC200_OK)"
    "ec200_set_echo h1 False = Some (h', EC200_OK)"
    using assms by (auto simp: harness_init_def ec200_init_def bind_eq_Some_conv split: if_splits)
  then show ?thesis
    using f benchr.keeps_probe [THEN keepsD, OF p(1)] benchr.keeps_set_echo [THEN keepsD, OF p(2)] by blast
qed

lemma boot_standing: "harness_boot idf n st h = Some (h', EC200_OK) \<Longrightarrow> st \<noteq> EC200_OK \<Longrightarrow> standing idf True [] h'"
  by (induction n arbitrary: st h) (auto simp: bind_eq_Some_conv init_standing split: if_splits)

lemma bring_up_standing: "bring_up idf h = Some (h', EC200_OK) \<Longrightarrow> standing idf True [] h'"
  by (auto simp: bring_up_def bind_eq_Some_conv Let_def init_standing boot_standing split: if_splits)

lemma case_run_Go:
  "(case r of Go h \<Rightarrow> Some (Go (f h)) | OutOfBounds \<Rightarrow> Some OutOfBounds | Aborted \<Rightarrow> Some Aborted) = Some (Go x)
   \<longleftrightarrow> (\<exists>h. r = Go h \<and> x = f h)"
  by (cases r) auto

end
