(* ===== verification/Ec200_Demo.thy ===== *)
theory Ec200_Demo
  imports Ec200_Examples Ec200_Http_Body
begin

text \<open>
  Properties of the example applications: no store outside the body array whatever the platform
  and the module do, and how long the demonstration waits for a module that never answers.
\<close>

section \<open>Stores in bounds\<close>

text \<open>A read reports at most the length of the array it was given, which keeps its length.\<close>

lemma http_read_count:
  assumes "ec200_http_read h (Some b) (Some 0) t = Some (h', st, b', n')"
  obtains b1 n where "b' = Some b1" "length b1 = length b" "n' = Some n" "n \<le> length b"
proof (cases "b = []")
  case True
  then show ?thesis using that assms by (auto simp: ec200_http_read_def)
next
  case False
  obtain h1 st1 x where e: "ec200_at_send_expect h
      (Some (snprintf 32 (''AT+QHTTPREAD='' @ show_nat (timeout_secs t)))) (Some ''CONNECT'') (char_buf 32)
      EC200_AT_TIMEOUT_DEFAULT = Some (h1, st1, x)"
    using assms False by (auto simp: ec200_http_read_def bind_eq_Some_conv)
  show ?thesis
  proof (cases "st1 = EC200_OK")
    case False
    then show ?thesis using assms \<open>b \<noteq> []\<close> e that by (auto simp: ec200_http_read_def)
  next
    case True
    let ?a = "\<lparr>ba_buf = b, ba_pos = 0, ba_overflow = False, ba_discarded = 0\<rparr>"
    obtain h2 st2 a where r: "read_body_until_ok h1 ?a 0 t = Some (h2, st2, a)"
      using assms \<open>b \<noteq> []\<close> e True by (auto simp: ec200_http_read_def bind_eq_Some_conv)
    have f: "length (ba_buf a) = length b" "ba_pos a \<le> length b"
      using read_body_bounds [OF r] by (simp_all add: body_frame_def)
    have "b' = Some (ba_buf a) \<and> (n' = Some 0 \<or> n' = Some (ba_pos a))"
      using assms \<open>b \<noteq> []\<close> e True r
      by (auto simp: ec200_http_read_def Let_def bind_eq_Some_conv split: if_splits)
    then show ?thesis using that f by auto
  qed
qed

definition in_bounds :: "'a run option \<Rightarrow> bool" where
  "in_bounds m \<longleftrightarrow> m \<noteq> Some OutOfBounds"

lemma in_bounds_Go: "in_bounds (Some (Go x))" "in_bounds (Some Aborted)" "in_bounds None"
  by (simp_all add: in_bounds_def)

lemma in_bounds_bind: "(\<And>x. m = Some x \<Longrightarrow> in_bounds (f x)) \<Longrightarrow> in_bounds (Option.bind m f)"
  by (cases m) (simp_all add: in_bounds_def)

lemma in_bounds_if: "(b \<Longrightarrow> in_bounds m) \<Longrightarrow> (\<not> b \<Longrightarrow> in_bounds m') \<Longrightarrow> in_bounds (if b then m else m')"
  by simp

lemma in_bounds_prod: "(\<And>x y. p = (x, y) \<Longrightarrow> in_bounds (f x y)) \<Longrightarrow> in_bounds (case_prod f p)"
  by (cases p) simp

lemma in_bounds_let: "(\<And>x. x = v \<Longrightarrow> in_bounds (f x)) \<Longrightarrow> in_bounds (Let v f)"
  by (simp add: Let_def)

lemma in_bounds_option:
  "(x = None \<Longrightarrow> in_bounds m) \<Longrightarrow> (\<And>y. x = Some y \<Longrightarrow> in_bounds (f y)) \<Longrightarrow>
   in_bounds (case_option m f x)"
  by (cases x) simp_all

lemma in_bounds_run:
  assumes "in_bounds m" and "m = Some r" and "\<And>x. in_bounds (f x)"
  shows "in_bounds (case r of Go x \<Rightarrow> f x | OutOfBounds \<Rightarrow> Some OutOfBounds | Aborted \<Rightarrow> Some Aborted)"
  using assms by (cases r) (simp_all add: in_bounds_def)

lemmas in_bounds_rules =
  in_bounds_Go in_bounds_bind in_bounds_if in_bounds_prod in_bounds_let in_bounds_option

text \<open>The terminator after a read into all but the last byte of an array.\<close>

lemma store_after_read:
  assumes "ec200_http_read h (Some (take n a)) (Some 0) t = Some (h', st, b', c)" and "n < length a"
  shows "\<exists>b. store_at (the b' @ drop n a) (the c) NUL = Some b"
  using assms(2) by (rule_tac http_read_count [OF assms(1)]) (simp add: store_at_def)

lemma in_bounds_store:
  assumes "\<exists>b. store_at a i c = Some b" and "\<And>b. in_bounds (f b)"
  shows "in_bounds (case store_at a i c of None \<Rightarrow> Some OutOfBounds | Some b \<Rightarrow> f b)"
  using assms by auto

lemma demo_fetch_in_bounds: "in_bounds (demo_fetch j h)"
  unfolding demo_fetch_def
  by (intro in_bounds_store in_bounds_rules store_after_read) (assumption | simp add: demo_body_def)+

lemma demo_online_in_bounds: "in_bounds (demo_online j op0 h)"
  unfolding demo_online_def by (intro in_bounds_rules demo_fetch_in_bounds)

lemma wrapper_fetch_in_bounds: "length (j_body j) = 512 \<Longrightarrow> in_bounds (wrapper_fetch j h)"
  unfolding wrapper_fetch_def
  by (intro in_bounds_store in_bounds_rules store_after_read) (assumption | simp)+

section \<open>A module that never answers\<close>

text \<open>
  A board whose module is silent and whose clock, in milliseconds, is moved by waiting only: a
  write takes the whole command at once, a read returns nothing after its timeout.
\<close>

definition quiet_board :: "'e esp_idf \<Rightarrow> ('e \<Rightarrow> nat) \<Rightarrow> bool" where
  "quiet_board idf clk \<longleftrightarrow>
     (\<forall>t. idf_ms_to_ticks idf t = t) \<and>
     (\<forall>t e. clk (idf_task_delay idf t e) = clk e + t) \<and>
     (\<forall>n t e. \<exists>e'. idf_uart_read_bytes idf n t e = (0, [], e') \<and> clk e' = clk e + t) \<and>
     (\<forall>d e. \<exists>e'. idf_uart_write_bytes idf d e = (int (length d), e') \<and> clk e' = clk e) \<and>
     (\<forall>p v e. clk (idf_gpio_set_level idf p v e) = clk e) \<and>
     (\<forall>e. (\<forall>m. \<exists>e'. idf_gpio_config idf m e = (0, e') \<and> clk e' = clk e) \<and>
          (\<forall>m. \<exists>e'. idf_uart_driver_install idf m e = (0, e') \<and> clk e' = clk e) \<and>
          (\<forall>m. \<exists>e'. idf_uart_param_config idf m e = (0, e') \<and> clk e' = clk e) \<and>
          (\<forall>p q. \<exists>e'. idf_uart_set_pin idf p q e = (0, e') \<and> clk e' = clk e))"

text \<open>\<open>waited idf clk t h h'\<close>: still the handle of the board, \<open>t\<close> ms later.\<close>

definition on_board :: "'e esp_idf \<Rightarrow> ('e, 'z) app_scheme ec200_handle \<Rightarrow> bool" where
  "on_board idf h \<longleftrightarrow> h_write h = modem_write idf \<and> h_read h = modem_read idf \<and>
     h_delay_ms h = modem_delay idf \<and> initialised h \<and> \<not> ppp_data_mode h"

definition now :: "('e \<Rightarrow> nat) \<Rightarrow> ('e, 'z) app_scheme ec200_handle \<Rightarrow> nat" where
  "now clk h = clk (app_env (user_ctx h))"

lemma quiet_read:
  assumes "quiet_board idf clk"
  obtains w' where "modem_read idf n t w = (0, [], w')" "clk (app_env w') = clk (app_env w) + t"
proof -
  obtain e' where "idf_uart_read_bytes idf n t (app_env w) = (0, [], e')" "clk e' = clk (app_env w) + t"
    using assms by (metis quiet_board_def)
  then show ?thesis using that assms by (auto simp: modem_read_def quiet_board_def)
qed

lemma quiet_getc:
  assumes q: "quiet_board idf clk"
  shows "on_board idf h \<Longrightarrow> \<exists>h'. rx_getc h b = (h', RX_TIMEOUT, 0) \<and> on_board idf h' \<and> now clk h' = now clk h + b"
proof (induction h b rule: rx_getc.induct)
  case (1 h b)
  obtain w where w: "modem_read idf 1 (poll_slice b) (user_ctx h) = (0, [], w)"
      "clk (app_env w) = now clk h + poll_slice b"
    using quiet_read [OF q] unfolding now_def by metis
  have r: "h_read h 1 (poll_slice b) (user_ctx h) = (0, [], w)" using w 1(2) by (simp add: on_board_def)
  let ?h = "h\<lparr>user_ctx := w\<rparr>"
  have n: "on_board idf ?h" "now clk ?h = now clk h + poll_slice b"
    using 1(2) w by (simp_all add: on_board_def now_def)
  show ?case
  proof (cases "b = 0")
    case True
    then show ?thesis using r n by (simp add: rx_getc.simps [of h] poll_slice_def)
  next
    case False
    from 1(1) [OF refl r [symmetric] refl refl _ _ False n(1)] obtain h' where
      "rx_getc ?h (b - poll_slice b) = (h', RX_TIMEOUT, 0)" "on_board idf h'"
      "now clk h' = now clk ?h + (b - poll_slice b)" by auto
    then show ?thesis
      using r n False poll_slice_le [of b] by (subst rx_getc.simps) (simp add: Let_def)
  qed
qed

lemma quiet_plain:
  assumes q: "quiet_board idf clk" and b: "on_board idf h" and l: "length cmd < 511"
  shows "\<exists>h'. send_plain h cmd t = Some (h', EC200_ERR_TIMEOUT) \<and> on_board idf h' \<and> now clk h' = now clk h + t"
proof -
  let ?h = "(reset_error_state h)\<lparr>tx_buf := cmd @ [CR]\<rparr>"
  obtain e where e: "idf_uart_write_bytes idf (cmd @ [CR]) (app_env (user_ctx h)) = (int (Suc (length cmd)), e)"
      "clk e = now clk h"
    using q unfolding now_def quiet_board_def by (metis length_append_singleton)
  let ?h1 = "?h\<lparr>user_ctx := (user_ctx h)\<lparr>app_env := e\<rparr>\<rparr>"
  have c: "cast_u16 (1 + int (length cmd)) = Suc (length cmd)"
    using l cast_u16_small [of "int (Suc (length cmd))"] by simp
  have "at_transmit h cmd = Some (?h1, EC200_OK)"
    using b l e
    by (simp add: at_transmit_def on_board_def ec200_at_write_raw_def handle_ready_def Let_def snprintf_def
        EC200_TX_BUFFER_SIZE_def reset_error_state_def write_loop.simps modem_write_def c)
  moreover have "on_board idf ?h1" "now clk ?h1 = now clk h"
    using b e by (simp_all add: on_board_def now_def reset_error_state_def)
  moreover obtain h' where "rx_getc ?h1 t = (h', RX_TIMEOUT, 0)" "on_board idf h'" "now clk h' = now clk ?h1 + t"
    using quiet_getc [OF q calculation(2), of t] by auto
  ultimately show ?thesis
    using b
    by (auto simp: send_plain_def ec200_at_send_def handle_ready_def on_board_def receive_transaction_def
        EC200_AT_MAX_LINES_def numeral_eq_Suc rx_line.simps)
qed

lemma quiet_delay:
  "quiet_board idf clk \<Longrightarrow> on_board idf h \<Longrightarrow>
   on_board idf (h\<lparr>user_ctx := modem_delay idf t (user_ctx h)\<rparr>) \<and>
   now clk (h\<lparr>user_ctx := modem_delay idf t (user_ctx h)\<rparr>) = now clk h + t"
  by (simp add: on_board_def now_def modem_delay_def quiet_board_def)

lemma quiet_probe:
  assumes q: "quiet_board idf clk" and "on_board idf h"
  shows "\<exists>h'. probe_loop (Suc k) h st = Some (h', EC200_ERR_TIMEOUT) \<and> on_board idf h' \<and>
    now clk h' = now clk h + Suc k * 1500"
  using assms(2)
proof (induction k arbitrary: h st)
  case 0
  obtain h1 where h1: "send_plain h ''AT'' EC200_AT_TIMEOUT_DEFAULT = Some (h1, EC200_ERR_TIMEOUT)"
    "on_board idf h1" "now clk h1 = now clk h + 1000"
    using quiet_plain [OF q 0, of "''AT''" EC200_AT_TIMEOUT_DEFAULT] by (auto simp: timeout_defs)
  then show ?case
    using quiet_delay [OF q h1(2), of 500] by (auto simp: ec200_check_at_def on_board_def)
next
  case (Suc k)
  obtain h1 where h1: "send_plain h ''AT'' EC200_AT_TIMEOUT_DEFAULT = Some (h1, EC200_ERR_TIMEOUT)"
    "on_board idf h1" "now clk h1 = now clk h + 1000"
    using quiet_plain [OF q Suc.prems, of "''AT''" EC200_AT_TIMEOUT_DEFAULT] by (auto simp: timeout_defs)
  have d: "h_delay_ms h1 = modem_delay idf" using h1(2) by (simp add: on_board_def)
  let ?h = "h1\<lparr>user_ctx := modem_delay idf 500 (user_ctx h1)\<rparr>"
  obtain h' where "probe_loop (Suc k) ?h EC200_ERR_TIMEOUT = Some (h', EC200_ERR_TIMEOUT)"
    "on_board idf h'" "now clk h' = now clk ?h + Suc k * 1500"
    using Suc.IH quiet_delay [OF q h1(2)] by blast
  then show ?case
    using h1 d quiet_delay [OF q h1(2), of 500]
    by (subst probe_loop.simps) (auto simp: ec200_check_at_def simp del: probe_loop.simps)
qed

lemma quiet_init:
  assumes q: "quiet_board idf clk"
  shows "\<exists>h'. ec200_init h (Some (modem_write idf)) (Some (modem_read idf)) (Some (modem_delay idf)) w =
     Some (h', EC200_ERR_TIMEOUT) \<and> now clk h' = clk (app_env w) + 4500 \<and> \<not> initialised h'"
proof -
  let ?f = "fresh_handle (modem_write idf) (modem_read idf) (modem_delay idf) w"
  have "on_board idf ?f" "now clk ?f = clk (app_env w)"
    by (simp_all add: on_board_def now_def fresh_handle_def)
  with quiet_probe [OF q this(1), of 2 EC200_ERR_TIMEOUT] show ?thesis
    by (auto simp: ec200_init_def now_def numeral_3_eq_3 numeral_2_eq_2 simp del: probe_loop.simps)
qed

lemma quiet_boot:
  assumes q: "quiet_board idf clk" and k: "k \<le> 15"
  shows "\<exists>h'. boot_loop idf (15000 - 1000 * k) h st =
      Some (h', if k = 0 then st else EC200_ERR_TIMEOUT) \<and> now clk h' = now clk h + k * 5500 \<and>
      (initialised h' \<longrightarrow> k = 0 \<and> initialised h)"
  using k
proof (induction k arbitrary: h st)
  case 0
  then show ?case by (simp add: boot_loop.simps MODEM_BOOT_WAIT_MS_def)
next
  case (Suc k)
  obtain h1 where h1: "ec200_init h (Some (modem_write idf)) (Some (modem_read idf)) (Some (modem_delay idf)) (user_ctx h) =
     Some (h1, EC200_ERR_TIMEOUT)" "now clk h1 = now clk h + 4500" "\<not> initialised h1"
    using quiet_init [OF q, of h "user_ctx h"] by (auto simp: now_def)
  let ?h = "h1\<lparr>user_ctx := modem_delay idf 1000 (user_ctx h1)\<rparr>"
  have "now clk ?h = now clk h + 5500"
    using q h1(2) by (simp add: now_def modem_delay_def quiet_board_def)
  moreover have "15000 - 1000 * Suc k < MODEM_BOOT_WAIT_MS"
    "15000 - 1000 * Suc k + 1000 = 15000 - 1000 * k"
    using Suc.prems by (simp_all add: MODEM_BOOT_WAIT_MS_def)
  moreover obtain h' where "boot_loop idf (15000 - 1000 * k) ?h EC200_ERR_TIMEOUT = Some (h', EC200_ERR_TIMEOUT)"
    "now clk h' = now clk ?h + k * 5500" "\<not> initialised h'"
    using h1(3) Suc.IH [of ?h EC200_ERR_TIMEOUT] Suc.prems by auto
  ultimately show ?case
    using h1(1) by (subst boot_loop.simps) auto
qed

lemma quiet_power_on:
  assumes q: "quiet_board idf clk"
  shows "\<exists>w1. demo_uart_setup idf w = Some w1 \<and> clk (app_env w1) = clk (app_env w)"
    "\<exists>w1. modem_power_on idf w = Some w1 \<and> clk (app_env w1) = clk (app_env w) + 850"
proof -
  have step: "\<exists>w1. esp_check f w = Some w1 \<and> clk (app_env w1) = clk (app_env w)"
    if "\<exists>e'. f (app_env w) = (0, e') \<and> clk e' = clk (app_env w)" for f w
    using that by (auto simp: esp_check_def)
  have c: "\<exists>w1. esp_check (idf_gpio_config idf m) w = Some w1 \<and> clk (app_env w1) = clk (app_env w)"
    "\<exists>w1. esp_check (idf_uart_driver_install idf m) w = Some w1 \<and> clk (app_env w1) = clk (app_env w)"
    "\<exists>w1. esp_check (idf_uart_param_config idf m) w = Some w1 \<and> clk (app_env w1) = clk (app_env w)"
    "\<exists>w1. esp_check (idf_uart_set_pin idf m n) w = Some w1 \<and> clk (app_env w1) = clk (app_env w)" for m n w
    using q by (auto simp: quiet_board_def intro!: step)
  show "\<exists>w1. demo_uart_setup idf w = Some w1 \<and> clk (app_env w1) = clk (app_env w)"
    unfolding demo_uart_setup_def bind_eq_Some_conv using c(2-4) by metis
  obtain w1 where "esp_check (idf_gpio_config idf (2 ^ MODEM_PWRKEY_GPIO + 2 ^ MODEM_RESET_GPIO)) w = Some w1"
    "clk (app_env w1) = clk (app_env w)"
    using c(1) by metis
  then show "\<exists>w1. modem_power_on idf w = Some w1 \<and> clk (app_env w1) = clk (app_env w) + 850"
    using q by (simp add: modem_power_on_def set_level_def modem_delay_def app_print_def quiet_board_def
        MODEM_PWRKEY_PULSE_MS_def)
qed

section \<open>An uninitialised value on the console\<close>

text \<open>A signal query that fails leaves the caller's variable alone.\<close>

lemma get_signal_failed:
  assumes "ec200_net_get_signal h (Some s) = Some (h1, st, sq)" and "st \<noteq> EC200_OK"
  shows "sq = Some s"
  using assms by (auto simp: ec200_net_get_signal_def bind_eq_Some_conv Let_def split: if_splits)

lemma wrapper_prints_junk:
  assumes "ec200_net_get_signal h (Some (j_signal j)) = Some (h1, st, sq)" and "st \<noteq> EC200_OK"
  shows "wrapper_signal j h =
    Some (say (''RSSI: '' @ show_int (sq_rssi (j_signal j)) @ '' dBm'' @ [LF]) h1)"
  using assms get_signal_failed [OF assms] by (simp add: wrapper_signal_def)

section \<open>A sample board\<close>

text \<open>A platform that is nothing but a clock, and values for the uninitialised variables.\<close>

definition silent_board :: "nat esp_idf" where
  "silent_board =
     \<lparr>idf_gpio_config = \<lambda>m e. (0, e), idf_gpio_set_level = \<lambda>p v e. e,
      idf_uart_driver_install = \<lambda>n e. (0, e), idf_uart_param_config = \<lambda>b e. (0, e),
      idf_uart_set_pin = \<lambda>tx rx e. (0, e), idf_uart_write_bytes = \<lambda>d e. (int (length d), e),
      idf_uart_read_bytes = \<lambda>n t e. (0, [], e + t), idf_task_delay = \<lambda>t e. e + t,
      idf_ms_to_ticks = \<lambda>t. t\<rparr>"

lemma silent_board_quiet: "quiet_board silent_board (\<lambda>e. e)"
  by (simp add: quiet_board_def silent_board_def)

definition sample_floats :: "int float_ops" where
  "sample_floats = \<lparr>fo_scan = strtol, fo_zero = 0, fo_tenths = \<lambda>v. Some (nat (10 * v))\<rparr>"

definition sample_junk :: "int junk" where
  "sample_junk = \<lparr>j_text = [], j_sim = EC200_SIM_UNKNOWN,
     j_signal = \<lparr>sq_rssi = 0, sq_ber = 0, sq_rsrp = 0, sq_sinr = 0\<rparr>,
     j_http = \<lparr>http_status_code = 0, http_content_length = 0\<rparr>, j_body = replicate 512 NUL,
     j_location = zero_location sample_floats\<rparr>"

definition sample_operator :: ec200_operator_info where
  "sample_operator = \<lparr>op_mode = 0, op_format = 0, op_name = [], op_act = 0\<rparr>"

section \<open>Stores\<close>

lemma examples_in_bounds:
  assumes "length (j_body j) = 512"
  shows "demo_main idf j' op0 w' \<noteq> Some OutOfBounds \<and>
    wrapper_main fo show_float j wr rd dl w \<noteq> Some OutOfBounds"
proof -
  have "in_bounds (demo_main idf j' op0 w')"
    unfolding demo_main_def
    by (intro in_bounds_rules in_bounds_run [OF in_bounds_if [OF demo_online_in_bounds in_bounds_Go(1)]])
  moreover have "in_bounds (wrapper_main fo show_float j wr rd dl w)"
    unfolding wrapper_main_def
    by (intro in_bounds_rules in_bounds_run [OF wrapper_fetch_in_bounds [OF assms]])
  ultimately show ?thesis by (simp add: in_bounds_def)
qed

section \<open>A silent module\<close>

text \<open>
  How long the demonstration waits for a module that never answers. It announces at most
  \<open>MODEM_BOOT_WAIT_MS\<close>, 15 seconds, but counts only its own pauses of one second: each of
  the 15 attempts also waits out the three probes of \<open>ec200_init\<close>, so that on a silent
  board it gives up, with a timeout, exactly 82.5 seconds after the power key.
\<close>

lemma demo_boot_wait:
  assumes "quiet_board idf clk"
  shows "\<exists>h. demo_main idf j op0 w = Some (Go (h, False)) \<and> \<not> initialised h \<and>
     clk (app_env (user_ctx h)) = clk (app_env w) + 850 + 82500 \<and> MODEM_BOOT_WAIT_MS = 15000"
proof -
  obtain w1 where w1: "demo_uart_setup idf w = Some w1" "clk (app_env w1) = clk (app_env w)"
    using quiet_power_on(1) [OF assms] by blast
  let ?w1 = "app_print ([LF] @ ''EC200 demo (library v1.1.0) '' @ em_dash @
    '' isolated_dcu_esp32'' @ [LF, LF]) w1"
  obtain w2 where w2: "modem_power_on idf ?w1 = Some w2" "clk (app_env w2) = clk (app_env w) + 850"
    using quiet_power_on(2) [OF assms, of ?w1] w1(2) by (auto simp: app_print_def)
  let ?w2 = "app_print (''Waiting for the module to boot (max '' @
    show_nat (MODEM_BOOT_WAIT_MS div 1000) @ '' s)...'' @ [LF]) w2"
  let ?h = "static_handle (modem_write idf) (modem_read idf) (modem_delay idf) ?w2"
  obtain h where h: "boot_loop idf 0 ?h EC200_ERR_TIMEOUT = Some (h, EC200_ERR_TIMEOUT)"
    "now clk h = now clk ?h + 82500" "\<not> initialised h"
    using quiet_boot [OF assms, of 15 ?h EC200_ERR_TIMEOUT] by auto
  show ?thesis
    using w1(1) w2 h
    by (simp add: demo_main_def Let_def report_def say_def now_def static_handle_def fresh_handle_def
        app_print_def MODEM_BOOT_WAIT_MS_def)
qed

lemma demo_boot_wait_sample:
  "\<exists>h. demo_main silent_board sample_junk sample_operator \<lparr>app_console = [], app_env = 0\<rparr> =
       Some (Go (h, False)) \<and> app_env (user_ctx h) = 83350"
  using demo_boot_wait [OF silent_board_quiet, of sample_junk sample_operator "\<lparr>app_console = [], app_env = 0\<rparr>"]
  by auto

end
