(* ===== verification/Ec200_Harness_Bounds.thy ===== *)
theory Ec200_Harness_Bounds
  imports Ec200_Harness_Main Ec200_Demo
begin

text \<open>
  The stores of the on-target harness: the terminators it writes behind received bytes, its copies
  of the own number and the first slot of a message list stay inside their arrays, whatever the
  board and the module do.
\<close>

section \<open>What a reception leaves in the caller's variables\<close>

lemma mem_store_length [simp]: "length (mem_store buf off d) = length buf"
  by (simp add: mem_store_def)

lemma read_exact_loop_frame:
  assumes "read_exact_loop h buf len got t = Some (h', st, b', n)"
  shows "length b' = length buf \<and> n \<le> max len got"
proof -
  let ?P = "\<lambda>buf len got (r :: _ \<times> ec200_status \<times> char list \<times> nat).
    length (fst (snd (snd r))) = length buf \<and> snd (snd (snd r)) \<le> max len got"
  have "?P buf len got (h', st, b', n)"
  proof (rule read_exact_loop.raw_induct [where P = "\<lambda>h buf len got t r. ?P buf len got r", OF _ assms])
    fix f :: "'a ec200_handle \<Rightarrow> char list \<Rightarrow> nat \<Rightarrow> nat \<Rightarrow> nat
        \<Rightarrow> ('a ec200_handle \<times> ec200_status \<times> char list \<times> nat) option"
      and h buf len got budget x
    assume IH: "\<And>h buf len got b y. f h buf len got b = Some y \<Longrightarrow> ?P buf len got y"
      and eq: "(if got < len then
        (let slice = poll_slice budget in
         case h_read h (len - got) slice (user_ctx h) of
           (n, d, w) \<Rightarrow>
             (let h' = h\<lparr>user_ctx := w\<rparr>; buf' = mem_store buf got d in
              if n < 0 then Some (h', EC200_ERR_IO, buf', got)
              else if 0 < n then
                (if len - got < cast_u16 n then Some (h', EC200_ERR_IO, buf', got)
                 else f h' buf' len (got + cast_u16 n) budget)
              else if budget = 0 then Some (h', EC200_ERR_TIMEOUT, buf', got)
              else f h' buf' len got (budget - slice)))
      else Some (h, EC200_OK, buf, got)) = Some x"
    obtain n d w where rd: "h_read h (len - got) (poll_slice budget) (user_ctx h) = (n, d, w)"
      by (cases "h_read h (len - got) (poll_slice budget) (user_ctx h)") auto
    show "?P buf len got x"
    proof (cases "got < len \<and> \<not> n < 0 \<and> (0 < n \<longrightarrow> cast_u16 n \<le> len - got) \<and> (n = 0 \<longrightarrow> budget \<noteq> 0)")
      case False
      then show ?thesis using eq rd by (auto simp: Let_def not_le split: if_splits)
    next
      case True
      then obtain h1 g1 b1 where "f h1 (mem_store buf got d) len g1 b1 = Some x" "g1 \<le> len"
        using eq rd by (cases "0 < n") (auto simp: Let_def split: if_splits)
      from IH [OF this(1)] this(2) True show ?thesis by simp
    qed
  qed
  then show ?thesis by simp
qed

lemma read_exact_frame:
  assumes "ec200_at_read_exact h (Some b) len t (Some g) = Some (h', st, b', g')" and "g \<le> len"
  obtains b1 n where "b' = Some b1" "length b1 = length b" "g' = Some n" "n \<le> len"
proof (cases "handle_ready h")
  case False
  then show ?thesis using assms that by (auto simp: ec200_at_read_exact_def)
next
  case True
  obtain h1 b1 g1 where t: "rx_take_buffered h b len = (h1, b1, g1)" by (cases "rx_take_buffered h b len") auto
  then have "length b1 = length b" "g1 \<le> len"
    by (auto simp: rx_take_buffered_def Let_def split: if_splits)
  then show ?thesis
    using True assms t that
    by (auto simp: ec200_at_read_exact_def bind_eq_Some_conv dest!: read_exact_loop_frame)
qed

text \<open>Both socket kinds: the array keeps its length, and the count is at most the one asked for.\<close>

lemma cast_u16_le: "0 \<le> a \<Longrightarrow> a \<le> int m \<Longrightarrow> cast_u16 a \<le> m"
  by (simp add: cast_u16_def nat_le_iff) (smt (verit) zmod_le_nonneg_dividend)

lemma exact_fits:
  "ec200_at_read_exact h (Some b) (cast_u16 a) t (Some 0) = Some (h', st, b', g') \<Longrightarrow>
   0 < a \<Longrightarrow> a \<le> int m \<Longrightarrow> \<exists>b1 n. b' = Some b1 \<and> length b1 = length b \<and> g' = Some n \<and> n \<le> m"
  by (meson cast_u16_le less_imp_le order.trans read_exact_frame zero_le)

lemma recv_fits:
  assumes "0 < m" "c < EC200_MAX_CONNECTIONS"
  shows "ec200_tcp_recv h c (Some b) m (Some g) t = Some (h', st, b', g') \<Longrightarrow>
      \<exists>b1 n. b' = Some b1 \<and> length b1 = length b \<and> g' = Some n \<and> n \<le> m"
    and "ec200_ssl_socket_recv h c (Some b) m (Some g) t = Some (h', st, b', g') \<Longrightarrow>
      \<exists>b1 n. b' = Some b1 \<and> length b1 = length b \<and> g' = Some n \<and> n \<le> m"
  using assms unfolding ec200_tcp_recv_def ec200_ssl_socket_recv_def
  by (auto simp: bind_eq_Some_conv not_less split: if_splits option.splits dest!: exact_fits)

lemma sms_list_loop_length: "sms_list_loop line ms c k = Some (ms', n) \<Longrightarrow> length ms' = length ms"
proof (induction "length line" arbitrary: line ms c rule: less_induct)
  case less
  have "length ms' = length ms1"
    if "strchr x LF = Some nl" "length x \<le> length line" "sms_list_loop (tl nl) ms1 c1 k = Some (ms', n)"
    for nl x ms1 c1
    using less.hyps [OF _ that(3)] strchr_length [OF that(1)] that(2) by (cases nl) auto
  moreover have "length (tl nl) \<le> length line" if "strchr line LF = Some nl" for nl
    using strchr_length [OF that] by (cases nl) auto
  ultimately show ?case
    using less.prems
    by (auto simp: sms_list_loop.simps [of line ms c k] Let_def split: if_splits option.splits)
qed

lemma sms_list_frame:
  assumes "ec200_sms_list h s (Some ms) k (Some c) = Some (h', st, ms', c')"
  obtains ms1 where "ms' = Some ms1" "length ms1 = length ms"
proof -
  have "\<exists>ms1. ms' = Some ms1 \<and> length ms1 = length ms"
    using assms
    by (auto simp: ec200_sms_list_def bind_eq_Some_conv split: if_splits option.splits dest: sms_list_loop_length)
  then show ?thesis using that by blast
qed

section \<open>The steps that store\<close>

lemma in_bounds_map_Go: "in_bounds (map_option Go m)"
  by (cases m) (simp_all add: in_bounds_def)

lemma in_bounds_plain: "in_bounds (plain_step t h)"
  by (simp add: plain_step_def in_bounds_map_Go)

lemma in_bounds_then:
  assumes "in_bounds m" and "\<And>x. in_bounds (f x)"
  shows "in_bounds (Option.bind m (\<lambda>r. case r of Go x \<Rightarrow> f x | OutOfBounds \<Rightarrow> Some OutOfBounds | Aborted \<Rightarrow> Some Aborted))"
  by (rule in_bounds_bind) (rule in_bounds_run [OF assms(1) _ assms(2)])

lemma in_bounds_steps: "(\<And>t h. t \<in> set ts \<Longrightarrow> in_bounds (t h)) \<Longrightarrow> in_bounds (run_steps ts h)"
  by (induction ts arbitrary: h) (auto simp: in_bounds_Go intro!: in_bounds_then)

lemma show_echo_in_bounds: "length b = 128 \<Longrightarrow> in_bounds (show_echo b n h)"
  by (simp add: show_echo_def store_at_def in_bounds_Go)

lemma test_tcp_in_bounds:
  assumes "length (l_bytes j ''rbuf'') = 128"
  shows "in_bounds (test_tcp idf j h)"
proof -
  have e: "in_bounds (show_echo (the rbuf) n h2)"
    if "ec200_tcp_recv h1 0 (Some (l_bytes j ''rbuf'')) 128 (Some 0) t = Some (h3, st, rbuf, g)" for h1 t h3 st rbuf g n h2
    using recv_fits(1) [OF _ _ that] assms by (auto simp: size_defs intro!: show_echo_in_bounds)
  show ?thesis
    unfolding test_tcp_def
    by (intro in_bounds_rules in_bounds_then in_bounds_map_Go e) (assumption | simp)+
qed

lemma tls_exchange_in_bounds: "length buf = 256 \<Longrightarrow> in_bounds (tls_exchange idf n buf got h)"
proof (induction n arbitrary: buf got h)
  case 0
  then show ?case by (simp add: in_bounds_Go)
next
  case (Suc n)
  show ?case
  proof (cases "ec200_ssl_socket_recv (pause idf 500 h) 1 (Some buf) (256 - 1) (Some got) 5000")
    case None
    then show ?thesis by (simp add: in_bounds_Go)
  next
    case (Some r)
    obtain h1 st b g where r: "r = (h1, st, b, g)" by (cases r) auto
    obtain b1 k where f: "b = Some b1" "length b1 = 256" "g = Some k" "k \<le> 255"
      using recv_fits(2) [of 255 1 "pause idf 500 h" buf got 5000 h1 st b g] Some r Suc.prems
      by (auto simp: size_defs)
    then show ?thesis
      using Some r Suc.IH by (auto simp: Let_def store_at_def in_bounds_Go)
  qed
qed

lemma test_tls_socket_in_bounds:
  assumes "length (l_bytes j ''buf'') = 256"
  shows "in_bounds (test_tls_socket idf j h)"
  unfolding test_tls_socket_def
  by (intro in_bounds_rules in_bounds_then in_bounds_map_Go tls_exchange_in_bounds assms)

lemma https_body_in_bounds: "in_bounds (https_body h)"
proof -
  have "\<exists>b'. store_at (the b @ drop (1025 - 1) harness_body) n NUL = Some b'"
    if "ec200_http_read h (Some (take (1025 - 1) harness_body)) (Some 0) t = Some (h1, st, b, g)"
      and "n \<le> 1024" for h1 st b g n t
    using that(2) by (rule_tac http_read_count [OF that(1)]) (simp add: store_at_def harness_body_def)
  then show ?thesis
    unfolding https_body_def by (intro in_bounds_store in_bounds_rules) (assumption | simp)+
qed

lemma test_https_in_bounds: "in_bounds (test_https j h)"
  unfolding test_https_def
  by (intro in_bounds_rules in_bounds_then in_bounds_map_Go https_body_in_bounds)

text \<open>The array for the own number keeps its size, and a terminator in its last place.\<close>

definition number_array :: "char list \<Rightarrow> bool" where
  "number_array a \<longleftrightarrow> length a = EC200_MAX_PHONE_NUM_LEN \<and> a ! (EC200_MAX_PHONE_NUM_LEN - 1) = NUL"

lemma number_array_start: "number_array (replicate EC200_MAX_PHONE_NUM_LEN NUL)"
  by (simp add: number_array_def size_defs)

lemma number_array_terminated: "number_array a \<Longrightarrow> NUL \<in> set a"
  using nth_mem [of "EC200_MAX_PHONE_NUM_LEN - 1" a] by (auto simp: number_array_def size_defs)

lemma copy_between_fits:
  assumes "number_array a"
  shows "\<exists>b. copy_between a q q' = Some b \<and> number_array b"
proof (cases "length q - length q' - 1 < EC200_MAX_PHONE_NUM_LEN")
  case True
  have "length (take n (tl q)) = n" if "n = length q - length q' - 1" for n
    using that by simp
  with True assms show ?thesis
    by (auto simp: copy_between_def mem_copy_def number_array_def Let_def nth_append size_defs)
next
  case False
  with assms show ?thesis by (simp add: copy_between_def)
qed

lemma numbers_fit:
  assumes "number_array a"
  shows "\<exists>b. cnum_number a s = Some b \<and> number_array b" "\<exists>b. cpbr_number a s = Some b \<and> number_array b"
  using assms copy_between_fits [OF assms]
  by (auto simp: cnum_number_def cpbr_number_def split: option.split)

lemma own_number_fits:
  assumes "own_number j h = Some r"
  shows "\<exists>h' a. r = Go (h', a) \<and> number_array a"
proof -
  have pick: "\<exists>a. (if st = EC200_OK then cnum_number b s else Some b) = Some a \<and> number_array a"
    "\<exists>a. (if st = EC200_OK then cpbr_number b s else Some b) = Some a \<and> number_array a"
    if "number_array b" for b s and st :: ec200_status
    using numbers_fit [OF that] that by auto
  obtain h1 st cnum where first: "ec200_at_send_wait h (Some ''AT+CNUM'') (Some ''+CNUM:'')
      (Some (96, l_text j ''cnum'')) 3000 = Some (h1, st, cnum)"
    using assms by (auto simp: own_number_def Let_def bind_eq_Some_conv)
  obtain a where a: "(if st = EC200_OK then cnum_number (replicate EC200_MAX_PHONE_NUM_LEN NUL) (buf_text cnum)
      else Some (replicate EC200_MAX_PHONE_NUM_LEN NUL)) = Some a" "number_array a"
    using pick(1) [OF number_array_start] by blast
  show ?thesis
  proof (cases "a ! 0 \<noteq> NUL")
    case True
    then show ?thesis using assms first a by (auto simp: own_number_def Let_def)
  next
    case False
    have second: "\<exists>b. (if st = EC200_OK then cpbr_number a s else Some a) = Some b \<and> number_array b"
      for s and st :: ec200_status by (rule pick(2) [OF a(2)])
    show ?thesis
      using assms first a False
      by (auto simp: own_number_def Let_def bind_eq_Some_conv split: if_splits option.splits)
        (metis second option.distinct(1) option.inject)+
  qed
qed

lemma sms_dest_in_bounds: "in_bounds (sms_dest dest j h)"
  by (auto simp: sms_dest_def in_bounds_def bind_eq_Some_conv Let_def dest!: own_number_fits
      dest: number_array_terminated split: if_splits)

lemma in_bounds_pair:
  "(\<And>x y. in_bounds (f x y)) \<Longrightarrow> in_bounds m \<Longrightarrow>
   in_bounds (Option.bind m (\<lambda>r. case r of Go (x, y) \<Rightarrow> f x y | OutOfBounds \<Rightarrow> Some OutOfBounds | Aborted \<Rightarrow> Some Aborted))"
  by (rule in_bounds_then) auto

lemma sms_inbox_in_bounds:
  assumes "length (l_messages j ''msgs'') = 4"
  shows "in_bounds (sms_inbox j h)"
proof -
  have sel: "in_bounds (case the ms of [] \<Rightarrow> Some OutOfBounds | m # x \<Rightarrow> f m)"
    if l: "ec200_sms_list h1 4 (Some (l_messages j ''msgs'')) 4 (Some 0) = Some (h2, st, ms, c)"
      and f: "\<And>m. in_bounds (f m)" for h1 h2 st ms c f
  proof -
    obtain ms1 where "ms = Some ms1" "length ms1 = 4" using sms_list_frame [OF l] assms by metis
    then show ?thesis using f by (cases ms1) auto
  qed
  show ?thesis
    unfolding sms_inbox_def
    by (intro in_bounds_rules in_bounds_map_Go)
      (rule sel, simp, intro in_bounds_rules in_bounds_map_Go)
qed

lemma test_sms_in_bounds: "length (l_messages j ''msgs'') = 4 \<Longrightarrow> in_bounds (test_sms idf dest j h)"
  unfolding test_sms_def
  by (intro in_bounds_pair sms_dest_in_bounds sms_inbox_in_bounds in_bounds_rules)

lemma test_sms_extras_in_bounds: "in_bounds (test_sms_extras dest j h)"
  unfolding test_sms_extras_def
  by (intro in_bounds_pair sms_dest_in_bounds in_bounds_map_Go in_bounds_rules)

lemma run_all_in_bounds:
  assumes "length (l_bytes (j ''test_tcp'') ''rbuf'') = 128"
    and "length (l_bytes (j ''test_tls_socket'') ''buf'') = 256"
    and "length (l_messages (j ''test_sms'') ''msgs'') = 4"
  shows "in_bounds (run_all idf esp_random fo pem dest j w)"
proof -
  have "in_bounds (run_steps (harness_steps idf esp_random fo pem dest j) h)" for h
    using assms
    by (intro in_bounds_steps)
      (auto simp: harness_steps_def in_bounds_plain test_tcp_in_bounds test_tls_socket_in_bounds
        test_https_in_bounds test_sms_in_bounds test_sms_extras_in_bounds)
  then show ?thesis
    unfolding run_all_def by (intro in_bounds_rules in_bounds_then)
qed

section \<open>Values for the uninitialised variables\<close>

definition blank_message :: ec200_sms_message where
  "blank_message = \<lparr>sms_index = 0, sms_stat = EC200_SMS_STAT_REC_UNREAD, sms_sender = [], sms_timestamp = [],
     sms_text = []\<rparr>"

definition blank_usage :: ec200_sms_mem_usage where
  "blank_usage = \<lparr>mem_used = 0, mem_total = 0\<rparr>"

definition blank_locals :: "int locals" where
  "blank_locals =
     \<lparr>l_text = \<lambda>_. [], l_bytes = \<lambda>v. replicate (if v = ''rbuf'' then 128 else 256) NUL, l_nat = \<lambda>_. 0,
      l_sim = EC200_SIM_UNKNOWN, l_reg = EC200_REG_UNKNOWN,
      l_signal = \<lparr>sq_rssi = 0, sq_ber = 0, sq_rsrp = 0, sq_sinr = 0\<rparr>, l_operator = sample_operator,
      l_socket = \<lparr>sock_conn_id = 0, sock_type = 0, sock_remote_host = [], sock_remote_port = 0,
        sock_connected = False\<rparr>,
      l_http = \<lparr>http_status_code = 0, http_content_length = 0\<rparr>,
      l_messages = \<lambda>v. replicate (if v = ''tmp'' then 8 else 4) blank_message,
      l_message = \<lambda>_. blank_message,
      l_storage = \<lambda>_. \<lparr>st_read_delete = blank_usage, st_write_send = blank_usage, st_receive = blank_usage\<rparr>,
      l_cnmi = harness_cnmi 0, l_note = \<lparr>ntf_mem = EC200_SMS_MEM_ME, ntf_index = 0\<rparr>,
      l_psm = \<lambda>_. \<lparr>psm_enabled = False, psm_periodic_tau = [], psm_active_time = []\<rparr>,
      l_edrx = \<lambda>_. \<lparr>edrx_enabled = False, edrx_act_type = 0, edrx_requested = []\<rparr>,
      l_edrx_dynamic = \<lparr>edyn_act_type = 0, edyn_requested = [], edyn_granted = [],
        edyn_paging_time_window = []\<rparr>,
      l_location = zero_location sample_floats,
      l_info = \<lparr>ni_act = [], ni_oper = [], ni_band = [], ni_channel = 0\<rparr>,
      l_ping = \<lparr>ping_sent = 0, ping_received = 0, ping_lost = 0, ping_min_rtt_ms = 0,
        ping_max_rtt_ms = 0, ping_avg_rtt_ms = 0\<rparr>,
      l_datetime = zero_datetime, l_files = \<lparr>fs_free_bytes = 0, fs_total_bytes = 0\<rparr>, l_cfun = 0\<rparr>"

definition sample_certs :: certs where
  "sample_certs = \<lparr>MOSQUITTO_CA_PEM = ''A'', ISRG_ROOT_X1_PEM = ''B'', AMAZON_ROOT_CA1_PEM = ''C''\<rparr>"

section \<open>Property\<close>

text \<open>
  C40. Whatever the platform, the module and the uninitialised variables hold, the accesses of the
  three programs that are modelled with their array stay inside it. These are the terminators they
  store behind received bytes (the two example applications and the harness pass
  \<open>ec200_http_read\<close> the array less one byte; the harness also terminates in arrays of 128
  and 256 bytes), the two \<open>memcpy\<close> calls of the harness that copy the own number from the
  module's answer, whatever its length, to the zeroed array \<^verbatim>\<open>self_num\<close>, the reading of
  that array as a string, and the reading of the first of its four message slots. (Stores of the
  library itself are covered by the properties on its buffers; \<open>snprintf\<close> is bounded by its
  size argument.)
\<close>

theorem programs_in_bounds:
  assumes "length (j_body jw) = 512"
    and "length (l_bytes (j ''test_tcp'') ''rbuf'') = 128"
    and "length (l_bytes (j ''test_tls_socket'') ''buf'') = 256"
    and "length (l_messages (j ''test_sms'') ''msgs'') = 4"
  shows "demo_main idf jd op0 wd \<noteq> Some OutOfBounds \<and>
    wrapper_main fw show_float jw wr rd dl ww \<noteq> Some OutOfBounds \<and>
    run_all idf esp_random fo pem dest j w \<noteq> Some OutOfBounds"
proof (intro conjI)
  show "demo_main idf jd op0 wd \<noteq> Some OutOfBounds"
    by (rule examples_in_bounds [OF assms(1), THEN conjunct1])
  show "wrapper_main fw show_float jw wr rd dl ww \<noteq> Some OutOfBounds"
    by (rule examples_in_bounds [OF assms(1), THEN conjunct2])
  show "run_all idf esp_random fo pem dest j w \<noteq> Some OutOfBounds"
    by (rule run_all_in_bounds [where j = j, OF assms(2-4), unfolded in_bounds_def])
qed

theorem programs_in_bounds_witness:
  "run_all silent_board (\<lambda>e. (4, e)) sample_floats sample_certs [] (\<lambda>_. blank_locals) (power_on_rig 0)
     \<noteq> Some OutOfBounds \<and>
   demo_main silent_board sample_junk sample_operator \<lparr>app_console = [], app_env = 0\<rparr> \<noteq> Some OutOfBounds"
proof -
  have "length (j_body sample_junk) = 512" by (simp add: sample_junk_def)
  note r = programs_in_bounds [OF this, where j = "\<lambda>_. blank_locals", unfolded blank_locals_def, simplified,
      folded blank_locals_def]
  show ?thesis by (intro conjI r [THEN conjunct1] r [THEN conjunct2, THEN conjunct2])
qed

end
