(* ===== verification/Ec200_Harness_Ends.thy ===== *)
theory Ec200_Harness_Ends
  imports Ec200_Harness_Score Ec200_Harness_Bounds Ec200_Returns
begin

text \<open>
  The on-target harness comes to its end. The locale \<open>uart_driver\<close> is what the platform's
  UART calls promise; it makes the harness's callbacks a transport, so that every call of the
  library returns and with it every test.
\<close>

locale uart_driver =
  fixes idf :: "'e esp_idf" and pend :: "'e \<Rightarrow> nat"
  assumes read_takes: "idf_uart_read_bytes idf n t e = (k, d, e') \<Longrightarrow> k > 0 \<Longrightarrow> pend e' < pend e"
    and read_waits: "idf_uart_read_bytes idf n t e = (k, d, e') \<Longrightarrow> k \<le> 0 \<Longrightarrow> pend e' \<le> pend e"
    and read_fits: "idf_uart_read_bytes idf n t e = (k, d, e') \<Longrightarrow> k \<le> int n"
    and write_fits: "idf_uart_write_bytes idf data e = (k, e') \<Longrightarrow> k \<le> int (length data)"

sublocale uart_driver \<subseteq> transport "\<lambda>w :: 'e rig. pend (app_env w)" "rx idf" "tx idf"
  by unfold_locales
    (auto simp: rx_def tx_def split: prod.splits dest: read_takes read_waits read_fits write_fits)

text \<open>The scripted transport of the repository's tests as the UART of the board.\<close>

definition lb_board :: "loopback esp_idf" where
  "lb_board =
     \<lparr>idf_gpio_config = \<lambda>_ lb. (0, lb), idf_gpio_set_level = \<lambda>_ _ lb. lb,
      idf_uart_driver_install = \<lambda>_ lb. (0, lb), idf_uart_param_config = \<lambda>_ lb. (0, lb),
      idf_uart_set_pin = \<lambda>_ _ lb. (0, lb), idf_uart_write_bytes = lb_write,
      idf_uart_read_bytes = lb_read, idf_task_delay = \<lambda>_ lb. lb, idf_ms_to_ticks = \<lambda>ms. ms\<rparr>"

interpretation lbu: uart_driver lb_board "\<lambda>lb. length (lb_rx lb)"
  by unfold_locales
    (auto simp: lb_board_def dest: lbf.read_uses lbf.read_idle lbf.read_bound lbf.write_bound)

section \<open>Stepping to the end of a test\<close>

definition total :: "('a \<Rightarrow> bool) \<Rightarrow> 'a option \<Rightarrow> bool" where
  "total P m \<longleftrightarrow> (\<exists>r. m = Some r \<and> P r)"

lemma total_Some: "P v \<Longrightarrow> total P (Some v)"
  by (simp add: total_def)

lemma total_let: "(\<And>x. total P (f x)) \<Longrightarrow> total P (Let v f)"
  by simp

lemma total_if: "(b \<Longrightarrow> total P m) \<Longrightarrow> (\<not> b \<Longrightarrow> total P m') \<Longrightarrow> total P (if b then m else m')"
  by simp

lemma total_prod: "(\<And>x y. total P (f x y)) \<Longrightarrow> total P (case_prod f p)"
  by (cases p) simp

lemma total_option:
  "total P m \<Longrightarrow> (\<And>y. total P (f y)) \<Longrightarrow> total P (case_option m f x)"
  by (cases x) simp_all

lemma total_list:
  "total P m \<Longrightarrow> (\<And>y ys. total P (f y ys)) \<Longrightarrow> total P (case_list m f x)"
  by (cases x) simp_all

lemma total_bench:
  "total Q m \<Longrightarrow> (\<And>x. Q x \<Longrightarrow> total P (f x)) \<Longrightarrow> total P (Option.bind m f)"
  by (auto simp: total_def)

lemma total_call:
  "returns Q m \<Longrightarrow> (\<And>h x. Q h \<Longrightarrow> total P (f h x)) \<Longrightarrow> total P (Option.bind m (\<lambda>(h, x). f h x))"
  by (auto simp: total_def returns_def)

lemma total_ck_out:
  "returns Q m \<Longrightarrow> (\<And>h st x. Q h \<Longrightarrow> total P (f (ck_st d st want h) x)) \<Longrightarrow>
   total P (Option.bind (ck_out d m want) (\<lambda>(h, x). f h x))"
  by (auto simp: total_def returns_def ck_out_def split: prod.splits)

lemma total_ck_call:
  "returns Q m \<Longrightarrow> (\<And>h st. Q h \<Longrightarrow> P (ck_st d st want h)) \<Longrightarrow> total P (ck_call d m want)"
  by (auto simp: total_def returns_def ck_call_def)

text \<open>The outcome of a run that was not aborted.\<close>

definition comes :: "('a \<Rightarrow> bool) \<Rightarrow> 'a run \<Rightarrow> bool" where
  "comes P r = (case r of Go x \<Rightarrow> P x | OutOfBounds \<Rightarrow> True | Aborted \<Rightarrow> False)"

lemma comes_to_go: "total (comes P) m \<Longrightarrow> in_bounds m \<Longrightarrow> \<exists>x. m = Some (Go x) \<and> P x"
  by (cases m; cases "the m") (auto simp: total_def comes_def in_bounds_def)

lemma total_go: "total P m \<Longrightarrow> total (comes P) (map_option Go m)"
  by (auto simp: total_def comes_def)

lemma total_out: "total (comes P) (Some OutOfBounds)"
  by (simp add: total_def comes_def)

lemma total_run:
  "total (comes Q) m \<Longrightarrow> (\<And>x. Q x \<Longrightarrow> total (comes P) (f x)) \<Longrightarrow>
   total (comes P) (Option.bind m (\<lambda>r. case r of Go x \<Rightarrow> f x | OutOfBounds \<Rightarrow> Some OutOfBounds | Aborted \<Rightarrow> Some Aborted))"
  by (cases m; cases "the m") (auto simp: total_def comes_def)

lemma total_run_pair:
  "total (comes (\<lambda>(h, _). Q h)) m \<Longrightarrow> (\<And>h x. Q h \<Longrightarrow> total (comes P) (f h x)) \<Longrightarrow>
   total (comes P) (Option.bind m (\<lambda>r. case r of Go (h, x) \<Rightarrow> f h x | OutOfBounds \<Rightarrow> Some OutOfBounds | Aborted \<Rightarrow> Some Aborted))"
  by (erule total_run) auto

context uart_driver
begin

lemma good_world [simp]:
  "good (set_world f h) = good h" "good (say s h) = good h" "good (detail s h) = good h"
  "good (banner s h) = good h" "good (skip s r h) = good h" "good (pause i ms h) = good h"
  "good (clear_got_msg h) = good h" "good (dial_line s st h) = good h"
  "good (ck d ok h) = good h" "good (ck_st d st want h) = good h" "good (summary h) = good h"
  by (auto simp: set_world_def say_def detail_def banner_def skip_def pause_def clear_got_msg_def dial_line_def
      ck_def ck_st_def summary_def Let_def)

lemma good_message_cb:
  assumes "good h" and "cb = None \<or> cb = Some mqtt_cb"
  shows "good (ec200_mqtt_set_message_cb h cb)"
proof -
  have upd: "e = x \<or> e \<in> set t" if "e \<in> set (t[i := x])" for e x :: "'e rig ec200_urc_entry" and t i
    using that set_update_subset_insert [of t i x] by auto
  have cb: "app_env (mqtt_cb m w) = app_env w" for m :: ec200_mqtt_message and w :: "'e rig"
    by (simp add: mqtt_cb_def app_print_def)
  show ?thesis
    using assms cb
    by (auto simp: connected_def calm_def ec200_mqtt_set_message_cb_def ec200_at_register_urc_def
        ec200_at_unregister_urc_def free_urc_entry_def Let_def split: option.splits dest!: upd)
qed

text \<open>A handle that is given a name.\<close>

lemma total_let_handle:
  "good v \<Longrightarrow> (\<And>h. good h \<Longrightarrow> total P (f h)) \<Longrightarrow> total P (Let v f)"
  by simp

lemma total_random:
  "good h \<Longrightarrow> (\<And>h s. good h \<Longrightarrow> total P (f s h)) \<Longrightarrow>
   total P (Let (random_id r b h) (\<lambda>(s, h'). f s h'))"
  by (auto simp: random_id_def split: prod.splits)

lemmas ends_rules =
  total_ck_out [where Q = good] total_call [where Q = good] total_ck_call [where Q = good] total_random
  total_let_handle total_if total_option total_prod total_let total_bench [where Q = good] total_Some returns_api

lemma test_core_ends: "good h \<Longrightarrow> total good (test_core j h)"
  unfolding test_core_def by (intro ends_rules) simp_all

lemma test_error_ends: "good h \<Longrightarrow> total good (test_error_reporting j h)"
  unfolding test_error_reporting_def by (intro ends_rules) simp_all

lemma test_sim_ends: "good h \<Longrightarrow> total good (test_sim j h)"
  unfolding test_sim_def by (intro ends_rules) simp_all

lemma test_network_ends: "good h \<Longrightarrow> total good (test_network j h)"
  unfolding test_network_def by (intro ends_rules) simp_all

lemma test_data_ends: "good h \<Longrightarrow> total good (test_data j h)"
  unfolding test_data_def by (intro ends_rules) (auto simp: harness_pdp_def big_pdp_def)

lemma tcp_rest_ends: "good h \<Longrightarrow> total good (test_tcp_rest i b g h)"
  unfolding test_tcp_rest_def by (intro ends_rules) (simp_all add: EC200_SOCK_TCP_def)

lemma test_http_ends: "good h \<Longrightarrow> total good (test_http j h)"
  unfolding test_http_def by (intro ends_rules) simp_all

lemma poll_ends:
  "good h \<Longrightarrow> total good (poll_for_msg n h)" "good h \<Longrightarrow> total good (poll_times n h)"
proof (induction n arbitrary: h)
  case (Suc n)
  {
    case 1
    then show ?case unfolding poll_for_msg.simps by (intro ends_rules Suc.IH) simp_all
  next
    case 2
    then show ?case unfolding poll_times.simps by (intro ends_rules Suc.IH) simp_all
  }
qed (simp_all add: total_Some)

lemma probe_injection_ends: "good h \<Longrightarrow> total good (probe_injection h)"
  unfolding probe_injection_def by (intro ends_rules poll_ends) simp_all

lemma test_mqtt_ends: "good h \<Longrightarrow> total good (test_mqtt i r h)"
  unfolding test_mqtt_def by (intro ends_rules poll_ends probe_injection_ends) (simp_all add: good_message_cb)

lemma close_sockets_ends: "good h \<Longrightarrow> total good (close_sockets n c h)"
proof (induction n arbitrary: c h)
  case (Suc n)
  then show ?case unfolding close_sockets.simps by (intro ends_rules Suc.IH) simp_all
qed (simp add: total_Some)

lemma settle_ends: "good h \<Longrightarrow> total good (settle i h)"
  unfolding settle_def by (intro ends_rules close_sockets_ends) simp_all

section \<open>Short messages and power saving\<close>

lemmas part_rules = returns_api returns_seq returns_if returns_option returns_prod returns_let returns_Some

abbreviation hands :: "'e bench \<times> 'a \<Rightarrow> bool" where
  "hands \<equiv> \<lambda>(h, _). good h"

lemma total_Go: "P v \<Longrightarrow> total (comes P) (Some (Go v))"
  by (simp add: total_def comes_def)

lemma own_number_ends: "good h \<Longrightarrow> total (comes hands) (own_number j h)"
  unfolding own_number_def by (intro total_out total_Go ends_rules) simp_all

lemma sms_dest_ends: "good h \<Longrightarrow> total (comes hands) (sms_dest dest j h)"
  unfolding sms_dest_def
  by (intro total_run_pair [OF own_number_ends] total_out total_Go ends_rules) simp_all

lemma await_loopback_returns:
  "good h \<Longrightarrow> length tmp = 8 \<Longrightarrow> returns good (await_loopback i n before (Some tmp) after h)"
proof (induction n arbitrary: tmp after h)
  case 0
  then show ?case by (simp add: returns_Some)
next
  case (Suc n)
  have again: "returns good (await_loopback i n before t (the c) h2)"
    if "good h2" "ec200_sms_list h1 4 (Some tmp) 8 (Some after) = Some (h2, st, t, c)" for h1 h2 st t c
    using sms_list_frame [OF that(2)] Suc.IH [OF that(1)] Suc.prems(2) by metis
  have list: "returns good (Option.bind (ec200_sms_list h1 4 (Some tmp) 8 (Some after))
      (\<lambda>(h, _, t, c). await_loopback i n before t (the c) h))" if "good h1" for h1
    using returns_sms_list [OF that, of 4 "Some tmp" 8 "Some after"] Suc.prems(2) again
    by (auto simp: returns_def)
  show ?case
    unfolding await_loopback.simps using Suc.prems by (intro part_rules list) simp_all
qed

lemma sms_live_ends:
  assumes "length (l_messages j ''tmp'') = 8" and "good h"
  shows "total good (sms_live i j dest h)"
proof -
  have rest: "total good (do {
      h \<leftarrow> ck_call ''sms_send'' (ec200_sms_send h (Some dest) (Some ''EC200 harness test'')) EC200_OK;
      if g_sms_dest_is_self (user_ctx h) then do {
        (h, after) \<leftarrow> await_loopback i 20 (the b) (Some t) 0 h;
        let h = detail (''inbox '' @ show_nat (the b) @ '' -> '' @ show_nat after) h;
        Some (ck ''sms loopback delivered to self'' (after > the b) h)
      }
      else Some h})" if "good h" "length t = 8" for h t b
    using that by (intro ends_rules await_loopback_returns) simp_all
  obtain h1 st t b where l: "ec200_sms_list h 4 (Some (l_messages j ''tmp'')) 8 (Some 0) = Some (h1, st, t, b)"
      "good h1"
    using returns_sms_list [OF assms(2), of 4 "Some (l_messages j ''tmp'')" 8 "Some 0"] assms(1)
    by (auto simp: returns_def)
  obtain t1 where "t = Some t1" "length t1 = 8"
    using sms_list_frame [OF l(1)] assms(1) by metis
  then show ?thesis
    unfolding sms_live_def using l(1) rest [OF l(2)] by simp
qed

lemma sms_bad_path_ends: "good h \<Longrightarrow> total good (sms_bad_path h)"
  unfolding sms_bad_path_def by (intro ends_rules) simp_all

lemma sms_inbox_ends:
  "length (l_messages j ''msgs'') = 4 \<Longrightarrow> good h \<Longrightarrow> total (comes good) (sms_inbox j h)"
  unfolding sms_inbox_def
  by (intro total_go total_out total_list ends_rules sms_bad_path_ends) simp_all

lemma test_sms_ends:
  assumes "length (l_messages j ''tmp'') = 8" and "length (l_messages j ''msgs'') = 4" and "good h"
  shows "total (comes good) (test_sms i dest j h)"
  unfolding test_sms_def using assms
  by (intro total_run_pair [OF sms_dest_ends] ends_rules sms_live_ends sms_inbox_ends) simp_all

lemma sms_storage_ends: "good h \<Longrightarrow> total good (sms_storage_tests j h)"
  unfolding sms_storage_tests_def by (intro ends_rules) simp_all

lemma sms_smsc_ends: "good h \<Longrightarrow> total good (sms_smsc_tests h)"
  unfolding sms_smsc_tests_def by (intro ends_rules) simp_all

lemma sms_draft_ends: "good h \<Longrightarrow> total good (sms_draft_tests j d h)"
  unfolding sms_draft_tests_def by (intro ends_rules) simp_all

lemma sms_cnmi_ends: "good h \<Longrightarrow> total good (sms_cnmi_tests j h)"
  unfolding sms_cnmi_tests_def by (intro ends_rules) simp_all

lemma good_notification [simp]: "good (sms_notification_tests j h) = good h"
  by (simp add: sms_notification_tests_def Let_def case_prod_beta)

lemma sms_extras_rest_ends: "good h \<Longrightarrow> total good (sms_extras_rest j dest h)"
  unfolding sms_extras_rest_def
  by (intro ends_rules sms_draft_ends sms_cnmi_ends) simp_all

lemma test_sms_extras_ends: "good h \<Longrightarrow> total (comes good) (test_sms_extras dest j h)"
  unfolding test_sms_extras_def
  by (intro total_run_pair [OF sms_dest_ends] total_go sms_extras_rest_ends ends_rules sms_storage_ends
      sms_smsc_ends) simp_all

lemma total_psm_codec:
  "good h \<Longrightarrow> (\<And>h s t. good h \<Longrightarrow> total P (f h s t)) \<Longrightarrow>
   total P (Let (psm_codec_tests j h) (\<lambda>(h', s, t). f h' s t))"
  by (simp add: psm_codec_tests_def Let_def case_prod_beta)

lemma psm_module_ends: "good h \<Longrightarrow> total good (psm_module_tests j tau act h)"
  unfolding psm_module_tests_def by (intro ends_rules) simp_all

lemma show_raw_returns: "good h \<Longrightarrow> returns good (show_raw t cmd p raw h)"
  unfolding show_raw_def by (intro part_rules) simp_all

lemma raw_replies_ends: "good h \<Longrightarrow> total good (raw_replies j h)"
  unfolding raw_replies_def by (intro ends_rules show_raw_returns) simp_all

lemma edrx_ends: "good h \<Longrightarrow> total good (edrx_tests j h)"
  unfolding edrx_tests_def by (intro ends_rules) simp_all

lemma test_lowpower_ends: "good h \<Longrightarrow> total good (test_lowpower j h)"
  unfolding test_lowpower_def
  by (intro total_psm_codec ends_rules psm_module_ends raw_replies_ends edrx_ends) simp_all

section \<open>The remaining tests\<close>

lemma test_gnss_ends:
  "(\<And>v. fo_tenths fo v \<noteq> None) \<Longrightarrow> good h \<Longrightarrow> total good (test_gnss fo j h)"
  unfolding test_gnss_def by (intro ends_rules) simp_all

lemma netdiag_queries_ends: "good h \<Longrightarrow> total good (netdiag_queries j h)"
  unfolding netdiag_queries_def by (intro ends_rules) simp_all

lemma test_netdiag_ends: "good h \<Longrightarrow> total good (test_netdiag j h)"
  unfolding test_netdiag_def by (intro ends_rules netdiag_queries_ends) simp_all

lemma clock_after_ntp_returns: "good h \<Longrightarrow> returns good (clock_after_ntp s dt h)"
  unfolding clock_after_ntp_def by (intro part_rules) simp_all

lemma test_clock_ends: "good h \<Longrightarrow> total good (test_clock j h)"
  unfolding test_clock_def by (intro ends_rules clock_after_ntp_returns) simp_all

lemma file_uploads_ends: "good h \<Longrightarrow> total good (file_uploads pem h)"
  unfolding file_uploads_def by (intro ends_rules) simp_all

lemma file_tests_ends: "good h \<Longrightarrow> total good (file_tests pem j h)"
  unfolding file_tests_def by (intro ends_rules file_uploads_ends) simp_all

lemma ssl_tests_ends: "good h \<Longrightarrow> total good (ssl_tests h)"
  unfolding ssl_tests_def by (intro ends_rules) simp_all

lemma test_file_and_ssl_ends: "good h \<Longrightarrow> total good (test_file_and_ssl pem j h)"
  unfolding test_file_and_ssl_def by (intro ends_rules file_tests_ends ssl_tests_ends)

lemma mqtts_session_ends: "good h \<Longrightarrow> total good (mqtts_session j cfg h)"
  unfolding mqtts_session_def by (intro ends_rules poll_ends) (simp_all add: good_message_cb)

lemma test_mqtts_ends: "good h \<Longrightarrow> total good (test_mqtts r j h)"
  unfolding test_mqtts_def by (intro ends_rules mqtts_session_ends) (simp_all add: good_message_cb)

text \<open>The tests with checked stores.\<close>

lemma show_echo_ends: "good h \<Longrightarrow> total (comes hands) (show_echo b n h)"
  by (simp add: show_echo_def total_Go total_out split: option.splits)

lemma test_tcp_ends: "good h \<Longrightarrow> total (comes good) (test_tcp i j h)"
  unfolding test_tcp_def
  by (intro total_run_pair [OF show_echo_ends] total_go ends_rules)
    (auto simp: EC200_SOCK_TCP_def intro!: total_go tcp_rest_ends)

lemma https_body_ends: "good h \<Longrightarrow> total (comes good) (https_body h)"
  unfolding https_body_def by (intro total_out total_Go ends_rules) simp_all

lemma https_post_ends: "good h \<Longrightarrow> total good (https_post r h)"
  unfolding https_post_def by (intro ends_rules) simp_all

lemma test_https_ends: "good h \<Longrightarrow> total (comes good) (test_https j h)"
  unfolding test_https_def
  by (intro total_run [where Q = good] total_go https_body_ends https_post_ends total_Go ends_rules) simp_all

lemma tls_exchange_ends: "good h \<Longrightarrow> total (comes hands) (tls_exchange i n buf got h)"
proof (induction n arbitrary: buf got h)
  case 0
  then show ?case by (simp add: total_Go)
next
  case (Suc n)
  then show ?case
    unfolding tls_exchange.simps by (intro total_out total_Go ends_rules Suc.IH) simp_all
qed

lemma tls_wrong_ca_ends: "good h \<Longrightarrow> total good (tls_wrong_ca h)"
  unfolding tls_wrong_ca_def by (intro ends_rules) simp_all

lemma tls_close_ends: "good h \<Longrightarrow> total good (tls_close h b)"
  unfolding tls_close_def by (intro ends_rules tls_wrong_ca_ends) simp_all

lemma test_tls_socket_ends: "good h \<Longrightarrow> total (comes good) (test_tls_socket i j h)"
  unfolding test_tls_socket_def
  by (intro total_run_pair [OF tls_exchange_ends] total_go ends_rules tls_wrong_ca_ends)
    (auto intro!: total_go tls_close_ends)

section \<open>PPP and power\<close>

lemma ppp_resume_ends: "good h \<Longrightarrow> total good (ppp_resume_cycle h)"
  unfolding ppp_resume_cycle_def by (intro ends_rules) simp_all

lemma ppp_data_ends: "good h \<Longrightarrow> total good (ppp_data_cycle h)"
  unfolding ppp_data_cycle_def by (intro ends_rules ppp_resume_ends) simp_all

lemma dial_again_returns:
  "good h \<Longrightarrow> returns good (if s = EC200_OK then Some (h, s)
      else do {
        let h = detail t h;
        (h, _) \<leftarrow> ec200_data_deactivate h 1;
        (h, s) \<leftarrow> ec200_ppp_dial (pause i 2000 h) 1;
        Some (dial_line t' s h, s)
      })"
  by (intro part_rules) simp_all

lemma test_ppp_ends: "good h \<Longrightarrow> total good (test_ppp i h)"
  unfolding test_ppp_def by (intro ends_rules ppp_data_ends dial_again_returns) simp_all

lemma await_back_returns: "good h \<Longrightarrow> returns good (await_back i n st h)"
proof (induction n arbitrary: st h)
  case (Suc n)
  then show ?case unfolding await_back.simps by (intro part_rules Suc.IH) simp_all
qed (simp add: returns_Some)

lemma pulse_attempts_returns: "good h \<Longrightarrow> returns good (pulse_attempts i n a st h)"
proof (induction n arbitrary: a st h)
  case (Suc n)
  then show ?case unfolding pulse_attempts.simps by (intro part_rules Suc.IH await_back_returns) simp_all
qed (simp add: returns_Some)

lemma power_recover_ends: "good h \<Longrightarrow> total good (power_recover i h)"
  unfolding power_recover_def by (intro ends_rules pulse_attempts_returns) simp_all

lemma power_cfun_ends: "good h \<Longrightarrow> total good (power_cfun i j h)"
  unfolding power_cfun_def by (intro ends_rules) simp_all

lemma test_power_ends: "good h \<Longrightarrow> total good (test_power i j h)"
  unfolding test_power_def by (intro ends_rules power_cfun_ends power_recover_ends) simp_all

section \<open>The whole run\<close>

lemma run_steps_end:
  assumes "\<And>t h. t \<in> set ts \<Longrightarrow> good h \<Longrightarrow> total (comes good) (t h)" and "good h"
  shows "total (comes good) (run_steps ts h)"
  using assms
proof (induction ts arbitrary: h)
  case (Cons t ts)
  then show ?case unfolding run_steps.simps by (intro total_run [where Q = good]) simp_all
qed (simp add: total_Go)

lemmas tests_end =
  test_core_ends test_error_ends test_sim_ends test_network_ends test_data_ends test_tcp_ends settle_ends
  test_netdiag_ends test_file_and_ssl_ends test_mqtts_ends test_tls_socket_ends test_https_ends test_http_ends
  test_mqtt_ends test_sms_ends test_sms_extras_ends test_lowpower_ends test_clock_ends test_gnss_ends
  test_ppp_ends test_power_ends

lemma harness_steps_end:
  assumes "\<forall>v. fo_tenths fo v \<noteq> None" and "length (l_messages (j ''test_sms'') ''tmp'') = 8"
    and "length (l_messages (j ''test_sms'') ''msgs'') = 4" and "good h"
  shows "total (comes good) (run_steps (harness_steps idf r fo pem dest j) h)"
proof -
  have "\<exists>y. fo_tenths fo v = Some y" for v using assms(1) by simp
  then show ?thesis
    using assms(2-4)
    by (intro run_steps_end) (auto simp: harness_steps_def plain_step_def intro!: total_go tests_end)
qed

lemma init_returns: "returns good (harness_init idf h)"
proof -
  let ?f = "fresh_handle (tx idf) (rx idf) (dly idf) (user_ctx h)"
  have "good ?f" by (simp add: connected_def fresh_handle_def calm_def free_urc_entry_def)
  then show ?thesis
    unfolding harness_init_def ec200_init_def
    by (auto intro!: returns_if returns_Some returns_prod returns_seq returns_probe returns_api)
qed

lemma boot_returns: "good h \<Longrightarrow> returns good (harness_boot idf n st h)"
proof (induction n arbitrary: st h)
  case (Suc n)
  then show ?case
    unfolding harness_boot.simps by (intro part_rules Suc.IH returns_bind [OF init_returns]) simp_all
qed (simp add: returns_Some)

lemma bring_up_returns: "returns good (bring_up idf h)"
  unfolding bring_up_def Let_def by (intro returns_bind [OF init_returns] returns_if boot_returns returns_Some) simp_all

lemma run_all_ends:
  assumes "\<forall>v. fo_tenths fo v \<noteq> None" and "length (l_messages (j ''test_sms'') ''tmp'') = 8"
    and "length (l_messages (j ''test_sms'') ''msgs'') = 4" and "harness_uart idf w \<noteq> None"
  shows "total (comes (\<lambda>_. True)) (run_all idf r fo pem dest j w)"
proof -
  have rest: "total (comes (\<lambda>_. True)) (do {
      r \<leftarrow> run_steps (harness_steps idf r fo pem dest j) h;
      case r of
        Go h \<Rightarrow> Some (Go (summary h, True))
      | OutOfBounds \<Rightarrow> Some OutOfBounds
      | Aborted \<Rightarrow> Some Aborted})" if "good h" for h
    by (rule total_run [OF harness_steps_end [where j = j, OF assms(1-3) that]]) (simp add: total_Go)
  obtain w1 where "harness_uart idf w = Some w1" using assms(4) by auto
  then show ?thesis
    unfolding run_all_def Let_def option.case(2)
    by simp (intro total_call [OF bring_up_returns] total_if total_Go
        total_call [OF returns_net_wait_registered] rest; simp)
qed

end

section \<open>A sample run\<close>

text \<open>A module that answers the bring-up and is silent from then on.\<close>

definition sample_rig :: "loopback rig" where
  "sample_rig = power_on_rig (lb_reset\<lparr>lb_rx := crlf [''OK'', ''OK'']\<rparr>)"

abbreviation sample_run :: "(loopback bench \<times> bool) run option" where
  "sample_run \<equiv>
     run_all lb_board (\<lambda>e. (4, e)) sample_floats sample_certs [] (\<lambda>_. blank_locals) sample_rig"

lemma sample_bring_up:
  "map_option snd (bring_up lb_board (static_handle (tx lb_board) (rx lb_board) (dly lb_board)
     (gpio_init lb_board (app_print s sample_rig)))) = Some EC200_OK"
  by code_simp

text \<open>The run comes to its summary.\<close>

lemma sample_uart: "harness_uart lb_board w = Some w"
  by (simp add: harness_uart_def esp_check_def lb_board_def)

lemma sample_bring_up_OK:
  "bring_up lb_board (static_handle (tx lb_board) (rx lb_board) (dly lb_board)
     (gpio_init lb_board (app_print s sample_rig))) = Some (h, st) \<Longrightarrow> st = EC200_OK"
  using sample_bring_up [of s] by simp

lemma sample_run_ends: "\<exists>h. sample_run = Some (Go (h, True))"
proof -
  have "in_bounds sample_run" by (rule run_all_in_bounds) (simp_all add: blank_locals_def)
  moreover have "total (comes (\<lambda>_. True)) sample_run"
    by (rule lbu.run_all_ends) (simp_all add: sample_floats_def blank_locals_def sample_uart)
  ultimately obtain x where x: "sample_run = Some (Go x)" using comes_to_go by blast
  then have "snd x"
    by (auto simp: run_all_def sample_uart Let_def bind_eq_Some_conv case_run_Go split: if_splits
        dest!: sample_bring_up_OK)
  then show ?thesis using x by (cases x) auto
qed

section \<open>Properties\<close>

text \<open>
  C38. The on-target harness comes to its end. On a platform whose UART has finitely many bytes
  to deliver, whose driver starts and whose conversion of a float to \<open>uint8_t\<close> gives some value
  for every number (the C standard defines it only up to 255: the tenths of an HDOP of 25.6 or more
  are outside, and the run then depends on the compiler), whatever the module answers or leaves
  unanswered, the program either halts because the module does not come up or runs all its tests
  to the summary: no wait and no loop of the harness or of the library keeps it forever.
\<close>

theorem harness_completes:
  assumes "uart_driver idf pend" and "\<forall>v. fo_tenths fo v \<noteq> None" and "harness_uart idf w \<noteq> None"
    and "length (l_messages (j ''test_sms'') ''tmp'') = 8"
    and "length (l_messages (j ''test_sms'') ''msgs'') = 4"
    and "length (l_bytes (j ''test_tcp'') ''rbuf'') = 128"
    and "length (l_bytes (j ''test_tls_socket'') ''buf'') = 256"
  shows "\<exists>h ran. run_all idf esp_random fo pem dest j w = Some (Go (h, ran))"
proof -
  have "in_bounds (run_all idf esp_random fo pem dest j w)"
    by (rule run_all_in_bounds) (simp_all add: assms)
  moreover have "total (comes (\<lambda>_. True)) (run_all idf esp_random fo pem dest j w)"
    by (rule uart_driver.run_all_ends [where j = j, OF assms(1,2,4,5,3)])
  ultimately show ?thesis using comes_to_go by fast
qed

theorem harness_completes_witness:
  "\<exists>h ran. sample_run = Some (Go (h, ran))"
  by (rule harness_completes [OF lbu.uart_driver_axioms])
    (simp_all add: sample_floats_def blank_locals_def harness_uart_def esp_check_def lb_board_def)

text \<open>
  C39. The 73 cases of the on-target harness that need no answer (\<open>static_cases\<close>: bad
  arguments, an oversized command, the status texts, the timer codecs, the notification parser,
  the link state at the start) pass on every board: whatever the platform does and the module
  answers, a run that comes to its summary has written the line that reports each of them as
  passed, and has counted at least 73 passed cases.
\<close>

theorem harness_validation_passes:
  assumes "run_all idf esp_random fo pem dest j w = Some (Go (h, True))"
  shows "(\<forall>d\<in>set static_cases. passed d (user_ctx h)) \<and> length static_cases = 73 \<and> 73 \<le> g_pass (user_ctx h)"
proof -
  obtain w1 h1 h2 st2 h3 where run: "bring_up idf h1 = Some (h2, EC200_OK)"
    "ec200_net_wait_registered (say (''waiting for registration...'' @ [LF]) (say (''modem up.'' @ [LF]) h2)) 60000 =
       Some (h3, st2)"
    "run_steps (harness_steps idf esp_random fo pem dest j) h3 = Some (Go w1)" "h = summary w1"
    using assms
    by (auto simp: run_all_def bind_eq_Some_conv Let_def case_run_Go split: option.splits if_splits)
  from bring_up_standing [OF run(1)] have "standing idf True [] h3"
    using benchr.keeps_wait_registered [THEN keepsD, OF run(2)] by simp
  from harness_steps_standing [OF this] have "ends (goes (standing idf False ([] @ static_cases))) (Some (Go w1))"
    unfolding run(3) [symmetric] .
  then have "standing idf False static_cases h"
    using run(4) by (simp add: ends_def goes_def summary_def Let_def)
  moreover have "length static_cases = 73" by (simp add: static_cases_def)
  ultimately show ?thesis by (simp add: standing_def scored_def)
qed

theorem harness_validation_passes_witness:
  "\<exists>h. sample_run = Some (Go (h, True)) \<and> passed ''status_str all codes'' (user_ctx h) \<and> 73 \<le> g_pass (user_ctx h)"
proof -
  obtain h where "sample_run = Some (Go (h, True))" using sample_run_ends by blast
  with harness_validation_passes [OF this] show ?thesis by (auto simp: static_cases_def)
qed

end
