(* ===== verification/Spec2Isabelle.thy ===== *)
theory Spec2Isabelle
  imports Ec200_Term Ec200_Wire Ec200_Payload Ec200_Psm_Codec Ec200_Clock Ec200_Http_Body Ec200_Mqtt_Inbox
    Ec200_Init Ec200_Async Ec200_Session Ec200_Urc Ec200_Sms_Codec Ec200_Field_Spec Ec200_Connect Ec200_Queries Ec200_Registration
    Ec200_Recv Ec200_Returns Ec200_Harness_Ends
begin

text \<open>
  A model of the EC200 AT-command library for Quectel EC200 cellular modules, and the theorems
  that make it correct.

  \<^bold>\<open>The program.\<close> An application owns an \<^verbatim>\<open>ec200_handle_t\<close> and gives
  \<^verbatim>\<open>ec200_init\<close> (\<^verbatim>\<open>src/ec200.c\<close>) three callbacks: write, read and delay. Everything
  else goes through the AT engine (\<^verbatim>\<open>src/ec200_at.c\<close>): it frames a command, writes it,
  assembles received bytes into lines that survive timeouts, classifies the lines, hands
  unsolicited ones to registered handlers, and returns a status with the response. The modules
  (SIM, network, SMS, packet data, TCP/IP, TLS, files, HTTP, MQTT, clock, power, GNSS, PPP) print
  commands and parse responses. PPP alone can put the UART into data mode, which the engine
  refuses to use for commands.

  \<^bold>\<open>How C is rendered.\<close> A handle is a record whose world \<open>'w\<close> (the \<^verbatim>\<open>user_ctx\<close>
  of the callbacks) the callbacks read and change; a callback is any function of that type.
  An operation maps the handle and its arguments to \<open>Some (h', status, outputs)\<close>; \<open>None\<close>
  is a call without a defined outcome: one that never returns, an access outside an array, a
  conversion C leaves undefined. A pointer that may be NULL is an option, a character buffer a
  pair of its size and the string in it, a C string a list of characters without its NUL, a
  pointer into a string the suffix it points at. Early returns are the branches of \<open>do\<close>
  blocks. Unsigned parameters are naturals with the casts of the source written out
  (\<open>cast_u8\<close>, \<open>cast_u16\<close>, ...); the timer octets and the counter of the registration wait,
  where wrap-around matters, are words. Enumerations that the code checks from above only, or
  fills from an unchecked number, are integers.

  \<^bold>\<open>The model.\<close> In the order of the code:
  \<^item> \<open>Ec200_Prelude\<close>, \<open>Ec200_CLib\<close>: the result type, the casts, and the functions of
    the C library the sources call (\<^verbatim>\<open>string.h\<close>, \<^verbatim>\<open>strtol\<close>, \<^verbatim>\<open>printf\<close> and
    \<^verbatim>\<open>scanf\<close> conversions). Numbers out of range saturate, as with a 32-bit \<^verbatim>\<open>long\<close>.
  \<^item> \<open>Ec200_Types\<close>: \<^verbatim>\<open>include/ec200_types.h\<close>, the handle, statuses, sizes.
  \<^item> \<open>Ec200_Rx\<close>, \<open>Ec200_At\<close>, \<open>Ec200_Mqtt_Recv\<close>: the engine, and the one handler
    of the library that the engine calls back.
  \<^item> \<open>Ec200_Core\<close>, \<open>Ec200_Sim\<close>, \<open>Ec200_Network\<close>, \<open>Ec200_Sms\<close>, \<open>Ec200_Data\<close>,
    \<open>Ec200_Tcpip\<close>, \<open>Ec200_Ssl\<close> (also \<^verbatim>\<open>src/ec200_ssl_socket.c\<close>), \<open>Ec200_File\<close>,
    \<open>Ec200_Http\<close>, \<open>Ec200_Mqtt\<close>, \<open>Ec200_Time\<close>, \<open>Ec200_Power\<close>, \<open>Ec200_Gnss\<close>,
    \<open>Ec200_Ppp\<close>: the source file of that name, every function of it.
  \<^item> \<open>Ec200_Examples\<close>: the two example applications, \<^verbatim>\<open>examples/wrapper_template.c\<close>
    and \<^verbatim>\<open>examples/esp_idf/main/ec200_demo_main.c\<close>, with the drivers of ESP-IDF as
    parameters and the uninitialised variables as arguments.
  \<^item> \<open>Ec200_Harness\<close>, \<open>Ec200_Harness_Sms\<close>, \<open>Ec200_Harness_Main\<close>: the on-target test
    harness, \<^verbatim>\<open>examples/esp_idf/main/ec200_test_harness.c\<close>, test by test and call by call up
    to \<open>run_all\<close>. Its static variables are part of the world of its handle (\<open>rig\<close>), the
    values of uninitialised variables (\<open>locals\<close>), the certificates and the random numbers
    are arguments.
  \<^item> \<open>Ec200_Loopback\<close>: the transport of the repository's tests, and a smaller one, the
    \<open>tape\<close>, with the answers of the module fixed in advance. The witnesses run on them.

  \<^bold>\<open>The interfaces.\<close> What one part promises another is a locale, interpreted on the model:
  \<^item> \<open>rx_frame\<close>, \<open>at_frame\<close> (\<open>Ec200_Frame\<close>): a relation between the handle before
    and after that the elementary updates of the engine respect. Every operation of every module
    respects it. Interpretations: the bounds of the buffers (\<open>wfr\<close>), the data-mode flag
    (\<open>pppr\<close>), the configuration of the application (\<open>cfgr\<close>), the record of the bytes
    written (\<open>Ec200_Wire\<close>).
  \<^item> \<open>byte_source\<close> (\<open>Ec200_Source\<close>): a read callback that delivers pending bytes in
    order.
  \<^item> \<open>finite_input\<close>, \<open>transport\<close> (\<open>Ec200_Term\<close>): finitely many bytes at any moment,
    callbacks within their documented bounds.
  \<^item> \<open>handler_table\<close> (\<open>Ec200_Registry\<close>): a bounded map from prefixes to handlers.
  \<^item> \<open>timer_code\<close> (\<open>Ec200_Psm_Codec\<close>): a table of units of the 3GPP timer octet.
  \<^item> \<open>uart_driver\<close> (\<open>Ec200_Harness_Ends\<close>): what the UART calls of ESP-IDF promise; it makes
    the callbacks of the harness a \<open>transport\<close> (a \<open>sublocale\<close>). The interpretation is the
    transport of the repository's tests behind the ESP-IDF calls.

  \<^bold>\<open>What is proved.\<close>
  \<^item> Receiving: the array code of the line assembly stays in its buffer and computes the list
    version; lines survive timeouts; the receive loop and the waits refine functions on lists of
    lines (\<open>spec_receive\<close>, \<open>spec_wait\<close>, \<open>spec_await\<close> in \<open>Ec200_Reply\<close>), and from
    these follow what the command forms return, where an error line ends them and what it records
    (\<open>Ec200_Transactions\<close>). A sequence of commands
    is a program on the queue of incoming lines, in which a late answer becomes the answer of the
    next command (\<open>Ec200_Session\<close>).
  \<^item> Results that come as lines of their own: which field decides what the calls that open and
    close connections return, and what the address lookup and the ping leave behind
    (\<open>Ec200_Async\<close>).
  \<^item> Sending: what is on the wire after a raw write, a command, a short message, a publication
    and a TLS configuration (\<open>Ec200_Wire\<close>); the data of a socket, a POST or a file goes out
    verbatim behind a command that states its length (\<open>Ec200_Payload\<close>).
  \<^item> Raw payloads: a socket receive delivers exactly the announced bytes, whatever they are
    (\<open>Ec200_Recv\<close>); the HTTP body is below.
  \<^item> Returning: every blocking call ends on a transport with finitely many pending bytes, and a
    line without an end is where it does not (\<open>Ec200_Term\<close>); the registration wait ends for
    the timeouts its counter reaches and hangs for the others (\<open>Ec200_Registration\<close>); with
    these, every call of the public interface returns (\<open>Ec200_Returns\<close>).
  \<^item> States: every reachable handle is well formed, AT calls leave the configuration and the PPP
    flag alone, the outcomes of initialisation (\<open>Ec200_Api\<close>, \<open>Ec200_Init\<close>); the PPP
    operations are steps of the documented link machine, whose labels are the call, its status and
    the bytes it puts on the wire, and an escape gets back to command mode unless 64 lines of
    residual data come before the answer (\<open>Ec200_Link\<close>).
  \<^item> Handlers: the table is a bounded map and a line goes to the handler of its prefix
    (\<open>Ec200_Registry\<close>). Between the lines of a transaction or a poll the handlers get exactly
    the lines of their prefixes, in order, and the transaction is what it is without them; the
    one exception, which the documentation denies, is the first line with the prefix the
    transaction awaits, which is its response even when that prefix is registered
    (\<open>Ec200_Urc\<close>). MQTT messages that arrive in the middle of a transaction or in a poll reach
    the callback, unless the table was full when it was set (\<open>Ec200_Mqtt_Inbox\<close>).
  \<^item> Formats: the integer-field scanner against a reference (\<open>Ec200_Fields\<close>,
    \<open>Ec200_Field_Spec\<close>), short-message lists and notifications (\<open>Ec200_Sms_Codec\<close>), the
    clock (\<open>Ec200_Clock\<close>), timer octets (\<open>Ec200_Psm_Codec\<close>), the HTTP body and its trailer
    (\<open>Ec200_Http_Body\<close>), the outcome of connecting (\<open>Ec200_Connect\<close>), what the network
    and power-saving queries read from the module's answers (\<open>Ec200_Queries\<close>). \<open>Ec200_Digits\<close> has
    the lemmas on printed numbers they share.
  \<^item> The applications: how long the demonstration waits for a module that never answers
    (\<open>Ec200_Demo\<close>). The stores that the three programs make themselves and that are modelled
    with their array (terminators behind received bytes, the copies of the own number) stay inside
    it (\<open>Ec200_Harness_Bounds\<close>). The test harness comes to its end on a platform whose
    conversion of a float to \<^verbatim>\<open>uint8_t\<close> has a value for every number
    (\<open>Ec200_Harness_Ends\<close>, from \<open>Ec200_Returns\<close>), and the 73 of its cases that need no
    answer (\<open>static_cases\<close>) pass on every board: \<open>Ec200_Harness_Score\<close> carries the names of
    the cases reported as passed along the code, with \<open>at_frame\<close> interpreted on what the
    harness needs of its handle (\<open>standing\<close>).

  \<^bold>\<open>Bounds and fuel.\<close> There is no artificial fuel: the counters of the line loops are
  \<^verbatim>\<open>EC200_AT_MAX_LINES\<close> (64) of the source, the loops that may not end (\<open>rx_line\<close>,
  \<open>write_loop\<close>, \<open>prompt_loop\<close>, \<open>read_exact_loop\<close>, \<open>wait_registered_loop\<close>) are partial
  functions whose value \<open>None\<close> is not returning, all other loops have termination proofs.

  \<^bold>\<open>Not modelled.\<close> The checks of the handle pointer against NULL (a handle is always an
  object); a handler that calls the library or changes the handle (a handler changes the world only); the contents of a caller's local array before a transaction has stored a line in it;
  overlapping buffers; the binary floating point of the GNSS position, which is a parameter of
  \<open>ec200_gnss_get_location\<close>; the task that \<^verbatim>\<open>app_main\<close> of the harness creates and deletes;
  the host-side unit tests and the tools.
\<close>

end
